(* ===== verification/Prelude.thy ===== *)
theory Prelude
  imports Complex_Main "HOL-Library.Monad_Syntax"
begin

text \<open>
  Shared vocabulary of the development. JavaScript strings are sequences of UTF-16
  code units; they are modelled as lists of natural numbers (\<open>jstr\<close>), and the
  literals of the source are written with \<open>js\<close>, which reads an ASCII Isabelle
  string code unit by code unit (the code units of non-ASCII characters are written
  as numerals next to it). The collection \<open>model_simps\<close> gathers the facts that
  evaluate the model on concrete inputs; \<open>first_some\<close> is the "first alternative
  that succeeds" combinator that the backtracking matcher and the search loops of the
  source share.
\<close>

named_theorems model_simps "facts that evaluate the model on concrete inputs"

type_synonym jstr = "nat list"

text \<open>The language selector \<open>'en' | 'de'\<close> shared by the chat responses, the
  language context and the user profile.\<close>

datatype lang = En | De

definition js :: "string \<Rightarrow> jstr" where
  "js s = map of_char s"

declare js_def [model_simps]

primrec first_some :: "('a \<Rightarrow> 'b option) \<Rightarrow> 'a list \<Rightarrow> 'b option" where
  "first_some f [] = None"
| "first_some f (x # xs) = (case f x of None \<Rightarrow> first_some f xs | Some r \<Rightarrow> Some r)"

text \<open>\<open>at_pos s i t\<close>: the code units of \<open>t\<close> occur in \<open>s\<close> starting at index \<open>i\<close>.\<close>

definition at_pos :: "'a list \<Rightarrow> nat \<Rightarrow> 'a list \<Rightarrow> bool" where
  "at_pos s i t \<longleftrightarrow> i + length t \<le> length s \<and> take (length t) (drop i s) = t"

text \<open>A JavaScript \<open>Map\<close> keeps its keys in insertion order: \<open>set\<close> on a present key
  replaces the value in place, on a new key it appends the entry. It is an association
  list with distinct keys; \<open>get\<close> is \<open>map_of\<close>.\<close>

fun al_set :: "('k \<times> 'v) list \<Rightarrow> 'k \<Rightarrow> 'v \<Rightarrow> ('k \<times> 'v) list" where
  "al_set [] k v = [(k, v)]"
| "al_set ((k', v') # xs) k v = (if k' = k then (k, v) # xs else (k', v') # al_set xs k v)"

subsection \<open>Lemmas on \<open>first_some\<close>\<close>

lemma first_some_Some_iff:
  "first_some f xs = Some r \<longleftrightarrow>
     (\<exists>ys x zs. xs = ys @ x # zs \<and> f x = Some r \<and> (\<forall>y \<in> set ys. f y = None))"
proof (induction xs)
  case Nil
  then show ?case by simp
next
  case (Cons a xs)
  show ?case
  proof (cases "f a")
    case None
    show ?thesis
    proof
      assume "first_some f (a # xs) = Some r"
      with None Cons.IH obtain ys x zs where
        "xs = ys @ x # zs" "f x = Some r" "\<forall>y \<in> set ys. f y = None" by auto
      with None show "\<exists>ys x zs. a # xs = ys @ x # zs \<and> f x = Some r \<and> (\<forall>y \<in> set ys. f y = None)"
        by (intro exI [of _ "a # ys"]) auto
    next
      assume "\<exists>ys x zs. a # xs = ys @ x # zs \<and> f x = Some r \<and> (\<forall>y \<in> set ys. f y = None)"
      then obtain ys x zs where eq: "a # xs = ys @ x # zs" and fx: "f x = Some r"
        and before: "\<forall>y \<in> set ys. f y = None" by blast
      with None obtain ys' where "ys = a # ys'" by (cases ys) auto
      with eq fx before have "first_some f xs = Some r" using Cons.IH by auto
      with None show "first_some f (a # xs) = Some r" by simp
    qed
  next
    case (Some b)
    show ?thesis
    proof
      assume "first_some f (a # xs) = Some r"
      with Some have "f a = Some r" by simp
      then show "\<exists>ys x zs. a # xs = ys @ x # zs \<and> f x = Some r \<and> (\<forall>y \<in> set ys. f y = None)"
        by (intro exI [of _ "[]"]) auto
    next
      assume "\<exists>ys x zs. a # xs = ys @ x # zs \<and> f x = Some r \<and> (\<forall>y \<in> set ys. f y = None)"
      with Some show "first_some f (a # xs) = Some r"
        by (auto simp: Cons_eq_append_conv)
    qed
  qed
qed

lemma first_some_None_iff: "first_some f xs = None \<longleftrightarrow> (\<forall>x \<in> set xs. f x = None)"
  by (induction xs) (auto split: option.splits)

lemma first_some_SomeD: "first_some f xs = Some r \<Longrightarrow> \<exists>x \<in> set xs. f x = Some r"
  by (induction xs) (auto split: option.splits)

lemma first_some_append:
  "first_some f (xs @ ys) = (case first_some f xs of None \<Rightarrow> first_some f ys | Some r \<Rightarrow> Some r)"
  by (induction xs) (auto split: option.splits)

lemma first_some_cong:
  "(\<And>x. x \<in> set xs \<Longrightarrow> f x = g x) \<Longrightarrow> first_some f xs = first_some g xs"
  by (induction xs) (auto split: option.splits)

lemma first_some_map: "first_some f (map g xs) = first_some (\<lambda>x. f (g x)) xs"
  by (induction xs) (auto split: option.splits)

lemma first_some_map_option:
  "first_some (\<lambda>x. map_option (h x) (f x)) xs =
     map_option (\<lambda>(x, r). h x r) (first_some (\<lambda>x. map_option (Pair x) (f x)) xs)"
  by (induction xs) (auto split: option.splits)

lemma first_some_if_None:
  "first_some (\<lambda>t. if P t then Some (f t) else None) xs = None \<longleftrightarrow> (\<forall>t \<in> set xs. \<not> P t)"
  by (induction xs) auto

subsection \<open>Lemmas on \<open>at_pos\<close>\<close>

lemma at_pos_Nil [simp]: "at_pos s i [] \<longleftrightarrow> i \<le> length s"
  by (simp add: at_pos_def)

lemma at_pos_Cons:
  "at_pos s i (c # t) \<longleftrightarrow> i < length s \<and> s ! i = c \<and> at_pos s (Suc i) t"
proof (cases "i < length s")
  case True
  then have "drop i s = s ! i # drop (Suc i) s" by (simp add: Cons_nth_drop_Suc)
  then show ?thesis using True by (auto simp: at_pos_def)
next
  case False
  then show ?thesis by (auto simp: at_pos_def)
qed

lemma at_pos_self [simp]: "at_pos s 0 s"
  by (simp add: at_pos_def)

lemma at_pos_append_left [simp]: "at_pos (t @ u) 0 t"
  by (simp add: at_pos_def)

lemma at_pos_bound: "at_pos s i t \<Longrightarrow> i + length t \<le> length s"
  by (simp add: at_pos_def)

lemma at_pos_append_prefix: "at_pos (p @ s) (length p + i) t \<longleftrightarrow> at_pos s i t"
  by (simp add: at_pos_def)

lemma find_SomeD: "find P xs = Some x \<Longrightarrow> P x \<and> x \<in> set xs"
  by (induction xs) (auto split: if_splits)

subsection \<open>Maps in insertion order\<close>

lemma map_of_al_set [simp]: "map_of (al_set xs k v) = (map_of xs)(k \<mapsto> v)"
  by (induction xs) (auto simp: fun_eq_iff)

lemma keys_al_set:
  "map fst (al_set xs k v) = (if k \<in> set (map fst xs) then map fst xs else map fst xs @ [k])"
  by (induction xs) (auto, force+)

lemma distinct_al_set [simp]: "distinct (map fst xs) \<Longrightarrow> distinct (map fst (al_set xs k v))"
  by (simp add: keys_al_set)

lemma set_al_set: "set (al_set xs k v) \<subseteq> insert (k, v) (set xs)"
  by (induction xs) (auto split: if_splits)

lemma al_set_new: "k \<notin> set (map fst xs) \<Longrightarrow> al_set xs k v = xs @ [(k, v)]"
  by (induction xs) auto

lemma al_set_in_place:
  "k \<notin> set (map fst ys) \<Longrightarrow> al_set (ys @ (k, u) # zs) k v = ys @ (k, v) # zs"
  by (induction ys) auto

subsection \<open>The largest score of a list of scored items\<close>

lemma Max_snd_ge: "y \<in> set xs \<Longrightarrow> snd y \<le> Max (set (map snd xs))"
  by (simp add: Max_ge)

lemma Max_snd_gt: "\<not> (\<forall>y \<in> set xs. snd y \<le> c) \<Longrightarrow> xs \<noteq> [] \<and> c < Max (set (map snd xs))"
proof -
  assume "\<not> (\<forall>y \<in> set xs. snd y \<le> c)"
  then obtain y where y: "y \<in> set xs" "c < snd y" by (auto simp: not_le)
  from y(1) have "snd y \<le> Max (set (map snd xs))" by (rule Max_snd_ge)
  with y(2) have "c < Max (set (map snd xs))" by (rule less_le_trans)
  moreover from y(1) have "xs \<noteq> []" by auto
  ultimately show ?thesis by blast
qed

subsection \<open>Searching an index range\<close>

lemma find_upt_Some_iff:
  "find P [a..<b] = Some i \<longleftrightarrow> a \<le> i \<and> i < b \<and> P i \<and> (\<forall>j. a \<le> j \<and> j < i \<longrightarrow> \<not> P j)"
proof (induction "b - a" arbitrary: a)
  case 0
  then show ?case by auto
next
  case (Suc d)
  then have ab: "a < b" by simp
  then have "[a..<b] = a # [Suc a..<b]" by (simp add: upt_conv_Cons)
  moreover have "find P [Suc a..<b] = Some i \<longleftrightarrow>
      Suc a \<le> i \<and> i < b \<and> P i \<and> (\<forall>j. Suc a \<le> j \<and> j < i \<longrightarrow> \<not> P j)"
    using Suc by simp
  ultimately show ?case using ab
    by (auto simp: Suc_le_eq) (metis le_neq_implies_less)+
qed

lemma find_upt_None_iff: "find P [a..<b] = None \<longleftrightarrow> (\<forall>j. a \<le> j \<and> j < b \<longrightarrow> \<not> P j)"
  by (auto simp: find_None_iff)

lemma first_some_upt_Some_iff:
  "first_some f [a..<b] = Some r \<longleftrightarrow>
     (\<exists>i. a \<le> i \<and> i < b \<and> f i = Some r \<and> (\<forall>j. a \<le> j \<and> j < i \<longrightarrow> f j = None))"
proof (induction "b - a" arbitrary: a)
  case 0
  then show ?case by auto
next
  case (Suc d)
  then have ab: "a < b" by simp
  then have split: "[a..<b] = a # [Suc a..<b]" by (simp add: upt_conv_Cons)
  have IH: "first_some f [Suc a..<b] = Some r \<longleftrightarrow>
      (\<exists>i. Suc a \<le> i \<and> i < b \<and> f i = Some r \<and> (\<forall>j. Suc a \<le> j \<and> j < i \<longrightarrow> f j = None))"
    using Suc by simp
  show ?case
  proof (cases "f a")
    case None
    have "first_some f [a..<b] = first_some f [Suc a..<b]" using split None by simp
    also have "\<dots> = Some r \<longleftrightarrow>
        (\<exists>i. a \<le> i \<and> i < b \<and> f i = Some r \<and> (\<forall>j. a \<le> j \<and> j < i \<longrightarrow> f j = None))"
    proof
      assume "first_some f [Suc a..<b] = Some r"
      then obtain i where i: "Suc a \<le> i" "i < b" "f i = Some r"
        "\<forall>j. Suc a \<le> j \<and> j < i \<longrightarrow> f j = None" using IH by blast
      have "\<forall>j. a \<le> j \<and> j < i \<longrightarrow> f j = None"
        using i(4) None by (metis Suc_le_eq le_neq_implies_less)
      with i show "\<exists>i. a \<le> i \<and> i < b \<and> f i = Some r \<and> (\<forall>j. a \<le> j \<and> j < i \<longrightarrow> f j = None)"
        by (intro exI [of _ i]) simp
    next
      assume "\<exists>i. a \<le> i \<and> i < b \<and> f i = Some r \<and> (\<forall>j. a \<le> j \<and> j < i \<longrightarrow> f j = None)"
      then obtain i where i: "a \<le> i" "i < b" "f i = Some r"
        "\<forall>j. a \<le> j \<and> j < i \<longrightarrow> f j = None" by blast
      with None have "Suc a \<le> i" by (metis Suc_leI le_neq_implies_less option.distinct(1))
      with i show "first_some f [Suc a..<b] = Some r" unfolding IH by auto
    qed
    finally show ?thesis .
  next
    case (Some r')
    have "first_some f [a..<b] = Some r'" using split Some by simp
    moreover have "(\<exists>i. a \<le> i \<and> i < b \<and> f i = Some r \<and> (\<forall>j. a \<le> j \<and> j < i \<longrightarrow> f j = None))
        \<longleftrightarrow> r' = r"
      using Some ab by (auto simp: le_less)
    ultimately show ?thesis by auto
  qed
qed

end
