(* ===== verification/JsString.thy ===== *)
theory JsString
  imports Prelude
begin

text \<open>
  The ECMAScript string built-ins that the source calls, on strings of UTF-16 code
  units: \<open>toLowerCase\<close>, the \<open>Canonicalize\<close> operation of case-insensitive regular
  expressions (through \<open>toUpperCase\<close> of one code unit), the white-space set shared by
  \<open>\s\<close> and \<open>trim\<close>, \<open>indexOf\<close> and \<open>includes\<close>, and the word characters of \<open>\b\<close>.
  Case mapping is written out for Basic Latin and Latin-1 and for every code point
  outside them whose lower-case form lies in them (U+0130, U+0178, U+1E9E, U+212A,
  U+212B); every other code unit is mapped to itself. All keyword tables and patterns
  of the source consist of Basic Latin and Latin-1 code units, so which positions match
  them, and every length, are the same as under the full Unicode tables.
\<close>

definition js_lower_cu :: "nat \<Rightarrow> jstr" where
  "js_lower_cu c =
     (if 65 \<le> c \<and> c \<le> 90 then [c + 32]
      else if 192 \<le> c \<and> c \<le> 222 \<and> c \<noteq> 215 then [c + 32]
      else if c = 0x130 then [0x69, 0x307]
      else if c = 0x178 then [0xFF]
      else if c = 0x1E9E then [0xDF]
      else if c = 0x212A then [0x6B]
      else if c = 0x212B then [0xE5]
      else [c])"

definition js_lower :: "jstr \<Rightarrow> jstr" where
  "js_lower s = concat (map js_lower_cu s)"

definition js_upper_cu :: "nat \<Rightarrow> jstr" where
  "js_upper_cu c =
     (if 97 \<le> c \<and> c \<le> 122 then [c - 32]
      else if c = 0xB5 then [0x39C]
      else if c = 0xDF then [83, 83]
      else if 224 \<le> c \<and> c \<le> 254 \<and> c \<noteq> 247 then [c - 32]
      else if c = 0xFF then [0x178]
      else [c])"

text \<open>\<open>Canonicalize(rer, ch)\<close> of ECMA-262 22.2.2.7.3 without the \<open>u\<close> flag.\<close>

definition canonicalize :: "bool \<Rightarrow> nat \<Rightarrow> nat" where
  "canonicalize ic c =
     (if \<not> ic then c
      else (case js_upper_cu c of
              [u] \<Rightarrow> (if 128 \<le> c \<and> u < 128 then c else u)
            | _ \<Rightarrow> c))"

definition is_js_space :: "nat \<Rightarrow> bool" where
  "is_js_space c \<longleftrightarrow>
     c \<in> {9, 10, 11, 12, 13, 32, 160, 5760, 8232, 8233, 8239, 8287, 12288, 65279}
     \<or> (8192 \<le> c \<and> c \<le> 8202)"

definition js_trim :: "jstr \<Rightarrow> jstr" where
  "js_trim s = rev (dropWhile is_js_space (rev (dropWhile is_js_space s)))"

definition index_of :: "jstr \<Rightarrow> jstr \<Rightarrow> nat option" where
  "index_of s t = find (\<lambda>i. at_pos s i t) [0..<Suc (length s)]"

definition js_includes :: "jstr \<Rightarrow> jstr \<Rightarrow> bool" where
  "js_includes s t \<longleftrightarrow> index_of s t \<noteq> None"

definition is_word_char :: "nat \<Rightarrow> bool" where
  "is_word_char c \<longleftrightarrow> (48 \<le> c \<and> c \<le> 57) \<or> (65 \<le> c \<and> c \<le> 90) \<or> (97 \<le> c \<and> c \<le> 122) \<or> c = 95"

definition is_digit :: "nat \<Rightarrow> bool" where
  "is_digit c \<longleftrightarrow> 48 \<le> c \<and> c \<le> 57"

text \<open>A search over the suffixes of the string that compares code units one at a time
  and stops at the first mismatch; \<open>index_of_code\<close> below shows that it computes
  \<open>indexOf\<close>, and the evaluation of the model on concrete messages goes through it.\<close>

fun starts_with :: "'a list \<Rightarrow> 'a list \<Rightarrow> bool" where
  "starts_with s [] = True"
| "starts_with [] (c # t) = False"
| "starts_with (x # s) (c # t) = (if x = c then starts_with s t else False)"

fun index_from :: "'a list \<Rightarrow> 'a list \<Rightarrow> nat \<Rightarrow> nat option" where
  "index_from [] t k = (if starts_with [] t then Some k else None)"
| "index_from (x # s) t k = (if starts_with (x # s) t then Some k else index_from s t (Suc k))"

text \<open>\<open>Number.prototype.toString()\<close> of a non-negative integer (the millisecond
  clock \<open>Date.now()\<close> in generated ids), and the decimal reading that inverts it.\<close>

fun js_digits :: "nat \<Rightarrow> jstr" where
  "js_digits n = (if n < 10 then [48 + n] else js_digits (n div 10) @ [48 + n mod 10])"

definition parse_digits :: "jstr \<Rightarrow> nat" where
  "parse_digits s = foldl (\<lambda>a c. 10 * a + (c - 48)) 0 s"

lemmas js_string_defs [model_simps] =
  js_lower_cu_def js_lower_def js_upper_cu_def canonicalize_def is_js_space_def js_trim_def
  js_includes_def is_word_char_def is_digit_def

subsection \<open>indexOf and includes\<close>

lemma index_of_Some_iff:
  "index_of s t = Some i \<longleftrightarrow> at_pos s i t \<and> (\<forall>j < i. \<not> at_pos s j t)"
  using at_pos_bound [of s i t]
  by (auto simp: index_of_def find_upt_Some_iff simp del: upt_Suc)

lemma index_of_None_iff: "index_of s t = None \<longleftrightarrow> (\<forall>i. \<not> at_pos s i t)"
  using at_pos_bound [of s _ t]
  by (auto simp: index_of_def find_upt_None_iff simp del: upt_Suc)
     (meson le_imp_less_Suc le_trans le_add1)

lemma index_of_at_pos: "index_of s t = Some i \<Longrightarrow> at_pos s i t"
  by (simp add: index_of_Some_iff)

lemma index_of_self [simp]: "index_of t t = Some 0"
  by (simp add: index_of_Some_iff)

lemma js_includes_iff: "js_includes s t \<longleftrightarrow> (\<exists>i. at_pos s i t)"
  by (auto simp: js_includes_def index_of_None_iff)

lemma at_pos_sublist: "at_pos s i t \<Longrightarrow> \<exists>p q. s = p @ t @ q \<and> length p = i"
proof -
  assume a: "at_pos s i t"
  then have "s = take i s @ t @ drop (i + length t) s"
    unfolding at_pos_def by (metis append_take_drop_id drop_drop add.commute)
  moreover have "length (take i s) = i" using a by (simp add: at_pos_def)
  ultimately show ?thesis by blast
qed

subsection \<open>The suffix search computes indexOf\<close>

lemma starts_with_at_pos: "starts_with s t \<longleftrightarrow> at_pos s 0 t"
  by (induction s t rule: starts_with.induct) (auto simp: at_pos_Cons at_pos_def)

lemma at_pos_code [model_simps]: "at_pos s i t \<longleftrightarrow> i \<le> length s \<and> starts_with (drop i s) t"
  by (auto simp: starts_with_at_pos at_pos_def)

lemma at_pos_Cons_Suc: "at_pos (x # s) (Suc i) t \<longleftrightarrow> at_pos s i t"
  by (simp add: at_pos_def)

lemma index_from_index_of: "index_from s t k = map_option (\<lambda>i. i + k) (index_of s t)"
proof (induction s arbitrary: k)
  case Nil
  show ?case
    by (cases t) (auto simp: index_of_def at_pos_def)
next
  case (Cons x s)
  show ?case
  proof (cases "at_pos (x # s) 0 t")
    case True
    then have "index_of (x # s) t = Some 0" by (simp add: index_of_Some_iff)
    with True show ?thesis by (simp add: starts_with_at_pos)
  next
    case False
    have shift: "index_of (x # s) t = map_option Suc (index_of s t)"
    proof (cases "index_of s t")
      case None
      then have "\<forall>i. \<not> at_pos s i t" by (simp add: index_of_None_iff)
      with False have "\<forall>i. \<not> at_pos (x # s) i t"
        by (metis at_pos_Cons_Suc not0_implies_Suc)
      then have "index_of (x # s) t = None" by (simp add: index_of_None_iff)
      with None show ?thesis by simp
    next
      case (Some i)
      then have "at_pos s i t" "\<forall>j < i. \<not> at_pos s j t" by (auto simp: index_of_Some_iff)
      with False have "at_pos (x # s) (Suc i) t" "\<forall>j < Suc i. \<not> at_pos (x # s) j t"
        by (auto simp: at_pos_Cons_Suc less_Suc_eq_0_disj)
      then have "index_of (x # s) t = Some (Suc i)" by (simp add: index_of_Some_iff)
      with Some show ?thesis by simp
    qed
    from False have "index_from (x # s) t k = index_from s t (Suc k)"
      by (simp add: starts_with_at_pos)
    also have "\<dots> = map_option (\<lambda>i. i + Suc k) (index_of s t)" by (rule Cons.IH)
    also have "\<dots> = map_option (\<lambda>i. i + k) (index_of (x # s) t)"
      by (simp add: shift option.map_comp comp_def)
    finally show ?thesis .
  qed
qed

lemma index_of_code [model_simps]: "index_of s t = index_from s t 0"
  using index_from_index_of [of s t 0] by (simp add: option.map_ident)

subsection \<open>toLowerCase\<close>

lemma js_lower_Nil [simp]: "js_lower [] = []"
  by (simp add: js_lower_def)

lemma js_lower_Cons: "js_lower (c # s) = js_lower_cu c @ js_lower s"
  by (simp add: js_lower_def)

lemma js_lower_append: "js_lower (s @ t) = js_lower s @ js_lower t"
  by (simp add: js_lower_def)

lemma js_lower_cu_stable: "d \<in> set (js_lower_cu c) \<Longrightarrow> js_lower_cu d = [d]"
  unfolding js_lower_cu_def by (simp split: if_splits) auto

lemma js_lower_fixed:
  "(\<forall>c \<in> set s. js_lower_cu c = [c]) \<Longrightarrow> js_lower s = s"
  by (induction s) (simp_all add: js_lower_Cons)

text \<open>\<open>toLowerCase\<close> is idempotent: every code unit it produces is its own lower case.\<close>

lemma js_lower_idem: "js_lower (js_lower s) = js_lower s"
proof (induction s)
  case Nil
  then show ?case by simp
next
  case (Cons c s)
  have "js_lower (js_lower_cu c) = js_lower_cu c"
    by (rule js_lower_fixed) (simp add: js_lower_cu_stable)
  then show ?case
    using Cons.IH by (simp add: js_lower_Cons js_lower_append)
qed

text \<open>Only U+0130 changes the length: offsets into the lower-cased string are offsets
  into the original one exactly when the message has no U+0130.\<close>

lemma length_js_lower:
  "length (js_lower s) = length s + count_list s 0x130"
  by (induction s) (simp_all add: js_lower_Cons js_lower_cu_def)

text \<open>Without U+0130 every code unit lowers to exactly one code unit, so lowering
  commutes with taking a slice.\<close>

lemma js_lower_map:
  "0x130 \<notin> set s \<Longrightarrow> js_lower s = map (\<lambda>c. hd (js_lower_cu c)) s"
  by (induction s) (simp_all add: js_lower_Cons js_lower_cu_def)

lemma js_lower_take_drop:
  "0x130 \<notin> set s \<Longrightarrow> take n (drop i (js_lower s)) = js_lower (take n (drop i s))"
proof -
  assume a: "0x130 \<notin> set s"
  then have "0x130 \<notin> set (take n (drop i s))" by (meson in_set_dropD in_set_takeD)
  with a show ?thesis by (simp add: js_lower_map take_map drop_map)
qed

lemma length_js_lower_no_dotted: "0x130 \<notin> set s \<Longrightarrow> length (js_lower s) = length s"
  by (simp add: js_lower_map)

subsection \<open>Decimal numbers\<close>

lemma parse_digits_snoc: "parse_digits (s @ [c]) = 10 * parse_digits s + (c - 48)"
  by (simp add: parse_digits_def)

lemma parse_js_digits: "parse_digits (js_digits n) = n"
proof (induction n rule: js_digits.induct)
  case (1 n)
  show ?case
  proof (cases "n < 10")
    case True
    then show ?thesis by (simp add: parse_digits_def)
  next
    case False
    then have "parse_digits (js_digits n) = 10 * parse_digits (js_digits (n div 10)) + n mod 10"
      by (simp add: parse_digits_snoc)
    also have "\<dots> = n" using 1 False by simp
    finally show ?thesis .
  qed
qed

lemma js_digits_inj: "js_digits m = js_digits n \<longleftrightarrow> m = n"
  by (metis parse_js_digits)

declare js_digits.simps [simp del]

subsection \<open>trim\<close>

lemma js_trim_infix:
  "\<exists>p q. s = p @ js_trim s @ q \<and> (\<forall>c \<in> set p. is_js_space c) \<and> (\<forall>c \<in> set q. is_js_space c)"
proof -
  let ?d = "dropWhile is_js_space s"
  let ?e = "dropWhile is_js_space (rev ?d)"
  have s: "s = takeWhile is_js_space s @ ?d" by simp
  have "rev ?d = takeWhile is_js_space (rev ?d) @ ?e" by simp
  then have "?d = rev ?e @ rev (takeWhile is_js_space (rev ?d))"
    by (metis rev_append rev_rev_ident)
  then have "s = takeWhile is_js_space s @ js_trim s @ rev (takeWhile is_js_space (rev ?d))"
    using s by (simp add: js_trim_def)
  moreover have "\<forall>c \<in> set (takeWhile is_js_space s). is_js_space c"
    by (auto dest: set_takeWhileD)
  moreover have "\<forall>c \<in> set (rev (takeWhile is_js_space (rev ?d))). is_js_space c"
    by (auto dest: set_takeWhileD)
  ultimately show ?thesis by blast
qed

lemma js_trim_no_space_ends:
  "s \<noteq> [] \<Longrightarrow> \<not> is_js_space (hd s) \<Longrightarrow> \<not> is_js_space (last s) \<Longrightarrow> js_trim s = s"
proof -
  assume ne: "s \<noteq> []" and h: "\<not> is_js_space (hd s)" and l: "\<not> is_js_space (last s)"
  from ne h have "dropWhile is_js_space s = s"
    by (cases s) auto
  moreover from ne l have "dropWhile is_js_space (rev s) = rev s"
    by (cases "rev s") (auto simp: hd_rev [symmetric])
  ultimately show ?thesis by (simp add: js_trim_def)
qed

lemma js_trim_ends:
  "js_trim s \<noteq> [] \<Longrightarrow> \<not> is_js_space (hd (js_trim s)) \<and> \<not> is_js_space (last (js_trim s))"
proof -
  assume ne: "js_trim s \<noteq> []"
  let ?d = "dropWhile is_js_space s"
  let ?e = "dropWhile is_js_space (rev ?d)"
  have e: "?e \<noteq> []" using ne by (simp add: js_trim_def)
  then have "\<not> is_js_space (hd ?e)" using hd_dropWhile by metis
  then have last: "\<not> is_js_space (last (js_trim s))"
    using e by (simp add: js_trim_def last_rev)
  have d: "?d \<noteq> []" using e by (cases ?d) auto
  then have hd_d: "\<not> is_js_space (hd ?d)" using hd_dropWhile by metis
  have "rev ?d = takeWhile is_js_space (rev ?d) @ ?e" by simp
  then have "?d = rev ?e @ rev (takeWhile is_js_space (rev ?d))"
    by (metis rev_append rev_rev_ident)
  then have "hd ?d = hd (rev ?e)" using e by (metis hd_append2 rev_is_Nil_conv)
  then have "\<not> is_js_space (hd (js_trim s))"
    using hd_d by (simp add: js_trim_def)
  with last show ?thesis by simp
qed

end
