(* ===== verification/Regex.thy ===== *)
theory Regex
  imports JsString
begin

text \<open>
  The fragment of ECMAScript regular expressions that the source uses, with the
  semantics of ECMA-262 22.2.2: a backtracking matcher in continuation-passing style.
  \<open>bt ic r s i k\<close> tries to match \<open>r\<close> in the input \<open>s\<close> at index \<open>i\<close> and passes
  each candidate end index to the continuation \<open>k\<close>, in the order the standard tries
  them: the left alternative of a disjunction first, the greedy choice of a quantifier
  first. \<open>ic\<close> is the \<open>i\<close> flag: literal code units compare after
  \<open>canonicalize\<close>. \<open>exec_from\<close> is \<open>RegExpBuiltinExec\<close>, which tries the
  matcher at \<open>lastIndex\<close>, \<open>lastIndex + 1\<close>, \<dots>, up to the length of the input;
  \<open>exec_all\<close> is the loop \<open>while ((m = re.exec(s)) !== null) ...\<close> of a global
  regular expression, which resumes at the end of each match. That loop does not end
  when a match is empty, so it is a \<^theory_text>\<open>partial_function\<close> in the option monad, and
  it is proved to return for every pattern whose matches are never empty.
\<close>

datatype rx =
    REps
  | RLit nat
  | RClass "nat \<Rightarrow> bool"
  | RSeq rx rx
  | RAlt rx rx
  | ROpt rx
  | RStar "nat \<Rightarrow> bool"
  | RBound

text \<open>\<open>\b\<close>: exactly one of the code units around index \<open>i\<close> is a word character
  (ECMA-262 22.2.2.6, \<open>IsWordChar\<close>).\<close>

definition is_boundary :: "jstr \<Rightarrow> nat \<Rightarrow> bool" where
  "is_boundary s i \<longleftrightarrow>
     (0 < i \<and> i - 1 < length s \<and> is_word_char (s ! (i - 1))) \<noteq> (i < length s \<and> is_word_char (s ! i))"

definition run_len :: "(nat \<Rightarrow> bool) \<Rightarrow> jstr \<Rightarrow> nat \<Rightarrow> nat" where
  "run_len P s i = length (takeWhile P (drop i s))"

primrec bt :: "bool \<Rightarrow> rx \<Rightarrow> jstr \<Rightarrow> nat \<Rightarrow> (nat \<Rightarrow> nat option) \<Rightarrow> nat option" where
  "bt ic REps s i k = k i"
| "bt ic (RLit c) s i k =
     (if i < length s \<and> canonicalize ic (s ! i) = canonicalize ic c then k (Suc i) else None)"
| "bt ic (RClass P) s i k = (if i < length s \<and> P (s ! i) then k (Suc i) else None)"
| "bt ic (RSeq a b) s i k = bt ic a s i (\<lambda>j. bt ic b s j k)"
| "bt ic (RAlt a b) s i k = (case bt ic a s i k of None \<Rightarrow> bt ic b s i k | Some r \<Rightarrow> Some r)"
| "bt ic (ROpt a) s i k =
     (case bt ic a s i (\<lambda>j. if j = i then None else k j) of None \<Rightarrow> k i | Some r \<Rightarrow> Some r)"
| "bt ic (RStar P) s i k = first_some k (rev [i..<Suc (i + run_len P s i)])"
| "bt ic RBound s i k = (if is_boundary s i then k i else None)"

record regexp =
  re_src :: rx
  re_icase :: bool
  re_global :: bool

definition match_at :: "regexp \<Rightarrow> jstr \<Rightarrow> nat \<Rightarrow> nat option" where
  "match_at re s i = bt (re_icase re) (re_src re) s i Some"

definition exec_from :: "regexp \<Rightarrow> jstr \<Rightarrow> nat \<Rightarrow> (nat \<times> nat) option" where
  "exec_from re s li = first_some (\<lambda>p. map_option (Pair p) (match_at re s p)) [li..<Suc (length s)]"

text \<open>\<open>RegExp.prototype.test\<close> and \<open>String.prototype.match\<close> of a regular expression
  without the \<open>g\<close> flag both run \<open>RegExpBuiltinExec\<close> from index 0.\<close>

definition regex_test :: "regexp \<Rightarrow> jstr \<Rightarrow> bool" where
  "regex_test re s \<longleftrightarrow> exec_from re s 0 \<noteq> None"

definition regex_match :: "regexp \<Rightarrow> jstr \<Rightarrow> (nat \<times> nat) option" where
  "regex_match re s = exec_from re s 0"

definition matched :: "jstr \<Rightarrow> nat \<times> nat \<Rightarrow> jstr" where
  "matched s m = take (snd m - fst m) (drop (fst m) s)"

partial_function (option) exec_all :: "regexp \<Rightarrow> jstr \<Rightarrow> nat \<Rightarrow> (nat \<times> nat) list option" where
  "exec_all re s li =
     (case exec_from re s li of
        None \<Rightarrow> Some []
      | Some (p, e) \<Rightarrow> exec_all re s e \<bind> (\<lambda>ms. Some ((p, e) # ms)))"

text \<open>Notation of the source's patterns: a literal string, a disjunction and a sequence.\<close>

primrec rstr :: "jstr \<Rightarrow> rx" where
  "rstr [] = REps"
| "rstr (c # cs) = RSeq (RLit c) (rstr cs)"

fun ralts :: "rx list \<Rightarrow> rx" where
  "ralts [] = RClass (\<lambda>_. False)"
| "ralts [r] = r"
| "ralts (r # rs) = RAlt r (ralts rs)"

fun rseqs :: "rx list \<Rightarrow> rx" where
  "rseqs [] = REps"
| "rseqs [r] = r"
| "rseqs (r # rs) = RSeq r (rseqs rs)"

text \<open>The least number of code units a match of the pattern consumes.\<close>

primrec minlen :: "rx \<Rightarrow> nat" where
  "minlen REps = 0"
| "minlen (RLit c) = 1"
| "minlen (RClass P) = 1"
| "minlen (RSeq a b) = minlen a + minlen b"
| "minlen (RAlt a b) = min (minlen a) (minlen b)"
| "minlen (ROpt a) = 0"
| "minlen (RStar P) = 0"
| "minlen RBound = 0"

text \<open>A literal string occurs at index \<open>i\<close>, code units compared after
  \<open>canonicalize\<close>.\<close>

definition at_pos_ci :: "bool \<Rightarrow> jstr \<Rightarrow> nat \<Rightarrow> jstr \<Rightarrow> bool" where
  "at_pos_ci ic s i t \<longleftrightarrow>
     i + length t \<le> length s \<and> map (canonicalize ic) (take (length t) (drop i s)) = map (canonicalize ic) t"

text \<open>Successive matches of the loop: each starts at or after the end of the one
  before, ends after it starts, and ends within the input.\<close>

fun match_chain :: "nat \<Rightarrow> nat \<Rightarrow> (nat \<times> nat) list \<Rightarrow> bool" where
  "match_chain n li [] = True"
| "match_chain n li ((p, e) # ms) = (li \<le> p \<and> p < e \<and> e \<le> n \<and> match_chain n e ms)"

lemmas regex_defs =
  is_boundary_def run_len_def match_at_def exec_from_def regex_test_def regex_match_def matched_def

text \<open>On concrete inputs the matcher is run through pattern-specific equations (in the
  theories that define the patterns); only the index-level definitions are unfolded.\<close>

declare is_boundary_def [model_simps] run_len_def [model_simps] exec_from_def [model_simps]
  matched_def [model_simps]

subsection \<open>The matcher\<close>

text \<open>Whatever the matcher returns comes from its continuation, at an index at least
  \<open>minlen\<close> code units further and not past the end of the input.\<close>

lemma bt_result:
  "bt ic r s i k = Some x \<Longrightarrow>
     \<exists>j. k j = Some x \<and> i + minlen r \<le> j \<and> (i \<le> length s \<longrightarrow> j \<le> length s)"
proof (induction r arbitrary: i k x)
  case REps
  then show ?case by auto
next
  case (RLit c)
  then show ?case by (auto split: if_splits)
next
  case (RClass P)
  then show ?case by (auto split: if_splits)
next
  case (RSeq a b)
  from RSeq.prems obtain j1 where j1: "bt ic b s j1 k = Some x" "i + minlen a \<le> j1"
    "i \<le> length s \<longrightarrow> j1 \<le> length s"
    using RSeq.IH(1) by fastforce
  from RSeq.IH(2) [OF j1(1)] obtain j where "k j = Some x" "j1 + minlen b \<le> j"
    "j1 \<le> length s \<longrightarrow> j \<le> length s" by blast
  with j1 show ?case by auto
next
  case (RAlt a b)
  then show ?case
    by (fastforce split: option.splits)
next
  case (ROpt a)
  show ?case
  proof (cases "bt ic a s i (\<lambda>j. if j = i then None else k j)")
    case None
    with ROpt.prems show ?thesis by auto
  next
    case (Some y)
    with ROpt.prems have "bt ic a s i (\<lambda>j. if j = i then None else k j) = Some x" by simp
    from ROpt.IH [OF this] show ?thesis by (auto split: if_splits)
  qed
next
  case (RStar P)
  have "first_some k (rev [i..<Suc (i + run_len P s i)]) = Some x"
    using RStar.prems by (simp del: upt_Suc)
  from first_some_SomeD [OF this] obtain j
    where j: "j \<in> set (rev [i..<Suc (i + run_len P s i)])" "k j = Some x" by blast
  have "run_len P s i \<le> length s - i"
    unfolding run_len_def by (metis length_drop length_takeWhile_le)
  with j show ?case by auto
next
  case RBound
  then show ?case by (auto split: if_splits)
qed

lemma match_at_bound:
  "match_at re s p = Some e \<Longrightarrow> p + minlen (re_src re) \<le> e \<and> (p \<le> length s \<longrightarrow> e \<le> length s)"
  unfolding match_at_def by (drule bt_result) auto

text \<open>A literal string matches exactly where its code units occur, compared after
  \<open>canonicalize\<close>; a disjunction of literals tries them in the order written.\<close>

lemma minlen_rstr [simp]: "minlen (rstr t) = length t"
  by (induction t) auto

lemma at_pos_ci_bound: "at_pos_ci ic s i t \<Longrightarrow> i \<le> length s"
  by (simp add: at_pos_ci_def)

lemma at_pos_ci_Cons:
  "at_pos_ci ic s i (c # t) \<longleftrightarrow>
     i < length s \<and> canonicalize ic (s ! i) = canonicalize ic c \<and> at_pos_ci ic s (Suc i) t"
proof (cases "i < length s")
  case True
  then have "drop i s = s ! i # drop (Suc i) s" by (simp add: Cons_nth_drop_Suc)
  then show ?thesis using True by (auto simp: at_pos_ci_def)
next
  case False
  then show ?thesis by (auto simp: at_pos_ci_def)
qed

lemma at_pos_ci_Nil [simp]: "at_pos_ci ic s i [] \<longleftrightarrow> i \<le> length s"
  by (simp add: at_pos_ci_def)

lemma at_pos_ci_at_pos: "at_pos s i t \<Longrightarrow> at_pos_ci ic s i t"
  by (simp add: at_pos_def at_pos_ci_def)

lemma at_pos_ci_map [model_simps]:
  "at_pos_ci ic s i t \<longleftrightarrow> at_pos (map (canonicalize ic) s) i (map (canonicalize ic) t)"
  by (simp add: at_pos_ci_def at_pos_def take_map drop_map)

lemma bt_rstr:
  "i \<le> length s \<Longrightarrow> bt ic (rstr t) s i k = (if at_pos_ci ic s i t then k (i + length t) else None)"
proof (induction t arbitrary: i)
  case Nil
  then show ?case by simp
next
  case (Cons c t)
  show ?case
  proof (cases "i < length s \<and> canonicalize ic (s ! i) = canonicalize ic c")
    case True
    then have "bt ic (rstr (c # t)) s i k = bt ic (rstr t) s (Suc i) k" by simp
    also have "\<dots> = (if at_pos_ci ic s (Suc i) t then k (Suc i + length t) else None)"
      using True by (intro Cons.IH) simp
    finally show ?thesis using True by (simp add: at_pos_ci_Cons)
  next
    case False
    then show ?thesis by (auto simp: at_pos_ci_Cons)
  qed
qed

lemma bt_ralts:
  "bt ic (ralts rs) s i k = first_some (\<lambda>r. bt ic r s i k) rs"
  by (induction rs rule: ralts.induct) (auto split: option.splits)

lemma bt_ralts_rstr:
  "i \<le> length s \<Longrightarrow>
     bt ic (ralts (map rstr ts)) s i k =
       first_some (\<lambda>t. if at_pos_ci ic s i t then k (i + length t) else None) ts"
  by (simp add: bt_ralts first_some_map bt_rstr)

subsection \<open>RegExpBuiltinExec\<close>

text \<open>\<open>exec_from\<close> finds the leftmost index at or after \<open>lastIndex\<close> where the
  matcher succeeds.\<close>

lemma exec_from_Some_iff:
  "exec_from re s li = Some (p, e) \<longleftrightarrow>
     li \<le> p \<and> p \<le> length s \<and> match_at re s p = Some e \<and>
     (\<forall>q. li \<le> q \<and> q < p \<longrightarrow> match_at re s q = None)"
  unfolding exec_from_def first_some_upt_Some_iff by auto

lemma exec_from_None_iff:
  "exec_from re s li = None \<longleftrightarrow> (\<forall>q. li \<le> q \<and> q \<le> length s \<longrightarrow> match_at re s q = None)"
  unfolding exec_from_def first_some_None_iff by auto

lemma regex_test_iff_match_at: "regex_test re s \<longleftrightarrow> (\<exists>q \<le> length s. match_at re s q \<noteq> None)"
  unfolding regex_test_def exec_from_None_iff by auto

lemma exec_from_bound:
  "exec_from re s li = Some (p, e) \<Longrightarrow> li \<le> p \<and> p + minlen (re_src re) \<le> e \<and> e \<le> length s"
  using match_at_bound [of re s p e] by (auto simp: exec_from_Some_iff)

subsection \<open>The global exec loop\<close>

theorem exec_all_returns:
  assumes "0 < minlen (re_src re)"
  shows "\<exists>ms. exec_all re s li = Some ms \<and> match_chain (length s) li ms"
proof (induction "length s - li" arbitrary: li rule: less_induct)
  case less
  show ?case
  proof (cases "exec_from re s li")
    case None
    then show ?thesis by (simp add: exec_all.simps)
  next
    case (Some m)
    then obtain p e where pe: "exec_from re s li = Some (p, e)" by (cases m) auto
    with assms have b: "li \<le> p" "p < e" "e \<le> length s"
      using exec_from_bound [OF pe] by auto
    then have "length s - e < length s - li" by simp
    then obtain ms where ms: "exec_all re s e = Some ms" "match_chain (length s) e ms"
      using less.hyps by blast
    have "exec_all re s li = Some ((p, e) # ms)"
      by (subst exec_all.simps) (simp add: pe ms(1))
    with b ms(2) show ?thesis by simp
  qed
qed

text \<open>Without that premise the loop of the source would not end: a pattern that
  matches the empty string at \<open>lastIndex\<close> leaves \<open>lastIndex\<close> where it was, and the
  loop runs forever.\<close>

lemma exec_all_empty_match_diverges:
  assumes m: "match_at re s li = Some li" and le: "li \<le> length s"
  shows "exec_all re s li = None"
proof (rule ccontr)
  assume "exec_all re s li \<noteq> None"
  then obtain r where r: "exec_all re s li = Some r" by blast
  have ex: "exec_from re s li = Some (li, li)"
    using m le by (auto simp: exec_from_Some_iff)
  have "\<not> (re = re \<and> s = s \<and> li = li)"
  proof (rule exec_all.raw_induct [where P = "\<lambda>re' s' li' r. \<not> (re' = re \<and> s' = s \<and> li' = li)", OF _ r])
    fix f re' s' li' r'
    assume IH: "\<And>re' s' li' r'. f re' s' li' = Some r' \<Longrightarrow> \<not> (re' = re \<and> s' = s \<and> li' = li)"
      and eq: "(case exec_from re' s' li' of None \<Rightarrow> Some []
               | Some (p, e) \<Rightarrow> f re' s' e \<bind> (\<lambda>ms. Some ((p, e) # ms))) = Some r'"
    show "\<not> (re' = re \<and> s' = s \<and> li' = li)"
    proof
      assume same: "re' = re \<and> s' = s \<and> li' = li"
      with eq ex obtain r'' where "f re s li = Some r''"
        by (auto split: Option.bind_splits)
      with IH show False by blast
    qed
  qed
  then show False by simp
qed

end
