(* ===== verification/ChatNLP.thy ===== *)
theory ChatNLP
  imports Regex
begin

text \<open>
  The intent and entity extractor of \<open>src/uni-main/src/utils/chatNLP.ts\<close> (class
  \<open>ChatNLP\<close>): its static tables \<open>buildingKeywords\<close> and \<open>intentPatterns\<close>, the two
  scanning patterns of \<open>extractEntities\<close>, and the operations \<open>extractEntities\<close>,
  \<open>calculateConfidence\<close> and \<open>extractIntent\<close>. Object tables are association lists
  in the insertion order that \<open>Object.entries\<close> visits them in. \<open>extractEntities\<close> runs
  two global \<open>exec\<close> loops, so it returns an option, \<open>None\<close> standing for a loop
  that never ends; the loops are proved to end. Confidences, double-precision numbers
  in the source, are exact rationals here.
\<close>

record entity =
  ent_type :: jstr
  ent_value :: jstr
  ent_start :: nat
  ent_end :: nat

record intent =
  intent_name :: jstr
  confidence :: rat
  intent_entities :: "entity list"

text \<open>A regular-expression literal \<open>/a|b|\<dots>/i\<close> of \<open>intentPatterns\<close>.\<close>

definition ipat :: "jstr list \<Rightarrow> regexp" where
  "ipat alts = \<lparr>re_src = ralts (map rstr alts), re_icase = True, re_global = False\<rparr>"

definition building_keywords :: "(jstr \<times> jstr list) list" where
  "building_keywords =
     [(js ''library'',
       [js ''library'', js ''bibliothek'', js ''books'', js ''b'' @ [0xFC] @ js ''cher'', js ''study'', js ''lernen'', js ''research'', js ''forschung'']),
      (js ''cafeteria'',
       [js ''cafeteria'', js ''mensa'', js ''food'', js ''essen'', js ''dining'', js ''restaurant'', js ''meal'', js ''mahlzeit'']),
      (js ''student-center'',
       [js ''student center'', js ''studierendenzentrum'', js ''activities'', js ''aktivit'' @ [0xE4] @ js ''ten'', js ''organizations'', js ''organisationen'']),
      (js ''visa-services'',
       [js ''visa'', js ''immigration'', js ''einwanderung'', js ''permit'', js ''genehmigung'', js ''documents'', js ''dokumente'']),
      (js ''administration'',
       [js ''administration'', js ''verwaltung'', js ''registration'', js ''anmeldung'', js ''office'', js ''b'' @ [0xFC] @ js ''ro'']),
      (js ''ude-portals'',
       [js ''portal'', js ''online'', js ''digital'', js ''moodle'', js ''website'', js ''platform'', js ''plattform''])]"

definition intent_patterns :: "(jstr \<times> regexp list) list" where
  "intent_patterns =
     [(js ''find_building'',
       [ipat [js ''where is'', js ''wo ist'', js ''find'', js ''finden'', js ''locate'', js ''lokalisieren''],
        ipat [js ''how to get to'', js ''wie komme ich zu'', js ''direction'', js ''richtung'']]),
      (js ''get_hours'',
       [ipat [js ''hours'', [0xF6] @ js ''ffnungszeiten'', js ''time'', js ''zeit'', js ''open'', js ''ge'' @ [0xF6] @ js ''ffnet'', js ''close'', js ''geschlossen''],
        ipat [js ''when'', js ''wann'', js ''schedule'', js ''zeitplan'']]),
      (js ''get_contact'',
       [ipat [js ''contact'', js ''kontakt'', js ''phone'', js ''telefon'', js ''email'', js ''mail'', js ''address'', js ''adresse''],
        ipat [js ''call'', js ''anrufen'', js ''reach'', js ''erreichen'']]),
      (js ''get_services'',
       [ipat [js ''services'', js ''dienstleistungen'', js ''what can'', js ''was kann'', js ''help'', js ''hilfe'', js ''support'', js ''unterst'' @ [0xFC] @ js ''tzung''],
        ipat [js ''available'', js ''verf'' @ [0xFC] @ js ''gbar'', js ''offer'', js ''anbieten'']]),
      (js ''get_info'',
       [ipat [js ''info'', js ''information'', js ''about'', [0xFC] @ js ''ber'', js ''tell me'', js ''erz'' @ [0xE4] @ js ''hl mir'', js ''explain'', js ''erkl'' @ [0xE4] @ js ''ren''],
        ipat [js ''what is'', js ''was ist'', js ''describe'', js ''beschreiben'']])]"


text \<open>\<open>/\b(\d{1,2}):?(\d{2})?\s*(am|pm|uhr)?\b/gi\<close>; \<open>\d{1,2}\<close> is a digit followed by
  an optional digit, which the standard tries in the same order.\<close>

definition time_rx :: rx where
  "time_rx =
     rseqs [RBound, RClass is_digit, ROpt (RClass is_digit), ROpt (RLit 58),
        ROpt (rseqs [RClass is_digit, RClass is_digit]), RStar is_js_space,
        ROpt (ralts (map rstr [js ''am'', js ''pm'', js ''uhr''])), RBound]"

definition time_pattern :: regexp where
  "time_pattern = \<lparr>re_src = time_rx, re_icase = True, re_global = True\<rparr>"

text \<open>\<open>/\b(monday|\<dots>|sunday|montag|\<dots>|sonntag)\b/gi\<close>: the alternatives of the
  group, in the order the source lists them, and the pattern.\<close>

definition day_names :: "jstr list" where
  "day_names = [js ''monday'', js ''tuesday'', js ''wednesday'', js ''thursday'', js ''friday'', js ''saturday'', js ''sunday'', js ''montag'', js ''dienstag'', js ''mittwoch'', js ''donnerstag'', js ''freitag'', js ''samstag'', js ''sonntag'']"

definition day_pattern :: regexp where
  "day_pattern =
     \<lparr>re_src = rseqs [RBound, ralts (map rstr day_names), RBound],
      re_icase = True, re_global = True\<rparr>"


subsection \<open>extractEntities\<close>

text \<open>The building entities of one table row: the first occurrence of each keyword in
  the lower-cased message (\<open>indexOf\<close>), with the end index computed from the keyword's
  own length.\<close>

definition keyword_entities :: "jstr \<Rightarrow> jstr \<Rightarrow> jstr list \<Rightarrow> entity list" where
  "keyword_entities lower_message building_id keywords =
     concat (map (\<lambda>keyword.
       case index_of lower_message (js_lower keyword) of
         None \<Rightarrow> []
       | Some index \<Rightarrow>
           [\<lparr>ent_type = js ''building'', ent_value = building_id,
             ent_start = index, ent_end = index + length keyword\<rparr>]) keywords)"

definition building_entities :: "jstr \<Rightarrow> entity list" where
  "building_entities lower_message =
     concat (map (\<lambda>(building_id, keywords). keyword_entities lower_message building_id keywords)
       building_keywords)"

text \<open>The entities of the matches of an \<open>exec\<close> loop over the original message.\<close>

definition match_entities :: "jstr \<Rightarrow> jstr \<Rightarrow> (nat \<times> nat) list \<Rightarrow> entity list" where
  "match_entities ty message ms =
     map (\<lambda>m. \<lparr>ent_type = ty, ent_value = matched message m,
               ent_start = fst m, ent_end = fst m + length (matched message m)\<rparr>) ms"

definition extract_entities :: "jstr \<Rightarrow> entity list option" where
  "extract_entities message =
     (let lower_message = js_lower message;
          buildings = building_entities lower_message
      in do {
           time_matches \<leftarrow> exec_all time_pattern message 0;
           day_matches \<leftarrow> exec_all day_pattern message 0;
           Some (buildings @ match_entities (js ''time'') message time_matches
                           @ match_entities (js ''day'') message day_matches)
         })"

subsection \<open>calculateConfidence\<close>

definition calculate_confidence :: "jstr \<Rightarrow> regexp \<Rightarrow> rat" where
  "calculate_confidence message pattern =
     (case regex_match pattern message of
        None \<Rightarrow> 0
      | Some m \<Rightarrow>
          (let base = 6 / 10;
               match_length = length (matched message m);
               message_length = length message;
               coverage = of_nat match_length / of_nat message_length;
               boosted = base + coverage * (3 / 10);
               exact = (if matched message m = js_trim message then boosted + 2 / 10 else boosted)
           in min exact 1))"

subsection \<open>extractIntent\<close>

definition general_intent :: intent where
  "general_intent = \<lparr>intent_name = js ''general'', confidence = 3 / 10, intent_entities = []\<rparr>"

text \<open>The inner loop over the patterns of one intent: a pattern that matches and scores
  strictly more than the best so far replaces it, with the entities of the message.\<close>

fun scan_patterns :: "jstr \<Rightarrow> jstr \<Rightarrow> jstr \<Rightarrow> regexp list \<Rightarrow> intent \<Rightarrow> intent option" where
  "scan_patterns message lower_message name [] best = Some best"
| "scan_patterns message lower_message name (pattern # patterns) best =
     (if regex_test pattern lower_message then
        (let conf = calculate_confidence lower_message pattern in
         if confidence best < conf then
           extract_entities message \<bind> (\<lambda>ents.
             scan_patterns message lower_message name patterns
               \<lparr>intent_name = name, confidence = conf, intent_entities = ents\<rparr>)
         else scan_patterns message lower_message name patterns best)
      else scan_patterns message lower_message name patterns best)"

fun scan_intents :: "jstr \<Rightarrow> jstr \<Rightarrow> (jstr \<times> regexp list) list \<Rightarrow> intent \<Rightarrow> intent option" where
  "scan_intents message lower_message [] best = Some best"
| "scan_intents message lower_message ((name, patterns) # rest) best =
     scan_patterns message lower_message name patterns best \<bind> scan_intents message lower_message rest"

definition extract_intent :: "jstr \<Rightarrow> intent option" where
  "extract_intent message = scan_intents message (js_lower message) intent_patterns general_intent"

text \<open>The confidences \<open>extractIntent\<close> can return: the default's, or a score of
  \<open>calculateConfidence\<close> for a pattern that matched.\<close>

definition conf_ok :: "rat \<Rightarrow> bool" where
  "conf_ok c \<longleftrightarrow> c = 3 / 10 \<or> (6 / 10 \<le> c \<and> c \<le> 1)"

subsection \<open>What extractIntent promises\<close>

text \<open>The scores of the patterns that test positive, in the order the loops visit them:
  intents in table order, patterns in list order.\<close>

definition intent_scores :: "jstr \<Rightarrow> (jstr \<times> rat) list" where
  "intent_scores lower =
     concat (map (\<lambda>(name, patterns).
       map (\<lambda>p. (name, calculate_confidence lower p)) (filter (\<lambda>p. regex_test p lower) patterns))
       intent_patterns)"

text \<open>The contract of \<open>extractIntent\<close> (spec 4.1): the highest score wins, a tie goes
  to the pattern visited first, and with no matching pattern the result is \<open>general\<close>.\<close>

definition intent_spec :: "jstr \<Rightarrow> intent option" where
  "intent_spec m =
     (let sc = intent_scores (js_lower m)
      in if sc = [] then Some general_intent
         else (let c = Max (set (map snd sc))
               in map_option (\<lambda>ents. \<lparr>intent_name = fst (hd (filter (\<lambda>x. snd x = c) sc)),
                                      confidence = c, intent_entities = ents\<rparr>)
                    (extract_entities m)))"

text \<open>One step of the two loops once a pattern has tested positive: the strict
  comparison \<open>confidence > bestIntent.confidence\<close>.\<close>

definition improve :: "entity list \<Rightarrow> jstr \<times> rat \<Rightarrow> intent \<Rightarrow> intent" where
  "improve ents x best =
     (if confidence best < snd x then \<lparr>intent_name = fst x, confidence = snd x, intent_entities = ents\<rparr>
      else best)"

lemmas chat_nlp_defs [model_simps] =
  building_keywords_def intent_patterns_def time_rx_def day_names_def
  keyword_entities_def building_entities_def match_entities_def extract_entities_def
  calculate_confidence_def general_intent_def extract_intent_def

subsection \<open>Patterns\<close>

lemma match_at_ipat:
  "q \<le> length s \<Longrightarrow>
     match_at (ipat alts) s q =
       first_some (\<lambda>t. if at_pos_ci True s q t then Some (q + length t) else None) alts"
  unfolding match_at_def ipat_def regexp.select_convs by (rule bt_ralts_rstr)

text \<open>A pattern of \<open>intentPatterns\<close> tests positive exactly when one of its phrases
  occurs in the string, compared case-insensitively.\<close>

lemma regex_test_ipat:
  "regex_test (ipat alts) s \<longleftrightarrow> (\<exists>t \<in> set alts. \<exists>i. at_pos_ci True s i t)"
proof -
  have "\<forall>q \<le> length s. (match_at (ipat alts) s q = None) = (\<forall>t \<in> set alts. \<not> at_pos_ci True s q t)"
    by (simp add: match_at_ipat first_some_if_None)
  then show ?thesis
    unfolding regex_test_iff_match_at by (meson at_pos_ci_bound)
qed

lemma time_pattern_nonempty: "0 < minlen (re_src time_pattern)"
  by (simp add: time_pattern_def time_rx_def)

lemma day_pattern_nonempty: "0 < minlen (re_src day_pattern)"
  by (simp add: day_pattern_def day_names_def js_def)

text \<open>Evaluation of the patterns on concrete messages: a pattern of
  \<open>intentPatterns\<close> is a search for its phrases in the canonicalised string, and the
  day pattern is a search for a day name between two word boundaries.\<close>

lemma regex_test_ipat_code [model_simps]:
  "regex_test (ipat alts) s \<longleftrightarrow>
     (\<exists>t \<in> set alts. js_includes (map (canonicalize True) s) (map (canonicalize True) t))"
  by (simp add: regex_test_ipat at_pos_ci_map js_includes_iff)

lemma regex_match_ipat [model_simps]:
  "regex_match (ipat alts) s =
     first_some (\<lambda>p. map_option (Pair p)
       (first_some (\<lambda>t. if at_pos_ci True s p t then Some (p + length t) else None) alts))
       [0..<Suc (length s)]"
  unfolding regex_match_def exec_from_def
proof (rule first_some_cong)
  fix p
  assume "p \<in> set [0..<Suc (length s)]"
  then have "p \<le> length s" by auto
  then show "map_option (Pair p) (match_at (ipat alts) s p) =
      map_option (Pair p) (first_some (\<lambda>t. if at_pos_ci True s p t then Some (p + length t) else None) alts)"
    by (simp add: match_at_ipat)
qed

lemma match_at_time_pattern [model_simps]: "match_at time_pattern s q = bt True time_rx s q Some"
  by (simp add: match_at_def time_pattern_def)

lemma match_at_day_pattern [model_simps]:
  "match_at day_pattern s q =
     (if is_boundary s q
      then first_some (\<lambda>t. if at_pos_ci True s q t
                            then (if is_boundary s (q + length t) then Some (q + length t) else None)
                            else None) day_names
      else None)"
proof (cases "is_boundary s q")
  case True
  then have "q \<le> length s" by (auto simp: is_boundary_def)
  with True show ?thesis by (simp add: match_at_def day_pattern_def bt_ralts_rstr)
next
  case False
  then show ?thesis by (simp add: match_at_def day_pattern_def)
qed

subsection \<open>extractEntities returns\<close>

lemma extract_entities_eq:
  "\<exists>tms dms. exec_all time_pattern m 0 = Some tms \<and> match_chain (length m) 0 tms \<and>
     exec_all day_pattern m 0 = Some dms \<and> match_chain (length m) 0 dms \<and>
     extract_entities m = Some (building_entities (js_lower m) @ match_entities (js ''time'') m tms
                                 @ match_entities (js ''day'') m dms)"
proof -
  obtain tms where t: "exec_all time_pattern m 0 = Some tms" "match_chain (length m) 0 tms"
    using exec_all_returns [OF time_pattern_nonempty] by blast
  obtain dms where d: "exec_all day_pattern m 0 = Some dms" "match_chain (length m) 0 dms"
    using exec_all_returns [OF day_pattern_nonempty] by blast
  show ?thesis using t d by (simp add: extract_entities_def)
qed

lemma extract_entities_Some: "\<exists>es. extract_entities m = Some es"
  using extract_entities_eq by blast

subsection \<open>calculateConfidence and extractIntent\<close>

lemma calculate_confidence_range:
  assumes "regex_match p m = Some x"
  shows "6 / 10 \<le> calculate_confidence m p \<and> calculate_confidence m p \<le> 1"
proof -
  let ?cov = "of_nat (length (matched m x)) / of_nat (length m) :: rat"
  have "0 \<le> ?cov" by simp
  then have "6 / 10 \<le> 6 / 10 + ?cov * (3 / 10)" by simp
  then show ?thesis
    using assms by (simp add: calculate_confidence_def Let_def)
qed

text \<open>The inner loop: the best intent only improves, a matching pattern lifts it to at
  least 0.6, and without a matching pattern it is returned unchanged.\<close>

lemma scan_patterns_result:
  "\<exists>r. scan_patterns message lower name pats best = Some r \<and>
       confidence best \<le> confidence r \<and>
       (conf_ok (confidence best) \<longrightarrow> conf_ok (confidence r)) \<and>
       ((\<exists>p \<in> set pats. regex_test p lower) \<longrightarrow> 6 / 10 \<le> confidence r) \<and>
       ((\<forall>p \<in> set pats. \<not> regex_test p lower) \<longrightarrow> r = best)"
proof (induction pats arbitrary: best)
  case Nil
  then show ?case by simp
next
  case (Cons p pats)
  show ?case
  proof (cases "regex_test p lower")
    case False
    with Cons.IH [of best] show ?thesis by auto
  next
    case True
    then obtain x where x: "regex_match p lower = Some x"
      by (auto simp: regex_test_def regex_match_def)
    let ?conf = "calculate_confidence lower p"
    have range: "6 / 10 \<le> ?conf" "?conf \<le> 1"
      using calculate_confidence_range [OF x] by auto
    show ?thesis
    proof (cases "confidence best < ?conf")
      case True
      obtain ents where ents: "extract_entities message = Some ents"
        using extract_entities_Some by blast
      let ?new = "\<lparr>intent_name = name, confidence = ?conf, intent_entities = ents\<rparr>"
      obtain r where r: "scan_patterns message lower name pats ?new = Some r"
        "confidence ?new \<le> confidence r"
        "conf_ok (confidence ?new) \<longrightarrow> conf_ok (confidence r)"
        using Cons.IH [of ?new] by blast
      have "conf_ok (confidence ?new)" using range by (simp add: conf_ok_def)
      with r True \<open>regex_test p lower\<close> ents range show ?thesis
        by (intro exI [of _ r]) auto
    next
      case False
      obtain r where r: "scan_patterns message lower name pats best = Some r"
        "confidence best \<le> confidence r"
        "conf_ok (confidence best) \<longrightarrow> conf_ok (confidence r)"
        using Cons.IH [of best] by blast
      with False \<open>regex_test p lower\<close> range show ?thesis
        by (intro exI [of _ r]) auto
    qed
  qed
qed

text \<open>The outer loop over \<open>Object.entries(intentPatterns)\<close>.\<close>

lemma scan_intents_result:
  "\<exists>r. scan_intents message lower tbl best = Some r \<and>
       confidence best \<le> confidence r \<and>
       (conf_ok (confidence best) \<longrightarrow> conf_ok (confidence r)) \<and>
       ((\<exists>(n, ps) \<in> set tbl. \<exists>p \<in> set ps. regex_test p lower) \<longrightarrow> 6 / 10 \<le> confidence r) \<and>
       ((\<forall>(n, ps) \<in> set tbl. \<forall>p \<in> set ps. \<not> regex_test p lower) \<longrightarrow> r = best)"
proof (induction tbl arbitrary: best)
  case Nil
  then show ?case by simp
next
  case (Cons np tbl)
  obtain name ps where np: "np = (name, ps)" by (cases np)
  obtain r1 where r1: "scan_patterns message lower name ps best = Some r1"
    "confidence best \<le> confidence r1"
    "conf_ok (confidence best) \<longrightarrow> conf_ok (confidence r1)"
    "(\<exists>p \<in> set ps. regex_test p lower) \<longrightarrow> 6 / 10 \<le> confidence r1"
    "(\<forall>p \<in> set ps. \<not> regex_test p lower) \<longrightarrow> r1 = best"
    using scan_patterns_result by blast
  obtain r where r: "scan_intents message lower tbl r1 = Some r"
    "confidence r1 \<le> confidence r"
    "conf_ok (confidence r1) \<longrightarrow> conf_ok (confidence r)"
    "(\<exists>(n, ps) \<in> set tbl. \<exists>p \<in> set ps. regex_test p lower) \<longrightarrow> 6 / 10 \<le> confidence r"
    "(\<forall>(n, ps) \<in> set tbl. \<forall>p \<in> set ps. \<not> regex_test p lower) \<longrightarrow> r = r1"
    using Cons.IH [of r1] by blast
  have eq: "scan_intents message lower (np # tbl) best = Some r"
    using np r1(1) r(1) by simp
  show ?case
    using eq r1 r np by (intro exI [of _ r]) force
qed

subsection \<open>The loops of extractIntent as a fold\<close>

lemma regex_test_match: "regex_test p l \<Longrightarrow> \<exists>x. regex_match p l = Some x"
  by (auto simp: regex_test_def regex_match_def)

lemma scan_patterns_fold:
  "extract_entities message = Some ents \<Longrightarrow>
     scan_patterns message lower name ps best =
       Some (fold (improve ents)
               (map (\<lambda>p. (name, calculate_confidence lower p)) (filter (\<lambda>p. regex_test p lower) ps)) best)"
  by (induction ps arbitrary: best) (auto simp: improve_def Let_def)

lemma scan_intents_fold:
  "extract_entities message = Some ents \<Longrightarrow>
     scan_intents message lower tbl best =
       Some (fold (improve ents)
               (concat (map (\<lambda>(name, ps). map (\<lambda>p. (name, calculate_confidence lower p))
                                              (filter (\<lambda>p. regex_test p lower) ps)) tbl)) best)"
  by (induction tbl arbitrary: best) (auto simp: scan_patterns_fold)

text \<open>The fold with the strict comparison keeps the start value unless some score
  exceeds it, and otherwise ends at the first item of maximal score.\<close>

lemma fold_improve:
  "fold (improve ents) xs b =
     (if \<forall>x \<in> set xs. snd x \<le> confidence b then b
      else \<lparr>intent_name = fst (hd (filter (\<lambda>x. snd x = Max (set (map snd xs))) xs)),
            confidence = Max (set (map snd xs)), intent_entities = ents\<rparr>)"
proof (induction xs arbitrary: b)
  case Nil
  then show ?case by simp
next
  case (Cons x xs)
  obtain n c where x: "x = (n, c)" by (cases x)
  show ?case
  proof (cases "confidence b < c")
    case True
    let ?b' = "\<lparr>intent_name = n, confidence = c, intent_entities = ents\<rparr>"
    have step: "fold (improve ents) (x # xs) b = fold (improve ents) xs ?b'"
      using True x by (simp add: improve_def)
    show ?thesis
    proof (cases "\<forall>y \<in> set xs. snd y \<le> c")
      case True
      then have "Max (set (map snd (x # xs))) = c"
        using x by (auto intro: Max_eqI)
      then show ?thesis
        using step Cons.IH [of ?b'] True \<open>confidence b < c\<close> x by auto
    next
      case False
      then have xs: "xs \<noteq> []" "c < Max (set (map snd xs))"
        using Max_snd_gt by blast+
      then have "Max (set (map snd (x # xs))) = Max (set (map snd xs))"
        using x by (auto simp: max_def)
      then show ?thesis
        using step Cons.IH [of ?b'] False xs x \<open>confidence b < c\<close> by auto
    qed
  next
    case False
    have step: "fold (improve ents) (x # xs) b = fold (improve ents) xs b"
      using False x by (simp add: improve_def)
    show ?thesis
    proof (cases "\<forall>y \<in> set xs. snd y \<le> confidence b")
      case True
      then show ?thesis using step Cons.IH [of b] False x by auto
    next
      case all: False
      then have xs: "xs \<noteq> []" "confidence b < Max (set (map snd xs))"
        using Max_snd_gt by blast+
      then have "Max (set (map snd (x # xs))) = Max (set (map snd xs))"
        using x False by (auto simp: max_def)
      then show ?thesis
        using step Cons.IH [of b] all xs x False by auto
    qed
  qed
qed

lemma intent_scores_ge: "x \<in> set (intent_scores l) \<Longrightarrow> 6 / 10 \<le> snd x"
  by (auto simp: intent_scores_def dest!: regex_test_match dest: calculate_confidence_range)

subsection \<open>Entities\<close>

lemma matched_length: "e \<le> length m \<Longrightarrow> p \<le> e \<Longrightarrow> length (matched m (p, e)) = e - p"
  by (simp add: matched_def)

lemma matched_length_le: "length (matched m x) \<le> length m"
  by (simp add: matched_def)

text \<open>The entities of the matches of a loop over the message are ordered, disjoint,
  non-empty spans of the message, each holding the matched text.\<close>

lemma match_entities_chain:
  "match_chain (length m) li ms \<Longrightarrow>
     sorted_wrt (\<lambda>e f. ent_end e \<le> ent_start f) (match_entities ty m ms) \<and>
     (\<forall>e \<in> set (match_entities ty m ms).
        li \<le> ent_start e \<and> ent_start e < ent_end e \<and> ent_end e \<le> length m \<and> ent_type e = ty \<and>
        ent_value e = take (ent_end e - ent_start e) (drop (ent_start e) m))"
proof (induction "length m" li ms rule: match_chain.induct)
  case (1 li)
  then show ?case by (simp add: match_entities_def)
next
  case (2 li p e ms)
  then have ch: "li \<le> p" "p < e" "e \<le> length m" "match_chain (length m) e ms" by auto
  then have len: "length (matched m (p, e)) = e - p" by (simp add: matched_length)
  have IH: "sorted_wrt (\<lambda>e f. ent_end e \<le> ent_start f) (match_entities ty m ms) \<and>
     (\<forall>x \<in> set (match_entities ty m ms).
        e \<le> ent_start x \<and> ent_start x < ent_end x \<and> ent_end x \<le> length m \<and> ent_type x = ty \<and>
        ent_value x = take (ent_end x - ent_start x) (drop (ent_start x) m))"
    using 2 ch(4) by simp
  have cons: "match_entities ty m ((p, e) # ms) =
      \<lparr>ent_type = ty, ent_value = matched m (p, e), ent_start = p, ent_end = e\<rparr> # match_entities ty m ms"
    using len ch by (simp add: match_entities_def)
  show ?case
    unfolding cons using IH ch by (auto simp: matched_def)
qed

lemma keyword_entities_mem:
  "e \<in> set (keyword_entities l b ks) \<Longrightarrow>
     ent_type e = js ''building'' \<and> ent_value e = b \<and>
     (\<exists>k \<in> set ks. index_of l (js_lower k) = Some (ent_start e) \<and> ent_end e = ent_start e + length k)"
  by (auto simp: keyword_entities_def split: option.splits)

lemma building_entities_mem:
  "e \<in> set (building_entities l) \<Longrightarrow>
     ent_type e = js ''building'' \<and>
     (\<exists>ks. (ent_value e, ks) \<in> set building_keywords \<and>
       (\<exists>k \<in> set ks. index_of l (js_lower k) = Some (ent_start e) \<and> ent_end e = ent_start e + length k))"
  unfolding building_entities_def by (fastforce dest: keyword_entities_mem)

lemma building_keywords_no_dotted:
  "(b, ks) \<in> set building_keywords \<Longrightarrow> k \<in> set ks \<Longrightarrow> 0x130 \<notin> set k"
  by (auto simp: building_keywords_def js_def)

lemma entity_types_differ: "js ''time'' \<noteq> js ''building''" "js ''day'' \<noteq> js ''building''"
  by (simp_all add: js_def)

lemma extract_entities_building:
  assumes "extract_entities m = Some es" "e \<in> set es" "ent_type e = js ''building''"
  shows "e \<in> set (building_entities (js_lower m))"
proof -
  obtain tms dms where t: "match_chain (length m) 0 tms" and d: "match_chain (length m) 0 dms"
    and ex: "extract_entities m = Some (building_entities (js_lower m) @ match_entities (js ''time'') m tms
                                         @ match_entities (js ''day'') m dms)"
    using extract_entities_eq by blast
  show ?thesis
    using assms ex entity_types_differ match_entities_chain [OF t, of "js ''time''"]
      match_entities_chain [OF d, of "js ''day''"]
    by auto
qed

lemma extract_entities_building_id:
  "extract_entities m = Some es \<Longrightarrow> e \<in> set es \<Longrightarrow> ent_type e = js ''building'' \<Longrightarrow>
     ent_value e \<in> set (map fst building_keywords)"
  by (force dest!: extract_entities_building building_entities_mem)

lemma extract_intent_Some: "\<exists>i. extract_intent m = Some i"
  using scan_intents_result [of m "js_lower m" intent_patterns general_intent]
  by (auto simp: extract_intent_def)

subsection \<open>Scores\<close>

lemma coverage_le_1: "a \<le> b \<Longrightarrow> of_nat a / of_nat b \<le> (1 :: rat)"
  by (cases "b = 0") (simp_all add: divide_le_eq_1)

lemma calculate_confidence_partial:
  "regex_match p m = Some x \<Longrightarrow> matched m x \<noteq> js_trim m \<Longrightarrow> calculate_confidence m p \<le> 9 / 10"
proof -
  assume r: "regex_match p m = Some x" and ne: "matched m x \<noteq> js_trim m"
  have "of_nat (length (matched m x)) / of_nat (length m) \<le> (1 :: rat)"
    by (rule coverage_le_1 [OF matched_length_le])
  then show ?thesis using r ne by (simp add: calculate_confidence_def Let_def)
qed

lemma calculate_confidence_whole:
  "regex_match p m = Some x \<Longrightarrow> matched m x = m \<Longrightarrow> js_trim m = m \<Longrightarrow> m \<noteq> [] \<Longrightarrow>
     calculate_confidence m p = 1"
  by (simp add: calculate_confidence_def Let_def)

text \<open>C1. For every message, \<open>extractIntent\<close> returns, and its confidence is the
  default 0.3 or lies in [0.6, 1]; in particular it lies in [0, 1].\<close>

theorem extract_intent_confidence:
  "\<exists>i. extract_intent m = Some i \<and>
     (confidence i = 3 / 10 \<or> (6 / 10 \<le> confidence i \<and> confidence i \<le> 1))"
proof -
  have "conf_ok (confidence general_intent)"
    by (simp add: conf_ok_def general_intent_def)
  then show ?thesis
    using scan_intents_result [of m "js_lower m" intent_patterns general_intent]
    by (auto simp: extract_intent_def conf_ok_def)
qed

text \<open>\<open>extractIntent\<close> returns the default intent \<open>general\<close> with confidence 0.3
  and no entities exactly when no pattern of \<open>intentPatterns\<close> tests positive on the
  lower-cased message.\<close>

theorem extract_intent_general_iff:
  "extract_intent m = Some general_intent \<longleftrightarrow>
     (\<forall>(name, patterns) \<in> set intent_patterns. \<forall>p \<in> set patterns. \<not> regex_test p (js_lower m))"
proof -
  obtain r where r: "extract_intent m = Some r"
    "(\<exists>(n, ps) \<in> set intent_patterns. \<exists>p \<in> set ps. regex_test p (js_lower m)) \<longrightarrow> 6 / 10 \<le> confidence r"
    "(\<forall>(n, ps) \<in> set intent_patterns. \<forall>p \<in> set ps. \<not> regex_test p (js_lower m)) \<longrightarrow> r = general_intent"
    using scan_intents_result [of m "js_lower m" intent_patterns general_intent]
    unfolding extract_intent_def by blast
  have "confidence general_intent = 3 / 10" by (simp add: general_intent_def)
  then show ?thesis using r by auto
qed

text \<open>C2. \<open>extractIntent\<close> implements its contract: it returns the intent of the
  highest-scoring pattern that tests positive (the first such pattern in table order on a
  tie), with the confidence that pattern scored and the entities of the message, and
  \<open>general\<close> when no pattern tests positive.\<close>

theorem extract_intent_refines_spec: "extract_intent m = intent_spec m"
proof -
  obtain ents where e: "extract_entities m = Some ents" using extract_entities_Some by blast
  let ?sc = "intent_scores (js_lower m)"
  have scan: "extract_intent m = Some (fold (improve ents) ?sc general_intent)"
    using scan_intents_fold [OF e, of "js_lower m" intent_patterns general_intent]
    by (simp add: extract_intent_def intent_scores_def)
  show ?thesis
  proof (cases "?sc = []")
    case True
    then show ?thesis using scan by (simp add: intent_spec_def)
  next
    case False
    then obtain x where x: "x \<in> set ?sc" by (meson last_in_set)
    have "3 / 10 < snd x" using intent_scores_ge [OF x] by simp
    then have nall: "\<not> (\<forall>y \<in> set ?sc. snd y \<le> confidence general_intent)"
      using x by (force simp: general_intent_def)
    have "fold (improve ents) ?sc general_intent =
        \<lparr>intent_name = fst (hd (filter (\<lambda>x. snd x = Max (set (map snd ?sc))) ?sc)),
         confidence = Max (set (map snd ?sc)), intent_entities = ents\<rparr>"
      unfolding fold_improve using nall by (rule if_not_P)
    then show ?thesis
      using scan e False by (simp add: intent_spec_def Let_def)
  qed
qed

text \<open>\<open>extractEntities\<close> returns the building entities, then the time entities,
  then the day entities; the time entities and the day entities are each in order of
  position and do not overlap.\<close>

theorem extract_entities_grouped:
  "\<exists>bs ts ds. extract_entities m = Some (bs @ ts @ ds) \<and>
     (\<forall>e \<in> set bs. ent_type e = js ''building'') \<and>
     (\<forall>e \<in> set ts. ent_type e = js ''time'') \<and>
     (\<forall>e \<in> set ds. ent_type e = js ''day'') \<and>
     sorted_wrt (\<lambda>e f. ent_end e \<le> ent_start f) ts \<and>
     sorted_wrt (\<lambda>e f. ent_end e \<le> ent_start f) ds"
proof -
  obtain tms dms where t: "match_chain (length m) 0 tms" and d: "match_chain (length m) 0 dms"
    and ex: "extract_entities m = Some (building_entities (js_lower m) @ match_entities (js ''time'') m tms
                                         @ match_entities (js ''day'') m dms)"
    using extract_entities_eq by blast
  show ?thesis
    using match_entities_chain [OF t, of "js ''time''"] match_entities_chain [OF d, of "js ''day''"]
      building_entities_mem ex by blast
qed

theorem extract_entities_grouped_witness:
  "\<exists>bs ts ds. extract_entities (js ''monday 9'') = Some (bs @ ts @ ds) \<and>
     sorted_wrt (\<lambda>e f. ent_end e \<le> ent_start f) ts"
  using extract_entities_grouped [of "js ''monday 9''"] by blast

text \<open>C3. The two \<open>exec\<close> loops of \<open>extractEntities\<close> (time and day patterns)
  terminate on every message, each with a chain of non-empty matches inside the
  message.\<close>

theorem entity_scans_terminate:
  "\<exists>tms dms. exec_all time_pattern m 0 = Some tms \<and> match_chain (length m) 0 tms \<and>
     exec_all day_pattern m 0 = Some dms \<and> match_chain (length m) 0 dms"
  using exec_all_returns [OF time_pattern_nonempty] exec_all_returns [OF day_pattern_nonempty]
  by blast

text \<open>C4. Every time and day entity is a non-empty span of the original message, and its
  value is the text of the message on that span.\<close>

theorem extract_entities_match_spans:
  assumes "extract_entities m = Some es" "e \<in> set es" "ent_type e \<noteq> js ''building''"
  shows "ent_start e < ent_end e \<and> ent_end e \<le> length m \<and>
         ent_value e = take (ent_end e - ent_start e) (drop (ent_start e) m)"
proof -
  obtain tms dms where t: "match_chain (length m) 0 tms" and d: "match_chain (length m) 0 dms"
    and ex: "extract_entities m = Some (building_entities (js_lower m) @ match_entities (js ''time'') m tms
                                         @ match_entities (js ''day'') m dms)"
    using extract_entities_eq by blast
  show ?thesis
    using assms ex building_entities_mem [of e "js_lower m"]
      match_entities_chain [OF t, of "js ''time''"] match_entities_chain [OF d, of "js ''day''"]
    by auto
qed

theorem extract_entities_match_spans_witness:
  "take 6 (drop 0 (js ''Monday'')) = js ''Monday''"
proof -
  have ex: "extract_entities (js ''Monday'') =
      Some [\<lparr>ent_type = js ''day'', ent_value = js ''Monday'', ent_start = 0, ent_end = 6\<rparr>]"
    by (simp add: model_simps exec_all.simps)
  show ?thesis
    using extract_entities_match_spans [OF ex, of "\<lparr>ent_type = js ''day'', ent_value = js ''Monday'', ent_start = 0, ent_end = 6\<rparr>"]
    by (simp add: js_def)
qed

text \<open>In a message without U+0130 (whose lower case is two code units), every
  building entity is a span of the original message that is, up to case, a keyword of
  the entity's building.\<close>

theorem building_entity_spans:
  assumes "0x130 \<notin> set m" "extract_entities m = Some es" "e \<in> set es" "ent_type e = js ''building''"
  shows "ent_end e \<le> length m \<and>
    (\<exists>ks. (ent_value e, ks) \<in> set building_keywords \<and>
      (\<exists>k \<in> set ks. js_lower (take (ent_end e - ent_start e) (drop (ent_start e) m)) = js_lower k))"
proof -
  have "e \<in> set (building_entities (js_lower m))"
    using extract_entities_building [OF assms(2-4)] .
  then obtain ks k where ks: "(ent_value e, ks) \<in> set building_keywords" "k \<in> set ks"
    and idx: "index_of (js_lower m) (js_lower k) = Some (ent_start e)"
    and en: "ent_end e = ent_start e + length k"
    using building_entities_mem by blast
  have k: "0x130 \<notin> set k" using building_keywords_no_dotted [OF ks] .
  have at: "at_pos (js_lower m) (ent_start e) (js_lower k)" using idx by (rule index_of_at_pos)
  then have "ent_start e + length k \<le> length m"
    using at_pos_bound [OF at] length_js_lower_no_dotted [OF k] length_js_lower_no_dotted [OF assms(1)]
    by simp
  moreover have "js_lower (take (length k) (drop (ent_start e) m)) = js_lower k"
    using at js_lower_take_drop [OF assms(1)] length_js_lower_no_dotted [OF k]
    by (simp add: at_pos_def)
  ultimately show ?thesis using ks en by auto
qed

theorem building_entity_spans_witness: "7 \<le> length (js ''Library'')"
proof -
  have ex: "extract_entities (js ''Library'') =
      Some [\<lparr>ent_type = js ''building'', ent_value = js ''library'', ent_start = 0, ent_end = 7\<rparr>]"
    by (simp add: model_simps exec_all.simps)
  have "0x130 \<notin> set (js ''Library'')" by (simp add: js_def)
  then show ?thesis
    using building_entity_spans [OF _ ex, of "\<lparr>ent_type = js ''building'', ent_value = js ''library'', ent_start = 0, ent_end = 7\<rparr>"]
    by simp
qed

text \<open>A message that consists of one keyword of a building yields a building entity
  for that building, spanning the whole message.\<close>

theorem keyword_alone_entity:
  assumes "(b, ks) \<in> set building_keywords" "k \<in> set ks"
  shows "\<exists>es. extract_entities k = Some es \<and>
           \<lparr>ent_type = js ''building'', ent_value = b, ent_start = 0, ent_end = length k\<rparr> \<in> set es"
proof -
  have "\<lparr>ent_type = js ''building'', ent_value = b, ent_start = 0, ent_end = length k\<rparr>
      \<in> set (keyword_entities (js_lower k) b ks)"
    using assms(2) by (force simp: keyword_entities_def)
  then have "\<lparr>ent_type = js ''building'', ent_value = b, ent_start = 0, ent_end = length k\<rparr>
      \<in> set (building_entities (js_lower k))"
    using assms(1) by (force simp: building_entities_def)
  then show ?thesis using extract_entities_eq [of k] by auto
qed

theorem keyword_alone_entity_witness:
  "\<exists>es. extract_entities (js ''mensa'') = Some es \<and>
     \<lparr>ent_type = js ''building'', ent_value = js ''cafeteria'', ent_start = 0, ent_end = 5\<rparr> \<in> set es"
proof -
  have b: "(js ''cafeteria'', snd (building_keywords ! 1)) \<in> set building_keywords"
    by (simp add: building_keywords_def)
  have k: "js ''mensa'' \<in> set (snd (building_keywords ! 1))"
    by (simp add: building_keywords_def)
  have l: "length (js ''mensa'') = 5" by (simp add: js_def)
  show ?thesis using keyword_alone_entity [OF b k] by (simp only: l)
qed

text \<open>A pattern that matches the whole of a message with no surrounding white
  space scores 1, more than any pattern scores on any message where it matches less than
  the trimmed message: the exact-match bonus applies and the coverage is full.\<close>

theorem calculate_confidence_exact_beats_partial:
  assumes "regex_match p m = Some x" "matched m x = m" "js_trim m = m" "m \<noteq> []"
    and "regex_match q m' = Some y" "matched m' y \<noteq> js_trim m'"
  shows "calculate_confidence m' q < calculate_confidence m p"
  using calculate_confidence_whole [OF assms(1-4)] calculate_confidence_partial [OF assms(5,6)] by simp

theorem calculate_confidence_exact_witness:
  "calculate_confidence (js ''hours?'') (hd (snd (intent_patterns ! 1))) <
     calculate_confidence (js ''hours'') (hd (snd (intent_patterns ! 1)))"
proof -
  have a: "regex_match (hd (snd (intent_patterns ! 1))) (js ''hours'') = Some (0, 5)"
    by (simp add: model_simps)
  have b: "regex_match (hd (snd (intent_patterns ! 1))) (js ''hours?'') = Some (0, 5)"
    by (simp add: model_simps)
  show ?thesis
    by (rule calculate_confidence_exact_beats_partial [OF a _ _ _ b]) (simp_all add: model_simps)
qed

text \<open>The exact-match bonus is measured against the trimmed message but the
  coverage against the untrimmed one: "hours" followed by 30 spaces, an exact match,
  scores 0.8 + 3/70 (about 0.843), less than the partial match in "hours!" (0.85).\<close>

theorem padded_exact_match_scores_lower:
  "regex_match (hd (snd (intent_patterns ! 1))) (js ''hours                              '') = Some (0, 5) \<and>
   matched (js ''hours                              '') (0, 5) = js_trim (js ''hours                              '') \<and>
   calculate_confidence (js ''hours                              '') (hd (snd (intent_patterns ! 1))) = 4 / 5 + 3 / 70 \<and>
   calculate_confidence (js ''hours!'') (hd (snd (intent_patterns ! 1))) = 17 / 20"
  by (simp add: model_simps)

text \<open>Building offsets are indices into the lower-cased message: in
  "\<^emph>\<open>U+0130\<close> library" (nine code units) the entity for "library" is reported at
  3 to 10, one past where the keyword starts in the message and past its end.\<close>

theorem dotted_capital_i_offsets:
  "length ([0x130] @ js '' library'') = 9 \<and>
   extract_entities ([0x130] @ js '' library'') =
     Some [\<lparr>ent_type = js ''building'', ent_value = js ''library'', ent_start = 3, ent_end = 10\<rparr>]"
  by (simp add: model_simps exec_all.simps)

text \<open>Each keyword yields at most its first occurrence: "library, library" has one
  building entity, not one per occurrence.\<close>

theorem keyword_first_occurrence_only:
  "extract_entities (js ''library, library'') =
     Some [\<lparr>ent_type = js ''building'', ent_value = js ''library'', ent_start = 0, ent_end = 7\<rparr>]"
  by (simp add: model_simps exec_all.simps)

end
