(* ===== verification/ChatResponse.thy ===== *)
theory ChatResponse
  imports ChatNLP
begin

text \<open>
  \<open>ChatNLP.generateContextualResponse\<close> of \<open>src/uni-main/src/utils/chatNLP.ts\<close>
  and the twelve template methods it dispatches to, each with its language-keyed texts,
  suggestion chips and quick actions. The language parameter \<open>'en' | 'de'\<close> is the
  datatype \<open>lang\<close>; \<open>language === 'en' ? a : b\<close> is \<open>if language = En then a else b\<close>.
  A lookup \<open>obj[language][buildingId] || obj[language].library\<close> is \<open>lookup_or\<close>:
  the own property of the template object, or the library's text when it is absent or
  empty. Names inherited from \<open>Object.prototype\<close> (\<open>constructor\<close>, \<open>toString\<close>, \<dots>)
  are not own properties of the table and are not modelled. Texts are the source's
  literals code unit by code unit (emoji as their surrogate pairs).
  \<open>generateContextualResponse\<close> also computes the first time and day entities; the
  source never uses them, and the model leaves them out.
\<close>

record quick_action =
  qa_id :: jstr
  qa_label :: jstr
  qa_building :: "jstr option"

record nlp_response =
  response :: jstr
  suggestions :: "jstr list"
  quick_actions :: "quick_action list"

definition lookup_or :: "(jstr \<times> jstr) list \<Rightarrow> jstr \<Rightarrow> jstr \<Rightarrow> jstr" where
  "lookup_or tbl key fallback =
     (case map_of tbl key of None \<Rightarrow> fallback | Some t \<Rightarrow> (if t = [] then fallback else t))"

definition visit_action :: "jstr \<Rightarrow> lang \<Rightarrow> quick_action" where
  "visit_action building_id language =
     \<lparr>qa_id = js ''visit'', qa_label = (if language = En then js ''Visit Building'' else js ''Geb'' @ [0xE4] @ js ''ude besuchen''),
      qa_building = Some building_id\<rparr>"

text \<open>The object \<open>responses\<close> of \<open>getBuildingDirections\<close>, by language.\<close>

definition directions_responses :: "lang \<Rightarrow> (jstr \<times> jstr) list" where
  "directions_responses language =
     (case language of
        En \<Rightarrow>
        [(js ''library'',
        js ''The Central Library is located in the main campus area. I can show you the exact location!''),
        (js ''cafeteria'',
        js ''The Cafeteria/Mensa is in the central dining area. Let me guide you there!''),
        (js ''student-center'',
        js ''The Student Center is the heart of campus life. I'' @ [39] @ js ''ll show you the way!''),
        (js ''visa-services'',
        js ''Visa Services are in the international student support building. Here'' @ [39] @ js ''s the location!''),
        (js ''administration'',
        js ''The Administration Building handles all central services. I can direct you there!''),
        (js ''ude-portals'',
        js ''UDE Portals are accessible online, but I can show you computer labs and help centers!'')]
      | De \<Rightarrow>
        [(js ''library'',
        js ''Die Zentralbibliothek befindet sich im Hauptcampusbereich. Ich kann Ihnen den genauen Standort zeigen!''),
        (js ''cafeteria'',
        js ''Die Cafeteria/Mensa befindet sich im zentralen Essensbereich. Lassen Sie mich Sie dorthin f'' @ [0xFC] @ js ''hren!''),
        (js ''student-center'',
        js ''Das Studierendenzentrum ist das Herz des Campus-Lebens. Ich zeige Ihnen den Weg!''),
        (js ''visa-services'',
        js ''Die Visa-Services befinden sich im Geb'' @ [0xE4] @ js ''ude f'' @ [0xFC] @ js ''r internationale Studierendenbetreuung. Hier ist der Standort!''),
        (js ''administration'',
        js ''Das Verwaltungsgeb'' @ [0xE4] @ js ''ude '' @ [0xFC] @ js ''bernimmt alle zentralen Dienstleistungen. Ich kann Sie dorthin leiten!''),
        (js ''ude-portals'',
        js ''UDE-Portale sind online zug'' @ [0xE4] @ js ''nglich, aber ich kann Ihnen Computerlabore und Hilfezentren zeigen!'')])"

definition get_building_directions :: "jstr \<Rightarrow> lang \<Rightarrow> nlp_response" where
  "get_building_directions building_id language =
     \<lparr>response = lookup_or (directions_responses language) building_id
                   (lookup_or (directions_responses language) (js ''library'') []),
      suggestions = (if language = En
        then [js ''Show on map'', js ''Get directions'', js ''Building hours'', js ''Contact info'']
        else [js ''Auf Karte zeigen'', js ''Wegbeschreibung'', [0xD6] @ js ''ffnungszeiten'', js ''Kontakt-Info'']),
      quick_actions = [visit_action building_id language]\<rparr>"

text \<open>The object \<open>hours\<close> of \<open>getBuildingHours\<close>, by language.\<close>

definition hours_responses :: "lang \<Rightarrow> (jstr \<times> jstr) list" where
  "hours_responses language =
     (case language of
        En \<Rightarrow>
        [(js ''library'',
        js ''Library Hours:'' @ [10, 0xD83D, 0xDCDA] @ js '' Monday-Friday: 8AM-10PM'' @ [10, 0xD83D, 0xDCDA] @ js '' Saturday: 9AM-8PM'' @ [10, 0xD83D, 0xDCDA] @ js '' Sunday: 10AM-6PM''),
        (js ''cafeteria'',
        js ''Cafeteria Hours:'' @ [10, 0xD83C, 0xDF7D, 0xFE0F] @ js '' Monday-Friday: 11AM-3PM'' @ [10, 0xD83C, 0xDF7D, 0xFE0F] @ js '' Saturday: 12PM-2PM'' @ [10, 0xD83C, 0xDF7D, 0xFE0F] @ js '' Sunday: Closed''),
        (js ''student-center'',
        js ''Student Center Hours:'' @ [10, 0xD83D, 0xDC65] @ js '' Monday-Friday: 8AM-8PM'' @ [10, 0xD83D, 0xDC65] @ js '' Saturday: 10AM-4PM'' @ [10, 0xD83D, 0xDC65] @ js '' Sunday: Closed''),
        (js ''visa-services'',
        js ''Visa Services Hours:'' @ [10, 0xD83D, 0xDCCB] @ js '' Monday-Friday: 9AM-4PM'' @ [10, 0xD83D, 0xDCCB] @ js '' Weekends: Closed''),
        (js ''administration'',
        js ''Administration Hours:'' @ [10, 0xD83C, 0xDFE2] @ js '' Monday-Thursday: 8AM-4PM'' @ [10, 0xD83C, 0xDFE2] @ js '' Friday: 8AM-2PM'' @ [10, 0xD83C, 0xDFE2] @ js '' Weekends: Closed''),
        (js ''ude-portals'',
        js ''Digital Services:'' @ [10, 0xD83D, 0xDCBB] @ js '' Available 24/7 online'' @ [10, 0xD83D, 0xDCBB] @ js '' IT Support: Monday-Friday 8AM-6PM'')]
      | De \<Rightarrow>
        [(js ''library'',
        js ''Bibliothekszeiten:'' @ [10, 0xD83D, 0xDCDA] @ js '' Montag-Freitag: 8-22 Uhr'' @ [10, 0xD83D, 0xDCDA] @ js '' Samstag: 9-20 Uhr'' @ [10, 0xD83D, 0xDCDA] @ js '' Sonntag: 10-18 Uhr''),
        (js ''cafeteria'',
        js ''Cafeteria-Zeiten:'' @ [10, 0xD83C, 0xDF7D, 0xFE0F] @ js '' Montag-Freitag: 11-15 Uhr'' @ [10, 0xD83C, 0xDF7D, 0xFE0F] @ js '' Samstag: 12-14 Uhr'' @ [10, 0xD83C, 0xDF7D, 0xFE0F] @ js '' Sonntag: Geschlossen''),
        (js ''student-center'',
        js ''Studierendenzentrum-Zeiten:'' @ [10, 0xD83D, 0xDC65] @ js '' Montag-Freitag: 8-20 Uhr'' @ [10, 0xD83D, 0xDC65] @ js '' Samstag: 10-16 Uhr'' @ [10, 0xD83D, 0xDC65] @ js '' Sonntag: Geschlossen''),
        (js ''visa-services'',
        js ''Visa-Services-Zeiten:'' @ [10, 0xD83D, 0xDCCB] @ js '' Montag-Freitag: 9-16 Uhr'' @ [10, 0xD83D, 0xDCCB] @ js '' Wochenenden: Geschlossen''),
        (js ''administration'',
        js ''Verwaltungszeiten:'' @ [10, 0xD83C, 0xDFE2] @ js '' Montag-Donnerstag: 8-16 Uhr'' @ [10, 0xD83C, 0xDFE2] @ js '' Freitag: 8-14 Uhr'' @ [10, 0xD83C, 0xDFE2] @ js '' Wochenenden: Geschlossen''),
        (js ''ude-portals'',
        js ''Digitale Services:'' @ [10, 0xD83D, 0xDCBB] @ js '' 24/7 online verf'' @ [0xFC] @ js ''gbar'' @ [10, 0xD83D, 0xDCBB] @ js '' IT-Support: Montag-Freitag 8-18 Uhr'')])"

definition get_building_hours :: "jstr \<Rightarrow> lang \<Rightarrow> nlp_response" where
  "get_building_hours building_id language =
     \<lparr>response = lookup_or (hours_responses language) building_id
                   (lookup_or (hours_responses language) (js ''library'') []),
      suggestions = (if language = En
        then [js ''Visit building'', js ''Contact info'', js ''Services available'']
        else [js ''Geb'' @ [0xE4] @ js ''ude besuchen'', js ''Kontakt-Info'', js ''Verf'' @ [0xFC] @ js ''gbare Services'']),
      quick_actions = [visit_action building_id language]\<rparr>"

definition get_building_contact :: "jstr \<Rightarrow> lang \<Rightarrow> nlp_response" where
  "get_building_contact building_id language =
     \<lparr>response = (if language = En
        then js ''Contact information for this building is available. I can show you the specific contact details and help you get in touch with the right department.''
        else js ''Kontaktinformationen f'' @ [0xFC] @ js ''r dieses Geb'' @ [0xE4] @ js ''ude sind verf'' @ [0xFC] @ js ''gbar. Ich kann Ihnen die spezifischen Kontaktdaten zeigen und Ihnen helfen, mit der richtigen Abteilung in Kontakt zu treten.''),
      suggestions = (if language = En
        then [js ''Visit building'', js ''General contact'', js ''Emergency contact'']
        else [js ''Geb'' @ [0xE4] @ js ''ude besuchen'', js ''Allgemeiner Kontakt'', js ''Notfallkontakt'']),
      quick_actions = [visit_action building_id language]\<rparr>"

definition get_building_services :: "jstr \<Rightarrow> lang \<Rightarrow> nlp_response" where
  "get_building_services building_id language =
     \<lparr>response = (if language = En
        then js ''This building offers various services to support your academic journey. I can show you detailed information about all available services and how to access them.''
        else js ''Dieses Geb'' @ [0xE4] @ js ''ude bietet verschiedene Services zur Unterst'' @ [0xFC] @ js ''tzung Ihrer akademischen Laufbahn. Ich kann Ihnen detaillierte Informationen '' @ [0xFC] @ js ''ber alle verf'' @ [0xFC] @ js ''gbaren Services und deren Zugang zeigen.''),
      suggestions = (if language = En
        then [js ''Visit building'', js ''Service hours'', js ''How to access'']
        else [js ''Geb'' @ [0xE4] @ js ''ude besuchen'', js ''Service-Zeiten'', js ''Zugang'']),
      quick_actions = [visit_action building_id language]\<rparr>"

definition get_building_info :: "jstr \<Rightarrow> lang \<Rightarrow> nlp_response" where
  "get_building_info building_id language =
     \<lparr>response = (if language = En
        then js ''I can provide comprehensive information about this building, including its services, hours, location, and how it can support your university experience.''
        else js ''Ich kann umfassende Informationen '' @ [0xFC] @ js ''ber dieses Geb'' @ [0xE4] @ js ''ude bereitstellen, einschlie'' @ [0xDF] @ js ''lich seiner Services, '' @ [0xD6] @ js ''ffnungszeiten, Lage und wie es Ihre Universit'' @ [0xE4] @ js ''tserfahrung unterst'' @ [0xFC] @ js ''tzen kann.''),
      suggestions = (if language = En
        then [js ''Visit building'', js ''Building hours'', js ''Available services'', js ''Contact info'']
        else [js ''Geb'' @ [0xE4] @ js ''ude besuchen'', [0xD6] @ js ''ffnungszeiten'', js ''Verf'' @ [0xFC] @ js ''gbare Services'', js ''Kontakt-Info'']),
      quick_actions = [visit_action building_id language]\<rparr>"

definition get_general_directions :: "lang \<Rightarrow> nlp_response" where
  "get_general_directions language =
     \<lparr>response = (if language = En
        then js ''I can help you find any building on campus! Which specific building or service are you looking for?''
        else js ''Ich kann Ihnen helfen, jedes Geb'' @ [0xE4] @ js ''ude auf dem Campus zu finden! Welches spezifische Geb'' @ [0xE4] @ js ''ude oder welchen Service suchen Sie?''),
      suggestions = (if language = En
        then [js ''Library'', js ''Cafeteria'', js ''Student Center'', js ''Administration'']
        else [js ''Bibliothek'', js ''Cafeteria'', js ''Studierendenzentrum'', js ''Verwaltung'']),
      quick_actions = []\<rparr>"

definition get_general_hours :: "lang \<Rightarrow> nlp_response" where
  "get_general_hours language =
     \<lparr>response = (if language = En
        then js ''I can provide operating hours for all campus buildings and services. Which specific building'' @ [39] @ js ''s hours would you like to know?''
        else js ''Ich kann '' @ [0xD6] @ js ''ffnungszeiten f'' @ [0xFC] @ js ''r alle Campus-Geb'' @ [0xE4] @ js ''ude und Services bereitstellen. Welche spezifischen Geb'' @ [0xE4] @ js ''ude-Zeiten m'' @ [0xF6] @ js ''chten Sie wissen?''),
      suggestions = (if language = En
        then [js ''Library hours'', js ''Cafeteria hours'', js ''Administration hours'', js ''All hours'']
        else [js ''Bibliothekszeiten'', js ''Cafeteria-Zeiten'', js ''Verwaltungszeiten'', js ''Alle Zeiten'']),
      quick_actions = []\<rparr>"

definition get_general_contact :: "lang \<Rightarrow> nlp_response" where
  "get_general_contact language =
     \<lparr>response = (if language = En
        then js ''Contact Information:'' @ [10, 10, 0xD83D, 0xDCDE] @ js '' Main Campus: +49 203 379-0'' @ [10, 0xD83D, 0xDCE7] @ js '' General Info: info@uni-due.de'' @ [10, 0xD83C, 0xDF10] @ js '' Website: www.uni-due.de'' @ [10, 0xD83D, 0xDCCD] @ js '' Campus Essen: Universit'' @ [0xE4] @ js ''tsstra'' @ [0xDF] @ js ''e 2, 45141 Essen'' @ [10, 0xD83D, 0xDCCD] @ js '' Campus Duisburg: Forsthausweg 2, 47057 Duisburg''
        else js ''Kontaktinformationen:'' @ [10, 10, 0xD83D, 0xDCDE] @ js '' Hauptcampus: +49 203 379-0'' @ [10, 0xD83D, 0xDCE7] @ js '' Allgemeine Info: info@uni-due.de'' @ [10, 0xD83C, 0xDF10] @ js '' Website: www.uni-due.de'' @ [10, 0xD83D, 0xDCCD] @ js '' Campus Essen: Universit'' @ [0xE4] @ js ''tsstra'' @ [0xDF] @ js ''e 2, 45141 Essen'' @ [10, 0xD83D, 0xDCCD] @ js '' Campus Duisburg: Forsthausweg 2, 47057 Duisburg''),
      suggestions = (if language = En
        then [js ''Emergency contact'', js ''Department contacts'', js ''IT support'']
        else [js ''Notfallkontakt'', js ''Abteilungskontakte'', js ''IT-Support'']),
      quick_actions = []\<rparr>"

definition get_general_services :: "lang \<Rightarrow> nlp_response" where
  "get_general_services language =
     \<lparr>response = (if language = En
        then js ''I can help you with information about all campus services including academic support, dining, student life, administrative services, and digital platforms. What specific service are you interested in?''
        else js ''Ich kann Ihnen mit Informationen '' @ [0xFC] @ js ''ber alle Campus-Services helfen, einschlie'' @ [0xDF] @ js ''lich akademischer Unterst'' @ [0xFC] @ js ''tzung, Gastronomie, Studentenleben, Verwaltungsservices und digitaler Plattformen. Welcher spezifische Service interessiert Sie?''),
      suggestions = (if language = En
        then [js ''Academic services'', js ''Student support'', js ''Dining options'', js ''Digital services'']
        else [js ''Akademische Services'', js ''Studierendenunterst'' @ [0xFC] @ js ''tzung'', js ''Speisem'' @ [0xF6] @ js ''glichkeiten'', js ''Digitale Services'']),
      quick_actions = []\<rparr>"

definition get_general_info :: "lang \<Rightarrow> nlp_response" where
  "get_general_info language =
     \<lparr>response = (if language = En
        then js ''I'' @ [39] @ js ''m your UDE Campus Assistant! I can provide information about buildings, services, hours, contact details, and help you navigate campus life. What would you like to know about?''
        else js ''Ich bin Ihr UDE Campus-Assistent! Ich kann Informationen '' @ [0xFC] @ js ''ber Geb'' @ [0xE4] @ js ''ude, Services, '' @ [0xD6] @ js ''ffnungszeiten, Kontaktdaten bereitstellen und Ihnen helfen, sich im Campus-Leben zurechtzufinden. Was m'' @ [0xF6] @ js ''chten Sie wissen?''),
      suggestions = (if language = En
        then [js ''Campus buildings'', js ''Student services'', js ''Operating hours'', js ''Contact information'']
        else [js ''Campus-Geb'' @ [0xE4] @ js ''ude'', js ''Studierendenservices'', [0xD6] @ js ''ffnungszeiten'', js ''Kontaktinformationen'']),
      quick_actions = []\<rparr>"

definition get_default_response :: "lang \<Rightarrow> nlp_response" where
  "get_default_response language =
     \<lparr>response = (if language = En
        then js ''I'' @ [39] @ js ''m here to help you navigate UDE campus! I can provide information about buildings, services, hours, and more. What would you like to know?''
        else js ''Ich bin hier, um Ihnen bei der Navigation auf dem UDE-Campus zu helfen! Ich kann Informationen '' @ [0xFC] @ js ''ber Geb'' @ [0xE4] @ js ''ude, Services, '' @ [0xD6] @ js ''ffnungszeiten und mehr bereitstellen. Was m'' @ [0xF6] @ js ''chten Sie wissen?''),
      suggestions = (if language = En
        then [js ''Find buildings'', js ''Campus hours'', js ''Contact info'', js ''Student services'']
        else [js ''Geb'' @ [0xE4] @ js ''ude finden'', js ''Campus-Zeiten'', js ''Kontakt-Info'', js ''Studierendenservices'']),
      quick_actions = []\<rparr>"


definition generate_contextual_response :: "intent \<Rightarrow> entity list \<Rightarrow> lang \<Rightarrow> nlp_response" where
  "generate_contextual_response intent entities language =
     (let building_entity = find (\<lambda>e. ent_type e = js ''building'') entities
      in if intent_name intent = js ''find_building'' then
           (case building_entity of
              Some e \<Rightarrow> get_building_directions (ent_value e) language
            | None \<Rightarrow> get_general_directions language)
         else if intent_name intent = js ''get_hours'' then
           (case building_entity of
              Some e \<Rightarrow> get_building_hours (ent_value e) language
            | None \<Rightarrow> get_general_hours language)
         else if intent_name intent = js ''get_contact'' then
           (case building_entity of
              Some e \<Rightarrow> get_building_contact (ent_value e) language
            | None \<Rightarrow> get_general_contact language)
         else if intent_name intent = js ''get_services'' then
           (case building_entity of
              Some e \<Rightarrow> get_building_services (ent_value e) language
            | None \<Rightarrow> get_general_services language)
         else if intent_name intent = js ''get_info'' then
           (case building_entity of
              Some e \<Rightarrow> get_building_info (ent_value e) language
            | None \<Rightarrow> get_general_info language)
         else get_default_response language)"

lemmas chat_response_defs [model_simps] =
  lookup_or_def visit_action_def directions_responses_def get_building_directions_def
  hours_responses_def get_building_hours_def get_building_contact_def get_building_services_def
  get_building_info_def get_general_directions_def get_general_hours_def get_general_contact_def
  get_general_services_def get_general_info_def get_default_response_def
  generate_contextual_response_def


subsection \<open>Quick actions and the library fallback\<close>

definition building_intents :: "jstr list" where
  "building_intents = [js ''find_building'', js ''get_hours'', js ''get_contact'', js ''get_services'', js ''get_info'']"

lemma quick_actions_templates [simp]:
  "quick_actions (get_building_directions b l) = [visit_action b l]"
  "quick_actions (get_building_hours b l) = [visit_action b l]"
  "quick_actions (get_building_contact b l) = [visit_action b l]"
  "quick_actions (get_building_services b l) = [visit_action b l]"
  "quick_actions (get_building_info b l) = [visit_action b l]"
  "quick_actions (get_general_directions l) = []"
  "quick_actions (get_general_hours l) = []"
  "quick_actions (get_general_contact l) = []"
  "quick_actions (get_general_services l) = []"
  "quick_actions (get_general_info l) = []"
  "quick_actions (get_default_response l) = []"
  by (simp_all add: get_building_directions_def get_building_hours_def get_building_contact_def
      get_building_services_def get_building_info_def get_general_directions_def get_general_hours_def
      get_general_contact_def get_general_services_def get_general_info_def get_default_response_def)

text \<open>A response carries one quick action, "visit" with the building of the first
  building entity, exactly when the intent is one of the five building intents and the
  entities contain a building entity; otherwise it carries none.\<close>

lemma contextual_response_quick_actions:
  "quick_actions (generate_contextual_response i es l) =
     (if intent_name i \<in> set building_intents
      then (case find (\<lambda>e. ent_type e = js ''building'') es of
              Some e \<Rightarrow> [visit_action (ent_value e) l]
            | None \<Rightarrow> [])
      else [])"
  by (simp add: generate_contextual_response_def building_intents_def Let_def split: option.splits)

lemma quick_actions_building:
  "a \<in> set (quick_actions (generate_contextual_response i es l)) \<Longrightarrow>
     \<exists>e. find (\<lambda>e. ent_type e = js ''building'') es = Some e \<and> qa_building a = Some (ent_value e)"
  unfolding contextual_response_quick_actions
  by (cases "intent_name i \<in> set building_intents"; cases "find (\<lambda>e. ent_type e = js ''building'') es")
    (auto simp: visit_action_def)

text \<open>For a building id with no template of its own, the directions and the hours
  responses are the library's.\<close>

theorem unknown_building_library_fallback:
  assumes "map_of (directions_responses l) b = None" "map_of (hours_responses l) b = None"
  shows "response (get_building_directions b l) = response (get_building_directions (js ''library'') l) \<and>
         response (get_building_hours b l) = response (get_building_hours (js ''library'') l)"
proof -
  have d: "map_of (directions_responses l) (js ''library'') \<noteq> None \<and>
      lookup_or (directions_responses l) (js ''library'') [] \<noteq> []"
    by (cases l) (simp_all add: directions_responses_def lookup_or_def js_def)
  have h: "map_of (hours_responses l) (js ''library'') \<noteq> None \<and>
      lookup_or (hours_responses l) (js ''library'') [] \<noteq> []"
    by (cases l) (simp_all add: hours_responses_def lookup_or_def js_def)
  show ?thesis
    using assms d h by (auto simp: get_building_directions_def get_building_hours_def lookup_or_def
        split: option.splits)
qed

theorem unknown_building_library_fallback_witness:
  "response (get_building_directions (js ''gym'') En) = response (get_building_directions (js ''library'') En)"
proof -
  have "map_of (directions_responses En) (js ''gym'') = None" "map_of (hours_responses En) (js ''gym'') = None"
    by (simp_all add: directions_responses_def hours_responses_def js_def)
  from unknown_building_library_fallback [OF this] show ?thesis by simp
qed

end
