(* ===== verification/EnhancedAssistant.thy ===== *)
theory EnhancedAssistant
  imports ChatResponse
begin

text \<open>
  The chat window of \<open>src/uni-main/src/components/chat/EnhancedAIAssistant.tsx\<close>:
  \<open>generateEnhancedResponse\<close>, which composes \<open>extractIntent\<close>, \<open>extractEntities\<close>
  and \<open>generateContextualResponse\<close>, and the component's message state with its
  handlers. \<open>handleSendMessage\<close> appends the user's message and schedules the reply
  with \<open>setTimeout(\<dots>, 1500 + Math.random() * 1000)\<close>; the closure captures the text,
  whether it came as \<open>messageText\<close>, and the \<open>language\<close> and \<open>soundEnabled\<close> of that
  render. A scheduled reply is an entry of \<open>pending\<close>, and since the delays are random,
  any pending reply may fire next (\<open>AFire i\<close>). A quick action's closure calls
  \<open>onBuildingSelect(buildingId)\<close>; the model records the ids it is called with. Speech
  output (\<open>speechService.speak\<close>, 500 ms after the reply) is recorded in \<open>spoken\<close>;
  whether the browser supports speech synthesis is a parameter. Message timestamps and
  the animation state are not modelled.
\<close>

datatype msg_type = MText | MVoice | MSuggestion

record chat_message =
  msg_id :: jstr
  msg_text :: jstr
  is_bot :: bool
  msg_type :: "msg_type option"
  msg_suggestions :: "jstr list option"
  msg_actions :: "quick_action list option"

definition greeting_text :: "lang \<Rightarrow> jstr" where
  "greeting_text language =
     (if language = En
      then js ''Hello! '' @ [0xD83D, 0xDC4B] @ js '' I'' @ [39] @ js ''m your enhanced UDE Campus Assistant with advanced AI capabilities. I can help you navigate the campus, find buildings, check services, answer questions about university life, and even understand voice commands. How can I assist you today?''
      else js ''Hallo! '' @ [0xD83D, 0xDC4B] @ js '' Ich bin Ihr verbesserter UDE Campus-Assistent mit erweiterten KI-F'' @ [0xE4] @ js ''higkeiten. Ich kann Ihnen helfen, sich auf dem Campus zurechtzufinden, Geb'' @ [0xE4] @ js ''ude zu finden, Services zu '' @ [0xFC] @ js ''berpr'' @ [0xFC] @ js ''fen, Fragen zum Universit'' @ [0xE4] @ js ''tsleben zu beantworten und sogar Sprachbefehle zu verstehen. Wie kann ich Ihnen heute helfen?'')"

definition greeting_suggestions :: "lang \<Rightarrow> jstr list" where
  "greeting_suggestions language =
     (if language = En
      then [js ''Find the library'', js ''Show dining options'', js ''Campus map'', js ''Voice commands'']
      else [js ''Bibliothek finden'', js ''Speisem'' @ [0xF6] @ js ''glichkeiten zeigen'', js ''Campus-Karte'', js ''Sprachbefehle''])"

definition welcome_message :: "lang \<Rightarrow> chat_message" where
  "welcome_message language =
     \<lparr>msg_id = js ''1'', msg_text = greeting_text language, is_bot = True, msg_type = Some MText,
      msg_suggestions = Some (greeting_suggestions language), msg_actions = None\<rparr>"

text \<open>\<open>generateEnhancedResponse\<close>; the message id is \<open>Date.now().toString()\<close>.\<close>

definition generate_enhanced_response :: "jstr \<Rightarrow> lang \<Rightarrow> nat \<Rightarrow> chat_message option" where
  "generate_enhanced_response user_message language now =
     do {
       intent \<leftarrow> extract_intent user_message;
       entities \<leftarrow> extract_entities user_message;
       let nlp_response = generate_contextual_response intent entities language;
       Some \<lparr>msg_id = js_digits now, msg_text = response nlp_response, is_bot = True, msg_type = Some MText,
             msg_suggestions = Some (suggestions nlp_response), msg_actions = Some (quick_actions nlp_response)\<rparr>
     }"

text \<open>A scheduled reply: the text to answer, whether it was sent as \<open>messageText\<close>,
  and the language and sound setting its closure captured.\<close>

record pending_reply =
  pr_text :: jstr
  pr_voice :: bool
  pr_language :: lang
  pr_sound :: bool

record assistant_state =
  messages :: "chat_message list"
  input_text :: jstr
  is_typing :: bool
  sound_enabled :: bool
  a_language :: lang
  pending :: "pending_reply list"
  spoken :: "(jstr \<times> lang) list"
  selected_buildings :: "jstr list"

definition assistant_init :: "lang \<Rightarrow> assistant_state" where
  "assistant_init language =
     \<lparr>messages = [welcome_message language], input_text = [], is_typing = False, sound_enabled = True,
      a_language = language, pending = [], spoken = [], selected_buildings = []\<rparr>"

text \<open>\<open>handleSendMessage(messageText?)\<close>: \<open>messageText || inputText\<close>, ignored when it
  trims to the empty string.\<close>

definition handle_send_message :: "jstr option \<Rightarrow> nat \<Rightarrow> assistant_state \<Rightarrow> assistant_state" where
  "handle_send_message message_text now st =
     (let given = (case message_text of Some t \<Rightarrow> t \<noteq> [] | None \<Rightarrow> False);
          text_to_send = (if given then the message_text else input_text st)
      in if js_trim text_to_send = [] then st
         else st\<lparr>messages := messages st @
                    [\<lparr>msg_id = js_digits now, msg_text = text_to_send, is_bot = False,
                      msg_type = Some (if given then MVoice else MText), msg_suggestions = None, msg_actions = None\<rparr>],
                 input_text := [], is_typing := True,
                 pending := pending st @
                    [\<lparr>pr_text = text_to_send, pr_voice = given, pr_language = a_language st, pr_sound = sound_enabled st\<rparr>]\<rparr>)"

text \<open>The timer of the \<open>i\<close>-th pending reply fires.\<close>

definition fire_reply :: "nat \<Rightarrow> nat \<Rightarrow> bool \<Rightarrow> assistant_state \<Rightarrow> assistant_state" where
  "fire_reply i now supported st =
     (if i < length (pending st) then
        (let p = pending st ! i
         in case generate_enhanced_response (pr_text p) (pr_language p) now of
              None \<Rightarrow> st
            | Some reply \<Rightarrow>
                st\<lparr>messages := messages st @ [reply], is_typing := False,
                   pending := take i (pending st) @ drop (Suc i) (pending st),
                   spoken := (if pr_voice p \<and> pr_sound p \<and> supported
                              then spoken st @ [(msg_text reply, pr_language p)] else spoken st)\<rparr>)
      else st)"

definition clear_chat :: "assistant_state \<Rightarrow> assistant_state" where
  "clear_chat st =
     st\<lparr>messages :=
          [\<lparr>msg_id = js ''welcome-new'',
            msg_text = (if a_language st = En then js ''Chat cleared! How can I help you today?''
                        else js ''Chat gel'' @ [0xF6] @ js ''scht! Wie kann ich Ihnen heute helfen?''),
            is_bot = True, msg_type = Some MText,
            msg_suggestions = Some (if a_language st = En
                                    then [js ''Find buildings'', js ''Campus hours'', js ''Contact info'']
                                    else [js ''Geb'' @ [0xE4] @ js ''ude finden'', js ''Campus-Zeiten'', js ''Kontakt-Info'']),
            msg_actions = None\<rparr>]\<rparr>"

text \<open>The effect on \<open>[language]\<close>: the first message gets the greeting of the new
  language.\<close>

definition change_language :: "lang \<Rightarrow> assistant_state \<Rightarrow> assistant_state" where
  "change_language language st =
     st\<lparr>a_language := language,
        messages := (case messages st of
                       [] \<Rightarrow> []
                     | m # ms \<Rightarrow> m\<lparr>msg_text := greeting_text language,
                                   msg_suggestions := Some (greeting_suggestions language)\<rparr> # ms)\<rparr>"

text \<open>A click on a quick action's button: \<open>if (action.buildingId && onBuildingSelect)\<close>.\<close>

definition click_action :: "quick_action \<Rightarrow> assistant_state \<Rightarrow> assistant_state" where
  "click_action a st =
     (case qa_building a of
        Some b \<Rightarrow> if b \<noteq> [] then st\<lparr>selected_buildings := selected_buildings st @ [b]\<rparr> else st
      | None \<Rightarrow> st)"

datatype assistant_event =
    AType jstr
  | AEnter nat
  | ASendButton nat
  | ASuggestion jstr nat
  | AVoice jstr nat
  | AFire nat nat bool
  | AClear
  | ALanguage lang
  | AToggleSound
  | AClickAction nat nat

text \<open>The events the rendered window offers: the send button only when enabled
  (\<open>disabled={!inputText.trim() || isTyping}\<close>), a suggestion chip or a quick action
  only of a message on screen.\<close>

fun assistant_step :: "assistant_event \<Rightarrow> assistant_state \<Rightarrow> assistant_state" where
  "assistant_step (AType t) st = st\<lparr>input_text := t\<rparr>"
| "assistant_step (AEnter now) st = handle_send_message None now st"
| "assistant_step (ASendButton now) st =
     (if js_trim (input_text st) = [] \<or> is_typing st then st else handle_send_message None now st)"
| "assistant_step (ASuggestion s now) st =
     (if \<exists>m \<in> set (messages st). s \<in> set (case msg_suggestions m of None \<Rightarrow> [] | Some ss \<Rightarrow> ss)
      then handle_send_message (Some s) now st else st)"
| "assistant_step (AVoice t now) st = handle_send_message (Some t) now st"
| "assistant_step (AFire i now supported) st = fire_reply i now supported st"
| "assistant_step AClear st = clear_chat st"
| "assistant_step (ALanguage l) st = change_language l st"
| "assistant_step AToggleSound st = st\<lparr>sound_enabled := \<not> sound_enabled st\<rparr>"
| "assistant_step (AClickAction k j) st =
     (if k < length (messages st) then
        (case msg_actions (messages st ! k) of
           Some acts \<Rightarrow> if j < length acts then click_action (acts ! j) st else st
         | None \<Rightarrow> st)
      else st)"

inductive assistant_reach :: "assistant_state \<Rightarrow> bool" where
  init: "assistant_reach (assistant_init l)"
| step: "assistant_reach st \<Longrightarrow> assistant_reach (assistant_step e st)"

text \<open>Every quick action of a message navigates to a building of the keyword table.\<close>

definition actions_known :: "chat_message \<Rightarrow> bool" where
  "actions_known m \<longleftrightarrow>
     (\<forall>a \<in> set (case msg_actions m of None \<Rightarrow> [] | Some acts \<Rightarrow> acts).
        \<exists>b. qa_building a = Some b \<and> b \<in> set (map fst building_keywords))"

definition assistant_ok :: "assistant_state \<Rightarrow> bool" where
  "assistant_ok st \<longleftrightarrow>
     messages st \<noteq> [] \<and> (\<forall>m \<in> set (messages st). actions_known m) \<and>
     set (selected_buildings st) \<subseteq> set (map fst building_keywords)"

lemmas assistant_defs [model_simps] =
  greeting_text_def greeting_suggestions_def welcome_message_def generate_enhanced_response_def
  assistant_init_def handle_send_message_def fire_reply_def clear_chat_def change_language_def
  click_action_def


subsection \<open>Replies\<close>

lemma generate_enhanced_response_eq:
  "\<exists>i es. extract_intent m = Some i \<and> extract_entities m = Some es \<and>
     generate_enhanced_response m l now =
       Some \<lparr>msg_id = js_digits now, msg_text = response (generate_contextual_response i es l), is_bot = True,
             msg_type = Some MText, msg_suggestions = Some (suggestions (generate_contextual_response i es l)),
             msg_actions = Some (quick_actions (generate_contextual_response i es l))\<rparr>"
  using extract_intent_Some [of m] extract_entities_Some [of m]
  by (auto simp: generate_enhanced_response_def Let_def)

lemma generate_enhanced_response_Some: "\<exists>r. generate_enhanced_response m l now = Some r"
  using generate_enhanced_response_eq by blast

lemma reply_actions_known: "generate_enhanced_response m l now = Some r \<Longrightarrow> actions_known r"
proof -
  assume g: "generate_enhanced_response m l now = Some r"
  obtain i es where ies: "extract_entities m = Some es"
    and r: "r = \<lparr>msg_id = js_digits now, msg_text = response (generate_contextual_response i es l), is_bot = True,
             msg_type = Some MText, msg_suggestions = Some (suggestions (generate_contextual_response i es l)),
             msg_actions = Some (quick_actions (generate_contextual_response i es l))\<rparr>"
    using generate_enhanced_response_eq [of m l now] g by auto
  have "\<exists>b. qa_building a = Some b \<and> b \<in> set (map fst building_keywords)"
    if a: "a \<in> set (quick_actions (generate_contextual_response i es l))" for a
  proof -
    obtain e where f: "find (\<lambda>e. ent_type e = js ''building'') es = Some e"
      and b: "qa_building a = Some (ent_value e)"
      using quick_actions_building [OF a] by blast
    have "ent_type e = js ''building'' \<and> e \<in> set es" using find_SomeD [OF f] by simp
    then have "ent_value e \<in> set (map fst building_keywords)"
      using extract_entities_building_id [OF ies] by blast
    with b show ?thesis by blast
  qed
  then show ?thesis using r by (simp add: actions_known_def)
qed

lemma assistant_ok_init: "assistant_ok (assistant_init l)"
  by (simp add: assistant_ok_def assistant_init_def welcome_message_def actions_known_def)

lemma assistant_ok_send: "assistant_ok st \<Longrightarrow> assistant_ok (handle_send_message t now st)"
  by (auto simp: assistant_ok_def handle_send_message_def actions_known_def Let_def)

lemma assistant_ok_fire: "assistant_ok st \<Longrightarrow> assistant_ok (fire_reply i now s st)"
  by (auto simp: assistant_ok_def fire_reply_def Let_def dest: reply_actions_known split: option.splits)

lemma assistant_ok_click:
  "assistant_ok st \<Longrightarrow> k < length (messages st) \<Longrightarrow> msg_actions (messages st ! k) = Some acts \<Longrightarrow>
     j < length acts \<Longrightarrow> assistant_ok (click_action (acts ! j) st)"
proof -
  assume ok: "assistant_ok st" and k: "k < length (messages st)" and a: "msg_actions (messages st ! k) = Some acts"
    and j: "j < length acts"
  have "actions_known (messages st ! k)" using ok k by (simp add: assistant_ok_def)
  moreover have "acts ! j \<in> set acts" using j by simp
  ultimately have "\<exists>b. qa_building (acts ! j) = Some b \<and> b \<in> set (map fst building_keywords)"
    using a unfolding actions_known_def by simp
  then obtain b where "qa_building (acts ! j) = Some b" "b \<in> set (map fst building_keywords)" by blast
  with ok show ?thesis by (auto simp: assistant_ok_def click_action_def)
qed

lemma actions_known_text [simp]:
  "actions_known (m\<lparr>msg_text := t, msg_suggestions := ss\<rparr>) = actions_known m"
  by (simp add: actions_known_def)

lemma assistant_ok_fields [simp]:
  "assistant_ok (st\<lparr>input_text := t\<rparr>) = assistant_ok st"
  "assistant_ok (st\<lparr>sound_enabled := b\<rparr>) = assistant_ok st"
  by (simp_all add: assistant_ok_def)

lemma assistant_ok_step: "assistant_ok st \<Longrightarrow> assistant_ok (assistant_step e st)"
proof (cases e)
  case (AClickAction k j)
  assume ok: "assistant_ok st"
  then show ?thesis using AClickAction assistant_ok_click [OF ok]
    by (auto split: option.splits)
next
  case AClear
  assume "assistant_ok st"
  then show ?thesis using AClear by (simp add: assistant_ok_def clear_chat_def actions_known_def)
next
  case (ALanguage l)
  assume "assistant_ok st"
  then show ?thesis using ALanguage
    by (cases "messages st") (auto simp: assistant_ok_def change_language_def)
qed (simp_all add: assistant_ok_send assistant_ok_fire)

lemma fire_reply_none_pending: "length (pending st) \<le> i \<Longrightarrow> fire_reply i now s st = st"
  by (simp add: fire_reply_def)

lemma pending_fire_funpow:
  "n \<le> length (pending st) \<Longrightarrow>
   pending ((fire_reply 0 now s ^^ n) st) = drop n (pending st) \<and>
   messages ((fire_reply 0 now s ^^ n) st) =
     messages st @ map (\<lambda>p. the (generate_enhanced_response (pr_text p) (pr_language p) now)) (take n (pending st)) \<and>
   spoken ((fire_reply 0 now s ^^ n) st) =
     spoken st @ map (\<lambda>p. (msg_text (the (generate_enhanced_response (pr_text p) (pr_language p) now)), pr_language p))
                   (filter (\<lambda>p. pr_voice p \<and> pr_sound p \<and> s) (take n (pending st))) \<and>
   (0 < n \<longrightarrow> \<not> is_typing ((fire_reply 0 now s ^^ n) st))"
proof (induction n)
  case 0
  then show ?case by simp
next
  case (Suc n)
  let ?st = "(fire_reply 0 now s ^^ n) st"
  let ?p = "pending st ! n"
  have lt: "n < length (pending st)" using Suc.prems by simp
  have IH: "pending ?st = drop n (pending st)" using Suc.IH Suc.prems by simp
  then have hd: "pending ?st ! 0 = ?p" and ne: "0 < length (pending ?st)" using lt by simp_all
  obtain r where r: "generate_enhanced_response (pr_text ?p) (pr_language ?p) now = Some r"
    using generate_enhanced_response_Some by blast
  have tk: "take (Suc n) (pending st) = take n (pending st) @ [?p]" using lt by (rule take_Suc_conv_app_nth)
  have "fire_reply 0 now s ?st =
          ?st\<lparr>messages := messages ?st @ [r], is_typing := False, pending := drop 1 (pending ?st),
              spoken := (if pr_voice ?p \<and> pr_sound ?p \<and> s then spoken ?st @ [(msg_text r, pr_language ?p)] else spoken ?st)\<rparr>"
    using ne hd r by (simp add: fire_reply_def Let_def)
  moreover have "n \<le> length (pending st)" using lt by simp
  note IH' = Suc.IH [OF this]
  ultimately show ?case using r tk
    by (cases "pr_voice ?p \<and> pr_sound ?p \<and> s") (simp_all add: IH')
qed

subsection \<open>Properties\<close>

text \<open>C34. In every reachable state of the chat window there is at least one message,
  every quick action of every message names a building of the keyword table, and every
  id passed to \<open>onBuildingSelect\<close> is such a building: the extractor, the response
  generator and the window agree on building ids.\<close>

theorem assistant_reach_ok:
  assumes "assistant_reach st"
  shows "messages st \<noteq> [] \<and>
    (\<forall>m \<in> set (messages st). \<forall>a \<in> set (case msg_actions m of None \<Rightarrow> [] | Some acts \<Rightarrow> acts).
        \<exists>b. qa_building a = Some b \<and> b \<in> set (map fst building_keywords)) \<and>
    set (selected_buildings st) \<subseteq> set (map fst building_keywords)"
proof -
  have "assistant_ok st"
    using assms by (induction rule: assistant_reach.induct) (simp_all add: assistant_ok_init assistant_ok_step)
  then show ?thesis by (simp add: assistant_ok_def actions_known_def)
qed

theorem assistant_reach_ok_witness: "messages (assistant_init En) \<noteq> []"
  using assistant_reach_ok [OF assistant_reach.init [of En]] by simp

text \<open>When the timer of a pending reply fires, the window appends exactly the
  reply \<open>generateEnhancedResponse\<close> computes for that text in the captured language,
  removes that entry from the pending replies, and clears the typing indicator.\<close>

theorem fire_reply_answers:
  assumes "i < length (pending st)"
  shows "\<exists>r. generate_enhanced_response (pr_text (pending st ! i)) (pr_language (pending st ! i)) now = Some r \<and>
     messages (fire_reply i now s st) = messages st @ [r] \<and>
     pending (fire_reply i now s st) = take i (pending st) @ drop (Suc i) (pending st) \<and>
     \<not> is_typing (fire_reply i now s st)"
proof -
  obtain r where r: "generate_enhanced_response (pr_text (pending st ! i)) (pr_language (pending st ! i)) now = Some r"
    using generate_enhanced_response_Some by blast
  then show ?thesis using assms by (simp add: fire_reply_def Let_def)
qed

theorem fire_reply_answers_witness:
  "\<exists>r. generate_enhanced_response (js ''hi'') En 2 = Some r \<and>
     messages (fire_reply 0 2 False (handle_send_message (Some (js ''hi'')) 1 (assistant_init En))) =
       messages (handle_send_message (Some (js ''hi'')) 1 (assistant_init En)) @ [r]"
proof -
  have p: "pending (handle_send_message (Some (js ''hi'')) 1 (assistant_init En)) =
      [\<lparr>pr_text = js ''hi'', pr_voice = True, pr_language = En, pr_sound = True\<rparr>]"
    by (simp add: model_simps Let_def)
  then have l: "0 < length (pending (handle_send_message (Some (js ''hi'')) 1 (assistant_init En)))" by simp
  have e: "pending (handle_send_message (Some (js ''hi'')) 1 (assistant_init En)) ! 0 =
      \<lparr>pr_text = js ''hi'', pr_voice = True, pr_language = En, pr_sound = True\<rparr>"
    using p by simp
  from fire_reply_answers [OF l, of 2 False] show ?thesis
    unfolding e pending_reply.select_convs by blast
qed

text \<open>C35. Every scheduled reply is eventually delivered, in order: firing the pending
  timers one after the other empties the queue, appends to the conversation the reply the
  response pipeline gives to each pending message, in the order they were sent, speaks
  the replies to voice messages sent with sound on (when speech is supported), and turns
  the typing indicator off.\<close>

theorem pending_replies_all_answered:
  assumes "pending st \<noteq> []"
  shows "pending ((fire_reply 0 now s ^^ length (pending st)) st) = [] \<and>
         messages ((fire_reply 0 now s ^^ length (pending st)) st) =
           messages st @ map (\<lambda>p. the (generate_enhanced_response (pr_text p) (pr_language p) now)) (pending st) \<and>
         spoken ((fire_reply 0 now s ^^ length (pending st)) st) =
           spoken st @ map (\<lambda>p. (msg_text (the (generate_enhanced_response (pr_text p) (pr_language p) now)), pr_language p))
                         (filter (\<lambda>p. pr_voice p \<and> pr_sound p \<and> s) (pending st)) \<and>
         \<not> is_typing ((fire_reply 0 now s ^^ length (pending st)) st)"
  using pending_fire_funpow [of "length (pending st)" st now s] assms by simp

theorem pending_replies_all_answered_witness:
  "pending (handle_send_message (Some (js ''hi'')) 1 (assistant_init En)) \<noteq> [] \<and>
   messages ((fire_reply 0 2 False ^^ 1) (handle_send_message (Some (js ''hi'')) 1 (assistant_init En))) =
     messages (handle_send_message (Some (js ''hi'')) 1 (assistant_init En)) @
       [the (generate_enhanced_response (js ''hi'') En 2)]"
proof -
  have p: "pending (handle_send_message (Some (js ''hi'')) 1 (assistant_init En)) =
      [\<lparr>pr_text = js ''hi'', pr_voice = True, pr_language = En, pr_sound = True\<rparr>]"
    by (simp add: model_simps Let_def)
  then have "pending (handle_send_message (Some (js ''hi'')) 1 (assistant_init En)) \<noteq> []" by simp
  from pending_replies_all_answered [OF this, of 2 False] p show ?thesis by simp
qed

text \<open>A message that is empty after trimming is ignored; any other message is
  appended as the user's message, clears the input and schedules exactly one reply.\<close>

theorem send_message_guard:
  "handle_send_message t now st =
     (let text_to_send = (case t of Some x \<Rightarrow> if x \<noteq> [] then x else input_text st | None \<Rightarrow> input_text st)
      in if js_trim text_to_send = [] then st
         else st\<lparr>messages := messages st @ [\<lparr>msg_id = js_digits now, msg_text = text_to_send, is_bot = False,
                     msg_type = Some (if t \<noteq> None \<and> t \<noteq> Some [] then MVoice else MText),
                     msg_suggestions = None, msg_actions = None\<rparr>],
                 input_text := [], is_typing := True,
                 pending := pending st @ [\<lparr>pr_text = text_to_send, pr_voice = (t \<noteq> None \<and> t \<noteq> Some []),
                                           pr_language = a_language st, pr_sound = sound_enabled st\<rparr>]\<rparr>)"
  by (cases t) (auto simp: handle_send_message_def Let_def)


text \<open>Replies can arrive out of order and the typing indicator can go off while a
  reply is still pending: the Enter key sends while a reply is pending (only the send
  button is disabled then), and each reply's random delay is independent. After "hi" and
  "help" are sent and the second timer fires first, the answer to "help" follows the two
  questions, the indicator is off, and "hi" is still unanswered.\<close>

theorem replies_out_of_order:
  "map msg_text (messages (fold assistant_step
      [AType (js ''hi''), AEnter 1, AType (js ''help''), AEnter 2, AFire 1 3 False] (assistant_init En))) =
     [greeting_text En, js ''hi'', js ''help'', response (get_general_services En)] \<and>
   \<not> is_typing (fold assistant_step
      [AType (js ''hi''), AEnter 1, AType (js ''help''), AEnter 2, AFire 1 3 False] (assistant_init En)) \<and>
   map pr_text (pending (fold assistant_step
      [AType (js ''hi''), AEnter 1, AType (js ''help''), AEnter 2, AFire 1 3 False] (assistant_init En))) =
     [js ''hi'']"
proof -
  have "fold assistant_step [AType (js ''hi''), AEnter 1, AType (js ''help''), AEnter 2, AFire 1 3 False]
       (assistant_init En) = fire_reply 1 3 False (handle_send_message None 2 (handle_send_message None 1
          ((assistant_init En)\<lparr>input_text := js ''hi''\<rparr>)\<lparr>input_text := js ''help''\<rparr>))"
    by simp
  also have "\<dots> = \<lparr>messages = [welcome_message En,
        \<lparr>msg_id = js_digits 1, msg_text = js ''hi'', is_bot = False, msg_type = Some MText, msg_suggestions = None, msg_actions = None\<rparr>,
        \<lparr>msg_id = js_digits 2, msg_text = js ''help'', is_bot = False, msg_type = Some MText, msg_suggestions = None, msg_actions = None\<rparr>,
        \<lparr>msg_id = js_digits 3, msg_text = response (get_general_services En), is_bot = True, msg_type = Some MText,
          msg_suggestions = Some (suggestions (get_general_services En)), msg_actions = Some []\<rparr>],
      input_text = [], is_typing = False, sound_enabled = True, a_language = En,
      pending = [\<lparr>pr_text = js ''hi'', pr_voice = False, pr_language = En, pr_sound = True\<rparr>],
      spoken = [], selected_buildings = []\<rparr>"
    by (simp add: model_simps Let_def exec_all.simps del: welcome_message_def greeting_text_def greeting_suggestions_def
          get_general_services_def)
  finally have eq: "fold assistant_step [AType (js ''hi''), AEnter 1, AType (js ''help''), AEnter 2, AFire 1 3 False]
       (assistant_init En) = \<dots>" .
  show ?thesis unfolding eq by (simp add: welcome_message_def)
qed

text \<open>Clicking a suggestion chip sends it as \<open>messageText\<close>, so the message is
  marked as a voice message and, with sound on, its reply is read aloud, as for spoken
  input.\<close>

theorem suggestion_click_spoken:
  "msg_type (messages (fold assistant_step [ASuggestion (js ''Find the library'') 1, AFire 0 2 True]
      (assistant_init En)) ! 1) = Some MVoice \<and>
   spoken (fold assistant_step [ASuggestion (js ''Find the library'') 1, AFire 0 2 True] (assistant_init En)) =
     [(response (get_building_directions (js ''library'') En), En)]"
proof -
  have s: "js ''Find the library'' \<in> set (greeting_suggestions En)" by (simp add: greeting_suggestions_def)
  have "fold assistant_step [ASuggestion (js ''Find the library'') 1, AFire 0 2 True] (assistant_init En) =
      fire_reply 0 2 True (handle_send_message (Some (js ''Find the library'')) 1 (assistant_init En))"
    using s by (auto simp: assistant_init_def welcome_message_def)
  also have "\<dots> = \<lparr>messages = [welcome_message En,
        \<lparr>msg_id = js_digits 1, msg_text = js ''Find the library'', is_bot = False, msg_type = Some MVoice,
          msg_suggestions = None, msg_actions = None\<rparr>,
        \<lparr>msg_id = js_digits 2, msg_text = response (get_building_directions (js ''library'') En), is_bot = True,
          msg_type = Some MText, msg_suggestions = Some (suggestions (get_building_directions (js ''library'') En)),
          msg_actions = Some [visit_action (js ''library'') En]\<rparr>],
      input_text = [], is_typing = False, sound_enabled = True, a_language = En, pending = [],
      spoken = [(response (get_building_directions (js ''library'') En), En)], selected_buildings = []\<rparr>"
    by (simp add: model_simps Let_def exec_all.simps del: welcome_message_def greeting_text_def greeting_suggestions_def
          get_building_directions_def visit_action_def)
  finally have eq: "fold assistant_step [ASuggestion (js ''Find the library'') 1, AFire 0 2 True] (assistant_init En) = \<dots>" .
  show ?thesis unfolding eq by simp
qed


end
