(* ===== verification/AuthService.thy ===== *)
theory AuthService
  imports JsString
begin

text \<open>
  The demo mode of \<open>src/uni-main/src/services/authService.ts\<close> (\<open>isDemoMode\<close> holds
  when no Supabase URL is configured; the Supabase branches call a remote service and are
  not modelled). The service object holds \<open>users\<close>, a \<open>Map\<close> from e-mail address to
  the stored user, kept in insertion order (\<open>al_set\<close>); \<open>localStorage\<close> is a keyed
  store of its own. \<open>JSON.stringify\<close>/\<open>JSON.parse\<close> of the user array are modelled
  by storing the array itself (\<open>SUsers\<close>); any other text under the key fails to parse
  and loads nothing. The clock \<open>Date.now()\<close> is a parameter of \<open>signUp\<close>. Every method
  returns \<open>{user, error}\<close> or \<open>{profile, error}\<close> with exactly one of them set; that
  is a sum \<open>jstr + 'a\<close>, the error message on the left.
\<close>

datatype campus = Duisburg | Essen

record notification_settings =
  n_events :: bool
  n_weather :: bool
  n_academic :: bool
  n_social :: bool

record accessibility_settings =
  a_screen_reader :: bool
  a_high_contrast :: bool
  a_large_text :: bool

text \<open>\<open>UserProfile\<close> of \<open>types/User.ts\<close>; an optional field is an option.\<close>

record user_profile =
  prof_id :: jstr
  prof_name :: jstr
  prof_email :: jstr
  student_id :: "jstr option"
  program :: "jstr option"
  year :: "int option"
  campus :: "campus option"
  interests :: "jstr list option"
  favorite_buildings :: "jstr list option"
  bio :: "jstr option"
  is_international :: "bool option"
  language :: "lang option"
  profile_photo :: "jstr option"
  notifications :: "notification_settings option"
  accessibility :: "accessibility_settings option"

text \<open>\<open>Partial<UserProfile>\<close>: \<open>None\<close> is an absent key, \<open>Some v\<close> a present one; an
  optional field may be present with the value \<open>undefined\<close> (\<open>Some None\<close>).\<close>

record profile_update =
  u_id :: "jstr option"
  u_name :: "jstr option"
  u_email :: "jstr option"
  u_student_id :: "jstr option option"
  u_program :: "jstr option option"
  u_year :: "int option option"
  u_campus :: "campus option option"
  u_interests :: "jstr list option option"
  u_favorite_buildings :: "jstr list option option"
  u_bio :: "jstr option option"
  u_is_international :: "bool option option"
  u_language :: "lang option option"
  u_profile_photo :: "jstr option option"
  u_notifications :: "notification_settings option option"
  u_accessibility :: "accessibility_settings option option"

record auth_user =
  au_id :: jstr
  au_email :: jstr
  au_name :: jstr

record sign_up_data =
  sd_email :: jstr
  sd_password :: jstr
  sd_name :: jstr
  sd_student_id :: "jstr option"
  sd_program :: "jstr option"
  sd_year :: "int option"
  sd_campus :: "campus option"
  sd_profile_photo :: "jstr option"

record user_data =
  ud_email :: jstr
  ud_password :: jstr
  ud_profile :: user_profile

text \<open>What \<open>localStorage\<close> holds under a key: the user array written by
  \<open>saveUsers\<close>, or a plain string.\<close>

datatype stored = SUsers "user_data list" | SText jstr

record auth_state =
  users :: "(jstr \<times> user_data) list"
  local_storage :: "(jstr \<times> stored) list"

definition users_key :: jstr where
  "users_key = js ''ude-users''"

definition demo_email :: jstr where
  "demo_email = js ''demo@uni-due.de''"

definition demo_user_data :: user_data where
  "demo_user_data =
     \<lparr>ud_email = js ''demo@uni-due.de'', ud_password = js ''password123'',
      ud_profile =
        \<lparr>prof_id = js ''demo-user-1'', prof_name = js ''Demo Student'', prof_email = js ''demo@uni-due.de'',
         student_id = Some (js ''UDE2024001''), program = Some (js ''Computer Science''), year = Some 2,
         campus = Some Essen,
         interests = Some [js ''Technology'', js ''Research'', js ''International Exchange''],
         favorite_buildings = Some [js ''library'', js ''student-center''],
         bio = Some (js ''Demo user for UDE Campus Navigator.''), is_international = Some True,
         language = Some En,
         profile_photo = None,
         notifications = Some \<lparr>n_events = True, n_weather = True, n_academic = True, n_social = False\<rparr>,
         accessibility = Some \<lparr>a_screen_reader = False, a_high_contrast = False, a_large_text = False\<rparr>\<rparr>\<rparr>"

text \<open>The constructor: the users saved under \<open>ude-users\<close>, each set under its own
  e-mail address in array order, then the demo user, set last.\<close>

definition load_users :: "(jstr \<times> stored) list \<Rightarrow> (jstr \<times> user_data) list" where
  "load_users ls =
     (case map_of ls users_key of
        Some (SUsers xs) \<Rightarrow> fold (\<lambda>ud m. al_set m (ud_email ud) ud) xs []
      | _ \<Rightarrow> [])"

definition auth_init :: "(jstr \<times> stored) list \<Rightarrow> auth_state" where
  "auth_init ls = \<lparr>users = al_set (load_users ls) demo_email demo_user_data, local_storage = ls\<rparr>"

definition save_users :: "auth_state \<Rightarrow> auth_state" where
  "save_users st = st\<lparr>local_storage := al_set (local_storage st) users_key (SUsers (map snd (users st)))\<rparr>"

definition new_profile :: "jstr \<Rightarrow> sign_up_data \<Rightarrow> user_profile" where
  "new_profile user_id d =
     \<lparr>prof_id = user_id, prof_name = sd_name d, prof_email = sd_email d,
      student_id = sd_student_id d, program = sd_program d, year = sd_year d,
      campus = Some (case sd_campus d of None \<Rightarrow> Essen | Some c \<Rightarrow> c),
      interests = Some [], favorite_buildings = Some [], bio = Some [], is_international = Some False,
      language = Some En, profile_photo = sd_profile_photo d,
      notifications = Some \<lparr>n_events = True, n_weather = True, n_academic = True, n_social = False\<rparr>,
      accessibility = Some \<lparr>a_screen_reader = False, a_high_contrast = False, a_large_text = False\<rparr>\<rparr>"

definition sign_up :: "nat \<Rightarrow> sign_up_data \<Rightarrow> auth_state \<Rightarrow> (jstr + auth_user) \<times> auth_state" where
  "sign_up now d st =
     (if map_of (users st) (sd_email d) \<noteq> None
      then (Inl (js ''User already exists with this email''), st)
      else
        (let user_id = js ''user-'' @ js_digits now;
             st1 = save_users (st\<lparr>users := al_set (users st) (sd_email d)
                      \<lparr>ud_email = sd_email d, ud_password = sd_password d, ud_profile = new_profile user_id d\<rparr>\<rparr>);
             st2 = (case sd_profile_photo d of
                      Some photo \<Rightarrow>
                        if photo = [] then st1
                        else st1\<lparr>local_storage := al_set (local_storage st1) (js ''ude-profile-photo-'' @ user_id) (SText photo)\<rparr>
                    | None \<Rightarrow> st1)
         in (Inr \<lparr>au_id = user_id, au_email = sd_email d, au_name = sd_name d\<rparr>, st2)))"

definition sign_in :: "jstr \<Rightarrow> jstr \<Rightarrow> auth_state \<Rightarrow> jstr + auth_user" where
  "sign_in email password st =
     (case map_of (users st) email of
        None \<Rightarrow> Inl (js ''Invalid email or password'')
      | Some ud \<Rightarrow>
          if ud_password ud \<noteq> password then Inl (js ''Invalid email or password'')
          else Inr \<lparr>au_id = prof_id (ud_profile ud), au_email = ud_email ud, au_name = prof_name (ud_profile ud)\<rparr>)"

text \<open>\<open>signOut\<close> and \<open>getCurrentUser\<close> in demo mode: no error, and no session.\<close>

definition sign_out :: "jstr option" where
  "sign_out = None"

definition get_current_user :: "auth_user option \<times> jstr option" where
  "get_current_user = (None, None)"

definition find_profile :: "jstr \<Rightarrow> auth_state \<Rightarrow> (jstr \<times> user_data) option" where
  "find_profile user_id st = find (\<lambda>(e, ud). prof_id (ud_profile ud) = user_id) (users st)"

definition get_user_profile :: "jstr \<Rightarrow> auth_state \<Rightarrow> jstr + user_profile" where
  "get_user_profile user_id st =
     (case find_profile user_id st of
        None \<Rightarrow> Inl (js ''Profile not found'')
      | Some (e, ud) \<Rightarrow> Inr (ud_profile ud))"

definition override :: "'a option \<Rightarrow> 'a \<Rightarrow> 'a" where
  "override u x = (case u of None \<Rightarrow> x | Some v \<Rightarrow> v)"

text \<open>\<open>{ ...userData.profile, ...updates }\<close>: every key present in the update
  replaces the profile's.\<close>

definition merge_profile :: "user_profile \<Rightarrow> profile_update \<Rightarrow> user_profile" where
  "merge_profile p u =
     \<lparr>prof_id = override (u_id u) (prof_id p), prof_name = override (u_name u) (prof_name p),
      prof_email = override (u_email u) (prof_email p),
      student_id = override (u_student_id u) (student_id p), program = override (u_program u) (program p),
      year = override (u_year u) (year p), campus = override (u_campus u) (campus p),
      interests = override (u_interests u) (interests p),
      favorite_buildings = override (u_favorite_buildings u) (favorite_buildings p),
      bio = override (u_bio u) (bio p), is_international = override (u_is_international u) (is_international p),
      language = override (u_language u) (language p), profile_photo = override (u_profile_photo u) (profile_photo p),
      notifications = override (u_notifications u) (notifications p),
      accessibility = override (u_accessibility u) (accessibility p)\<rparr>"

definition update_user_profile ::
  "jstr \<Rightarrow> profile_update \<Rightarrow> auth_state \<Rightarrow> (jstr + user_profile) \<times> auth_state" where
  "update_user_profile user_id updates st =
     (case find_profile user_id st of
        None \<Rightarrow> (Inl (js ''Profile not found''), st)
      | Some (e, ud) \<Rightarrow>
          (let ud' = ud\<lparr>ud_profile := merge_profile (ud_profile ud) updates\<rparr>
           in (Inr (ud_profile ud'), save_users (st\<lparr>users := al_set (users st) e ud'\<rparr>))))"

subsection \<open>The service as a state machine\<close>

text \<open>The calls that change the service's state, and a reload of the page, which
  constructs a new service from what \<open>localStorage\<close> holds.\<close>

datatype auth_action =
    ASignUp nat sign_up_data
  | AUpdateProfile jstr profile_update
  | AReload

fun auth_step :: "auth_action \<Rightarrow> auth_state \<Rightarrow> auth_state" where
  "auth_step (ASignUp now d) st = snd (sign_up now d st)"
| "auth_step (AUpdateProfile uid u) st = snd (update_user_profile uid u st)"
| "auth_step AReload st = auth_init (local_storage st)"

inductive auth_reach :: "auth_state \<Rightarrow> bool" where
  init: "auth_reach (auth_init ls)"
| step: "auth_reach st \<Longrightarrow> auth_reach (auth_step a st)"

text \<open>Well-formed user map: every entry is stored under its own e-mail address, the
  keys are distinct, and the demo user is present.\<close>

definition users_wf :: "(jstr \<times> user_data) list \<Rightarrow> bool" where
  "users_wf us \<longleftrightarrow>
     distinct (map fst us) \<and> (\<forall>(k, ud) \<in> set us. k = ud_email ud) \<and> demo_email \<in> set (map fst us)"

text \<open>The empty update \<open>{}\<close>.\<close>

definition no_update :: profile_update where
  "no_update = \<lparr>u_id = None, u_name = None, u_email = None, u_student_id = None, u_program = None,
     u_year = None, u_campus = None, u_interests = None, u_favorite_buildings = None, u_bio = None,
     u_is_international = None, u_language = None, u_profile_photo = None, u_notifications = None,
     u_accessibility = None\<rparr>"

lemmas auth_defs [model_simps] =
  users_key_def demo_email_def load_users_def auth_init_def save_users_def new_profile_def
  sign_up_def sign_in_def find_profile_def get_user_profile_def override_def merge_profile_def
  update_user_profile_def

subsection \<open>Lemmas on lists and the user map\<close>

lemma find_Some_split:
  "find P xs = Some x \<Longrightarrow> \<exists>ys zs. xs = ys @ x # zs \<and> (\<forall>y \<in> set ys. \<not> P y) \<and> P x"
proof (induction xs)
  case Nil
  then show ?case by simp
next
  case (Cons a xs)
  show ?case
  proof (cases "P a")
    case True
    with Cons.prems show ?thesis by (intro exI [of _ "[]"] exI [of _ xs]) auto
  next
    case False
    with Cons obtain ys zs where "xs = ys @ x # zs" "\<forall>y \<in> set ys. \<not> P y" "P x" by auto
    with False show ?thesis by (intro exI [of _ "a # ys"] exI [of _ zs]) auto
  qed
qed

lemma find_append_skip:
  "(\<forall>y \<in> set ys. \<not> P y) \<Longrightarrow> P x \<Longrightarrow> find P (ys @ x # zs) = Some x"
  by (induction ys) auto

lemma users_wf_al_set:
  "users_wf us \<Longrightarrow> k = ud_email v \<Longrightarrow> users_wf (al_set us k v)"
  unfolding users_wf_def using set_al_set [of us k v] by (auto simp: keys_al_set)

lemma keys_wf_fold:
  "distinct (map fst m) \<and> (\<forall>(k, ud) \<in> set m. k = ud_email ud) \<Longrightarrow>
   distinct (map fst (fold (\<lambda>ud m. al_set m (ud_email ud) ud) xs m)) \<and>
   (\<forall>(k, ud) \<in> set (fold (\<lambda>ud m. al_set m (ud_email ud) ud) xs m). k = ud_email ud)"
proof (induction xs arbitrary: m)
  case Nil
  then show ?case by simp
next
  case (Cons x xs)
  have "distinct (map fst (al_set m (ud_email x) x)) \<and> (\<forall>(k, ud) \<in> set (al_set m (ud_email x) x). k = ud_email ud)"
    using Cons.prems set_al_set [of m "ud_email x" x] by auto
  then show ?case using Cons.IH by simp
qed

lemma users_wf_init: "users_wf (users (auth_init ls))"
proof -
  have "distinct (map fst (load_users ls)) \<and> (\<forall>(k, ud) \<in> set (load_users ls). k = ud_email ud)"
    unfolding load_users_def using keys_wf_fold [of "[]"] by (auto split: option.splits stored.splits)
  then show ?thesis
    unfolding auth_init_def users_wf_def using set_al_set [of "load_users ls" demo_email demo_user_data]
    by (auto simp: keys_al_set demo_user_data_def demo_email_def)
qed

lemma users_save_users [simp]: "users (save_users st) = users st"
  by (simp add: save_users_def)

lemma users_sign_up:
  "users (snd (sign_up now d st)) =
     (if map_of (users st) (sd_email d) \<noteq> None then users st
      else al_set (users st) (sd_email d)
             \<lparr>ud_email = sd_email d, ud_password = sd_password d,
              ud_profile = new_profile (js ''user-'' @ js_digits now) d\<rparr>)"
  by (auto simp: sign_up_def Let_def split: option.splits)

lemma users_update_user_profile:
  "users (snd (update_user_profile uid u st)) =
     (case find_profile uid st of None \<Rightarrow> users st
      | Some (e, ud) \<Rightarrow> al_set (users st) e (ud\<lparr>ud_profile := merge_profile (ud_profile ud) u\<rparr>))"
  by (auto simp: update_user_profile_def Let_def split: option.splits)

lemma find_profile_key:
  "find_profile uid st = Some (e, ud) \<Longrightarrow> users_wf (users st) \<Longrightarrow> e = ud_email ud"
  unfolding find_profile_def users_wf_def by (auto dest!: find_Some_split)

lemma auth_step_wf: "users_wf (users st) \<Longrightarrow> users_wf (users (auth_step a st))"
proof (cases a)
  case (ASignUp now d)
  assume "users_wf (users st)"
  then show ?thesis using ASignUp by (simp add: users_sign_up users_wf_al_set)
next
  case (AUpdateProfile uid u)
  assume wf: "users_wf (users st)"
  show ?thesis
  proof (cases "find_profile uid st")
    case None
    then show ?thesis using wf AUpdateProfile by (simp add: users_update_user_profile)
  next
    case (Some eu)
    then obtain e ud where eu: "find_profile uid st = Some (e, ud)" by (cases eu) auto
    then show ?thesis
      using wf AUpdateProfile find_profile_key [OF eu wf]
      by (simp add: users_update_user_profile users_wf_al_set)
  qed
next
  case AReload
  then show ?thesis by (simp add: users_wf_init)
qed

text \<open>C6. In every state the service reaches from any saved data through sign-ups, profile updates and page reloads, every user is stored under its own e-mail address, the addresses are distinct, and the demo user is present.\<close>

theorem auth_reach_users_wf: "auth_reach st \<Longrightarrow> users_wf (users st)"
  by (induction rule: auth_reach.induct) (simp_all add: users_wf_init auth_step_wf)

lemma sign_up_Inr:
  "fst (sign_up now d st) = Inr u \<Longrightarrow>
     map_of (users st) (sd_email d) = None \<and>
     u = \<lparr>au_id = js ''user-'' @ js_digits now, au_email = sd_email d, au_name = sd_name d\<rparr>"
  by (auto simp: sign_up_def Let_def split: if_splits option.splits)

text \<open>C7. After a successful sign-up, signing in with the same e-mail address and password returns the user the sign-up returned.\<close>

theorem sign_up_then_sign_in:
  assumes "sign_up now d st = (Inr u, st')"
  shows "sign_in (sd_email d) (sd_password d) st' = Inr u"
proof -
  have u: "map_of (users st) (sd_email d) = None"
    "u = \<lparr>au_id = js ''user-'' @ js_digits now, au_email = sd_email d, au_name = sd_name d\<rparr>"
    using sign_up_Inr [of now d st u] assms by simp_all
  have "users st' = al_set (users st) (sd_email d)
      \<lparr>ud_email = sd_email d, ud_password = sd_password d, ud_profile = new_profile (js ''user-'' @ js_digits now) d\<rparr>"
    using users_sign_up [of now d st] assms u(1) by simp
  then show ?thesis using u(2) by (simp add: sign_in_def new_profile_def)
qed

lemma fold_load_keys:
  "distinct (map fst (m @ us)) \<Longrightarrow> (\<forall>(k, ud) \<in> set us. k = ud_email ud) \<Longrightarrow>
     fold (\<lambda>ud m. al_set m (ud_email ud) ud) (map snd us) m = m @ us"
proof (induction us arbitrary: m)
  case Nil
  then show ?case by simp
next
  case (Cons x us)
  obtain k ud where x: "x = (k, ud)" by (cases x)
  then have k: "k = ud_email ud" using Cons.prems(2) by simp
  have "k \<notin> set (map fst m)" using Cons.prems(1) x by simp
  then have "al_set m (ud_email ud) ud = m @ [x]" using x k by (simp add: al_set_new)
  moreover have "fold (\<lambda>ud m. al_set m (ud_email ud) ud) (map snd us) (m @ [x]) = (m @ [x]) @ us"
    using Cons.prems by (intro Cons.IH) auto
  ultimately show ?case using x by simp
qed

text \<open>Saving the users and reloading the page restores the same users in the same order, except that the demo user is reset to its built-in data.\<close>

theorem reload_after_save:
  assumes "users_wf (users st)"
  shows "users (auth_init (local_storage (save_users st))) = al_set (users st) demo_email demo_user_data"
proof -
  have "load_users (local_storage (save_users st)) = users st"
    using assms fold_load_keys [of "[]" "users st"]
    by (simp add: load_users_def save_users_def users_wf_def)
  then show ?thesis by (simp add: auth_init_def)
qed

lemma al_set_same:
  "distinct (map fst xs) \<Longrightarrow> map_of xs k = Some v \<Longrightarrow> al_set xs k v = xs"
  by (induction xs) (auto split: if_splits)

text \<open>After a successful profile update that does not change the id, reading the profile by that id returns the updated profile.\<close>

theorem update_then_get_profile:
  assumes wf: "users_wf (users st)" and upd: "update_user_profile uid u st = (Inr p, st')"
    and keep: "u_id u = None"
  shows "get_user_profile uid st' = Inr p"
proof -
  obtain e ud where f: "find_profile uid st = Some (e, ud)"
    using upd by (cases "find_profile uid st") (auto simp: update_user_profile_def)
  let ?ud' = "ud\<lparr>ud_profile := merge_profile (ud_profile ud) u\<rparr>"
  have p: "p = merge_profile (ud_profile ud) u" using upd f by (simp add: update_user_profile_def)
  obtain ys zs where split: "users st = ys @ (e, ud) # zs"
    and skip: "\<forall>y \<in> set ys. \<not> (\<lambda>(e, ud). prof_id (ud_profile ud) = uid) y"
    and hit: "prof_id (ud_profile ud) = uid"
    using f unfolding find_profile_def by (auto dest!: find_Some_split)
  have "e \<notin> set (map fst ys)" using wf split by (auto simp: users_wf_def)
  then have "users st' = ys @ (e, ?ud') # zs"
    using users_update_user_profile [of uid u st] upd f split by (simp add: al_set_in_place)
  moreover have "prof_id (ud_profile ?ud') = uid" using hit keep by (simp add: merge_profile_def override_def)
  ultimately have "find_profile uid st' = Some (e, ?ud')"
    unfolding find_profile_def using skip by (simp add: find_append_skip)
  then show ?thesis using p by (simp add: get_user_profile_def)
qed

text \<open>Sign-ups at different clock values return different user ids.\<close>

theorem sign_up_ids_distinct:
  assumes "fst (sign_up n1 d1 st1) = Inr u1" "fst (sign_up n2 d2 st2) = Inr u2" "n1 \<noteq> n2"
  shows "au_id u1 \<noteq> au_id u2"
  using sign_up_Inr [OF assms(1)] sign_up_Inr [OF assms(2)] assms(3) by (simp add: js_digits_inj)

text \<open>C8. A sign-up fails only when the e-mail address is already registered, with the
  message "User already exists with this email", and then leaves the state unchanged.\<close>

theorem sign_up_error:
  assumes "fst (sign_up now d st) = Inl err"
  shows "snd (sign_up now d st) = st \<and> map_of (users st) (sd_email d) \<noteq> None \<and>
         err = js ''User already exists with this email''"
  using assms by (auto simp: sign_up_def Let_def split: if_splits option.splits)

text \<open>A change to the demo user's profile is lost on the next page reload: the constructor sets the built-in demo user after loading the saved users.\<close>

theorem demo_profile_reset_on_reload:
  "get_user_profile (js ''demo-user-1'')
      (auth_step (AUpdateProfile (js ''demo-user-1'') (no_update\<lparr>u_name := Some (js ''Alice'')\<rparr>)) (auth_init [])) =
     Inr ((ud_profile demo_user_data)\<lparr>prof_name := js ''Alice''\<rparr>) \<and>
   get_user_profile (js ''demo-user-1'')
      (auth_step AReload
        (auth_step (AUpdateProfile (js ''demo-user-1'') (no_update\<lparr>u_name := Some (js ''Alice'')\<rparr>)) (auth_init []))) =
     Inr (ud_profile demo_user_data)"
  by (simp add: model_simps no_update_def demo_user_data_def Let_def)

text \<open>Two sign-ups within the same millisecond get the same id "user-<Date.now()>", and reading the profile by that id returns the first user's profile for both.\<close>

theorem sign_up_id_collision:
  "fst (sign_up 5 \<lparr>sd_email = js ''a@uni-due.de'', sd_password = js ''pw1'', sd_name = js ''Alice'',
         sd_student_id = None, sd_program = None, sd_year = None, sd_campus = None, sd_profile_photo = None\<rparr>
         (auth_init [])) =
     Inr \<lparr>au_id = js ''user-5'', au_email = js ''a@uni-due.de'', au_name = js ''Alice''\<rparr> \<and>
   fst (sign_up 5 \<lparr>sd_email = js ''b@uni-due.de'', sd_password = js ''pw2'', sd_name = js ''Bob'',
         sd_student_id = None, sd_program = None, sd_year = None, sd_campus = None, sd_profile_photo = None\<rparr>
         (auth_step (ASignUp 5 \<lparr>sd_email = js ''a@uni-due.de'', sd_password = js ''pw1'', sd_name = js ''Alice'',
            sd_student_id = None, sd_program = None, sd_year = None, sd_campus = None, sd_profile_photo = None\<rparr>)
           (auth_init []))) =
     Inr \<lparr>au_id = js ''user-5'', au_email = js ''b@uni-due.de'', au_name = js ''Bob''\<rparr> \<and>
   map_sum id prof_name (get_user_profile (js ''user-5'')
      (auth_step (ASignUp 5 \<lparr>sd_email = js ''b@uni-due.de'', sd_password = js ''pw2'', sd_name = js ''Bob'',
            sd_student_id = None, sd_program = None, sd_year = None, sd_campus = None, sd_profile_photo = None\<rparr>)
        (auth_step (ASignUp 5 \<lparr>sd_email = js ''a@uni-due.de'', sd_password = js ''pw1'', sd_name = js ''Alice'',
            sd_student_id = None, sd_program = None, sd_year = None, sd_campus = None, sd_profile_photo = None\<rparr>)
          (auth_init [])))) = Inr (js ''Alice'')"
  by (simp add: model_simps demo_user_data_def js_digits.simps Let_def)


subsection \<open>Witnesses\<close>

theorem auth_reach_users_wf_witness: "users_wf (users (auth_init []))"
  using auth_reach_users_wf [OF auth_reach.init] .

theorem sign_up_then_sign_in_witness:
  "sign_in (js ''a@uni-due.de'') (js ''pw1'') (snd (sign_up 5 \<lparr>sd_email = js ''a@uni-due.de'', sd_password = js ''pw1'', sd_name = js ''Alice'',
         sd_student_id = None, sd_program = None, sd_year = None, sd_campus = None, sd_profile_photo = None\<rparr> (auth_init []))) =
     Inr \<lparr>au_id = js ''user-5'', au_email = js ''a@uni-due.de'', au_name = js ''Alice''\<rparr>"
proof -
  have "fst (sign_up 5 \<lparr>sd_email = js ''a@uni-due.de'', sd_password = js ''pw1'', sd_name = js ''Alice'',
         sd_student_id = None, sd_program = None, sd_year = None, sd_campus = None, sd_profile_photo = None\<rparr> (auth_init [])) =
      Inr \<lparr>au_id = js ''user-5'', au_email = js ''a@uni-due.de'', au_name = js ''Alice''\<rparr>"
    by (simp add: model_simps demo_user_data_def js_digits.simps Let_def)
  then have "sign_up 5 \<lparr>sd_email = js ''a@uni-due.de'', sd_password = js ''pw1'', sd_name = js ''Alice'',
         sd_student_id = None, sd_program = None, sd_year = None, sd_campus = None, sd_profile_photo = None\<rparr> (auth_init []) =
      (Inr \<lparr>au_id = js ''user-5'', au_email = js ''a@uni-due.de'', au_name = js ''Alice''\<rparr>,
       snd (sign_up 5 \<lparr>sd_email = js ''a@uni-due.de'', sd_password = js ''pw1'', sd_name = js ''Alice'',
         sd_student_id = None, sd_program = None, sd_year = None, sd_campus = None, sd_profile_photo = None\<rparr> (auth_init [])))"
    by (metis prod.collapse)
  from sign_up_then_sign_in [OF this] show ?thesis by simp
qed

theorem reload_after_save_witness:
  "users (auth_init (local_storage (save_users (auth_init [])))) = users (auth_init [])"
  using reload_after_save [OF users_wf_init [of "[]"]] by (simp add: model_simps demo_user_data_def)

theorem update_then_get_profile_witness:
  "get_user_profile (js ''demo-user-1'')
     (snd (update_user_profile (js ''demo-user-1'') (no_update\<lparr>u_bio := Some (Some (js ''Hi''))\<rparr>) (auth_init []))) =
   Inr ((ud_profile demo_user_data)\<lparr>bio := Some (js ''Hi'')\<rparr>)"
proof -
  have "update_user_profile (js ''demo-user-1'') (no_update\<lparr>u_bio := Some (Some (js ''Hi''))\<rparr>) (auth_init []) =
      (Inr ((ud_profile demo_user_data)\<lparr>bio := Some (js ''Hi'')\<rparr>),
       snd (update_user_profile (js ''demo-user-1'') (no_update\<lparr>u_bio := Some (Some (js ''Hi''))\<rparr>) (auth_init [])))"
    by (simp add: model_simps no_update_def demo_user_data_def Let_def)
  from update_then_get_profile [OF users_wf_init this] show ?thesis by (simp add: no_update_def)
qed

theorem sign_up_error_witness:
  "snd (sign_up 7 \<lparr>sd_email = js ''demo@uni-due.de'', sd_password = js ''x'', sd_name = js ''Eve'',
         sd_student_id = None, sd_program = None, sd_year = None, sd_campus = None, sd_profile_photo = None\<rparr>
         (auth_init [])) = auth_init []"
proof -
  have "fst (sign_up 7 \<lparr>sd_email = js ''demo@uni-due.de'', sd_password = js ''x'', sd_name = js ''Eve'',
         sd_student_id = None, sd_program = None, sd_year = None, sd_campus = None, sd_profile_photo = None\<rparr>
         (auth_init [])) = Inl (js ''User already exists with this email'')"
    by (simp add: model_simps demo_user_data_def)
  from sign_up_error [OF this] show ?thesis by simp
qed

theorem sign_up_ids_distinct_witness: "js ''user-'' @ js_digits 1 \<noteq> js ''user-'' @ js_digits 2"
proof -
  have a: "fst (sign_up 1 \<lparr>sd_email = js ''a@uni-due.de'', sd_password = js ''pw1'', sd_name = js ''Alice'',
         sd_student_id = None, sd_program = None, sd_year = None, sd_campus = None, sd_profile_photo = None\<rparr> (auth_init [])) =
      Inr \<lparr>au_id = js ''user-'' @ js_digits 1, au_email = js ''a@uni-due.de'', au_name = js ''Alice''\<rparr>"
    by (simp add: model_simps demo_user_data_def Let_def)
  have b: "fst (sign_up 2 \<lparr>sd_email = js ''a@uni-due.de'', sd_password = js ''pw1'', sd_name = js ''Alice'',
         sd_student_id = None, sd_program = None, sd_year = None, sd_campus = None, sd_profile_photo = None\<rparr> (auth_init [])) =
      Inr \<lparr>au_id = js ''user-'' @ js_digits 2, au_email = js ''a@uni-due.de'', au_name = js ''Alice''\<rparr>"
    by (simp add: model_simps demo_user_data_def Let_def)
  from sign_up_ids_distinct [OF a b] show ?thesis by simp
qed

end
