(* ===== verification/AuthContext.thy ===== *)
theory AuthContext
  imports AuthService
begin

text \<open>
  The provider of \<open>src/uni-main/src/contexts/AuthContext.tsx\<close> and the routes of
  \<open>src/uni-main/src/App.tsx\<close>. The provider's state is the pair of React states
  \<open>user\<close> and \<open>loading\<close>, next to the service it calls. Each handler runs to completion
  between two renders (the service calls resolve immediately in demo mode), so a
  handler is one step of the state, its \<open>finally\<close> included. A route renders a view,
  and \<open><Navigate to=\<dots>/>\<close> renders the view of another path; \<open>resolve\<close> follows
  redirects with a bound, and two redirects are proved to be always enough.
\<close>

record auth_ctx =
  ctx_user :: "auth_user option"
  ctx_loading :: bool
  ctx_service :: auth_state

text \<open>The first render: no user and \<open>loading = true\<close>; the service singleton is
  constructed from \<open>localStorage\<close> when the module loads.\<close>

definition ctx_init :: "(jstr \<times> stored) list \<Rightarrow> auth_ctx" where
  "ctx_init ls = \<lparr>ctx_user = None, ctx_loading = True, ctx_service = auth_init ls\<rparr>"

text \<open>The mount effect \<open>checkUser\<close>: \<open>getCurrentUser\<close> has no session in demo mode.\<close>

definition check_user :: "auth_ctx \<Rightarrow> auth_ctx" where
  "check_user ctx = ctx\<lparr>ctx_user := fst get_current_user, ctx_loading := False\<rparr>"

definition ctx_login :: "jstr \<Rightarrow> jstr \<Rightarrow> auth_ctx \<Rightarrow> (bool \<times> jstr option) \<times> auth_ctx" where
  "ctx_login email password ctx =
     (case sign_in email password (ctx_service ctx) of
        Inl err \<Rightarrow> ((False, Some err), ctx\<lparr>ctx_loading := False\<rparr>)
      | Inr u \<Rightarrow> ((True, None), ctx\<lparr>ctx_user := Some u, ctx_loading := False\<rparr>))"

definition ctx_signup :: "nat \<Rightarrow> sign_up_data \<Rightarrow> auth_ctx \<Rightarrow> (bool \<times> jstr option) \<times> auth_ctx" where
  "ctx_signup now d ctx =
     (case sign_up now d (ctx_service ctx) of
        (Inl err, svc) \<Rightarrow> ((False, Some err), ctx\<lparr>ctx_loading := False, ctx_service := svc\<rparr>)
      | (Inr u, svc) \<Rightarrow> ((True, None), ctx\<lparr>ctx_user := Some u, ctx_loading := False, ctx_service := svc\<rparr>))"

text \<open>\<open>logout\<close> ignores the result of \<open>signOut\<close> and clears the user.\<close>

definition ctx_logout :: "auth_ctx \<Rightarrow> auth_ctx" where
  "ctx_logout ctx = ctx\<lparr>ctx_user := None\<rparr>"

datatype ctx_action =
    CheckUser
  | Login jstr jstr
  | Signup nat sign_up_data
  | Logout

fun ctx_step :: "ctx_action \<Rightarrow> auth_ctx \<Rightarrow> auth_ctx" where
  "ctx_step CheckUser ctx = check_user ctx"
| "ctx_step (Login e p) ctx = snd (ctx_login e p ctx)"
| "ctx_step (Signup now d) ctx = snd (ctx_signup now d ctx)"
| "ctx_step Logout ctx = ctx_logout ctx"

inductive ctx_reach :: "auth_ctx \<Rightarrow> bool" where
  init: "ctx_reach (ctx_init ls)"
| step: "ctx_reach ctx \<Longrightarrow> ctx_reach (ctx_step a ctx)"

subsection \<open>Routes\<close>

datatype view = VSpinner | VLogin | VCampus | VNavigate jstr

text \<open>\<open>ProtectedRoute\<close>: a spinner while loading, the page with a user, otherwise a
  redirect to the login page.\<close>

definition protected_route :: "auth_ctx \<Rightarrow> view \<Rightarrow> view" where
  "protected_route ctx child =
     (if ctx_loading ctx then VSpinner else if ctx_user ctx \<noteq> None then child else VNavigate (js ''/''))"

definition route :: "jstr \<Rightarrow> auth_ctx \<Rightarrow> view" where
  "route path ctx =
     (if path = js ''/'' then (if ctx_user ctx \<noteq> None then VNavigate (js ''/campus'') else VLogin)
      else if path = js ''/campus'' then protected_route ctx VCampus
      else VNavigate (js ''/''))"

fun resolve :: "nat \<Rightarrow> jstr \<Rightarrow> auth_ctx \<Rightarrow> view option" where
  "resolve 0 path ctx = None"
| "resolve (Suc n) path ctx = (case route path ctx of VNavigate p \<Rightarrow> resolve n p ctx | v \<Rightarrow> Some v)"

text \<open>The session is sound: a signed-in user is a registered user, stored under the
  user's e-mail address with the user's id.\<close>

definition session_ok :: "auth_ctx \<Rightarrow> bool" where
  "session_ok ctx \<longleftrightarrow>
     users_wf (users (ctx_service ctx)) \<and>
     (case ctx_user ctx of
        None \<Rightarrow> True
      | Some u \<Rightarrow> (\<exists>ud. map_of (users (ctx_service ctx)) (au_email u) = Some ud \<and> prof_id (ud_profile ud) = au_id u))"

lemmas auth_ctx_defs [model_simps] =
  ctx_init_def check_user_def ctx_login_def ctx_signup_def ctx_logout_def protected_route_def route_def

subsection \<open>Lemmas\<close>

lemma sign_in_Inr:
  "sign_in e p st = Inr u \<Longrightarrow> users_wf (users st) \<Longrightarrow>
     \<exists>ud. map_of (users st) (au_email u) = Some ud \<and> prof_id (ud_profile ud) = au_id u"
proof -
  assume si: "sign_in e p st = Inr u" and wf: "users_wf (users st)"
  then obtain ud where m: "map_of (users st) e = Some ud"
    and u: "u = \<lparr>au_id = prof_id (ud_profile ud), au_email = ud_email ud, au_name = prof_name (ud_profile ud)\<rparr>"
    by (auto simp: sign_in_def split: option.splits if_splits)
  have "e = ud_email ud" using map_of_SomeD [OF m] wf by (auto simp: users_wf_def)
  with m u show ?thesis by simp
qed

lemma session_ok_signup:
  assumes ok: "session_ok ctx"
  shows "session_ok (snd (ctx_signup now d ctx))"
proof (cases "sign_up now d (ctx_service ctx)")
  case (Pair r svc)
  have wf: "users_wf (users svc)"
    using ok Pair auth_step_wf [of "ctx_service ctx" "ASignUp now d"] by (simp add: session_ok_def)
  show ?thesis
  proof (cases r)
    case (Inl err)
    then have "svc = ctx_service ctx" using Pair sign_up_error [of now d "ctx_service ctx" err] by simp
    with ok Pair Inl show ?thesis by (simp add: ctx_signup_def session_ok_def split: option.splits)
  next
    case (Inr u)
    then have new: "map_of (users (ctx_service ctx)) (sd_email d) = None"
      and u: "u = \<lparr>au_id = js ''user-'' @ js_digits now, au_email = sd_email d, au_name = sd_name d\<rparr>"
      using sign_up_Inr [of now d "ctx_service ctx" u] Pair by simp_all
    have "users svc = al_set (users (ctx_service ctx)) (sd_email d)
        \<lparr>ud_email = sd_email d, ud_password = sd_password d, ud_profile = new_profile (js ''user-'' @ js_digits now) d\<rparr>"
      using users_sign_up [of now d "ctx_service ctx"] Pair new by simp
    then show ?thesis
      using wf Pair Inr u by (simp add: ctx_signup_def session_ok_def new_profile_def)
  qed
qed

lemma session_ok_step: "session_ok ctx \<Longrightarrow> session_ok (ctx_step a ctx)"
proof (cases a)
  case (Login e p)
  assume ok: "session_ok ctx"
  then show ?thesis using Login sign_in_Inr [of e p "ctx_service ctx"]
    by (auto simp: ctx_login_def session_ok_def split: sum.splits option.splits)
next
  case (Signup now d)
  assume "session_ok ctx"
  then show ?thesis using Signup session_ok_signup by simp
qed (simp_all add: session_ok_def check_user_def get_current_user_def ctx_logout_def)

lemma resolve_campus: "resolve n path ctx = Some VCampus \<Longrightarrow> ctx_user ctx \<noteq> None \<and> \<not> ctx_loading ctx"
proof (induction n arbitrary: path)
  case 0
  then show ?case by simp
next
  case (Suc n)
  then show ?case
    by (auto simp: route_def protected_route_def split: view.splits if_splits)
qed


lemma session_ok_init: "session_ok (ctx_init ls)"
  by (simp add: session_ok_def ctx_init_def users_wf_init)

lemma session_ok_reach: "ctx_reach ctx \<Longrightarrow> session_ok ctx"
  by (induction rule: ctx_reach.induct) (simp_all add: session_ok_init session_ok_step)

subsection \<open>Properties\<close>

text \<open>C9. In every reachable state of the provider, the user map is well formed and a
  signed-in user is a registered user, stored under the user's e-mail address with the
  user's id.\<close>

theorem ctx_reach_session_ok:
  "ctx_reach ctx \<Longrightarrow> ctx_user ctx = Some u \<Longrightarrow>
     users_wf (users (ctx_service ctx)) \<and>
     (\<exists>ud. map_of (users (ctx_service ctx)) (au_email u) = Some ud \<and> prof_id (ud_profile ud) = au_id u)"
  using session_ok_reach [of ctx] by (simp add: session_ok_def)

theorem ctx_reach_session_ok_witness:
  "users_wf (users (ctx_service (snd (ctx_login (js ''demo@uni-due.de'') (js ''password123'') (ctx_init [])))))"
proof -
  have r: "ctx_reach (ctx_step (Login (js ''demo@uni-due.de'') (js ''password123'')) (ctx_init []))"
    by (rule ctx_reach.step [OF ctx_reach.init])
  have u: "ctx_user (ctx_step (Login (js ''demo@uni-due.de'') (js ''password123'')) (ctx_init [])) =
      Some \<lparr>au_id = js ''demo-user-1'', au_email = js ''demo@uni-due.de'', au_name = js ''Demo Student''\<rparr>"
    by (simp add: model_simps demo_user_data_def)
  from ctx_reach_session_ok [OF r u] show ?thesis by simp
qed

text \<open>C10. Every path renders a page after at most two redirects: the routes have no
  redirect cycle, whatever the user and loading states.\<close>

theorem routes_resolve:
  "resolve 3 path ctx \<in> {Some VSpinner, Some VLogin, Some VCampus}"
  by (simp add: eval_nat_numeral route_def protected_route_def js_def)

text \<open>C11. Only a registered, signed-in user sees the campus page, and never while
  the provider is loading.\<close>

theorem campus_requires_login:
  assumes "ctx_reach ctx" "resolve n path ctx = Some VCampus"
  shows "\<not> ctx_loading ctx \<and>
    (\<exists>u ud. ctx_user ctx = Some u \<and> map_of (users (ctx_service ctx)) (au_email u) = Some ud \<and>
            prof_id (ud_profile ud) = au_id u)"
  using resolve_campus [OF assms(2)] session_ok_reach [OF assms(1)]
  by (auto simp: session_ok_def)

theorem campus_requires_login_witness:
  "\<not> ctx_loading (ctx_step (Login (js ''demo@uni-due.de'') (js ''password123'')) (ctx_init []))"
proof -
  have r: "ctx_reach (ctx_step (Login (js ''demo@uni-due.de'') (js ''password123'')) (ctx_init []))"
    by (rule ctx_reach.step [OF ctx_reach.init])
  have c: "resolve 3 (js ''/campus'') (ctx_step (Login (js ''demo@uni-due.de'') (js ''password123'')) (ctx_init [])) =
      Some VCampus"
    by (simp add: model_simps demo_user_data_def eval_nat_numeral)
  from campus_requires_login [OF r c] show ?thesis by simp
qed

text \<open>After a successful login, the login path redirects to the campus page.\<close>

theorem login_lands_on_campus:
  "fst (ctx_login e p ctx) = (True, None) \<Longrightarrow>
     resolve 3 (js ''/'') (snd (ctx_login e p ctx)) = Some VCampus"
  by (auto simp: ctx_login_def eval_nat_numeral route_def protected_route_def js_def split: sum.splits)

theorem login_lands_on_campus_witness:
  "resolve 3 (js ''/'') (snd (ctx_login (js ''demo@uni-due.de'') (js ''password123'') (ctx_init []))) = Some VCampus"
proof -
  have "fst (ctx_login (js ''demo@uni-due.de'') (js ''password123'') (ctx_init [])) = (True, None)"
    by (simp add: model_simps demo_user_data_def)
  from login_lands_on_campus [OF this] show ?thesis .
qed

end
