(* ===== verification/Events.thy ===== *)
theory Events
  imports JsString "HOL-Library.Product_Lexorder" "HOL-Library.Multiset"
begin

text \<open>The campus events service (\<open>services/eventsService.ts\<close>, types in
  \<open>types/Events.ts\<close>). The module keeps one array \<open>mockEvents\<close>; every query first
  sorts it in place by date (\<open>getCampusEvents\<close>), and \<open>registerForEvent\<close> increments
  the participant count of the event object it finds. The model threads that array
  through every operation as explicit state and proves that registrations respect the
  capacity of an event, that a fully booked event refuses further registrations, and
  what each query returns.\<close>

section \<open>Dates\<close>

text \<open>A \<open>Date\<close> as the program reads it: local year, month (0 to 11), day of month and
  milliseconds since local midnight. For dates with the fields in range, the
  lexicographic order of the tuple is the order of \<open>getTime()\<close>.\<close>

type_synonym js_date = "int \<times> int \<times> int \<times> int"

text \<open>\<open>new Date(y, m, d)\<close>: local midnight, with a month outside 0..11 carried into the
  year. Every call of the program passes a day in range (a literal, or the default 1).\<close>

definition new_date :: "int \<Rightarrow> int \<Rightarrow> int \<Rightarrow> js_date" where
  "new_date y m d = (y + m div 12, m mod 12, d, 0)"

definition get_full_year :: "js_date \<Rightarrow> int" where
  "get_full_year d = fst d"

definition get_month :: "js_date \<Rightarrow> int" where
  "get_month d = fst (snd d)"

section \<open>Events\<close>

datatype category = Academic | International | Social | Cultural | Sports

text \<open>The string of each member of the \<open>category\<close> union type.\<close>

definition category_id :: "category \<Rightarrow> jstr" where
  "category_id c = (case c of
      Academic \<Rightarrow> js ''academic'' | International \<Rightarrow> js ''international'' | Social \<Rightarrow> js ''social''
    | Cultural \<Rightarrow> js ''cultural'' | Sports \<Rightarrow> js ''sports'')"

datatype event_language = ELEn | ELDe | ELBoth

datatype recurrence_type = Daily | Weekly | Monthly

record cost =
  amount :: int
  currency :: jstr
  student_discount :: "int option"

record recurrence =
  rec_type :: recurrence_type
  rec_end_date :: "js_date option"
  rec_exceptions :: "js_date list option"

record campus_event =
  ev_id :: jstr
  title :: jstr
  description :: jstr
  ev_date :: js_date
  ev_time :: jstr
  location :: jstr
  category :: category
  organizer :: jstr
  registration_required :: bool
  registration_url :: "jstr option"
  is_online :: bool
  max_participants :: "nat option"
  current_participants :: "nat option"
  tags :: "jstr list option"
  image_url :: "jstr option"
  contact_email :: "jstr option"
  contact_phone :: "jstr option"
  prerequisites :: "jstr list option"
  target_audience :: "jstr list option"
  ev_language :: "event_language option"
  cost :: "cost option"
  recurrence :: "recurrence option"

text \<open>The ten events of \<open>mockEvents\<close>, in source order.\<close>

definition mock_events :: "campus_event list" where
  "mock_events = [
     \<lparr>ev_id = js ''1'', title = js ''International Student Welcome Day'',
      description = js ''Join us for a warm welcome to UDE! Meet fellow international students, learn about campus resources, and enjoy cultural activities.'',
      ev_date = (2025, 0, 25, 0), ev_time = js ''14:00 - 18:00'', location = js ''Student Center, Main Hall'',
      category = International, organizer = js ''International Office'', registration_required = True,
      registration_url = Some (js ''https://www.uni-due.de/international/registration''),
      is_online = False, max_participants = Some 200, current_participants = Some 145,
      tags = Some [js ''welcome'', js ''networking'', js ''cultural''],
      image_url = None, contact_email = None, contact_phone = None, prerequisites = None,
      target_audience = Some [js ''international students'', js ''new students''], ev_language = Some ELBoth, cost = None,
      recurrence = None\<rparr>,
     \<lparr>ev_id = js ''2'', title = js ''Digital Library Workshop'',
      description = js ''Learn how to effectively use our digital library resources, databases, and research tools.'',
      ev_date = (2025, 0, 28, 0), ev_time = js ''10:00 - 12:00'', location = js ''Central Library, Computer Lab'',
      category = Academic, organizer = js ''Library Services'', registration_required = True,
      registration_url = None,
      is_online = False, max_participants = Some 30, current_participants = Some 18,
      tags = Some [js ''research'', js ''digital literacy'', js ''academic skills''],
      image_url = None, contact_email = None, contact_phone = None, prerequisites = None,
      target_audience = Some [js ''all students'', js ''researchers''], ev_language = Some ELEn, cost = None,
      recurrence = None\<rparr>,
     \<lparr>ev_id = js ''3'', title = js ''Campus Food Festival'',
      description = js ''Taste international cuisines from around the world! Student organizations present their traditional foods.'',
      ev_date = (2025, 0, 30, 0), ev_time = js ''11:00 - 16:00'', location = js ''Cafeteria Outdoor Area'',
      category = Cultural, organizer = js ''Student Organizations'', registration_required = False,
      registration_url = None,
      is_online = False, max_participants = None, current_participants = None,
      tags = Some [js ''food'', js ''culture'', js ''international'', js ''community''],
      image_url = None, contact_email = None, contact_phone = None, prerequisites = None,
      target_audience = Some [js ''all students'', js ''staff'', js ''visitors''], ev_language = Some ELBoth, cost = None,
      recurrence = None\<rparr>,
     \<lparr>ev_id = js ''4'', title = js ''Career Fair 2025'',
      description = js ''Meet potential employers, learn about internship opportunities, and network with industry professionals.'',
      ev_date = (2025, 1, 5, 0), ev_time = js ''09:00 - 17:00'', location = js ''Student Center, Exhibition Hall'',
      category = Academic, organizer = js ''Career Services'', registration_required = True,
      registration_url = Some (js ''https://www.uni-due.de/career/fair2025''),
      is_online = False, max_participants = Some 500, current_participants = Some 320,
      tags = Some [js ''career'', js ''networking'', js ''jobs'', js ''internships''],
      image_url = None, contact_email = None, contact_phone = None, prerequisites = None,
      target_audience = Some [js ''students'', js ''graduates''], ev_language = Some ELBoth, cost = None,
      recurrence = None\<rparr>,
     \<lparr>ev_id = js ''5'', title = js ''Virtual Study Abroad Information Session'',
      description = js ''Learn about exchange programs, application processes, and hear from students who studied abroad.'',
      ev_date = (2025, 1, 8, 0), ev_time = js ''15:00 - 16:30'', location = js ''Online via Zoom'',
      category = International, organizer = js ''International Office'', registration_required = True,
      registration_url = None,
      is_online = True, max_participants = Some 100, current_participants = Some 67,
      tags = Some [js ''study abroad'', js ''exchange'', js ''international''],
      image_url = None, contact_email = None, contact_phone = None, prerequisites = None,
      target_audience = Some [js ''undergraduate students'', js ''graduate students''], ev_language = Some ELEn, cost = None,
      recurrence = None\<rparr>,
     \<lparr>ev_id = js ''6'', title = js ''Campus Sports Tournament'',
      description = js ''Join the inter-faculty sports competition! Football, basketball, volleyball, and more.'',
      ev_date = (2025, 1, 12, 0), ev_time = js ''13:00 - 18:00'', location = js ''Sports Complex'',
      category = Sports, organizer = js ''Sports Department'', registration_required = True,
      registration_url = None,
      is_online = False, max_participants = Some 150, current_participants = Some 89,
      tags = Some [js ''sports'', js ''competition'', js ''team building''],
      image_url = None, contact_email = None, contact_phone = None, prerequisites = None,
      target_audience = Some [js ''all students''], ev_language = Some ELBoth, cost = None,
      recurrence = None\<rparr>,
     \<lparr>ev_id = js ''7'', title = js ''Research Methodology Seminar'',
      description = js ''Advanced seminar on quantitative and qualitative research methods for graduate students.'',
      ev_date = (2025, 1, 15, 0), ev_time = js ''14:00 - 17:00'', location = js ''Academic Building, Room 301'',
      category = Academic, organizer = js ''Graduate School'', registration_required = True,
      registration_url = None,
      is_online = False, max_participants = Some 25, current_participants = Some 12,
      tags = Some [js ''research'', js ''methodology'', js ''graduate''],
      image_url = None, contact_email = None, contact_phone = None, prerequisites = None,
      target_audience = Some [js ''graduate students'', js ''PhD candidates''], ev_language = Some ELEn, cost = None,
      recurrence = None\<rparr>,
     \<lparr>ev_id = js ''8'', title = js ''International Coffee Hour'',
      description = js ''Weekly meetup for international and local students to practice languages and make friends.'',
      ev_date = (2025, 1, 18, 0), ev_time = js ''16:00 - 18:00'', location = js ''Student Center, Lounge'',
      category = Social, organizer = js ''International Student Association'', registration_required = False,
      registration_url = None,
      is_online = False, max_participants = None, current_participants = None,
      tags = Some [js ''social'', js ''language exchange'', js ''networking''],
      image_url = None, contact_email = None, contact_phone = None, prerequisites = None,
      target_audience = Some [js ''international students'', js ''local students''], ev_language = Some ELBoth, cost = None,
      recurrence = Some \<lparr>rec_type = Weekly, rec_end_date = Some (2025, 5, 30, 0), rec_exceptions = None\<rparr>\<rparr>,
     \<lparr>ev_id = js ''9'', title = js ''Art Exhibition Opening: \"Perspectives\"'',
      description = js ''Opening ceremony for the student art exhibition featuring works from various cultural backgrounds.'',
      ev_date = (2025, 1, 20, 0), ev_time = js ''18:00 - 21:00'', location = js ''Cultural Center, Gallery'',
      category = Cultural, organizer = js ''Art Department'', registration_required = False,
      registration_url = None,
      is_online = False, max_participants = None, current_participants = None,
      tags = Some [js ''art'', js ''exhibition'', js ''culture'', js ''creativity''],
      image_url = None, contact_email = None, contact_phone = None, prerequisites = None,
      target_audience = Some [js ''all students'', js ''staff'', js ''public''], ev_language = Some ELBoth, cost = None,
      recurrence = None\<rparr>,
     \<lparr>ev_id = js ''10'', title = js ''Entrepreneurship Workshop'',
      description = js ''Learn the basics of starting your own business, from idea validation to funding strategies.'',
      ev_date = (2025, 1, 22, 0), ev_time = js ''10:00 - 15:00'', location = js ''Innovation Hub, Workshop Room'',
      category = Academic, organizer = js ''Entrepreneurship Center'', registration_required = True,
      registration_url = Some (js ''https://www.uni-due.de/entrepreneurship/workshop''),
      is_online = False, max_participants = Some 40, current_participants = Some 28,
      tags = Some [js ''entrepreneurship'', js ''business'', js ''startup''],
      image_url = None, contact_email = None, contact_phone = None, prerequisites = None,
      target_audience = Some [js ''all students'', js ''alumni''], ev_language = Some ELEn, cost = None,
      recurrence = None\<rparr>]"

section \<open>The service\<close>

text \<open>Every exported function first awaits \<open>getCampusEvents\<close>, which sorts
  \<open>mockEvents\<close> in place by \<open>a.date.getTime() - b.date.getTime()\<close> (a stable sort) and
  returns that same array. Each operation therefore returns its result together with
  the sorted array, which is the module's state afterwards.\<close>

definition get_campus_events :: "campus_event list \<Rightarrow> campus_event list" where
  "get_campus_events db = sort_key ev_date db"

definition get_events_by_category ::
  "jstr \<Rightarrow> campus_event list \<Rightarrow> campus_event list \<times> campus_event list" where
  "get_events_by_category c db =
     (let events = get_campus_events db in (filter (\<lambda>e. category_id (category e) = c) events, events))"

definition get_upcoming_events ::
  "nat \<Rightarrow> js_date \<Rightarrow> campus_event list \<Rightarrow> campus_event list \<times> campus_event list" where
  "get_upcoming_events limit now db =
     (let events = get_campus_events db in (take limit (filter (\<lambda>e. now \<le> ev_date e) events), events))"

definition get_event_by_id ::
  "jstr \<Rightarrow> campus_event list \<Rightarrow> campus_event option \<times> campus_event list" where
  "get_event_by_id i db = (let events = get_campus_events db in (find (\<lambda>e. ev_id e = i) events, events))"

text \<open>\<open>searchEvents\<close>: the query, lower-cased, is a substring of the lower-cased title,
  description, location or organizer, or of one of the tags.\<close>

definition event_matches :: "jstr \<Rightarrow> campus_event \<Rightarrow> bool" where
  "event_matches lower_query e \<longleftrightarrow>
     js_includes (js_lower (title e)) lower_query \<or> js_includes (js_lower (description e)) lower_query \<or>
     js_includes (js_lower (location e)) lower_query \<or> js_includes (js_lower (organizer e)) lower_query \<or>
     (case tags e of None \<Rightarrow> False | Some ts \<Rightarrow> (\<exists>t \<in> set ts. js_includes (js_lower t) lower_query))"

definition search_events :: "jstr \<Rightarrow> campus_event list \<Rightarrow> campus_event list \<times> campus_event list" where
  "search_events query db =
     (let events = get_campus_events db in (filter (event_matches (js_lower query)) events, events))"

definition get_events_by_date_range ::
  "js_date \<Rightarrow> js_date \<Rightarrow> campus_event list \<Rightarrow> campus_event list \<times> campus_event list" where
  "get_events_by_date_range start_date end_date db =
     (let events = get_campus_events db
      in (filter (\<lambda>e. start_date \<le> ev_date e \<and> ev_date e \<le> end_date) events, events))"

text \<open>JavaScript truthiness of an optional number: \<open>undefined\<close> and \<open>0\<close> are false.\<close>

definition truthy_num :: "nat option \<Rightarrow> bool" where
  "truthy_num n = (case n of None \<Rightarrow> False | Some k \<Rightarrow> k \<noteq> 0)"

text \<open>The in-place update of the event object \<open>find\<close> returned: the first one with
  the id.\<close>

fun update_first :: "('a \<Rightarrow> bool) \<Rightarrow> ('a \<Rightarrow> 'a) \<Rightarrow> 'a list \<Rightarrow> 'a list" where
  "update_first P f [] = []"
| "update_first P f (x # xs) = (if P x then f x # xs else x # update_first P f xs)"

definition is_full :: "campus_event \<Rightarrow> bool" where
  "is_full e \<longleftrightarrow>
     truthy_num (max_participants e) \<and> truthy_num (current_participants e) \<and>
     the (max_participants e) \<le> the (current_participants e)"

text \<open>\<open>registerForEvent\<close>: the \<open>userId\<close> is not used.\<close>

definition register_for_event ::
  "jstr \<Rightarrow> jstr \<Rightarrow> campus_event list \<Rightarrow> (bool \<times> jstr) \<times> campus_event list" where
  "register_for_event event_id user_id db =
     (case get_event_by_id event_id db of
        (None, events) \<Rightarrow> ((False, js ''Event not found''), events)
      | (Some e, events) \<Rightarrow>
          if \<not> registration_required e then ((False, js ''Registration not required for this event''), events)
          else if is_full e then ((False, js ''Event is full''), events)
          else ((True, js ''Successfully registered for event''),
                (case current_participants e of
                   None \<Rightarrow> events
                 | Some c \<Rightarrow> update_first (\<lambda>x. ev_id x = event_id)
                               (\<lambda>x. x\<lparr>current_participants := Some (c + 1)\<rparr>) events)))"

section \<open>The module state\<close>

text \<open>The calls that change \<open>mockEvents\<close>: every query sorts it, a registration may
  increment one count.\<close>

datatype events_op =
    OGetAll
  | OByCategory jstr
  | OUpcoming nat js_date
  | OById jstr
  | OSearch jstr
  | ORange js_date js_date
  | ORegister jstr jstr

fun events_step :: "events_op \<Rightarrow> campus_event list \<Rightarrow> campus_event list" where
  "events_step OGetAll db = get_campus_events db"
| "events_step (OByCategory c) db = snd (get_events_by_category c db)"
| "events_step (OUpcoming l n) db = snd (get_upcoming_events l n db)"
| "events_step (OById i) db = snd (get_event_by_id i db)"
| "events_step (OSearch q) db = snd (search_events q db)"
| "events_step (ORange s e) db = snd (get_events_by_date_range s e db)"
| "events_step (ORegister i u) db = snd (register_for_event i u db)"

inductive events_reach :: "campus_event list \<Rightarrow> bool" where
  init: "events_reach mock_events"
| step: "events_reach db \<Longrightarrow> events_reach (events_step op db)"

text \<open>An event within its capacity: where both counts are given, the maximum is
  positive and not exceeded.\<close>

definition within_capacity :: "campus_event \<Rightarrow> bool" where
  "within_capacity e \<longleftrightarrow>
     (case (max_participants e, current_participants e) of
        (Some m, Some c) \<Rightarrow> 0 < m \<and> c \<le> m
      | _ \<Rightarrow> True)"

definition events_ok :: "campus_event list \<Rightarrow> bool" where
  "events_ok db \<longleftrightarrow> distinct (map ev_id db) \<and> (\<forall>e \<in> set db. within_capacity e)"

text \<open>The participant count of the event \<open>getEventById\<close> would find: \<open>None\<close> when no
  event has the id.\<close>

definition participants :: "campus_event list \<Rightarrow> jstr \<Rightarrow> nat option option" where
  "participants db i = map_option current_participants (find (\<lambda>e. ev_id e = i) db)"

text \<open>An event with a capacity but no participant count, for the witness of
  \<open>uncounted_event_never_full\<close>.\<close>

definition capped_event :: campus_event where
  "capped_event = (hd mock_events)\<lparr>max_participants := Some 1, current_participants := None\<rparr>"

lemmas events_defs [model_simps] =
  new_date_def get_full_year_def get_month_def category_id_def get_campus_events_def
  get_events_by_category_def get_upcoming_events_def get_event_by_id_def event_matches_def
  search_events_def get_events_by_date_range_def truthy_num_def is_full_def register_for_event_def


section \<open>Lemmas\<close>

lemma mset_get_campus_events [simp]: "mset (get_campus_events db) = mset db"
  by (simp add: get_campus_events_def mset_sort)

lemma set_get_campus_events [simp]: "set (get_campus_events db) = set db"
  by (simp add: get_campus_events_def)

lemma sorted_get_campus_events: "sorted (map ev_date (get_campus_events db))"
  by (simp add: get_campus_events_def sorted_sort_key)

lemma distinct_ids_get_campus_events [simp]:
  "distinct (map ev_id (get_campus_events db)) = distinct (map ev_id db)"
  by (rule mset_eq_imp_distinct_iff) (simp only: mset_map mset_get_campus_events)

lemma map_update_first: "(\<And>x. g (f x) = g x) \<Longrightarrow> map g (update_first P f xs) = map g xs"
  by (induction xs) auto

lemma set_update_first:
  "x \<in> set (update_first P f xs) \<Longrightarrow> x \<in> set xs \<or> (\<exists>y \<in> set xs. P y \<and> x = f y)"
  by (induction xs) (auto split: if_splits)

lemma find_update_first: "(\<And>x. P (f x) = P x) \<Longrightarrow> find P (update_first P f xs) = map_option f (find P xs)"
  by (induction xs) auto

lemma find_update_first_other:
  "(\<And>x. Q (f x) = Q x) \<Longrightarrow> (\<And>x. P x \<Longrightarrow> \<not> Q x) \<Longrightarrow> find Q (update_first P f xs) = find Q xs"
  by (induction xs) auto

lemma find_key_Some_iff:
  "distinct (map g xs) \<Longrightarrow> find (\<lambda>e. g e = k) xs = Some e \<longleftrightarrow> e \<in> set xs \<and> g e = k"
  by (induction xs) (auto simp: image_iff)

lemma find_key_None_iff: "find (\<lambda>e. g e = k) xs = None \<longleftrightarrow> k \<notin> g ` set xs"
  by (auto simp: find_None_iff)

lemma find_key_cong:
  assumes "distinct (map g xs)" "distinct (map g ys)" "set xs = set ys"
  shows "find (\<lambda>e. g e = k) xs = find (\<lambda>e. g e = k) ys"
proof (cases "find (\<lambda>e. g e = k) ys")
  case None
  then have "find (\<lambda>e. g e = k) xs = None" using assms(3) by (simp add: find_key_None_iff)
  with None show ?thesis by simp
next
  case (Some e)
  then show ?thesis using assms find_key_Some_iff [of g xs k e] find_key_Some_iff [of g ys k e] by simp
qed

lemma find_get_campus_events:
  "distinct (map ev_id db) \<Longrightarrow> find (\<lambda>e. ev_id e = i) (get_campus_events db) = find (\<lambda>e. ev_id e = i) db"
  by (rule find_key_cong) simp_all

lemma register_for_event_split:
  "register_for_event i u db =
     (case find (\<lambda>e. ev_id e = i) (get_campus_events db) of
        None \<Rightarrow> ((False, js ''Event not found''), get_campus_events db)
      | Some e \<Rightarrow>
          if \<not> registration_required e then ((False, js ''Registration not required for this event''), get_campus_events db)
          else if is_full e then ((False, js ''Event is full''), get_campus_events db)
          else ((True, js ''Successfully registered for event''),
                case current_participants e of
                  None \<Rightarrow> get_campus_events db
                | Some c \<Rightarrow> update_first (\<lambda>x. ev_id x = i)
                              (\<lambda>x. x\<lparr>current_participants := Some (c + 1)\<rparr>) (get_campus_events db)))"
  by (simp add: register_for_event_def get_event_by_id_def split: option.split)

lemma within_capacity_register:
  "within_capacity e \<Longrightarrow> \<not> is_full e \<Longrightarrow> current_participants e = Some c \<Longrightarrow>
     within_capacity (e\<lparr>current_participants := Some (c + 1)\<rparr>)"
  by (auto simp: within_capacity_def is_full_def truthy_num_def split: option.splits)

lemma events_ok_get_campus_events [simp]: "events_ok (get_campus_events db) = events_ok db"
  by (simp add: events_ok_def)

lemma events_ok_find:
  "events_ok db \<Longrightarrow> e \<in> set db \<Longrightarrow> ev_id e = i \<Longrightarrow> find (\<lambda>x. ev_id x = i) (get_campus_events db) = Some e"
  by (simp add: events_ok_def find_get_campus_events find_key_Some_iff)

lemma events_ok_same_id: "events_ok db \<Longrightarrow> x \<in> set db \<Longrightarrow> y \<in> set db \<Longrightarrow> ev_id x = ev_id y \<Longrightarrow> x = y"
  by (auto simp: events_ok_def distinct_map dest: inj_onD)

lemma update_first_found:
  "(\<And>x. P (f x) = P x) \<Longrightarrow> find P xs = Some e \<Longrightarrow> f e \<in> set (update_first P f xs)"
  using find_update_first [of P f xs] find_SomeD by fastforce

lemma events_ok_register: "events_ok db \<Longrightarrow> events_ok (snd (register_for_event i u db))"
proof -
  assume ok: "events_ok db"
  let ?ev = "get_campus_events db"
  have ok': "events_ok ?ev" using ok by simp
  show ?thesis
  proof (cases "find (\<lambda>e. ev_id e = i) ?ev")
    case None
    then show ?thesis using ok' by (simp add: register_for_event_split)
  next
    case (Some e)
    have e: "e \<in> set ?ev" "ev_id e = i" using find_SomeD [OF Some] by auto
    show ?thesis
    proof (cases "registration_required e \<and> \<not> is_full e \<and> current_participants e \<noteq> None")
      case False
      then show ?thesis using ok' Some by (auto simp: register_for_event_split split: option.split)
    next
      case True
      then obtain c where c: "current_participants e = Some c" by auto
      let ?f = "\<lambda>x. x\<lparr>current_participants := Some (c + 1)\<rparr>"
      let ?db' = "update_first (\<lambda>x. ev_id x = i) ?f ?ev"
      have "distinct (map ev_id ?db')"
        using ok' by (simp add: events_ok_def map_update_first)
      moreover have "within_capacity x" if x: "x \<in> set ?db'" for x
        using set_update_first [OF x]
      proof
        assume "x \<in> set ?ev"
        then show ?thesis using ok' by (simp add: events_ok_def)
      next
        assume "\<exists>y \<in> set ?ev. ev_id y = i \<and> x = ?f y"
        then obtain y where y: "y \<in> set ?ev" "ev_id y = i" "x = ?f y" by blast
        have "y = e" using events_ok_same_id [OF ok' y(1) e(1)] y(2) e(2) by simp
        moreover have "within_capacity e" using ok' e(1) by (simp add: events_ok_def)
        ultimately show ?thesis using within_capacity_register True c y(3) by blast
      qed
      ultimately show ?thesis using Some True c by (simp add: register_for_event_split events_ok_def)
    qed
  qed
qed

lemma events_step_ok: "events_ok db \<Longrightarrow> events_ok (events_step op db)"
  by (cases op) (simp_all add: events_ok_register get_events_by_category_def get_upcoming_events_def
      get_event_by_id_def search_events_def get_events_by_date_range_def Let_def)

lemma events_ok_mock: "events_ok mock_events"
  by (simp add: events_ok_def within_capacity_def mock_events_def js_def)

lemma events_ok_reach: "events_reach db \<Longrightarrow> events_ok db"
  by (induction rule: events_reach.induct) (simp_all add: events_ok_mock events_step_ok)

text \<open>C38. In every state \<open>mockEvents\<close> reaches through the service's calls, the
  event ids are distinct and every event with a capacity and a count has a positive
  capacity that the count does not exceed.\<close>

theorem events_reach_ok: "events_reach db \<Longrightarrow> events_ok db"
  by (rule events_ok_reach)

lemma participants_get_campus_events:
  "events_ok db \<Longrightarrow> participants (get_campus_events db) j = participants db j"
  by (simp add: participants_def events_ok_def find_get_campus_events)

lemma register_success_iff:
  assumes "events_ok db"
  shows "fst (fst (register_for_event i u db)) \<longleftrightarrow>
           (\<exists>e \<in> set db. ev_id e = i \<and> registration_required e \<and> \<not> is_full e)"
proof (cases "\<exists>e \<in> set db. ev_id e = i")
  case True
  then obtain e where e: "e \<in> set db" "ev_id e = i" by blast
  then show ?thesis using events_ok_find [OF assms e] events_ok_same_id [OF assms]
    by (auto simp: register_for_event_split split: option.split)
next
  case False
  then have "find (\<lambda>x. ev_id x = i) (get_campus_events db) = None" by (simp add: find_None_iff)
  then show ?thesis using False by (simp add: register_for_event_split)
qed

text \<open>A registration changes one count: after \<open>registerForEvent\<close>, the count of the
  event with that id has grown by one when the call succeeded, and the count of every
  other id (and of that id after a failure) is what it was.\<close>

theorem register_for_event_effect:
  assumes "events_ok db"
  shows "participants (snd (register_for_event i u db)) j =
           (if fst (fst (register_for_event i u db)) \<and> j = i
            then map_option (map_option Suc) (participants db j) else participants db j)"
proof (cases "find (\<lambda>e. ev_id e = i) (get_campus_events db)")
  case None
  then show ?thesis using participants_get_campus_events [OF assms] by (simp add: register_for_event_split)
next
  case (Some e)
  note found = Some
  have pe: "participants db i = Some (current_participants e)"
    using found find_get_campus_events assms by (simp add: participants_def events_ok_def)
  show ?thesis
  proof (cases "registration_required e \<and> \<not> is_full e")
    case False
    then show ?thesis using found participants_get_campus_events [OF assms] by (auto simp: register_for_event_split)
  next
    case True
    show ?thesis
    proof (cases "current_participants e")
      case None
      then show ?thesis using found True pe participants_get_campus_events [OF assms]
        by (auto simp: register_for_event_split)
    next
      case (Some c)
      let ?f = "\<lambda>x. x\<lparr>current_participants := Some (c + 1)\<rparr>"
      have upd: "participants (update_first (\<lambda>x. ev_id x = i) ?f (get_campus_events db)) j =
              (if j = i then Some (Some (Suc c)) else participants db j)"
      proof (cases "j = i")
        case True
        have "find (\<lambda>x. ev_id x = i) (update_first (\<lambda>x. ev_id x = i) ?f (get_campus_events db)) = Some (?f e)"
          using find_update_first [of "\<lambda>x. ev_id x = i" ?f "get_campus_events db"] found by simp
        then show ?thesis using True by (simp add: participants_def)
      next
        case False
        then have "find (\<lambda>x. ev_id x = j) (update_first (\<lambda>x. ev_id x = i) ?f (get_campus_events db)) =
            find (\<lambda>x. ev_id x = j) (get_campus_events db)"
          by (intro find_update_first_other) auto
        then show ?thesis using False participants_get_campus_events [OF assms, of j]
          by (simp add: participants_def)
      qed
      from upd show ?thesis using found True Some pe by (simp add: register_for_event_split)
    qed
  qed
qed

lemma register_in_place:
  assumes "events_ok db" "e \<in> set db" "ev_id e = i" "registration_required e" "\<not> is_full e"
    "current_participants e = Some c"
  shows "fst (register_for_event i u db) = (True, js ''Successfully registered for event'') \<and>
         e\<lparr>current_participants := Some (c + 1)\<rparr> \<in> set (snd (register_for_event i u db))"
  using assms events_ok_find [OF assms(1-3)]
    update_first_found [of "\<lambda>x. ev_id x = i" "\<lambda>x. x\<lparr>current_participants := Some (c + 1)\<rparr>"]
  by (simp add: register_for_event_split)

text \<open>An event that needs registration fills up and then refuses: from a count
  \<open>c\<close> below a capacity \<open>m\<close>, \<open>m - c\<close> registrations bring the count to \<open>m\<close>, and the
  next one fails with "Event is full".\<close>

theorem register_until_full:
  assumes "events_ok db" "e \<in> set db" "ev_id e = i" "registration_required e"
    "max_participants e = Some m" "current_participants e = Some c"
  shows "participants (((\<lambda>d. snd (register_for_event i u d)) ^^ (m - c)) db) i = Some (Some m) \<and>
         fst (register_for_event i u (((\<lambda>d. snd (register_for_event i u d)) ^^ (m - c)) db)) =
           (False, js ''Event is full'')"
  using assms
proof (induction "m - c" arbitrary: db e c)
  case 0
  have "within_capacity e" using "0.prems"(1,2) by (simp add: events_ok_def)
  then have "0 < m \<and> c \<le> m" using "0.prems"(5,6) by (simp add: within_capacity_def)
  then have "c = m" "is_full e" using 0 by (simp_all add: is_full_def truthy_num_def)
  then show ?case using 0 events_ok_find [OF "0.prems"(1-3)] find_get_campus_events
    by (simp add: participants_def register_for_event_split events_ok_def)
next
  case (Suc k)
  have cm: "c < m" using Suc.hyps(2) by simp
  then have nf: "\<not> is_full e" using Suc.prems by (simp add: is_full_def truthy_num_def)
  let ?db1 = "snd (register_for_event i u db)"
  have r: "e\<lparr>current_participants := Some (c + 1)\<rparr> \<in> set ?db1"
    using register_in_place [OF Suc.prems(1-4) nf Suc.prems(6)] by blast
  have ok1: "events_ok ?db1" using events_ok_register [OF Suc.prems(1)] .
  have mc: "m - c = Suc (m - (c + 1))" using cm by simp
  have "k = m - (c + 1)" using Suc.hyps(2) by simp
  from Suc.hyps(1) [OF this ok1 r] Suc.prems
  show ?case unfolding mc funpow_Suc_right o_apply by simp
qed

lemma get_campus_events_idem [simp]: "get_campus_events (get_campus_events db) = get_campus_events db"
  by (simp add: get_campus_events_def sort_key_id_if_sorted)

lemma mock_events_sorted: "get_campus_events mock_events = mock_events"
  by (simp add: get_campus_events_def mock_events_def)

text \<open>\<open>getUpcomingEvents(limit)\<close> returns at most \<open>limit\<close> events, all at or after
  the current time and in date order; when it returns fewer than \<open>limit\<close>, it returns
  every upcoming event.\<close>

theorem get_upcoming_events_bounds:
  "length (fst (get_upcoming_events limit now db)) \<le> limit \<and>
   (\<forall>e \<in> set (fst (get_upcoming_events limit now db)). now \<le> ev_date e) \<and>
   sorted (map ev_date (fst (get_upcoming_events limit now db))) \<and>
   (length (fst (get_upcoming_events limit now db)) < limit \<longrightarrow>
      (\<forall>e \<in> set db. now \<le> ev_date e \<longrightarrow> e \<in> set (fst (get_upcoming_events limit now db))))"
proof -
  let ?up = "filter (\<lambda>e. now \<le> ev_date e) (get_campus_events db)"
  have s: "sorted (map ev_date ?up)" using sorted_get_campus_events by (simp add: sorted_filter)
  have "sorted (map ev_date (take limit ?up))" using sorted_wrt_take [OF s, of limit] by (simp add: take_map)
  moreover have "length (take limit ?up) < limit \<Longrightarrow> take limit ?up = ?up" by simp
  ultimately show ?thesis by (auto simp: get_upcoming_events_def Let_def dest: in_set_takeD)
qed

lemma js_includes_self [simp]: "js_includes s s"
  unfolding js_includes_iff using at_pos_self by blast

text \<open>Every event is found by searching for its own title.\<close>

theorem search_events_own_title: "e \<in> set db \<Longrightarrow> e \<in> set (fst (search_events (title e) db))"
  by (simp add: search_events_def Let_def event_matches_def)

lemma register_mock_1:
  "register_for_event (js ''1'') u mock_events =
     ((True, js ''Successfully registered for event''),
      update_first (\<lambda>x. ev_id x = js ''1'') (\<lambda>x. x\<lparr>current_participants := Some 146\<rparr>) mock_events)"
  unfolding register_for_event_split mock_events_sorted
  by (simp add: mock_events_def js_def is_full_def truthy_num_def)

text \<open>\<open>registerForEvent\<close> does not use the user id: one user registering twice for
  the Welcome Day takes two places (145 to 147).\<close>

theorem register_same_user_twice:
  "fst (register_for_event (js ''1'') (js ''u'') (snd (register_for_event (js ''1'') (js ''u'') mock_events))) =
     (True, js ''Successfully registered for event'') \<and>
   participants (snd (register_for_event (js ''1'') (js ''u'')
     (snd (register_for_event (js ''1'') (js ''u'') mock_events)))) (js ''1'') = Some (Some 147)"
  unfolding register_mock_1
  by (simp add: register_for_event_split get_campus_events_def participants_def mock_events_def js_def
      is_full_def truthy_num_def)

lemma register_uncounted:
  assumes "events_ok db" "e \<in> set db" "ev_id e = i" "registration_required e" "current_participants e = None"
  shows "register_for_event i u db = ((True, js ''Successfully registered for event''), get_campus_events db)"
proof -
  have "\<not> is_full e" using assms(5) by (simp add: is_full_def truthy_num_def)
  then show ?thesis using events_ok_find [OF assms(1-3)] assms(4,5) by (simp add: register_for_event_split)
qed

text \<open>An event with a capacity but without \<open>currentParticipants\<close> is never full:
  the check \<open>event.maxParticipants && event.currentParticipants && ...\<close> is skipped, so
  every registration succeeds, however many there are.\<close>

theorem uncounted_event_never_full:
  assumes "events_ok db" "e \<in> set db" "ev_id e = i" "registration_required e" "current_participants e = None"
  shows "fst (register_for_event i u (((\<lambda>d. snd (register_for_event i u d)) ^^ k) db)) =
           (True, js ''Successfully registered for event'')"
proof -
  have "events_ok (((\<lambda>d. snd (register_for_event i u d)) ^^ k) db) \<and>
        e \<in> set (((\<lambda>d. snd (register_for_event i u d)) ^^ k) db)"
  proof (induction k)
    case 0
    then show ?case using assms by simp
  next
    case (Suc k)
    then show ?case using register_uncounted [of _ e i u] assms(3-5) by simp
  qed
  then show ?thesis using register_uncounted [of _ e i u] assms(3-5) by simp
qed

theorem uncounted_event_never_full_witness:
  "fst (register_for_event (js ''1'') (js ''u'')
     (((\<lambda>d. snd (register_for_event (js ''1'') (js ''u'') d)) ^^ 5) [capped_event])) =
       (True, js ''Successfully registered for event'')"
proof -
  have c: "events_ok [capped_event]" "registration_required capped_event" "ev_id capped_event = js ''1''"
    "current_participants capped_event = None"
    by (simp_all add: capped_event_def mock_events_def events_ok_def within_capacity_def)
  show ?thesis using uncounted_event_never_full [OF c(1) _ c(3,2,4), where u = "js ''u''" and k = 5] by simp
qed


subsection \<open>Witnesses\<close>

theorem events_reach_ok_witness:
  "events_ok (events_step (ORegister (js ''1'') (js ''u'')) mock_events)"
  using events_reach_ok [OF events_reach.step [OF events_reach.init]] .

theorem register_for_event_effect_witness:
  "participants (snd (register_for_event (js ''1'') (js ''u'') mock_events)) (js ''1'') = Some (Some 146)"
proof -
  have p: "participants mock_events (js ''1'') = Some (Some 145)"
    by (simp add: participants_def mock_events_def js_def)
  have "fst (fst (register_for_event (js ''1'') (js ''u'') mock_events))"
    by (simp add: register_mock_1)
  then show ?thesis
    using register_for_event_effect [OF events_ok_mock, of "js ''1''" "js ''u''" "js ''1''"] p by simp
qed

theorem register_until_full_witness:
  "fst (register_for_event (js ''2'') (js ''u'')
     (((\<lambda>d. snd (register_for_event (js ''2'') (js ''u'') d)) ^^ 12) mock_events)) =
       (False, js ''Event is full'')"
proof -
  have e: "mock_events ! 1 \<in> set mock_events" "ev_id (mock_events ! 1) = js ''2''"
    "registration_required (mock_events ! 1)" "max_participants (mock_events ! 1) = Some 30"
    "current_participants (mock_events ! 1) = Some 18"
    by (simp_all add: mock_events_def)
  from register_until_full [OF events_ok_mock e, of "js ''u''"] show ?thesis by simp
qed

theorem get_upcoming_events_bounds_witness:
  "length (fst (get_upcoming_events 5 (2025, 1, 1, 0) mock_events)) \<le> 5"
  using get_upcoming_events_bounds [of 5 "(2025, 1, 1, 0)" mock_events] by blast

theorem search_events_own_title_witness:
  "hd mock_events \<in> set (fst (search_events (title (hd mock_events)) mock_events))"
proof -
  have "hd mock_events \<in> set mock_events" by (simp add: mock_events_def)
  then show ?thesis by (rule search_events_own_title)
qed

end
