(* ===== verification/EventsCalendar.thy ===== *)
theory EventsCalendar
  imports Events
begin

text \<open>The events panel (\<open>components/EventsCalendar.tsx\<close>): its React state, the
  handlers of its buttons and inputs, the \<open>loadEvents\<close> effect with the loads in flight,
  the month grid of the calendar view, the list view and the content of an event card.
  The \<open>date-fns\<close> functions it calls (\<open>startOfMonth\<close>, \<open>endOfMonth\<close>,
  \<open>eachDayOfInterval\<close>, \<open>isSameDay\<close>, \<open>format\<close>) are modelled on local dates as in
  \<open>Events\<close>.\<close>

section \<open>Calendar arithmetic (date-fns)\<close>

definition is_leap_year :: "int \<Rightarrow> bool" where
  "is_leap_year y \<longleftrightarrow> (4 dvd y \<and> \<not> 100 dvd y) \<or> 400 dvd y"

text \<open>The length of month \<open>m\<close> (0 to 11) of year \<open>y\<close>: the day \<open>endOfMonth\<close> returns.\<close>

definition days_in_month :: "int \<Rightarrow> int \<Rightarrow> int" where
  "days_in_month y m =
     (if m = 1 then (if is_leap_year y then 29 else 28)
      else if m \<in> {3, 5, 8, 10} then 30 else 31)"

text \<open>\<open>eachDayOfInterval({start: startOfMonth(d), end: endOfMonth(d)})\<close>.\<close>

definition month_days :: "js_date \<Rightarrow> js_date list" where
  "month_days d =
     map (\<lambda>k. (get_full_year d, get_month d, int k, 0)) [1..<nat (days_in_month (get_full_year d) (get_month d)) + 1]"

definition is_same_day :: "js_date \<Rightarrow> js_date \<Rightarrow> bool" where
  "is_same_day a b \<longleftrightarrow> fst a = fst b \<and> fst (snd a) = fst (snd b) \<and> fst (snd (snd a)) = fst (snd (snd b))"

text \<open>The day of the week, 0 for Sunday (Sakamoto's method on the proleptic Gregorian
  calendar); the code never computes it, the grid below is compared against it.\<close>

definition weekday :: "js_date \<Rightarrow> int" where
  "weekday d =
     (let y = get_full_year d; m = get_month d; dd = fst (snd (snd d));
          t = [0, 3, 2, 5, 0, 3, 5, 1, 4, 6, 2, 4] ! nat m;
          y' = (if m < 2 then y - 1 else y)
      in (y' + y' div 4 - y' div 100 + y' div 400 + t + dd) mod 7)"

text \<open>\<open>format(date, 'MMM')\<close> in the default English locale.\<close>

definition month_abbrev :: "int \<Rightarrow> jstr" where
  "month_abbrev m =
     [js ''Jan'', js ''Feb'', js ''Mar'', js ''Apr'', js ''May'', js ''Jun'',
      js ''Jul'', js ''Aug'', js ''Sep'', js ''Oct'', js ''Nov'', js ''Dec''] ! nat m"

section \<open>The panel\<close>

datatype view_mode = VMCalendar | VMList

datatype icon = ICalendar | IGraduationCap | IGlobe | IHeart | IPalette | ITrophy

text \<open>The category buttons: id, label in the current language, icon and colour.\<close>

definition categories :: "lang \<Rightarrow> (jstr \<times> jstr \<times> icon \<times> jstr) list" where
  "categories l =
     [(js ''all'', (if l = En then js ''All Events'' else js ''Alle Veranstaltungen''), ICalendar, js ''bg-gray-500''),
      (js ''academic'', (if l = En then js ''Academic'' else js ''Akademisch''), IGraduationCap, js ''bg-blue-500''),
      (js ''international'', js ''International'', IGlobe, js ''bg-green-500''),
      (js ''social'', (if l = En then js ''Social'' else js ''Sozial''), IHeart, js ''bg-pink-500''),
      (js ''cultural'', (if l = En then js ''Cultural'' else js ''Kulturell''), IPalette, js ''bg-purple-500''),
      (js ''sports'', (if l = En then js ''Sports'' else js ''Sport''), ITrophy, js ''bg-orange-500'')]"

record calendar_state =
  cal_events :: "campus_event list"
  is_loading :: bool
  selected_date :: js_date
  current_month :: js_date
  selected_category :: jstr
  view_mode :: view_mode
  search_query :: jstr
  show_filters :: bool
  loads :: "jstr list"

text \<open>The first render at time \<open>now\<close>: the mount effect has started one load with the
  empty query. Loads are kept in the order they started: each waits the same 800 ms
  timers, so they complete in that order.\<close>

definition calendar_init :: "js_date \<Rightarrow> calendar_state" where
  "calendar_init now =
     \<lparr>cal_events = [], is_loading = True, selected_date = now, current_month = now,
      selected_category = js ''all'', view_mode = VMList, search_query = [], show_filters = False,
      loads = [[]]\<rparr>"

text \<open>The completion of the oldest load: \<open>Promise.all\<close> of the search (or of
  \<open>getCampusEvents\<close> for an empty query) and of \<open>getUpcomingEvents(5)\<close>, whose result is
  discarded; both sort the service's array. The \<open>finally\<close> clears the loading flag.\<close>

definition load_result :: "jstr \<Rightarrow> campus_event list \<Rightarrow> campus_event list \<times> campus_event list" where
  "load_result q db = (if q \<noteq> [] then search_events q db else (get_campus_events db, get_campus_events db))"

definition complete_load :: "calendar_state \<times> campus_event list \<Rightarrow> calendar_state \<times> campus_event list" where
  "complete_load sd =
     (case loads (fst sd) of
        [] \<Rightarrow> sd
      | q # qs \<Rightarrow>
          (let (all_events, db1) = load_result q (snd sd);
               db2 = snd (get_upcoming_events 5 (selected_date (fst sd)) db1)
           in ((fst sd)\<lparr>cal_events := all_events, is_loading := False, loads := qs\<rparr>, db2)))"

text \<open>\<open>handleSearch\<close> (and \<open>clearSearch\<close> with the empty query): a new query re-runs
  the effect, which sets the loading flag and starts a load; the same query does not.\<close>

definition handle_search :: "jstr \<Rightarrow> calendar_state \<Rightarrow> calendar_state" where
  "handle_search query st =
     (if query = search_query st then st
      else st\<lparr>search_query := query, is_loading := True, loads := loads st @ [query]\<rparr>)"

definition clear_search :: "calendar_state \<Rightarrow> calendar_state" where
  "clear_search st = handle_search [] st"

definition prev_month :: "calendar_state \<Rightarrow> calendar_state" where
  "prev_month st =
     st\<lparr>current_month := new_date (get_full_year (current_month st)) (get_month (current_month st) - 1) 1\<rparr>"

definition next_month :: "calendar_state \<Rightarrow> calendar_state" where
  "next_month st =
     st\<lparr>current_month := new_date (get_full_year (current_month st)) (get_month (current_month st) + 1) 1\<rparr>"

definition toggle_filters :: "calendar_state \<Rightarrow> calendar_state" where
  "toggle_filters st = st\<lparr>show_filters := \<not> show_filters st\<rparr>"

definition toggle_view :: "calendar_state \<Rightarrow> calendar_state" where
  "toggle_view st = st\<lparr>view_mode := (if view_mode st = VMCalendar then VMList else VMCalendar)\<rparr>"

datatype calendar_event =
    CompleteLoad
  | Search jstr
  | ClearSearch
  | SelectCategory jstr
  | SelectDate js_date
  | PrevMonth
  | NextMonth
  | ToggleFilters
  | ToggleView

fun calendar_step :: "calendar_event \<Rightarrow> calendar_state \<times> campus_event list \<Rightarrow> calendar_state \<times> campus_event list" where
  "calendar_step CompleteLoad sd = complete_load sd"
| "calendar_step (Search q) sd = (handle_search q (fst sd), snd sd)"
| "calendar_step ClearSearch sd = (clear_search (fst sd), snd sd)"
| "calendar_step (SelectCategory c) sd = ((fst sd)\<lparr>selected_category := c\<rparr>, snd sd)"
| "calendar_step (SelectDate d) sd = ((fst sd)\<lparr>selected_date := d\<rparr>, snd sd)"
| "calendar_step PrevMonth sd = (prev_month (fst sd), snd sd)"
| "calendar_step NextMonth sd = (next_month (fst sd), snd sd)"
| "calendar_step ToggleFilters sd = (toggle_filters (fst sd), snd sd)"
| "calendar_step ToggleView sd = (toggle_view (fst sd), snd sd)"

text \<open>The service calls of other mounted panels: every query, but no registration
  (no component calls \<open>registerForEvent\<close>).\<close>

fun is_register :: "events_op \<Rightarrow> bool" where
  "is_register (ORegister i u) = True"
| "is_register op = False"

text \<open>The panel mounted at time \<open>now\<close> beside a service in a state \<open>events_reach\<close>
  allows; other panels may query the service in between. The panel's \<open>events\<close> hold
  the objects of the service's array; since no call mutates an event once the panel is
  mounted, holding their values is the same.\<close>

inductive calendar_reach :: "calendar_state \<times> campus_event list \<Rightarrow> bool" where
  init: "events_reach db \<Longrightarrow> calendar_reach (calendar_init now, db)"
| step: "calendar_reach sd \<Longrightarrow> calendar_reach (calendar_step a sd)"
| service: "calendar_reach (st, db) \<Longrightarrow> \<not> is_register op \<Longrightarrow> calendar_reach (st, events_step op db)"

section \<open>What the panel shows\<close>

definition filtered_events :: "calendar_state \<Rightarrow> campus_event list" where
  "filtered_events st =
     (if selected_category st = js ''all'' then cal_events st
      else filter (\<lambda>e. category_id (category e) = selected_category st) (cal_events st))"

definition get_events_for_date :: "calendar_state \<Rightarrow> js_date \<Rightarrow> campus_event list" where
  "get_events_for_date st d = filter (\<lambda>e. is_same_day (ev_date e) d) (filtered_events st)"

text \<open>\<open>getCategoryIcon\<close> and \<open>getCategoryColor\<close> (defined in the component, not called).\<close>

definition get_category_icon :: "lang \<Rightarrow> jstr \<Rightarrow> icon" where
  "get_category_icon l c =
     (case find (\<lambda>cat. fst cat = c) (categories l) of None \<Rightarrow> ICalendar | Some cat \<Rightarrow> fst (snd (snd cat)))"

definition get_category_color :: "jstr \<Rightarrow> jstr" where
  "get_category_color c =
     (case map_of [(js ''academic'', js ''bg-blue-500''), (js ''international'', js ''bg-green-500''),
                   (js ''social'', js ''bg-pink-500''), (js ''cultural'', js ''bg-purple-500''),
                   (js ''sports'', js ''bg-orange-500'')] c of
        None \<Rightarrow> js ''bg-gray-500''
      | Some x \<Rightarrow> x)"

definition weekday_headers :: "jstr list" where
  "weekday_headers = [js ''Sun'', js ''Mon'', js ''Tue'', js ''Wed'', js ''Thu'', js ''Fri'', js ''Sat'']"

definition month_names :: "jstr list" where
  "month_names =
     [js ''January'', js ''February'', js ''March'', js ''April'', js ''May'', js ''June'', js ''July'',
      js ''August'', js ''September'', js ''October'', js ''November'', js ''December'']"

text \<open>A day button of the grid: its label \<open>format(day, 'd')\<close>, the dot for a day with
  events, and the highlighting of the selected day and of today. The grid has seven
  columns; after the seven headers, the \<open>k\<close>-th day button lands in column \<open>k mod 7\<close>.\<close>

record day_cell =
  cell_date :: js_date
  cell_label :: jstr
  cell_dot :: bool
  cell_selected :: bool
  cell_today :: bool

definition calendar_cells :: "js_date \<Rightarrow> calendar_state \<Rightarrow> day_cell list" where
  "calendar_cells today st =
     map (\<lambda>day. \<lparr>cell_date = day, cell_label = js_digits (nat (fst (snd (snd day)))),
                 cell_dot = (get_events_for_date st day \<noteq> []),
                 cell_selected = is_same_day day (selected_date st), cell_today = is_same_day day today\<rparr>)
       (month_days (current_month st))"

definition cell_header :: "nat \<Rightarrow> jstr" where
  "cell_header k = weekday_headers ! (k mod 7)"

text \<open>\<open>EventCard\<close>: the icon, the date line \<open>MMM d \<bullet> time\<close>, the count
  \<open>currentParticipants || 0\<close> over the capacity when the capacity is truthy, the first three
  tags, and the registration link when registration is required and the URL is not
  empty.\<close>

record card =
  card_icon :: icon
  card_title :: jstr
  card_description :: jstr
  card_when :: jstr
  card_location :: jstr
  card_participants :: "(nat \<times> nat) option"
  card_tags :: "jstr list"
  card_register :: "(jstr \<times> jstr) option"

definition event_icon :: "campus_event \<Rightarrow> icon" where
  "event_icon e =
     (if category_id (category e) = js ''academic'' then IGraduationCap
      else if category_id (category e) = js ''international'' then IGlobe
      else if category_id (category e) = js ''social'' then IHeart
      else if category_id (category e) = js ''cultural'' then IPalette
      else if category_id (category e) = js ''sports'' then ITrophy else ICalendar)"

definition event_card :: "lang \<Rightarrow> campus_event \<Rightarrow> card" where
  "event_card l e =
     \<lparr>card_icon = event_icon e, card_title = title e, card_description = description e,
      card_when = month_abbrev (get_month (ev_date e)) @ js '' '' @ js_digits (nat (fst (snd (snd (ev_date e)))))
                  @ [32, 0x2022, 32] @ ev_time e,
      card_location = location e,
      card_participants =
        (if truthy_num (max_participants e)
         then Some (case current_participants e of None \<Rightarrow> 0 | Some c \<Rightarrow> c, the (max_participants e))
         else None),
      card_tags = (case tags e of None \<Rightarrow> [] | Some ts \<Rightarrow> take 3 ts),
      card_register =
        (case registration_url e of
           Some u \<Rightarrow> if registration_required e \<and> u \<noteq> [] then Some (u, if l = En then js ''Register'' else js ''Anmelden'') else None
         | None \<Rightarrow> None)\<rparr>"

text \<open>The panel: the spinner while loading, else the calendar view (month title, day
  buttons, the cards of the selected day) or the list view (the first ten cards of the
  category, or a notice).\<close>

datatype panel =
    PLoading jstr
  | PCalendar jstr "day_cell list" "card list"
  | PList jstr "card list"
  | PListEmpty jstr jstr

definition render_panel :: "lang \<Rightarrow> js_date \<Rightarrow> calendar_state \<Rightarrow> panel" where
  "render_panel l today st =
     (if is_loading st then PLoading (if l = En then js ''Loading events...'' else js ''Lade Veranstaltungen...'')
      else if view_mode st = VMCalendar then
        PCalendar (month_names ! nat (get_month (current_month st)) @ js '' '' @
                     js_digits (nat (get_full_year (current_month st))))
          (calendar_cells today st) (map (event_card l) (get_events_for_date st (selected_date st)))
      else if filtered_events st = [] then
        PListEmpty (if l = En then js ''Upcoming Events'' else js ''Kommende Veranstaltungen'')
          (if l = En then js ''No events found for the selected category.''
           else js ''Keine Veranstaltungen f'' @ [0xFC] @ js ''r die ausgew'' @ [0xE4] @ js ''hlte Kategorie gefunden.'')
      else PList (if l = En then js ''Upcoming Events'' else js ''Kommende Veranstaltungen'')
             (map (event_card l) (take 10 (filtered_events st))))"

text \<open>The panel's invariant: the service is in a reachable state, the newest load in
  flight is for the current query, the loading flag is only set while a load is in
  flight, and the events on display are within their capacity.\<close>

definition calendar_ok :: "calendar_state \<times> campus_event list \<Rightarrow> bool" where
  "calendar_ok sd \<longleftrightarrow>
     events_reach (snd sd) \<and>
     (loads (fst sd) \<noteq> [] \<longrightarrow> last (loads (fst sd)) = search_query (fst sd)) \<and>
     (is_loading (fst sd) \<longrightarrow> loads (fst sd) \<noteq> []) \<and>
     (\<forall>e \<in> set (cal_events (fst sd)). within_capacity e)"

lemmas calendar_defs [model_simps] =
  is_leap_year_def days_in_month_def month_days_def is_same_day_def month_abbrev_def categories_def
  calendar_init_def load_result_def complete_load_def handle_search_def clear_search_def prev_month_def
  next_month_def toggle_filters_def toggle_view_def filtered_events_def get_events_for_date_def
  get_category_icon_def get_category_color_def weekday_headers_def month_names_def calendar_cells_def
  cell_header_def event_icon_def event_card_def render_panel_def


section \<open>Lemmas\<close>

lemma new_date_in_range: "0 \<le> m \<Longrightarrow> m < 12 \<Longrightarrow> new_date y m d = (y, m, d, 0)"
  by (simp add: new_date_def)

text \<open>The month buttons are inverse: going forward then back (or back then forward)
  from a month lands on the first day of that month, across year boundaries too.\<close>

theorem prev_next_month:
  assumes "0 \<le> get_month (current_month st)" "get_month (current_month st) < 12"
  shows "current_month (prev_month (next_month st)) =
           (get_full_year (current_month st), get_month (current_month st), 1, 0) \<and>
         current_month (next_month (prev_month st)) =
           (get_full_year (current_month st), get_month (current_month st), 1, 0)"
proof -
  obtain y m d t where c: "current_month st = (y, m, d, t)" by (cases "current_month st") auto
  have m: "0 \<le> m" "m < 12" using assms c by (simp_all add: get_month_def)
  show ?thesis
  proof (cases "m = 11")
    case True
    then show ?thesis using c by (simp add: prev_month_def next_month_def new_date_def get_month_def get_full_year_def)
  next
    case False
    then show ?thesis using c m
      by (cases "m = 0") (simp_all add: prev_month_def next_month_def new_date_def get_month_def get_full_year_def)
  qed
qed

lemma days_in_month_bounds: "28 \<le> days_in_month y m \<and> days_in_month y m \<le> 31"
  by (simp add: days_in_month_def)

text \<open>The calendar view shows one button for each day of the current month, in order
  and without repetition: between 28 and 31 of them.\<close>

theorem month_days_exact:
  "set (month_days d) = {(get_full_year d, get_month d, k, 0) | k. 1 \<le> k \<and> k \<le> days_in_month (get_full_year d) (get_month d)} \<and>
   28 \<le> length (month_days d) \<and> length (month_days d) \<le> 31 \<and>
   sorted (month_days d) \<and> distinct (month_days d)"
proof -
  let ?n = "days_in_month (get_full_year d) (get_month d)"
  have n: "28 \<le> ?n" "?n \<le> 31" using days_in_month_bounds by blast+
  have "set (month_days d) = {(get_full_year d, get_month d, k, 0) | k. 1 \<le> k \<and> k \<le> ?n}"
  proof (intro set_eqI iffI)
    fix x :: js_date assume "x \<in> set (month_days d)"
    then show "x \<in> {(get_full_year d, get_month d, k, 0) | k. 1 \<le> k \<and> k \<le> ?n}"
      using n by (auto simp: month_days_def)
  next
    fix x :: js_date assume "x \<in> {(get_full_year d, get_month d, k, 0) | k. 1 \<le> k \<and> k \<le> ?n}"
    then obtain k where k: "x = (get_full_year d, get_month d, k, 0::int)" "1 \<le> k" "k \<le> ?n" by blast
    then have "nat k \<in> set [1..<nat ?n + 1]" by (simp, arith)
    then show "x \<in> set (month_days d)" using k by (force simp: month_days_def)
  qed
  moreover have "length (month_days d) = nat ?n" by (simp add: month_days_def)
  moreover have "sorted (month_days d)"
    unfolding month_days_def sorted_map
    by (rule sorted_wrt_mono_rel [OF _ sorted_wrt_upt]) auto
  moreover have "distinct (month_days d)" by (simp add: month_days_def distinct_map inj_on_def)
  ultimately show ?thesis using n by linarith
qed

lemma load_result_get_campus_events [simp]: "load_result q (get_campus_events db) = (fst (load_result q db), get_campus_events db)"
  by (simp add: load_result_def search_events_def Let_def)

lemma snd_load_result [simp]: "snd (load_result q db) = get_campus_events db"
  by (simp add: load_result_def search_events_def Let_def)

lemma complete_load_Cons:
  "loads st = q # qs \<Longrightarrow>
     complete_load (st, db) =
       (st\<lparr>cal_events := fst (load_result q db), is_loading := False, loads := qs\<rparr>, get_campus_events db)"
  by (simp add: complete_load_def get_upcoming_events_def Let_def case_prod_beta)

lemma complete_load_drain:
  "loads st = qs \<Longrightarrow> qs \<noteq> [] \<Longrightarrow>
     (complete_load ^^ length qs) (st, db) =
       (st\<lparr>cal_events := fst (load_result (last qs) db), is_loading := False, loads := []\<rparr>, get_campus_events db)"
proof (induction qs arbitrary: st db)
  case Nil
  then show ?case by simp
next
  case (Cons q qs)
  show ?case
  proof (cases "qs = []")
    case True
    then show ?thesis using complete_load_Cons [OF Cons.prems(1)] by simp
  next
    case False
    let ?st1 = "st\<lparr>cal_events := fst (load_result q db), is_loading := False, loads := qs\<rparr>"
    have "(complete_load ^^ length qs) (?st1, get_campus_events db) =
        (?st1\<lparr>cal_events := fst (load_result (last qs) db), is_loading := False, loads := []\<rparr>, get_campus_events db)"
      using Cons.IH [of ?st1 "get_campus_events db"] False by simp
    then show ?thesis using complete_load_Cons [OF Cons.prems(1)] False
      by (simp add: funpow_Suc_right del: funpow.simps)
  qed
qed

lemma set_load_result: "set (fst (load_result q db)) \<subseteq> set db"
  by (auto simp: load_result_def search_events_def Let_def)

lemma events_reach_get_campus_events: "events_reach db \<Longrightarrow> events_reach (get_campus_events db)"
  using events_reach.step [of db OGetAll] by simp

lemma calendar_ok_complete: "calendar_ok sd \<Longrightarrow> calendar_ok (complete_load sd)"
proof -
  assume ok: "calendar_ok sd"
  obtain st db where sd: "sd = (st, db)" by fastforce
  show ?thesis
  proof (cases "loads st")
    case Nil
    then show ?thesis using ok sd by (simp add: complete_load_def)
  next
    case (Cons q qs)
    have r: "events_reach db" using ok sd by (simp add: calendar_ok_def)
    have "\<forall>e \<in> set db. within_capacity e" using events_ok_reach [OF r] by (simp add: events_ok_def)
    then have "\<forall>e \<in> set (fst (load_result q db)). within_capacity e" using set_load_result by blast
    then show ?thesis using ok sd Cons complete_load_Cons [OF Cons] events_reach_get_campus_events [OF r]
      by (auto simp: calendar_ok_def)
  qed
qed

lemma calendar_ok_step:
  assumes "calendar_ok sd"
  shows "calendar_ok (calendar_step a sd)"
proof (cases "a = CompleteLoad")
  case True
  then show ?thesis using calendar_ok_complete [OF assms] by simp
next
  case False
  then show ?thesis using assms
    by (cases a) (auto simp: calendar_ok_def handle_search_def clear_search_def
        prev_month_def next_month_def toggle_filters_def toggle_view_def)
qed

lemma calendar_ok_reach: "calendar_reach sd \<Longrightarrow> calendar_ok sd"
proof (induction rule: calendar_reach.induct)
  case (init db now)
  then show ?case by (simp add: calendar_ok_def calendar_init_def)
next
  case (step sd a)
  from step.IH show ?case by (rule calendar_ok_step)
next
  case (service st db op)
  then show ?case using events_reach.step [of db op] by (simp add: calendar_ok_def)
qed

text \<open>C39. Every load the panel starts completes: once the loads in flight have
  completed, in the order they started, none is left, the loading flag is off, and the
  events shown are those of the current search query.\<close>

theorem pending_loads_all_complete:
  assumes "calendar_reach (st, db)" "loads st \<noteq> []"
  shows "loads (fst ((complete_load ^^ length (loads st)) (st, db))) = [] \<and>
         \<not> is_loading (fst ((complete_load ^^ length (loads st)) (st, db))) \<and>
         cal_events (fst ((complete_load ^^ length (loads st)) (st, db))) = fst (load_result (search_query st) db)"
proof -
  have "last (loads st) = search_query st" using calendar_ok_reach [OF assms(1)] assms(2) by (simp add: calendar_ok_def)
  then show ?thesis using complete_load_drain [OF refl assms(2), of db] by simp
qed

text \<open>The nested conditional that picks the icon of an \<open>EventCard\<close> agrees with
  the category table \<open>getCategoryIcon\<close> reads, in both languages.\<close>

theorem card_icon_matches_category_table: "event_icon e = get_category_icon l (category_id (category e))"
  by (cases "category e"; cases l) (simp_all add: event_icon_def get_category_icon_def categories_def category_id_def js_def)

text \<open>The month grid has no leading blank cells: the first day of every month sits
  in the first column, under "Sun", but 1 January 2025 is a Wednesday.\<close>

theorem grid_ignores_weekday:
  "cell_header 0 = js ''Sun'' \<and>
   cell_date (hd (calendar_cells today (calendar_init (2025, 0, 1, 0)))) = (2025, 0, 1, 0) \<and>
   weekday (2025, 0, 1, 0) = 3"
  by (simp add: cell_header_def weekday_headers_def calendar_cells_def calendar_init_def month_days_def
      days_in_month_def is_leap_year_def get_full_year_def get_month_def weekday_def upt_rec)

subsection \<open>Witnesses\<close>

theorem prev_next_month_witness:
  "current_month (prev_month (next_month (calendar_init (2025, 11, 15, 0)))) = (2025, 11, 1, 0)"
  using prev_next_month [of "calendar_init (2025, 11, 15, 0)"]
  by (simp add: calendar_init_def get_month_def get_full_year_def)

theorem pending_loads_all_complete_witness:
  "cal_events (fst ((complete_load ^^ 1) (calendar_init (2025, 0, 1, 0), mock_events))) = mock_events"
proof -
  have r: "calendar_reach (calendar_init (2025, 0, 1, 0), mock_events)"
    by (rule calendar_reach.init [OF events_reach.init])
  have l: "loads (calendar_init (2025, 0, 1, 0)) \<noteq> []" by (simp add: calendar_init_def)
  from pending_loads_all_complete [OF r l] show ?thesis
    by (simp add: calendar_init_def load_result_def mock_events_sorted)
qed

end
