(* ===== verification/LanguageContext.thy ===== *)
theory LanguageContext
  imports AuthService
begin

text \<open>The language provider (\<open>contexts/LanguageContext.tsx\<close>): the two translation
  tables, the language state initialised from \<open>localStorage\<close>, \<open>setLanguage\<close> with its
  write-back, the translation function \<open>t\<close> with its key fallback, and the
  \<open>useLanguage\<close> hook. The language is the string read from storage, as in the code,
  so that a stored value other than \<open>en\<close> and \<open>de\<close> is represented.\<close>

section \<open>Translation tables\<close>

definition translations_en :: "(jstr \<times> jstr) list" where
  "translations_en = [
     (js ''header.title'', js ''UDE Campus Navigator''),
     (js ''header.welcome'', js ''Welcome''),
     (js ''header.logout'', js ''Logout''),
     (js ''header.back'', js ''Back''),
     (js ''login.title'', js ''UDE Campus Navigator''),
     (js ''login.university'', js ''University of Duisburg-Essen''),
     (js ''login.subtitle'', js ''Your Campus Navigation Guide''),
     (js ''login.welcomeBack'', js ''Welcome Back''),
     (js ''login.signInDesc'', js ''Sign in to access your campus guide''),
     (js ''login.createAccount'', js ''Create Account''),
     (js ''login.joinDesc'', js ''Join the UDE community today''),
     (js ''login.email'', js ''Email Address''),
     (js ''login.password'', js ''Password''),
     (js ''login.signIn'', js ''Sign In''),
     (js ''login.signUp'', js ''Sign Up''),
     (js ''login.noAccount'', js ''Don't have an account?''),
     (js ''login.hasAccount'', js ''Already have an account?''),
     (js ''login.demoTitle'', js ''Demo Credentials''),
     (js ''login.demoEmail'', js ''Email: student@uni-due.de''),
     (js ''login.demoPassword'', js ''Password: password123''),
     (js ''login.copyright'', ([0xA9] @ js '' 2024 University of Duisburg-Essen'')),
     (js ''building.library'', js ''Central Library''),
     (js ''building.library.category'', js ''Academic Resources''),
     (js ''building.student-center'', js ''Student Center''),
     (js ''building.student-center.category'', js ''Student Life''),
     (js ''building.cafeteria'', js ''Cafeteria/Mensa''),
     (js ''building.cafeteria.category'', js ''Dining''),
     (js ''building.visa-services'', js ''Visa Services''),
     (js ''building.visa-services.category'', js ''International Support''),
     (js ''building.administration'', js ''Administration''),
     (js ''building.administration.category'', js ''Administrative Services''),
     (js ''building.ude-portals'', js ''UDE Portals''),
     (js ''building.ude-portals.category'', js ''Digital Services''),
     (js ''page.availableServices'', js ''Available Services''),
     (js ''page.quickLinks'', js ''Quick Links''),
     (js ''page.campusMaps'', js ''Campus Maps''),
     (js ''search.placeholder'', js ''Search buildings or services...''),
     (js ''search.noResults'', js ''No results found''),
     (js ''sidebar.exploreBuildings'', js ''Explore Buildings''),
     (js ''sidebar.quickAccess'', js ''Quick Access''),
     (js ''updates.title'', js ''Live Updates''),
     (js ''updates.noUpdates'', js ''No updates available''),
     (js ''priority.low'', js ''Low''),
     (js ''priority.medium'', js ''Medium''),
     (js ''priority.high'', js ''High''),
     (js ''settings.title'', js ''Settings''),
     (js ''settings.general'', js ''General''),
     (js ''settings.notifications'', js ''Notifications''),
     (js ''settings.display'', js ''Display''),
     (js ''settings.campus'', js ''Campus''),
     (js ''settings.accessibility'', js ''Accessibility''),
     (js ''settings.privacy'', js ''Privacy''),
     (js ''settings.profile'', js ''Profile''),
     (js ''settings.language'', js ''Language''),
     (js ''settings.enableNotifications'', js ''Enable Notifications''),
     (js ''settings.notificationsDesc'', js ''Receive updates about campus events and services''),
     (js ''settings.soundNotifications'', js ''Sound Notifications''),
     (js ''settings.soundDesc'', js ''Play sound for new notifications''),
     (js ''settings.liveUpdates'', js ''Live Updates''),
     (js ''settings.updatesDesc'', js ''Real-time campus information and alerts''),
     (js ''settings.eventNotifications'', js ''Event Notifications''),
     (js ''settings.eventsDesc'', js ''Notifications about upcoming campus events''),
     (js ''settings.theme'', js ''Theme''),
     (js ''settings.light'', js ''Light''),
     (js ''settings.dark'', js ''Dark''),
     (js ''settings.auto'', js ''Auto''),
     (js ''settings.fontSize'', js ''Font Size''),
     (js ''settings.small'', js ''Small''),
     (js ''settings.medium'', js ''Medium''),
     (js ''settings.large'', js ''Large''),
     (js ''settings.animations'', js ''Animations''),
     (js ''settings.animationsDesc'', js ''Enable smooth animations and transitions''),
     (js ''settings.compactMode'', js ''Compact Mode''),
     (js ''settings.compactDesc'', js ''Reduce spacing for more content on screen''),
     (js ''settings.showBuildingLabels'', js ''Show Building Labels''),
     (js ''settings.labelsDesc'', js ''Display building names on the campus map''),
     (js ''settings.autoZoom'', js ''Auto Zoom''),
     (js ''settings.zoomDesc'', js ''Automatically zoom to selected buildings''),
     (js ''settings.highContrast'', js ''High Contrast''),
     (js ''settings.contrastDesc'', js ''Increase contrast for better visibility''),
     (js ''settings.reduceMotion'', js ''Reduce Motion''),
     (js ''settings.motionDesc'', js ''Minimize animations for motion sensitivity''),
     (js ''settings.keyboardNav'', js ''Keyboard Navigation''),
     (js ''settings.keyboardDesc'', js ''Enhanced keyboard navigation support''),
     (js ''settings.analytics'', js ''Analytics''),
     (js ''settings.analyticsDesc'', js ''Help improve the app by sharing usage data''),
     (js ''settings.personalizedContent'', js ''Personalized Content''),
     (js ''settings.personalizedDesc'', js ''Show content based on your preferences''),
     (js ''settings.reset'', js ''Reset to Defaults''),
     (js ''settings.cancel'', js ''Cancel''),
     (js ''settings.save'', js ''Save Changes'')]"

definition translations_de :: "(jstr \<times> jstr) list" where
  "translations_de = [
     (js ''header.title'', js ''UDE Campus Navigator''),
     (js ''header.welcome'', js ''Willkommen''),
     (js ''header.logout'', js ''Abmelden''),
     (js ''header.back'', (js ''Zur'' @ [0xFC] @ js ''ck'')),
     (js ''login.title'', js ''UDE Campus Navigator''),
     (js ''login.university'', (js ''Universit'' @ [0xE4] @ js ''t Duisburg-Essen'')),
     (js ''login.subtitle'', (js ''Ihr Campus-Navigationsf'' @ [0xFC] @ js ''hrer'')),
     (js ''login.welcomeBack'', (js ''Willkommen zur'' @ [0xFC] @ js ''ck'')),
     (js ''login.signInDesc'', js ''Melden Sie sich an, um auf Ihren Campus-Guide zuzugreifen''),
     (js ''login.createAccount'', js ''Konto erstellen''),
     (js ''login.joinDesc'', js ''Treten Sie noch heute der UDE-Gemeinschaft bei''),
     (js ''login.email'', js ''E-Mail-Adresse''),
     (js ''login.password'', js ''Passwort''),
     (js ''login.signIn'', js ''Anmelden''),
     (js ''login.signUp'', js ''Registrieren''),
     (js ''login.noAccount'', js ''Noch kein Konto?''),
     (js ''login.hasAccount'', js ''Bereits ein Konto?''),
     (js ''login.demoTitle'', js ''Demo-Zugangsdaten''),
     (js ''login.demoEmail'', js ''E-Mail: student@uni-due.de''),
     (js ''login.demoPassword'', js ''Passwort: password123''),
     (js ''login.copyright'', ([0xA9] @ js '' 2024 Universit'' @ [0xE4] @ js ''t Duisburg-Essen'')),
     (js ''building.library'', js ''Zentralbibliothek''),
     (js ''building.library.category'', js ''Akademische Ressourcen''),
     (js ''building.student-center'', js ''Studierendenzentrum''),
     (js ''building.student-center.category'', js ''Studentenleben''),
     (js ''building.cafeteria'', js ''Cafeteria/Mensa''),
     (js ''building.cafeteria.category'', js ''Gastronomie''),
     (js ''building.visa-services'', js ''Visa-Services''),
     (js ''building.visa-services.category'', (js ''Internationale Unterst'' @ [0xFC] @ js ''tzung'')),
     (js ''building.administration'', js ''Verwaltung''),
     (js ''building.administration.category'', js ''Verwaltungsdienstleistungen''),
     (js ''building.ude-portals'', js ''UDE-Portale''),
     (js ''building.ude-portals.category'', js ''Digitale Dienste''),
     (js ''page.availableServices'', (js ''Verf'' @ [0xFC] @ js ''gbare Dienste'')),
     (js ''page.quickLinks'', js ''Schnellzugriff''),
     (js ''page.campusMaps'', js ''Campus-Karten''),
     (js ''search.placeholder'', (js ''Geb'' @ [0xE4] @ js ''ude oder Dienste suchen...'')),
     (js ''search.noResults'', js ''Keine Ergebnisse gefunden''),
     (js ''sidebar.exploreBuildings'', (js ''Geb'' @ [0xE4] @ js ''ude erkunden'')),
     (js ''sidebar.quickAccess'', js ''Schnellzugriff''),
     (js ''updates.title'', js ''Live-Updates''),
     (js ''updates.noUpdates'', (js ''Keine Updates verf'' @ [0xFC] @ js ''gbar'')),
     (js ''priority.low'', js ''Niedrig''),
     (js ''priority.medium'', js ''Mittel''),
     (js ''priority.high'', js ''Hoch''),
     (js ''settings.title'', js ''Einstellungen''),
     (js ''settings.general'', js ''Allgemein''),
     (js ''settings.notifications'', js ''Benachrichtigungen''),
     (js ''settings.display'', js ''Anzeige''),
     (js ''settings.campus'', js ''Campus''),
     (js ''settings.accessibility'', js ''Barrierefreiheit''),
     (js ''settings.privacy'', js ''Datenschutz''),
     (js ''settings.profile'', js ''Profil''),
     (js ''settings.language'', js ''Sprache''),
     (js ''settings.enableNotifications'', js ''Benachrichtigungen aktivieren''),
     (js ''settings.notificationsDesc'', (js ''Updates '' @ [0xFC] @ js ''ber Campus-Events und Services erhalten'')),
     (js ''settings.soundNotifications'', js ''Ton-Benachrichtigungen''),
     (js ''settings.soundDesc'', (js ''Ton f'' @ [0xFC] @ js ''r neue Benachrichtigungen abspielen'')),
     (js ''settings.liveUpdates'', js ''Live-Updates''),
     (js ''settings.updatesDesc'', js ''Echtzeit-Campus-Informationen und Warnungen''),
     (js ''settings.eventNotifications'', js ''Event-Benachrichtigungen''),
     (js ''settings.eventsDesc'', (js ''Benachrichtigungen '' @ [0xFC] @ js ''ber bevorstehende Campus-Events'')),
     (js ''settings.theme'', js ''Design''),
     (js ''settings.light'', js ''Hell''),
     (js ''settings.dark'', js ''Dunkel''),
     (js ''settings.auto'', js ''Automatisch''),
     (js ''settings.fontSize'', (js ''Schriftgr'' @ [0xF6] @ [0xDF] @ js ''e'')),
     (js ''settings.small'', js ''Klein''),
     (js ''settings.medium'', js ''Mittel''),
     (js ''settings.large'', (js ''Gro'' @ [0xDF])),
     (js ''settings.animations'', js ''Animationen''),
     (js ''settings.animationsDesc'', (js ''Sanfte Animationen und '' @ [0xDC] @ js ''berg'' @ [0xE4] @ js ''nge aktivieren'')),
     (js ''settings.compactMode'', js ''Kompakter Modus''),
     (js ''settings.compactDesc'', (js ''Abst'' @ [0xE4] @ js ''nde reduzieren f'' @ [0xFC] @ js ''r mehr Inhalt auf dem Bildschirm'')),
     (js ''settings.showBuildingLabels'', (js ''Geb'' @ [0xE4] @ js ''ude-Labels anzeigen'')),
     (js ''settings.labelsDesc'', (js ''Geb'' @ [0xE4] @ js ''udenamen auf der Campus-Karte anzeigen'')),
     (js ''settings.autoZoom'', js ''Auto-Zoom''),
     (js ''settings.zoomDesc'', (js ''Automatisch zu ausgew'' @ [0xE4] @ js ''hlten Geb'' @ [0xE4] @ js ''uden zoomen'')),
     (js ''settings.highContrast'', js ''Hoher Kontrast''),
     (js ''settings.contrastDesc'', (js ''Kontrast f'' @ [0xFC] @ js ''r bessere Sichtbarkeit erh'' @ [0xF6] @ js ''hen'')),
     (js ''settings.reduceMotion'', js ''Bewegung reduzieren''),
     (js ''settings.motionDesc'', (js ''Animationen f'' @ [0xFC] @ js ''r Bewegungsempfindlichkeit minimieren'')),
     (js ''settings.keyboardNav'', js ''Tastatur-Navigation''),
     (js ''settings.keyboardDesc'', (js ''Erweiterte Tastatur-Navigationsunterst'' @ [0xFC] @ js ''tzung'')),
     (js ''settings.analytics'', js ''Analytik''),
     (js ''settings.analyticsDesc'', js ''Helfen Sie bei der Verbesserung der App durch Teilen von Nutzungsdaten''),
     (js ''settings.personalizedContent'', js ''Personalisierte Inhalte''),
     (js ''settings.personalizedDesc'', (js ''Inhalte basierend auf Ihren Pr'' @ [0xE4] @ js ''ferenzen anzeigen'')),
     (js ''settings.reset'', (js ''Auf Standard zur'' @ [0xFC] @ js ''cksetzen'')),
     (js ''settings.cancel'', js ''Abbrechen''),
     (js ''settings.save'', ([0xC4] @ js ''nderungen speichern''))]"

definition translation_table :: "(jstr \<times> (jstr \<times> jstr) list) list" where
  "translation_table = [(js ''en'', translations_en), (js ''de'', translations_de)]"

section \<open>The provider\<close>

definition language_key :: jstr where
  "language_key = js ''ude-language''"

text \<open>The \<open>Language\<close> union type as strings.\<close>

definition lang_code :: "lang \<Rightarrow> jstr" where
  "lang_code l = (case l of En \<Rightarrow> js ''en'' | De \<Rightarrow> js ''de'')"

text \<open>The lazy initial state: the saved string, unchecked, or \<open>en\<close> when there is none or
  it is empty.\<close>

definition language_init :: "(jstr \<times> stored) list \<Rightarrow> jstr" where
  "language_init ls =
     (case map_of ls language_key of
        Some (SText saved) \<Rightarrow> if saved = [] then js ''en'' else saved
      | _ \<Rightarrow> js ''en'')"

text \<open>\<open>handleSetLanguage\<close>: the new language and the storage written back.\<close>

definition handle_set_language ::
  "lang \<Rightarrow> jstr \<times> (jstr \<times> stored) list \<Rightarrow> jstr \<times> (jstr \<times> stored) list" where
  "handle_set_language l s = (lang_code l, al_set (snd s) language_key (SText (lang_code l)))"

text \<open>\<open>t(key)\<close>: \<open>translations[language][key] || key\<close>. Reading a key of
  \<open>translations[language]\<close> throws a \<open>TypeError\<close> when that is \<open>undefined\<close>.\<close>

definition translate :: "jstr \<Rightarrow> jstr \<Rightarrow> jstr + jstr" where
  "translate lng key =
     (case map_of translation_table lng of
        None \<Rightarrow> Inl (js ''TypeError: Cannot read properties of undefined'')
      | Some table \<Rightarrow> Inr (case map_of table key of Some v \<Rightarrow> if v = [] then key else v | None \<Rightarrow> key))"

text \<open>\<open>useLanguage\<close>: the provider's value, or the error outside a provider.\<close>

definition use_language :: "'a option \<Rightarrow> jstr + 'a" where
  "use_language ctx =
     (case ctx of None \<Rightarrow> Inl (js ''useLanguage must be used within a LanguageProvider'') | Some c \<Rightarrow> Inr c)"

text \<open>The table of each member of \<open>lang\<close>.\<close>

definition lang_table :: "lang \<Rightarrow> (jstr \<times> jstr) list" where
  "lang_table l = (case l of En \<Rightarrow> translations_en | De \<Rightarrow> translations_de)"

lemmas language_defs [model_simps] =
  translation_table_def language_key_def lang_code_def language_init_def handle_set_language_def translate_def
  use_language_def


section \<open>Lemmas\<close>

lemma translations_same_keys: "map fst translations_en = map fst translations_de"
  by (simp add: translations_en_def translations_de_def js_def)

lemma translations_en_distinct: "distinct (map fst translations_en)"
  by (simp add: translations_en_def js_def)

lemma translations_en_nonempty: "\<forall>(k, v) \<in> set translations_en. v \<noteq> []"
  by (simp add: translations_en_def js_def)

lemma translations_de_nonempty: "\<forall>(k, v) \<in> set translations_de. v \<noteq> []"
  by (simp add: translations_de_def js_def)

text \<open>The two tables have the same keys in the same order, without duplicates, and no
  empty text, so the fallback \<open>|| key\<close> never fires for a key of the tables.\<close>

theorem translation_tables_wf:
  "map fst (lang_table En) = map fst (lang_table De) \<and> distinct (map fst (lang_table En)) \<and>
   (\<forall>l. \<forall>(k, v) \<in> set (lang_table l). v \<noteq> [])"
  using translations_same_keys translations_en_distinct translations_en_nonempty translations_de_nonempty
  by (simp add: lang_table_def split: lang.split)

lemma map_of_translation_table: "map_of translation_table (lang_code l) = Some (lang_table l)"
  by (cases l) (simp_all add: translation_table_def lang_code_def lang_table_def js_def)

lemma map_of_nonempty: "\<forall>(k, v) \<in> set t. v \<noteq> [] \<Longrightarrow> map_of t key = Some v \<Longrightarrow> v \<noteq> []"
  by (auto dest: map_of_SomeD)

text \<open>For the two languages of the union type, \<open>t\<close> never throws and returns the
  table's text for a key of the table and the key itself otherwise.\<close>

theorem translate_valid:
  "translate (lang_code l) key = Inr (case map_of (lang_table l) key of Some v \<Rightarrow> v | None \<Rightarrow> key)"
proof -
  have ne: "\<forall>(k, v) \<in> set (lang_table l). v \<noteq> []"
    using translations_en_nonempty translations_de_nonempty by (cases l) (simp_all add: lang_table_def)
  show ?thesis
    by (cases "map_of (lang_table l) key") (auto simp: translate_def map_of_translation_table dest: map_of_nonempty [OF ne])
qed

text \<open>\<open>setLanguage\<close> is persistent: after it, the provider's language and the
  language a reload reads back from \<open>localStorage\<close> are the chosen one.\<close>

theorem set_language_persists:
  "language_init (snd (handle_set_language l s)) = lang_code l \<and> fst (handle_set_language l s) = lang_code l"
  by (cases l) (simp_all add: handle_set_language_def language_init_def language_key_def lang_code_def js_def)

text \<open>The saved language is not validated: with \<open>fr\<close> in \<open>ude-language\<close> the
  provider starts in \<open>fr\<close>, and every call of \<open>t\<close> throws, since
  \<open>translations['fr']\<close> is \<open>undefined\<close>.\<close>

theorem unknown_stored_language_breaks_t:
  "language_init [(js ''ude-language'', SText (js ''fr''))] = js ''fr'' \<and>
   (\<forall>key. translate (language_init [(js ''ude-language'', SText (js ''fr''))]) key =
            Inl (js ''TypeError: Cannot read properties of undefined''))"
  by (simp add: language_init_def language_key_def translate_def translation_table_def js_def)

lemma language_key_not_users_key: "language_key \<noteq> users_key"
  by (simp add: language_key_def users_key_def js_def)

lemma language_key_not_photo_key: "language_key \<noteq> js ''ude-profile-photo-'' @ s"
  by (simp add: language_key_def js_def)

text \<open>The providers share \<open>localStorage\<close> without interfering: a sign-up writes
  the users and possibly a profile photo, never the saved language.\<close>

theorem language_survives_sign_up:
  "language_init (local_storage (snd (sign_up now d st))) = language_init (local_storage st)"
proof -
  have "map_of (local_storage (snd (sign_up now d st))) language_key = map_of (local_storage st) language_key"
    using language_key_not_users_key language_key_not_photo_key
    by (auto simp: sign_up_def save_users_def Let_def split: option.splits if_splits)
  then show ?thesis by (simp add: language_init_def)
qed

text \<open>\<open>setLanguage\<close> writes only the saved language, never the saved users.\<close>

theorem users_survive_set_language:
  "load_users (snd (handle_set_language l (lng, ls))) = load_users ls"
  using language_key_not_users_key by (simp add: handle_set_language_def load_users_def)

end
