(* ===== verification/Forum.thy ===== *)
theory Forum
  imports AuthService
begin

text \<open>The student forum (\<open>components/Forum.tsx\<close>): its posts with comments and likes in
  React state, the mock posts \<open>loadPosts\<close> installs (in the language of the first
  render, which its closure keeps), the handlers that create posts, add comments, like
  and expand posts, the search and category filter, and \<open>formatTimeAgo\<close>. Times are
  milliseconds since the epoch as integers; the signed-in user comes from the auth
  provider.\<close>

section \<open>Data\<close>

record forum_comment =
  comment_id :: jstr
  post_id :: jstr
  comment_content :: jstr
  comment_user_id :: jstr
  comment_user_name :: jstr
  comment_created_at :: int

record forum_post =
  fp_id :: jstr
  fp_title :: jstr
  fp_content :: jstr
  fp_category_id :: jstr
  fp_user_id :: jstr
  fp_user_name :: jstr
  fp_created_at :: int
  fp_comments :: "forum_comment list"
  likes :: int
  is_expanded :: "bool option"
  is_liked :: "bool option"

text \<open>The category buttons: id, name and colour in the current language (the
  descriptions are tooltips).\<close>

definition forum_categories :: "lang \<Rightarrow> (jstr \<times> jstr \<times> jstr) list" where
  "forum_categories l =
     [(js ''all'', (if l = En then js ''All Topics'' else js ''Alle Themen''), js ''bg-gray-500''),
      (js ''library'', (if l = En then js ''Library'' else js ''Bibliothek''), js ''bg-blue-500''),
      (js ''cafeteria'', js ''Cafeteria'', js ''bg-red-500''),
      (js ''visa-services'', (if l = En then js ''Visa Services'' else js ''Visa-Services''), js ''bg-orange-500''),
      (js ''student-center'', (if l = En then js ''Student Life'' else js ''Studentenleben''), js ''bg-pink-500''),
      (js ''administration'', (if l = En then js ''Administration'' else js ''Verwaltung''), js ''bg-green-500''),
      (js ''international'', js ''International'', js ''bg-purple-500'')]"

text \<open>The posts of \<open>loadPosts\<close> in language \<open>l\<close> at time \<open>now\<close>.\<close>

definition mock_posts :: "lang \<Rightarrow> int \<Rightarrow> forum_post list" where
  "mock_posts l now = [
     \<lparr>fp_id = js ''1'',
      fp_title = (if l = En then js ''How to book study rooms in the library?'' else (js ''Wie kann ich Lernr'' @ [0xE4] @ js ''ume in der Bibliothek buchen?'')),
      fp_content = (if l = En then js ''I'm new to UDE and I need to book a study room for my group project. Can someone guide me through the process? I've tried looking online but the process seems confusing.''
                    else (js ''Ich bin neu an der UDE und muss einen Lernraum f'' @ [0xFC] @ js ''r mein Gruppenprojekt buchen. Kann mir jemand durch den Prozess helfen? Ich habe online gesucht, aber der Prozess scheint verwirrend.'')),
      fp_category_id = js ''library'', fp_user_id = js ''1'', fp_user_name = js ''Sarah M.'', fp_created_at = now - 7200000,
      fp_comments = [\<lparr>comment_id = js ''1'', post_id = js ''1'',
                comment_content = (if l = En then (js ''You can book study rooms online through the library portal. Just go to the library website and look for '' @ [0x22] @ js ''Room Booking'' @ [0x22] @ js ''. You'll need your student ID to log in.'')
                                   else (js ''Sie k'' @ [0xF6] @ js ''nnen Lernr'' @ [0xE4] @ js ''ume online '' @ [0xFC] @ js ''ber das Bibliotheksportal buchen. Gehen Sie einfach auf die Bibliotheks-Website und suchen Sie nach '' @ [0x22] @ js ''Raumbuchung'' @ [0x22] @ js ''. Sie ben'' @ [0xF6] @ js ''tigen Ihre Studierenden-ID zum Einloggen.'')),
                comment_user_id = js ''2'', comment_user_name = js ''Alex K.'', comment_created_at = now - 3600000\<rparr>,
               \<lparr>comment_id = js ''2'', post_id = js ''1'',
                comment_content = (if l = En then js ''Also, book early! Popular time slots fill up quickly, especially during exam periods.''
                                   else (js ''Buchen Sie auch fr'' @ [0xFC] @ js ''h! Beliebte Zeitfenster sind schnell ausgebucht, besonders w'' @ [0xE4] @ js ''hrend der Pr'' @ [0xFC] @ js ''fungszeiten.'')),
                comment_user_id = js ''3'', comment_user_name = js ''Maria L.'', comment_created_at = now - 1800000\<rparr>],
      likes = 5, is_expanded = None, is_liked = None\<rparr>,
     \<lparr>fp_id = js ''2'',
      fp_title = (if l = En then js ''Best vegetarian options in cafeteria?'' else js ''Beste vegetarische Optionen in der Cafeteria?''),
      fp_content = (if l = En then js ''I'm looking for good vegetarian meals on campus. What are your recommendations? I'm particularly interested in protein-rich options.''
                    else (js ''Ich suche nach guten vegetarischen Mahlzeiten auf dem Campus. Was sind eure Empfehlungen? Ich interessiere mich besonders f'' @ [0xFC] @ js ''r proteinreiche Optionen.'')),
      fp_category_id = js ''cafeteria'', fp_user_id = js ''3'', fp_user_name = js ''Maria L.'', fp_created_at = now - 14400000,
      fp_comments = [\<lparr>comment_id = js ''3'', post_id = js ''2'',
                comment_content = (if l = En then js ''The pasta station usually has great vegetarian options, and they clearly mark all vegan dishes! The lentil curry is amazing.''
                                   else js ''Die Pasta-Station hat normalerweise tolle vegetarische Optionen, und sie kennzeichnen alle veganen Gerichte deutlich! Das Linsen-Curry ist fantastisch.''),
                comment_user_id = js ''4'', comment_user_name = js ''Tom R.'', comment_created_at = now - 10800000\<rparr>],
      likes = 8, is_expanded = None, is_liked = None\<rparr>,
     \<lparr>fp_id = js ''3'',
      fp_title = (if l = En then js ''Visa extension process - need help!'' else (js ''Visa-Verl'' @ [0xE4] @ js ''ngerungsprozess - brauche Hilfe!'')),
      fp_content = (if l = En then js ''My student visa expires in 2 months. What documents do I need for extension? Any tips for the appointment? I'm quite nervous about the process.''
                    else (js ''Mein Studentenvisum l'' @ [0xE4] @ js ''uft in 2 Monaten ab. Welche Dokumente brauche ich f'' @ [0xFC] @ js ''r die Verl'' @ [0xE4] @ js ''ngerung? Tipps f'' @ [0xFC] @ js ''r den Termin? Ich bin ziemlich nerv'' @ [0xF6] @ js ''s wegen des Prozesses.'')),
      fp_category_id = js ''visa-services'', fp_user_id = js ''5'', fp_user_name = js ''Ahmed S.'', fp_created_at = now - 21600000,
      fp_comments = [\<lparr>comment_id = js ''4'', post_id = js ''3'',
                comment_content = (if l = En then js ''Make sure you have your enrollment certificate, bank statements (last 3 months), and health insurance. Book the appointment early! The staff is usually very helpful.''
                                   else (js ''Stellen Sie sicher, dass Sie Ihre Immatrikulationsbescheinigung, Kontoausz'' @ [0xFC] @ js ''ge (letzte 3 Monate) und Krankenversicherung haben. Buchen Sie den Termin fr'' @ [0xFC] @ js ''h! Das Personal ist normalerweise sehr hilfsbereit.'')),
                comment_user_id = js ''6'', comment_user_name = js ''Lisa W.'', comment_created_at = now - 18000000\<rparr>],
      likes = 12, is_expanded = None, is_liked = None\<rparr>,
     \<lparr>fp_id = js ''4'',
      fp_title = (if l = En then js ''Study groups for Computer Science?'' else (js ''Lerngruppen f'' @ [0xFC] @ js ''r Informatik?'')),
      fp_content = (if l = En then js ''Looking for study partners for CS courses, especially algorithms and data structures. Anyone interested in forming a study group?''
                    else (js ''Suche Lernpartner f'' @ [0xFC] @ js ''r Informatik-Kurse, besonders Algorithmen und Datenstrukturen. Jemand interessiert an einer Lerngruppe?'')),
      fp_category_id = js ''student-center'', fp_user_id = js ''7'', fp_user_name = js ''David K.'', fp_created_at = now - 28800000,
      fp_comments = [],
      likes = 6, is_expanded = None, is_liked = None\<rparr>,
     \<lparr>fp_id = js ''5'',
      fp_title = (if l = En then js ''WhatsApp and Discord groups for UDE students'' else (js ''WhatsApp und Discord Gruppen f'' @ [0xFC] @ js ''r UDE Studierende'')),
      fp_content = (if l = En then js ''Hey everyone! I found some great communication channels for UDE students. Join our WhatsApp group for quick updates and our Discord server for study sessions and casual chat!''
                    else (js ''Hallo alle! Ich habe einige gro'' @ [0xDF] @ js ''artige Kommunikationskan'' @ [0xE4] @ js ''le f'' @ [0xFC] @ js ''r UDE-Studierende gefunden. Tretet unserer WhatsApp-Gruppe f'' @ [0xFC] @ js ''r schnelle Updates und unserem Discord-Server f'' @ [0xFC] @ js ''r Lernsitzungen und lockere Gespr'' @ [0xE4] @ js ''che bei!'')),
      fp_category_id = js ''student-center'', fp_user_id = js ''8'', fp_user_name = js ''Emma S.'', fp_created_at = now - 43200000,
      fp_comments = [\<lparr>comment_id = js ''5'', post_id = js ''5'',
                comment_content = (if l = En then js ''Great initiative! These groups are super helpful for staying connected with fellow students.''
                                   else js ''Tolle Initiative! Diese Gruppen sind super hilfreich, um mit anderen Studierenden in Kontakt zu bleiben.''),
                comment_user_id = js ''9'', comment_user_name = js ''Max B.'', comment_created_at = now - 36000000\<rparr>],
      likes = 15, is_expanded = None, is_liked = None\<rparr>]"

section \<open>State and handlers\<close>

record new_post_form =
  np_title :: jstr
  np_content :: jstr
  np_category_id :: jstr

definition empty_form :: new_post_form where
  "empty_form = \<lparr>np_title = [], np_content = [], np_category_id = []\<rparr>"

text \<open>The state hooks, with the language the mount effect's closure captured.\<close>

record forum_state =
  f_selected_category :: jstr
  posts :: "forum_post list"
  f_search_query :: jstr
  show_new_post_form :: bool
  new_post :: new_post_form
  new_comment :: "(jstr \<times> jstr) list"
  f_loading :: bool
  mount_language :: lang

text \<open>\<open>loadPosts\<close> has no \<open>await\<close>: it sets the mock posts and clears the loading flag
  within the mount effect.\<close>

definition load_posts :: "int \<Rightarrow> forum_state \<Rightarrow> forum_state" where
  "load_posts now st = st\<lparr>posts := mock_posts (mount_language st) now, f_loading := False\<rparr>"

definition forum_mount :: "lang \<Rightarrow> int \<Rightarrow> forum_state" where
  "forum_mount l now =
     load_posts now
       \<lparr>f_selected_category = js ''all'', posts = [], f_search_query = [], show_new_post_form = False,
        new_post = empty_form, new_comment = [], f_loading = True, mount_language = l\<rparr>"

text \<open>\<open>handleCreatePost\<close>: all three fields non-empty and a signed-in user, else
  nothing; the new post goes first.\<close>

definition handle_create_post :: "auth_user option \<Rightarrow> nat \<Rightarrow> forum_state \<Rightarrow> forum_state" where
  "handle_create_post user now st =
     (if np_title (new_post st) = [] \<or> np_content (new_post st) = [] \<or> np_category_id (new_post st) = [] \<or> user = None
      then st
      else
        (let u = the user;
             post = \<lparr>fp_id = js_digits now, fp_title = np_title (new_post st), fp_content = np_content (new_post st),
                     fp_category_id = np_category_id (new_post st), fp_user_id = au_id u, fp_user_name = au_name u,
                     fp_created_at = int now, fp_comments = [], likes = 0, is_expanded = None, is_liked = None\<rparr>
         in st\<lparr>posts := post # posts st, new_post := empty_form, show_new_post_form := False\<rparr>))"

text \<open>\<open>handleAddComment\<close>: the draft of that post, non-empty, and a signed-in user;
  the comment is appended to every post with that id and the draft is cleared.\<close>

definition handle_add_comment :: "auth_user option \<Rightarrow> nat \<Rightarrow> jstr \<Rightarrow> forum_state \<Rightarrow> forum_state" where
  "handle_add_comment user now pid st =
     (case map_of (new_comment st) pid of
        None \<Rightarrow> st
      | Some comment_text \<Rightarrow>
          if comment_text = [] \<or> user = None then st
          else
            (let u = the user;
                 c = \<lparr>comment_id = js_digits now, post_id = pid, comment_content = comment_text,
                      comment_user_id = au_id u, comment_user_name = au_name u, comment_created_at = int now\<rparr>
             in st\<lparr>posts := map (\<lambda>p. if fp_id p = pid then p\<lparr>fp_comments := fp_comments p @ [c]\<rparr> else p) (posts st),
                   new_comment := al_set (new_comment st) pid []\<rparr>))"

text \<open>JavaScript truthiness of an optional boolean.\<close>

definition truthy_bool :: "bool option \<Rightarrow> bool" where
  "truthy_bool b = (b = Some True)"

definition handle_like_post :: "jstr \<Rightarrow> forum_state \<Rightarrow> forum_state" where
  "handle_like_post pid st =
     st\<lparr>posts := map (\<lambda>p. if fp_id p = pid
                           then p\<lparr>likes := (if truthy_bool (is_liked p) then likes p - 1 else likes p + 1),
                                  is_liked := Some (\<not> truthy_bool (is_liked p))\<rparr>
                           else p) (posts st)\<rparr>"

definition toggle_post_expansion :: "jstr \<Rightarrow> forum_state \<Rightarrow> forum_state" where
  "toggle_post_expansion pid st =
     st\<lparr>posts := map (\<lambda>p. if fp_id p = pid then p\<lparr>is_expanded := Some (\<not> truthy_bool (is_expanded p))\<rparr> else p) (posts st)\<rparr>"

datatype forum_event =
    FSearch jstr
  | FSelectCategory jstr
  | FOpenForm
  | FCancelForm
  | FSetTitle jstr
  | FSetContent jstr
  | FSetCategory jstr
  | FCreatePost "auth_user option" nat
  | FSetDraft jstr jstr
  | FAddComment "auth_user option" nat jstr
  | FLike jstr
  | FToggleExpansion jstr
  | FRealtimeReload int

text \<open>\<open>FRealtimeReload\<close> is the subscription callback, which calls the mount-time
  \<open>loadPosts\<close> again; it only fires outside demo mode.\<close>

fun forum_step :: "forum_event \<Rightarrow> forum_state \<Rightarrow> forum_state" where
  "forum_step (FSearch q) st = st\<lparr>f_search_query := q\<rparr>"
| "forum_step (FSelectCategory c) st = st\<lparr>f_selected_category := c\<rparr>"
| "forum_step FOpenForm st = st\<lparr>show_new_post_form := True\<rparr>"
| "forum_step FCancelForm st = st\<lparr>show_new_post_form := False\<rparr>"
| "forum_step (FSetTitle x) st = st\<lparr>new_post := (new_post st)\<lparr>np_title := x\<rparr>\<rparr>"
| "forum_step (FSetContent x) st = st\<lparr>new_post := (new_post st)\<lparr>np_content := x\<rparr>\<rparr>"
| "forum_step (FSetCategory x) st = st\<lparr>new_post := (new_post st)\<lparr>np_category_id := x\<rparr>\<rparr>"
| "forum_step (FCreatePost u now) st = handle_create_post u now st"
| "forum_step (FSetDraft pid x) st = st\<lparr>new_comment := al_set (new_comment st) pid x\<rparr>"
| "forum_step (FAddComment u now pid) st = handle_add_comment u now pid st"
| "forum_step (FLike pid) st = handle_like_post pid st"
| "forum_step (FToggleExpansion pid) st = toggle_post_expansion pid st"
| "forum_step (FRealtimeReload now) st = load_posts now st"

inductive forum_reach :: "forum_state \<Rightarrow> bool" where
  init: "forum_reach (forum_mount l now)"
| step: "forum_reach st \<Longrightarrow> forum_reach (forum_step ev st)"

section \<open>What the forum shows\<close>

definition filtered_posts :: "forum_state \<Rightarrow> forum_post list" where
  "filtered_posts st =
     filter (\<lambda>p. (f_selected_category st = js ''all'' \<or> fp_category_id p = f_selected_category st) \<and>
                 (js_includes (js_lower (fp_title p)) (js_lower (f_search_query st)) \<or>
                  js_includes (js_lower (fp_content p)) (js_lower (f_search_query st))))
       (posts st)"

text \<open>\<open>Number.prototype.toString\<close> of an integer.\<close>

definition int_to_js :: "int \<Rightarrow> jstr" where
  "int_to_js i = (if i < 0 then 0x2D # js_digits (nat (- i)) else js_digits (nat i))"

text \<open>\<open>formatTimeAgo\<close> at time \<open>now\<close>: \<open>Math.floor\<close> of a quotient is integer
  division rounding down.\<close>

definition format_time_ago :: "lang \<Rightarrow> int \<Rightarrow> int \<Rightarrow> jstr" where
  "format_time_ago l now date =
     (let diff_in_minutes = (now - date) div (1000 * 60)
      in if diff_in_minutes < 60 then
           (if l = En then int_to_js diff_in_minutes @ js ''m ago'' else js ''vor '' @ int_to_js diff_in_minutes @ js ''m'')
         else if diff_in_minutes < 1440 then
           (let hours = diff_in_minutes div 60
            in if l = En then int_to_js hours @ js ''h ago'' else js ''vor '' @ int_to_js hours @ js ''h'')
         else
           (let days = diff_in_minutes div 1440
            in if l = En then int_to_js days @ js ''d ago'' else js ''vor '' @ int_to_js days @ js ''d''))"

text \<open>The category badge of a post: the colour (grey when the id is unknown) and the
  name (nothing when the id is unknown).\<close>

definition post_badge :: "lang \<Rightarrow> forum_post \<Rightarrow> jstr \<times> jstr option" where
  "post_badge l p =
     (case find (\<lambda>c. fst c = fp_category_id p) (forum_categories l) of
        None \<Rightarrow> (js ''bg-gray-500'', None)
      | Some c \<Rightarrow> (snd (snd c), Some (fst (snd c))))"

text \<open>The ids the form's category selector offers.\<close>

definition form_category_ids :: "lang \<Rightarrow> jstr list" where
  "form_category_ids l = filter (\<lambda>x. x \<noteq> js ''all'') (map fst (forum_categories l))"

definition likes_ok :: "forum_post \<Rightarrow> bool" where
  "likes_ok p \<longleftrightarrow> 0 \<le> likes p \<and> (truthy_bool (is_liked p) \<longrightarrow> 1 \<le> likes p)"

lemmas forum_defs [model_simps] =
  forum_categories_def empty_form_def load_posts_def forum_mount_def handle_create_post_def
  handle_add_comment_def truthy_bool_def handle_like_post_def toggle_post_expansion_def filtered_posts_def
  int_to_js_def format_time_ago_def post_badge_def form_category_ids_def


section \<open>Lemmas\<close>

lemma likes_ok_mock: "\<forall>p \<in> set (mock_posts l now). likes_ok p"
  by (simp add: mock_posts_def likes_ok_def truthy_bool_def)

lemma likes_ok_like: "likes_ok p \<Longrightarrow>
    likes_ok (p\<lparr>likes := (if truthy_bool (is_liked p) then likes p - 1 else likes p + 1),
               is_liked := Some (\<not> truthy_bool (is_liked p))\<rparr>)"
  by (auto simp: likes_ok_def truthy_bool_def)

lemma likes_ok_step: "\<forall>p \<in> set (posts st). likes_ok p \<Longrightarrow> \<forall>p \<in> set (posts (forum_step ev st)). likes_ok p"
proof (cases ev)
  case (FCreatePost u now)
  assume "\<forall>p \<in> set (posts st). likes_ok p"
  then show ?thesis using FCreatePost by (simp add: handle_create_post_def Let_def likes_ok_def truthy_bool_def)
next
  case (FAddComment u now pid)
  assume "\<forall>p \<in> set (posts st). likes_ok p"
  then show ?thesis using FAddComment
    by (auto simp: handle_add_comment_def Let_def likes_ok_def split: option.splits)
next
  case (FLike pid)
  assume "\<forall>p \<in> set (posts st). likes_ok p"
  then show ?thesis using FLike likes_ok_like by (auto simp: handle_like_post_def)
next
  case (FToggleExpansion pid)
  assume "\<forall>p \<in> set (posts st). likes_ok p"
  then show ?thesis using FToggleExpansion by (auto simp: toggle_post_expansion_def likes_ok_def)
next
  case (FRealtimeReload now)
  then show ?thesis using likes_ok_mock by (simp add: load_posts_def)
qed simp_all

text \<open>In every reachable forum state no like count is negative, and a post the user
  has liked counts at least that like.\<close>

theorem forum_reach_likes_ok: "forum_reach st \<Longrightarrow> \<forall>p \<in> set (posts st). likes_ok p"
  by (induction rule: forum_reach.induct) (simp_all add: likes_ok_step forum_mount_def load_posts_def likes_ok_mock)

text \<open>Liking a post twice restores its count and its liked state (as the page reads
  it: \<open>undefined\<close> and \<open>false\<close> alike).\<close>

theorem like_twice_restores:
  "map likes (posts (handle_like_post pid (handle_like_post pid st))) = map likes (posts st) \<and>
   map (\<lambda>p. truthy_bool (is_liked p)) (posts (handle_like_post pid (handle_like_post pid st))) =
     map (\<lambda>p. truthy_bool (is_liked p)) (posts st)"
  by (simp add: handle_like_post_def truthy_bool_def comp_def)

text \<open>\<open>handleAddComment\<close> does nothing without a non-empty draft for the post or
  without a signed-in user.\<close>

theorem add_comment_guard:
  "map_of (new_comment st) pid \<in> {None, Some []} \<or> u = None \<Longrightarrow> handle_add_comment u now pid st = st"
  by (auto simp: handle_add_comment_def split: option.splits)

text \<open>Otherwise it appends exactly one comment, by the signed-in user with the draft's
  text, to the post with that id, leaves every other post alone and clears the draft.\<close>

theorem add_comment_appends:
  assumes "map_of (new_comment st) pid = Some txt" "txt \<noteq> []" "u = Some usr"
  shows "posts (handle_add_comment u now pid st) =
           map (\<lambda>p. if fp_id p = pid
                     then p\<lparr>fp_comments := fp_comments p @
                              [\<lparr>comment_id = js_digits now, post_id = pid, comment_content = txt,
                                comment_user_id = au_id usr, comment_user_name = au_name usr,
                                comment_created_at = int now\<rparr>]\<rparr>
                     else p) (posts st) \<and>
         map_of (new_comment (handle_add_comment u now pid st)) pid = Some []"
  using assms by (simp add: handle_add_comment_def Let_def)

text \<open>\<open>handleCreatePost\<close> does nothing unless title, content and category are all
  filled in and a user is signed in.\<close>

theorem create_post_guard:
  "np_title (new_post st) = [] \<or> np_content (new_post st) = [] \<or> np_category_id (new_post st) = [] \<or> u = None \<Longrightarrow>
     handle_create_post u now st = st"
  by (auto simp: handle_create_post_def)

text \<open>Otherwise the new post, by the signed-in user with no likes and no comments, is
  put first, and the form is reset and closed.\<close>

theorem create_post_first:
  assumes "np_title (new_post st) \<noteq> []" "np_content (new_post st) \<noteq> []" "np_category_id (new_post st) \<noteq> []"
    "u = Some usr"
  shows "posts (handle_create_post u now st) =
           \<lparr>fp_id = js_digits now, fp_title = np_title (new_post st), fp_content = np_content (new_post st),
            fp_category_id = np_category_id (new_post st), fp_user_id = au_id usr, fp_user_name = au_name usr,
            fp_created_at = int now, fp_comments = [], likes = 0, is_expanded = None, is_liked = None\<rparr> # posts st \<and>
         new_post (handle_create_post u now st) = empty_form \<and>
         \<not> show_new_post_form (handle_create_post u now st)"
  using assms by (simp add: handle_create_post_def Let_def)

lemma int_to_js_nat: "0 \<le> i \<Longrightarrow> int_to_js i = js_digits (nat i)"
  by (simp add: int_to_js_def)

text \<open>For a time in the past, \<open>formatTimeAgo\<close> says minutes below an hour, 1 to 23
  hours below a day, and at least one day otherwise.\<close>

theorem format_time_ago_en_units:
  assumes "date \<le> now"
  shows "(\<exists>n < 60. format_time_ago En now date = js_digits n @ js ''m ago'') \<or>
         (\<exists>n. 1 \<le> n \<and> n < 24 \<and> format_time_ago En now date = js_digits n @ js ''h ago'') \<or>
         (\<exists>n \<ge> 1. format_time_ago En now date = js_digits n @ js ''d ago'')"
proof -
  let ?d = "(now - date) div (1000 * 60)"
  have d0: "0 \<le> ?d" using assms by simp
  consider "?d < 60" | "60 \<le> ?d" "?d < 1440" | "1440 \<le> ?d" by linarith
  then show ?thesis
  proof cases
    case 1
    then have "format_time_ago En now date = js_digits (nat ?d) @ js ''m ago''"
      using d0 by (simp add: format_time_ago_def Let_def int_to_js_nat)
    then have "\<exists>n < 60. format_time_ago En now date = js_digits n @ js ''m ago''"
      using 1 d0 by (intro exI [of _ "nat ?d"]) simp
    then show ?thesis by blast
  next
    case 2
    have "60 div 60 \<le> ?d div 60" "?d div 60 \<le> 1439 div 60"
      using 2 by (intro zdiv_mono1; simp)+
    then have h: "1 \<le> ?d div 60" "?d div 60 < 24" by simp_all
    have "format_time_ago En now date = js_digits (nat (?d div 60)) @ js ''h ago''"
      using 2 h by (simp add: format_time_ago_def Let_def int_to_js_nat)
    then have "\<exists>n. 1 \<le> n \<and> n < 24 \<and> format_time_ago En now date = js_digits n @ js ''h ago''"
      using h by (intro exI [of _ "nat (?d div 60)"]) (simp, linarith)
    then show ?thesis by blast
  next
    case 3
    have "1440 div 1440 \<le> ?d div 1440" using 3 by (intro zdiv_mono1) simp_all
    then have h: "1 \<le> ?d div 1440" by simp
    have "format_time_ago En now date = js_digits (nat (?d div 1440)) @ js ''d ago''"
      using 3 h by (simp add: format_time_ago_def Let_def int_to_js_nat)
    then have "\<exists>n \<ge> 1. format_time_ago En now date = js_digits n @ js ''d ago''"
      using h by (intro exI [of _ "nat (?d div 1440)"] conjI) (arith, simp)
    then show ?thesis by blast
  qed
qed

text \<open>The real-time callback calls \<open>loadPosts\<close>, which replaces the posts with the mock
  posts: every post created in the session (and every comment and like) is lost.\<close>

theorem realtime_reload_discards_new_posts:
  "p \<in> set (posts st) \<Longrightarrow> fp_id p \<notin> {js ''1'', js ''2'', js ''3'', js ''4'', js ''5''} \<Longrightarrow>
     p \<notin> set (posts (forum_step (FRealtimeReload now) st))"
  by (auto simp: load_posts_def mock_posts_def)

subsection \<open>Witnesses\<close>

text \<open>A signed-in user and a forum with a draft and a filled-in form.\<close>

theorem forum_reach_likes_ok_witness: "\<forall>p \<in> set (posts (forum_mount En 0)). likes_ok p"
  using forum_reach_likes_ok [OF forum_reach.init] .

theorem add_comment_guard_witness: "handle_add_comment None 5 (js ''1'') (forum_mount En 0) = forum_mount En 0"
  using add_comment_guard [of "forum_mount En 0" "js ''1''" None 5]
  by (simp add: forum_mount_def load_posts_def)

theorem add_comment_appends_witness:
  "map_of (new_comment (handle_add_comment (Some \<lparr>au_id = js ''u1'', au_email = js ''ann@uni-due.de'', au_name = js ''Ann''\<rparr>) 7
     (js ''4'') (forum_step (FSetDraft (js ''4'') (js ''Me too'')) (forum_mount En 0)))) (js ''4'') = Some []"
  using add_comment_appends [of "forum_step (FSetDraft (js ''4'') (js ''Me too'')) (forum_mount En 0)" "js ''4''"
      "js ''Me too''" "Some \<lparr>au_id = js ''u1'', au_email = js ''ann@uni-due.de'', au_name = js ''Ann''\<rparr>"
      "\<lparr>au_id = js ''u1'', au_email = js ''ann@uni-due.de'', au_name = js ''Ann''\<rparr>" 7]
  by (simp add: forum_mount_def load_posts_def js_def)

theorem create_post_guard_witness: "handle_create_post None 1 (forum_mount En 0) = forum_mount En 0"
  using create_post_guard [of "forum_mount En 0" None 1] by (simp add: forum_mount_def load_posts_def empty_form_def)

theorem create_post_first_witness:
  "new_post (handle_create_post (Some \<lparr>au_id = js ''u1'', au_email = js ''ann@uni-due.de'', au_name = js ''Ann''\<rparr>) 9
     (forum_step (FSetCategory (js ''library'')) (forum_step (FSetContent (js ''Where?''))
       (forum_step (FSetTitle (js ''Lockers'')) (forum_mount En 0))))) = empty_form"
  using create_post_first [of "forum_step (FSetCategory (js ''library'')) (forum_step (FSetContent (js ''Where?''))
       (forum_step (FSetTitle (js ''Lockers'')) (forum_mount En 0)))"
      "Some \<lparr>au_id = js ''u1'', au_email = js ''ann@uni-due.de'', au_name = js ''Ann''\<rparr>"
      "\<lparr>au_id = js ''u1'', au_email = js ''ann@uni-due.de'', au_name = js ''Ann''\<rparr>" 9]
  by (simp add: js_def)

theorem format_time_ago_en_units_witness:
  "(\<exists>n < 60. format_time_ago En 60000 0 = js_digits n @ js ''m ago'') \<or>
   (\<exists>n. 1 \<le> n \<and> n < 24 \<and> format_time_ago En 60000 0 = js_digits n @ js ''h ago'') \<or>
   (\<exists>n \<ge> 1. format_time_ago En 60000 0 = js_digits n @ js ''d ago'')"
  using format_time_ago_en_units [of 0 60000] by simp

theorem realtime_reload_discards_new_posts_witness:
  "hd (posts (handle_create_post (Some \<lparr>au_id = js ''u1'', au_email = js ''ann@uni-due.de'', au_name = js ''Ann''\<rparr>) 9
     (forum_step (FSetCategory (js ''library'')) (forum_step (FSetContent (js ''Where?''))
       (forum_step (FSetTitle (js ''Lockers'')) (forum_mount En 0))))))
   \<notin> set (posts (forum_step (FRealtimeReload 0)
     (handle_create_post (Some \<lparr>au_id = js ''u1'', au_email = js ''ann@uni-due.de'', au_name = js ''Ann''\<rparr>) 9
     (forum_step (FSetCategory (js ''library'')) (forum_step (FSetContent (js ''Where?''))
       (forum_step (FSetTitle (js ''Lockers'')) (forum_mount En 0)))))))"
proof -
  let ?st = "handle_create_post (Some \<lparr>au_id = js ''u1'', au_email = js ''ann@uni-due.de'', au_name = js ''Ann''\<rparr>) 9
     (forum_step (FSetCategory (js ''library'')) (forum_step (FSetContent (js ''Where?''))
       (forum_step (FSetTitle (js ''Lockers'')) (forum_mount En 0))))"
  have p: "posts ?st \<noteq> []" "fp_id (hd (posts ?st)) = js ''9''"
    by (simp_all add: handle_create_post_def Let_def js_def js_digits.simps)
  have "fp_id (hd (posts ?st)) \<notin> {js ''1'', js ''2'', js ''3'', js ''4'', js ''5''}"
    unfolding p(2) by (simp add: js_def)
  from realtime_reload_discards_new_posts [OF hd_in_set [OF p(1)] this] show ?thesis .
qed

end
