(* ===== verification/Buildings.thy ===== *)
theory Buildings
  imports JsString
begin

text \<open>The building table (\<open>data/buildings/*.tsx\<close>, type \<open>Building\<close> of
  \<open>types/Building.ts\<close>): the six campus buildings the search bar lists, the campus
  map draws and the chat assistants link to.\<close>

datatype building_icon = BIBookOpen | BIUsers | BIUtensils | BIFileText | BIBuilding2 | BIGlobe

record building =
  b_id :: jstr
  b_name :: jstr
  b_category :: jstr
  b_x :: int
  b_y :: int
  b_width :: int
  b_height :: int
  b_color :: jstr
  b_icon :: building_icon
  b_description :: jstr
  b_services :: "jstr list"
  is_main_building :: "bool option"

definition library :: building where
  "library =
     \<lparr>b_id = js ''library'', b_name = js ''Central Library'', b_category = js ''Academic Resources'',
      b_x = 50, b_y = 50, b_width = 180, b_height = 120, b_color = js ''#8B4513'', b_icon = BIBookOpen,
      b_description = js ''Your gateway to academic excellence and research resources.'',
      b_services = [js ''Digital Library Access'', js ''Study Rooms'', js ''Research Support'', js ''Printing Services''],
      is_main_building = Some True\<rparr>"

definition student_center :: building where
  "student_center =
     \<lparr>b_id = js ''student-center'', b_name = js ''Student Center'', b_category = js ''Student Life'',
      b_x = 310, b_y = 50, b_width = 180, b_height = 120, b_color = js ''#BE185D'', b_icon = BIUsers,
      b_description = js ''Hub for student activities, organizations, and community discussions.'',
      b_services = [js ''Student Organizations'', js ''Event Spaces'', js ''Counseling Services'', js ''Career Center'', js ''Student Forum''],
      is_main_building = None\<rparr>"

definition cafeteria :: building where
  "cafeteria =
     \<lparr>b_id = js ''cafeteria'', b_name = js ''Cafeteria/Mensa'', b_category = js ''Dining'',
      b_x = 570, b_y = 50, b_width = 180, b_height = 120, b_color = js ''#DC2626'', b_icon = BIUtensils,
      b_description = js ''Delicious, affordable meals and vibrant dining atmosphere.'',
      b_services = [js ''Daily Menus'', js ''Vegetarian Options'', js ''International Cuisine'', js ''Coffee & Snacks''],
      is_main_building = None\<rparr>"

definition visa_services :: building where
  "visa_services =
     \<lparr>b_id = js ''visa-services'', b_name = js ''Visa Services'', b_category = js ''International Support'',
      b_x = 50, b_y = 250, b_width = 180, b_height = 120, b_color = js ''#7C2D12'', b_icon = BIFileText,
      b_description = js ''Comprehensive immigration and visa support for international students.'',
      b_services = [js ''Visa Applications'', js ''Residence Permits'', js ''Document Verification'', js ''Immigration Consultation''],
      is_main_building = None\<rparr>"

definition administration :: building where
  "administration =
     \<lparr>b_id = js ''administration'', b_name = js ''Administration Building'', b_category = js ''Administrative Services'',
      b_x = 310, b_y = 250, b_width = 180, b_height = 120, b_color = js ''#059669'', b_icon = BIBuilding2,
      b_description = js ''Central hub for student registration, academic records, and administrative services.'',
      b_services = [js ''Student Registration'', js ''Academic Records'', js ''Financial Aid'', js ''Examination Office''],
      is_main_building = None\<rparr>"

definition ude_portals :: building where
  "ude_portals =
     \<lparr>b_id = js ''ude-portals'', b_name = js ''UDE Portals'', b_category = js ''Digital Services'',
      b_x = 570, b_y = 250, b_width = 180, b_height = 120, b_color = js ''#2563EB'', b_icon = BIGlobe,
      b_description = js ''Your digital gateway to all UDE online services and platforms.'',
      b_services = [js ''Moodle LMS'', js ''Student Portals'', js ''Email Access'', js ''Campus Maps'', js ''WhatsApp Groups'', js ''Discord Server''],
      is_main_building = Some True\<rparr>"

definition buildings :: "building list" where
  "buildings = [library, student_center, cafeteria, visa_services, administration, ude_portals]"

text \<open>The map rectangle of a building: \<open>[x, x + width) \<times> [y, y + height)\<close>.\<close>

definition boxes_disjoint :: "building \<Rightarrow> building \<Rightarrow> bool" where
  "boxes_disjoint a b \<longleftrightarrow>
     b_x a + b_width a \<le> b_x b \<or> b_x b + b_width b \<le> b_x a \<or>
     b_y a + b_height a \<le> b_y b \<or> b_y b + b_height b \<le> b_y a"

definition building_ids :: "jstr list" where
  "building_ids = map b_id buildings"

lemmas building_defs [model_simps] =
  library_def student_center_def cafeteria_def visa_services_def administration_def ude_portals_def
  buildings_def building_ids_def

section \<open>Lemmas\<close>

lemma building_ids_eq:
  "building_ids = [js ''library'', js ''student-center'', js ''cafeteria'', js ''visa-services'',
                   js ''administration'', js ''ude-portals'']"
  by (simp add: building_defs)

text \<open>The ids of the table are distinct, so a building is found by its id.\<close>

theorem building_ids_distinct: "distinct building_ids"
  by (simp add: building_ids_eq js_def)

lemma boxes_disjoint_sym: "boxes_disjoint a b \<longleftrightarrow> boxes_disjoint b a"
  by (auto simp: boxes_disjoint_def)

lemma sorted_wrt_sym_pair:
  assumes "\<And>a b. R a b \<longleftrightarrow> R b a" "sorted_wrt R xs" "a \<in> set xs" "b \<in> set xs" "a \<noteq> b"
  shows "R a b"
  using assms(2-5) by (induction xs) (auto simp: assms(1))

lemma buildings_sorted_disjoint: "sorted_wrt boxes_disjoint buildings"
  by (simp add: building_defs boxes_disjoint_def)

text \<open>No two buildings overlap on the campus map, and every building has a positive
  size.\<close>

theorem building_boxes_disjoint:
  "(\<forall>a \<in> set buildings. 0 < b_width a \<and> 0 < b_height a) \<and>
   (\<forall>a \<in> set buildings. \<forall>b \<in> set buildings. a \<noteq> b \<longrightarrow> boxes_disjoint a b)"
  using sorted_wrt_sym_pair [OF boxes_disjoint_sym buildings_sorted_disjoint]
  by (simp add: building_defs)

subsection \<open>Witnesses\<close>

theorem building_boxes_disjoint_witness: "boxes_disjoint library cafeteria"
proof -
  have "library \<noteq> cafeteria" by (simp add: library_def cafeteria_def js_def)
  then show ?thesis using building_boxes_disjoint by (simp add: buildings_def)
qed

end
