(* ===== verification/SearchBar.thy ===== *)
theory SearchBar
  imports Buildings LanguageContext
begin

text \<open>The building search (\<open>components/SearchBar.tsx\<close>): the query, the open flag and
  the keyboard selection as React state, the filter over the building table (at most
  five results), and every handler: typing, the arrow keys, Enter, Escape, focus, a click
  on a result, the clear button and a mouse-down outside. A selection is recorded as the
  call of the \<open>onBuildingSelect\<close> prop.\<close>

section \<open>The search\<close>

definition building_matches :: "jstr \<Rightarrow> building \<Rightarrow> bool" where
  "building_matches query b \<longleftrightarrow>
     js_includes (js_lower (b_name b)) (js_lower query) \<or>
     js_includes (js_lower (b_category b)) (js_lower query) \<or>
     (\<exists>s \<in> set (b_services b). js_includes (js_lower s) (js_lower query))"

definition filtered_buildings :: "jstr \<Rightarrow> building list" where
  "filtered_buildings query = take 5 (filter (building_matches query) buildings)"

record search_state =
  query :: jstr
  s_open :: bool
  selected_index :: int
  selections :: "building list"

definition search_init :: search_state where
  "search_init = \<lparr>query = [], s_open = False, selected_index = -1, selections = []\<rparr>"

definition handle_input_change :: "jstr \<Rightarrow> search_state \<Rightarrow> search_state" where
  "handle_input_change v st = st\<lparr>query := v, s_open := (0 < length v), selected_index := -1\<rparr>"

definition handle_building_select :: "building \<Rightarrow> search_state \<Rightarrow> search_state" where
  "handle_building_select b st =
     st\<lparr>selections := selections st @ [b], query := [], s_open := False, selected_index := -1\<rparr>"

datatype key = ArrowDown | ArrowUp | Enter | Escape | OtherKey

text \<open>\<open>handleKeyDown\<close>: nothing while closed; the arrows move the selection within
  the results (up from the first result leaves it), Enter selects the highlighted
  result, Escape closes.\<close>

definition handle_key_down :: "key \<Rightarrow> search_state \<Rightarrow> search_state" where
  "handle_key_down k st =
     (if \<not> s_open st then st
      else (let n = int (length (filtered_buildings (query st))); i = selected_index st
            in case k of
                 ArrowDown \<Rightarrow> st\<lparr>selected_index := (if i < n - 1 then i + 1 else i)\<rparr>
               | ArrowUp \<Rightarrow> st\<lparr>selected_index := (if 0 < i then i - 1 else -1)\<rparr>
               | Enter \<Rightarrow>
                   (if 0 \<le> i \<and> nat i < length (filtered_buildings (query st))
                    then handle_building_select (filtered_buildings (query st) ! nat i) st else st)
               | Escape \<Rightarrow> st\<lparr>s_open := False, selected_index := -1\<rparr>
               | OtherKey \<Rightarrow> st))"

definition clear_query :: "search_state \<Rightarrow> search_state" where
  "clear_query st = st\<lparr>query := [], s_open := False, selected_index := -1\<rparr>"

datatype search_event =
    SInput jstr
  | SKey key
  | SFocus
  | SClickResult nat
  | SClear
  | SMouseDownOutside

text \<open>A result can be clicked only while the list is shown.\<close>

fun search_step :: "search_event \<Rightarrow> search_state \<Rightarrow> search_state" where
  "search_step (SInput v) st = handle_input_change v st"
| "search_step (SKey k) st = handle_key_down k st"
| "search_step SFocus st = (if 0 < length (query st) then st\<lparr>s_open := True\<rparr> else st)"
| "search_step (SClickResult i) st =
     (if s_open st \<and> i < length (filtered_buildings (query st))
      then handle_building_select (filtered_buildings (query st) ! i) st else st)"
| "search_step SClear st = clear_query st"
| "search_step SMouseDownOutside st = st\<lparr>s_open := False, selected_index := -1\<rparr>"

inductive search_reach :: "search_state \<Rightarrow> bool" where
  init: "search_reach search_init"
| step: "search_reach st \<Longrightarrow> search_reach (search_step ev st)"

section \<open>What the search bar shows\<close>

datatype search_view =
    SVClosed
  | SVResults "building list" int
  | SVNoResults "jstr + jstr"

definition search_view :: "jstr \<Rightarrow> search_state \<Rightarrow> search_view" where
  "search_view lng st =
     (if s_open st \<and> filtered_buildings (query st) \<noteq> [] then SVResults (filtered_buildings (query st)) (selected_index st)
      else if s_open st \<and> 0 < length (query st) \<and> filtered_buildings (query st) = []
      then SVNoResults (translate lng (js ''search.noResults''))
      else SVClosed)"

text \<open>The selection stays within the results shown, and the list is only open with a
  query.\<close>

definition search_ok :: "search_state \<Rightarrow> bool" where
  "search_ok st \<longleftrightarrow>
     -1 \<le> selected_index st \<and> selected_index st < int (length (filtered_buildings (query st))) \<and>
     (s_open st \<longrightarrow> query st \<noteq> [])"

lemmas search_defs [model_simps] =
  building_matches_def filtered_buildings_def search_init_def handle_input_change_def
  handle_building_select_def handle_key_down_def clear_query_def search_view_def


section \<open>Lemmas\<close>

lemma search_ok_init: "search_ok search_init"
  by (simp add: search_ok_def search_init_def)

lemma search_ok_select: "search_ok (handle_building_select b st)"
  by (simp add: search_ok_def handle_building_select_def filtered_buildings_def)

lemma search_ok_key:
  assumes ok: "search_ok st"
  shows "search_ok (handle_key_down k st)"
proof (cases "s_open st \<and> k = Enter")
  case True
  then show ?thesis using ok by (simp add: handle_key_down_def Let_def search_ok_select)
next
  case False
  then show ?thesis using ok by (cases k) (auto simp: search_ok_def handle_key_down_def Let_def)
qed

lemma search_ok_step:
  assumes ok: "search_ok st"
  shows "search_ok (search_step ev st)"
proof (cases ev)
  case (SKey k)
  then show ?thesis using search_ok_key [OF ok] by simp
next
  case (SClickResult i)
  then show ?thesis using ok by (simp add: search_ok_select)
qed (use ok in \<open>auto simp: search_ok_def handle_input_change_def clear_query_def\<close>)

text \<open>C37. In every reachable state the keyboard selection is -1 or the index of a result
  shown, and the list is open only with a non-empty query.\<close>

theorem search_reach_ok: "search_reach st \<Longrightarrow> search_ok st"
  by (induction rule: search_reach.induct) (simp_all add: search_ok_init search_ok_step)

text \<open>Enter on a highlighted result always selects exactly that building and closes
  the search: the guard \<open>filteredBuildings[selectedIndex]\<close> never fails.\<close>

theorem enter_selects_highlighted:
  assumes "search_reach st" "s_open st" "0 \<le> selected_index st"
  shows "selections (search_step (SKey Enter) st) =
           selections st @ [filtered_buildings (query st) ! nat (selected_index st)] \<and>
         query (search_step (SKey Enter) st) = [] \<and> \<not> s_open (search_step (SKey Enter) st)"
proof -
  have "selected_index st < int (length (filtered_buildings (query st)))"
    using search_reach_ok [OF assms(1)] by (simp add: search_ok_def)
  then show ?thesis using assms(2,3) by (simp add: handle_key_down_def handle_building_select_def Let_def)
qed

text \<open>At most five buildings are listed.\<close>

theorem at_most_five_results: "length (filtered_buildings q) \<le> 5"
  by (simp add: filtered_buildings_def)

subsection \<open>Witnesses\<close>

lemma filtered_e: "filtered_buildings (js ''e'') = [library, student_center, cafeteria, visa_services, administration]"
  by (simp add: filtered_buildings_def building_matches_def buildings_def model_simps js_def
      library_def student_center_def cafeteria_def visa_services_def administration_def ude_portals_def)

theorem search_reach_ok_witness: "search_ok (search_step (SInput (js ''e'')) search_init)"
  using search_reach_ok [OF search_reach.step [OF search_reach.init]] .

theorem enter_selects_highlighted_witness:
  "selections (search_step (SKey Enter) (search_step (SKey ArrowDown) (search_step (SInput (js ''e'')) search_init)))
     = [library]"
proof -
  let ?st = "search_step (SKey ArrowDown) (search_step (SInput (js ''e'')) search_init)"
  have r: "search_reach ?st" by (intro search_reach.step search_reach.init)
  have s: "s_open ?st" "selected_index ?st = 0" "query ?st = js ''e''" "selections ?st = []"
    using filtered_e by (simp_all add: handle_key_down_def handle_input_change_def search_init_def Let_def js_def)
  from enter_selects_highlighted [OF r s(1)] s filtered_e show ?thesis by simp
qed

end
