(* ===== verification/ChatAssistant.thy ===== *)
theory ChatAssistant
  imports Buildings
begin

text \<open>The keyword chat assistant (\<open>components/chat/ChatAssistant.tsx\<close>): the welcome
  message, \<open>generateResponse\<close> (an ordered chain of substring tests on the lower-cased
  message), and the chat window's state with its handlers. The \<open>setTimeout\<close> callbacks
  are pending timers that keep what their closures captured: the reply timer the text
  and the language, the suggestion timer the \<open>handleSendMessage\<close> of the render that
  scheduled it, with that render's input, language and sound setting.\<close>

section \<open>Messages and responses\<close>

datatype ca_msg_type = CUser | CAssistant

record ca_quick_action =
  qa_id :: jstr
  qa_label :: jstr
  qa_building :: jstr

record ca_message =
  cm_id :: jstr
  cm_type :: ca_msg_type
  cm_content :: jstr
  cm_timestamp :: nat
  cm_suggestions :: "jstr list option"
  cm_quick_actions :: "ca_quick_action list option"

text \<open>The welcome message, addressed to \<open>user?.name || 'Student'\<close>.\<close>

definition ca_welcome_message :: "lang \<Rightarrow> jstr option \<Rightarrow> nat \<Rightarrow> ca_message" where
  "ca_welcome_message l user_name now =
     (let name = (case user_name of Some n \<Rightarrow> if n = [] then js ''Student'' else n | None \<Rightarrow> js ''Student'')
      in \<lparr>cm_id = js ''welcome'', cm_type = CAssistant,
          cm_content = (if l = En then js ''Hello '' @ name @ (js ''! '' @ [0xD83D, 0xDC4B] @ js '' I'm your UDE Campus Assistant. I can help you navigate the campus, find buildings, check services, and answer questions about university life. How can I assist you today?'')
                        else js ''Hallo '' @ name @ (js ''! '' @ [0xD83D, 0xDC4B] @ js '' Ich bin Ihr UDE Campus-Assistent. Ich kann Ihnen helfen, sich auf dem Campus zurechtzufinden, Geb'' @ [0xE4] @ js ''ude zu finden, Services zu '' @ [0xFC] @ js ''berpr'' @ [0xFC] @ js ''fen und Fragen zum Universit'' @ [0xE4] @ js ''tsleben zu beantworten. Wie kann ich Ihnen heute helfen?'')),
          cm_timestamp = now,
          cm_suggestions = Some (if l = En then [js ''Find the library'', js ''Show dining options'', js ''Campus map'', js ''Contact information'']
                                 else [js ''Bibliothek finden'', (js ''Speisem'' @ [0xF6] @ js ''glichkeiten zeigen''), js ''Campus-Karte'', js ''Kontaktinformationen'']),
          cm_quick_actions = Some [
        \<lparr>qa_id = js ''library'', qa_label = (if l = En then js ''Library'' else js ''Bibliothek''), qa_building = js ''library''\<rparr>,
        \<lparr>qa_id = js ''cafeteria'', qa_label = (if l = En then js ''Cafeteria'' else js ''Cafeteria''), qa_building = js ''cafeteria''\<rparr>,
        \<lparr>qa_id = js ''student-center'', qa_label = (if l = En then js ''Student Center'' else js ''Studierendenzentrum''), qa_building = js ''student-center''\<rparr>]\<rparr>)"

definition mentions :: "jstr \<Rightarrow> jstr list \<Rightarrow> bool" where
  "mentions lower ks \<longleftrightarrow> (\<exists>k \<in> set ks. js_includes lower k)"

definition building_reply :: "nat \<Rightarrow> jstr \<Rightarrow> ca_quick_action list \<Rightarrow> ca_message" where
  "building_reply now response actions =
     \<lparr>cm_id = js_digits now, cm_type = CAssistant, cm_content = response, cm_timestamp = now,
      cm_suggestions = Some [], cm_quick_actions = Some actions\<rparr>"

text \<open>\<open>generateResponse\<close>: the first group of keywords the lower-cased message
  contains decides the answer.\<close>

definition generate_response :: "lang \<Rightarrow> jstr \<Rightarrow> nat \<Rightarrow> ca_message" where
  "generate_response l user_message now =
     (let lower = js_lower user_message in
     if mentions lower [js ''library'', js ''bibliothek''] then
       building_reply now (if l = En then (js ''The Central Library is your gateway to academic excellence! '' @ [0xD83D, 0xDCDA] @ js '' It offers digital resources, study rooms, research support, and printing services. Open Monday-Friday 8AM-10PM, weekends with reduced hours.'') else (js ''Die Zentralbibliothek ist Ihr Tor zur akademischen Exzellenz! '' @ [0xD83D, 0xDCDA] @ js '' Sie bietet digitale Ressourcen, Lernr'' @ [0xE4] @ js ''ume, Forschungsunterst'' @ [0xFC] @ js ''tzung und Druckdienste. Ge'' @ [0xF6] @ js ''ffnet Montag-Freitag 8-22 Uhr, Wochenenden mit reduzierten '' @ [0xD6] @ js ''ffnungszeiten.'')) [\<lparr>qa_id = js ''library-visit'', qa_label = (if l = En then js ''Visit Library'' else js ''Bibliothek besuchen''), qa_building = js ''library''\<rparr>]
     else if mentions lower [js ''cafeteria'', js ''mensa'', js ''food'', js ''essen''] then
       building_reply now (if l = En then (js ''The Cafeteria/Mensa offers delicious and affordable meals! '' @ [0xD83C, 0xDF7D] @ [0xFE0F] @ js '' We have daily menus, vegetarian options, international cuisine, and coffee & snacks. Student-friendly prices with meal plans available.'') else (js ''Die Cafeteria/Mensa bietet k'' @ [0xF6] @ js ''stliche und erschwingliche Mahlzeiten! '' @ [0xD83C, 0xDF7D] @ [0xFE0F] @ js '' Wir haben Tagesmen'' @ [0xFC] @ js ''s, vegetarische Optionen, internationale K'' @ [0xFC] @ js ''che und Kaffee & Snacks. Studentenfreundliche Preise mit verf'' @ [0xFC] @ js ''gbaren Men'' @ [0xFC] @ js ''pl'' @ [0xE4] @ js ''nen.'')) [\<lparr>qa_id = js ''cafeteria-visit'', qa_label = (if l = En then js ''Visit Cafeteria'' else js ''Cafeteria besuchen''), qa_building = js ''cafeteria''\<rparr>]
     else if mentions lower [js ''visa'', js ''immigration''] then
       building_reply now (if l = En then (js ''Our Visa Services provide comprehensive immigration support! '' @ [0xD83D, 0xDCCB] @ js '' We help with visa applications, residence permits, document verification, and immigration consultation. Office hours: Monday-Friday 9AM-4PM.'') else (js ''Unsere Visa-Services bieten umfassende Einwanderungsunterst'' @ [0xFC] @ js ''tzung! '' @ [0xD83D, 0xDCCB] @ js '' Wir helfen bei Visa-Antr'' @ [0xE4] @ js ''gen, Aufenthaltsgenehmigungen, Dokumentenpr'' @ [0xFC] @ js ''fung und Einwanderungsberatung. B'' @ [0xFC] @ js ''rozeiten: Montag-Freitag 9-16 Uhr.'')) [\<lparr>qa_id = js ''visa-visit'', qa_label = (if l = En then js ''Visit Visa Services'' else js ''Visa-Services besuchen''), qa_building = js ''visa-services''\<rparr>]
     else if mentions lower [js ''student center'', js ''studierendenzentrum'', js ''activities''] then
       building_reply now (if l = En then (js ''The Student Center is the hub of campus life! '' @ [0xD83D, 0xDC65] @ js '' Join student organizations, attend events, access counseling services, career guidance, and participate in our community forum. Over 100 organizations to choose from!'') else (js ''Das Studierendenzentrum ist das Zentrum des Campus-Lebens! '' @ [0xD83D, 0xDC65] @ js '' Treten Sie Studierendenorganisationen bei, besuchen Sie Veranstaltungen, nutzen Sie Beratungsdienste, Karriereberatung und nehmen Sie an unserem Community-Forum teil. '' @ [0xDC] @ js ''ber 100 Organisationen zur Auswahl!'')) [\<lparr>qa_id = js ''student-center-visit'', qa_label = (if l = En then js ''Visit Student Center'' else js ''Studierendenzentrum besuchen''), qa_building = js ''student-center''\<rparr>]
     else if mentions lower [js ''administration'', js ''verwaltung'', js ''registration''] then
       building_reply now (if l = En then (js ''The Administration Building handles all central services! '' @ [0xD83C, 0xDFE2] @ js '' Student registration, academic records, financial aid, examination office, and international student support. Open Monday-Thursday 8AM-4PM, Friday 8AM-2PM.'') else (js ''Das Verwaltungsgeb'' @ [0xE4] @ js ''ude '' @ [0xFC] @ js ''bernimmt alle zentralen Dienstleistungen! '' @ [0xD83C, 0xDFE2] @ js '' Studierendenregistrierung, akademische Unterlagen, Finanzbeihilfe, Pr'' @ [0xFC] @ js ''fungsamt und internationale Studierendenbetreuung. Ge'' @ [0xF6] @ js ''ffnet Montag-Donnerstag 8-16 Uhr, Freitag 8-14 Uhr.'')) [\<lparr>qa_id = js ''admin-visit'', qa_label = (if l = En then js ''Visit Administration'' else js ''Verwaltung besuchen''), qa_building = js ''administration''\<rparr>]
     else if mentions lower [js ''portal'', js ''online'', js ''digital'', js ''moodle''] then
       building_reply now (if l = En then (js ''UDE Portals provide access to all digital services! '' @ [0xD83D, 0xDCBB] @ js '' Including Moodle LMS, student portals, email access, campus maps, and communication channels like WhatsApp groups and Discord server.'') else (js ''UDE-Portale bieten Zugang zu allen digitalen Diensten! '' @ [0xD83D, 0xDCBB] @ js '' Einschlie'' @ [0xDF] @ js ''lich Moodle LMS, Studierendenportale, E-Mail-Zugang, Campus-Karten und Kommunikationskan'' @ [0xE4] @ js ''le wie WhatsApp-Gruppen und Discord-Server.'')) [\<lparr>qa_id = js ''portals-visit'', qa_label = (if l = En then js ''Visit Portals'' else js ''Portale besuchen''), qa_building = js ''ude-portals''\<rparr>]
     else if mentions lower [js ''hours'', js ''time'', js ''open'', ([0xF6] @ js ''ffnungszeiten'')] then
       building_reply now (if l = En then (js ''Here are the general operating hours:'' @ [0xA] @ [0xA] @ [0xD83D, 0xDCDA] @ js '' Library: Mon-Fri 8AM-10PM, Sat 9AM-8PM, Sun 10AM-6PM'' @ [0xA] @ [0xD83C, 0xDF7D] @ [0xFE0F] @ js '' Cafeteria: Mon-Fri 11AM-3PM, Sat 12PM-2PM'' @ [0xA] @ [0xD83C, 0xDFE2] @ js '' Administration: Mon-Thu 8AM-4PM, Fri 8AM-2PM'' @ [0xA] @ [0xD83D, 0xDCCB] @ js '' Visa Services: Mon-Fri 9AM-4PM'') else (js ''Hier sind die allgemeinen '' @ [0xD6] @ js ''ffnungszeiten:'' @ [0xA] @ [0xA] @ [0xD83D, 0xDCDA] @ js '' Bibliothek: Mo-Fr 8-22 Uhr, Sa 9-20 Uhr, So 10-18 Uhr'' @ [0xA] @ [0xD83C, 0xDF7D] @ [0xFE0F] @ js '' Cafeteria: Mo-Fr 11-15 Uhr, Sa 12-14 Uhr'' @ [0xA] @ [0xD83C, 0xDFE2] @ js '' Verwaltung: Mo-Do 8-16 Uhr, Fr 8-14 Uhr'' @ [0xA] @ [0xD83D, 0xDCCB] @ js '' Visa-Services: Mo-Fr 9-16 Uhr'')) []
     else if mentions lower [js ''contact'', js ''phone'', js ''email'', js ''kontakt''] then
       building_reply now (if l = En then (js ''Contact Information:'' @ [0xA] @ [0xA] @ [0xD83D, 0xDCDE] @ js '' Main Campus: +49 203 379-0'' @ [0xA] @ [0xD83D, 0xDCE7] @ js '' General Info: info@uni-due.de'' @ [0xA] @ [0xD83C, 0xDF10] @ js '' Website: www.uni-due.de'' @ [0xA] @ [0xD83D, 0xDCCD] @ js '' Campus Essen: Universit'' @ [0xE4] @ js ''tsstra'' @ [0xDF] @ js ''e 2, 45141 Essen'' @ [0xA] @ [0xD83D, 0xDCCD] @ js '' Campus Duisburg: Forsthausweg 2, 47057 Duisburg'') else (js ''Kontaktinformationen:'' @ [0xA] @ [0xA] @ [0xD83D, 0xDCDE] @ js '' Hauptcampus: +49 203 379-0'' @ [0xA] @ [0xD83D, 0xDCE7] @ js '' Allgemeine Info: info@uni-due.de'' @ [0xA] @ [0xD83C, 0xDF10] @ js '' Website: www.uni-due.de'' @ [0xA] @ [0xD83D, 0xDCCD] @ js '' Campus Essen: Universit'' @ [0xE4] @ js ''tsstra'' @ [0xDF] @ js ''e 2, 45141 Essen'' @ [0xA] @ [0xD83D, 0xDCCD] @ js '' Campus Duisburg: Forsthausweg 2, 47057 Duisburg'')) []
     else if mentions lower [js ''help'', js ''hilfe'', js ''support''] then
       \<lparr>cm_id = js_digits now, cm_type = CAssistant, cm_content = (if l = En then (js ''I'm here to help! I can assist you with:'' @ [0xA] @ [0xA] @ [0xD83C, 0xDFDB] @ [0xFE0F] @ js '' Finding buildings and services'' @ [0xA] @ [0xD83D, 0xDCCD] @ js '' Campus navigation'' @ [0xA] @ [0x23F0] @ js '' Operating hours and schedules'' @ [0xA] @ [0xD83D, 0xDCDE] @ js '' Contact information'' @ [0xA] @ [0xD83C, 0xDF93] @ js '' Student services and support'' @ [0xA] @ [0xD83D, 0xDCBB] @ js '' Digital platforms and portals'' @ [0xA] @ [0xA] @ js ''Just ask me anything about UDE!'') else (js ''Ich bin hier, um zu helfen! Ich kann Ihnen helfen bei:'' @ [0xA] @ [0xA] @ [0xD83C, 0xDFDB] @ [0xFE0F] @ js '' Geb'' @ [0xE4] @ js ''ude und Services finden'' @ [0xA] @ [0xD83D, 0xDCCD] @ js '' Campus-Navigation'' @ [0xA] @ [0x23F0] @ js '' '' @ [0xD6] @ js ''ffnungszeiten und Zeitpl'' @ [0xE4] @ js ''ne'' @ [0xA] @ [0xD83D, 0xDCDE] @ js '' Kontaktinformationen'' @ [0xA] @ [0xD83C, 0xDF93] @ js '' Studierendenservices und Unterst'' @ [0xFC] @ js ''tzung'' @ [0xA] @ [0xD83D, 0xDCBB] @ js '' Digitale Plattformen und Portale'' @ [0xA] @ [0xA] @ js ''Fragen Sie mich einfach alles '' @ [0xFC] @ js ''ber die UDE!'')),
        cm_timestamp = now, cm_suggestions = Some (if l = En then [js ''Show all buildings'', js ''Campus hours'', js ''Contact info'', js ''Student services''] else [(js ''Alle Geb'' @ [0xE4] @ js ''ude zeigen''), js ''Campus-Zeiten'', js ''Kontakt-Info'', js ''Studierendenservices'']), cm_quick_actions = Some []\<rparr>
     else \<lparr>cm_id = js_digits now, cm_type = CAssistant, cm_content = (if l = En then js ''I can help you with information about UDE campus buildings, services, hours, and more! What would you like to know?'' else (js ''Ich kann Ihnen mit Informationen '' @ [0xFC] @ js ''ber UDE Campus-Geb'' @ [0xE4] @ js ''ude, Services, '' @ [0xD6] @ js ''ffnungszeiten und mehr helfen! Was m'' @ [0xF6] @ js ''chten Sie wissen?'')),
           cm_timestamp = now, cm_suggestions = Some (if l = En then [js ''Find buildings'', js ''Operating hours'', js ''Contact information'', js ''Student services'', js ''Digital portals''] else [(js ''Geb'' @ [0xE4] @ js ''ude finden''), ([0xD6] @ js ''ffnungszeiten''), js ''Kontaktinformationen'', js ''Studierendenservices'', js ''Digitale Portale'']), cm_quick_actions = Some []\<rparr>)"

definition clear_welcome :: "lang \<Rightarrow> nat \<Rightarrow> ca_message" where
  "clear_welcome l now =
     \<lparr>cm_id = js ''welcome-new'', cm_type = CAssistant, cm_content = (if l = En then js ''Chat cleared! How can I help you today?'' else (js ''Chat gel'' @ [0xF6] @ js ''scht! Wie kann ich Ihnen heute helfen?'')),
      cm_timestamp = now, cm_suggestions = Some (if l = En then [js ''Find buildings'', js ''Campus hours'', js ''Contact info''] else [(js ''Geb'' @ [0xE4] @ js ''ude finden''), js ''Campus-Zeiten'', js ''Kontakt-Info'']),
      cm_quick_actions = None\<rparr>"

section \<open>The chat window\<close>

text \<open>The pending \<open>setTimeout\<close> callbacks.\<close>

datatype ca_timer =
    TReply jstr lang bool
  | TSuggestionSend jstr lang bool
  | TWelcomeAfterClear lang

record ca_state =
  ca_open :: bool
  ca_minimized :: bool
  ca_messages :: "ca_message list"
  ca_input :: jstr
  ca_typing :: bool
  ca_sound :: bool
  ca_language :: lang
  ca_user_name :: "jstr option"
  ca_timers :: "ca_timer list"
  chimes :: nat
  building_selects :: "jstr list"

definition ca_init :: "lang \<Rightarrow> jstr option \<Rightarrow> ca_state" where
  "ca_init l u =
     \<lparr>ca_open = False, ca_minimized = False, ca_messages = [], ca_input = [], ca_typing = False,
      ca_sound = True, ca_language = l, ca_user_name = u, ca_timers = [], chimes = 0, building_selects = []\<rparr>"

text \<open>The welcome effect, run when the window opens or the language or the user
  changes: only while the window is open and the list is empty.\<close>

definition welcome_effect :: "nat \<Rightarrow> ca_state \<Rightarrow> ca_state" where
  "welcome_effect now st =
     (if ca_open st \<and> ca_messages st = []
      then st\<lparr>ca_messages := [ca_welcome_message (ca_language st) (ca_user_name st) now]\<rparr> else st)"

text \<open>\<open>handleSendMessage\<close> of a render whose input, language and sound setting were
  \<open>input\<close>, \<open>l\<close> and \<open>sound\<close>.\<close>

definition send_message :: "jstr \<Rightarrow> lang \<Rightarrow> bool \<Rightarrow> nat \<Rightarrow> ca_state \<Rightarrow> ca_state" where
  "send_message input l sound now st =
     (if js_trim input = [] then st
      else st\<lparr>ca_messages := ca_messages st @
                 [\<lparr>cm_id = js_digits now, cm_type = CUser, cm_content = js_trim input, cm_timestamp = now,
                   cm_suggestions = None, cm_quick_actions = None\<rparr>],
              ca_input := [], ca_typing := True,
              ca_timers := ca_timers st @ [TReply (js_trim input) l sound]\<rparr>)"

text \<open>The \<open>i\<close>-th pending timer fires at time \<open>now\<close>.\<close>

definition fire_timer :: "nat \<Rightarrow> nat \<Rightarrow> ca_state \<Rightarrow> ca_state" where
  "fire_timer i now st =
     (if i < length (ca_timers st) then
        (let st' = st\<lparr>ca_timers := take i (ca_timers st) @ drop (Suc i) (ca_timers st)\<rparr>
         in case ca_timers st ! i of
              TReply content l sound \<Rightarrow>
                st'\<lparr>ca_messages := ca_messages st' @ [generate_response l content now], ca_typing := False,
                    chimes := chimes st' + (if sound then 1 else 0)\<rparr>
            | TSuggestionSend input l sound \<Rightarrow> send_message input l sound now st'
            | TWelcomeAfterClear l \<Rightarrow> st'\<lparr>ca_messages := [clear_welcome l now]\<rparr>)
      else st)"

text \<open>\<open>handleSuggestionClick\<close>: the suggestion goes into the input, and 100 ms later
  the \<open>handleSendMessage\<close> of the current render runs, with the input as it was
  before the click.\<close>

definition suggestion_click :: "jstr \<Rightarrow> ca_state \<Rightarrow> ca_state" where
  "suggestion_click s st =
     st\<lparr>ca_input := s, ca_timers := ca_timers st @ [TSuggestionSend (ca_input st) (ca_language st) (ca_sound st)]\<rparr>"

definition ca_clear_chat :: "ca_state \<Rightarrow> ca_state" where
  "ca_clear_chat st = st\<lparr>ca_messages := [], ca_timers := ca_timers st @ [TWelcomeAfterClear (ca_language st)]\<rparr>"

text \<open>The quick actions on display: those of every message that has any.\<close>

definition msg_actions :: "ca_message \<Rightarrow> ca_quick_action list" where
  "msg_actions m = (case cm_quick_actions m of None \<Rightarrow> [] | Some qs \<Rightarrow> qs)"

definition shown_actions :: "ca_state \<Rightarrow> ca_quick_action list" where
  "shown_actions st = concat (map msg_actions (ca_messages st))"

datatype ca_event =
    COpen nat
  | CClose
  | CToggleMinimize
  | CToggleSound
  | CType jstr
  | CSend nat
  | CSuggestion jstr
  | CClear
  | CFire nat nat
  | CLanguage lang nat
  | CUserChange "jstr option" nat
  | CQuickAction nat

fun ca_step :: "ca_event \<Rightarrow> ca_state \<Rightarrow> ca_state" where
  "ca_step (COpen now) st = welcome_effect now (st\<lparr>ca_open := True\<rparr>)"
| "ca_step CClose st = st\<lparr>ca_open := False\<rparr>"
| "ca_step CToggleMinimize st = st\<lparr>ca_minimized := \<not> ca_minimized st\<rparr>"
| "ca_step CToggleSound st = st\<lparr>ca_sound := \<not> ca_sound st\<rparr>"
| "ca_step (CType v) st = st\<lparr>ca_input := v\<rparr>"
| "ca_step (CSend now) st = send_message (ca_input st) (ca_language st) (ca_sound st) now st"
| "ca_step (CSuggestion s) st = suggestion_click s st"
| "ca_step CClear st = ca_clear_chat st"
| "ca_step (CFire i now) st = fire_timer i now st"
| "ca_step (CLanguage l now) st = welcome_effect now (st\<lparr>ca_language := l\<rparr>)"
| "ca_step (CUserChange u now) st = welcome_effect now (st\<lparr>ca_user_name := u\<rparr>)"
| "ca_step (CQuickAction i) st =
     (if i < length (shown_actions st)
      then st\<lparr>building_selects := building_selects st @ [qa_building (shown_actions st ! i)]\<rparr> else st)"

inductive ca_reach :: "ca_state \<Rightarrow> bool" where
  init: "ca_reach (ca_init l u)"
| step: "ca_reach st \<Longrightarrow> ca_reach (ca_step ev st)"

text \<open>Every quick action on display, and every building the window asked the campus
  view to show, is a building of the table.\<close>

definition actions_ok :: "ca_message list \<Rightarrow> bool" where
  "actions_ok ms \<longleftrightarrow> (\<forall>m \<in> set ms. \<forall>a \<in> set (msg_actions m). qa_building a \<in> set building_ids)"

definition ca_ok :: "ca_state \<Rightarrow> bool" where
  "ca_ok st \<longleftrightarrow> actions_ok (ca_messages st) \<and> set (building_selects st) \<subseteq> set building_ids"

lemmas chat_assistant_defs [model_simps] =
  ca_welcome_message_def mentions_def building_reply_def generate_response_def clear_welcome_def ca_init_def
  welcome_effect_def send_message_def fire_timer_def suggestion_click_def ca_clear_chat_def msg_actions_def shown_actions_def


section \<open>Properties\<close>

subsection \<open>Quick actions name buildings\<close>

lemma generate_response_actions:
  "qa_building ` set (msg_actions (generate_response l m now)) \<subseteq> set building_ids"
  by (simp add: generate_response_def building_reply_def msg_actions_def Let_def building_ids_eq)

lemma welcome_actions: "qa_building ` set (msg_actions (ca_welcome_message l u now)) \<subseteq> set building_ids"
  by (simp add: ca_welcome_message_def msg_actions_def Let_def building_ids_eq)

lemma msg_actions_simple [simp]:
  "msg_actions (clear_welcome l now) = []"
  "msg_actions \<lparr>cm_id = i, cm_type = t, cm_content = c, cm_timestamp = n, cm_suggestions = s, cm_quick_actions = None\<rparr> = []"
  by (simp_all add: msg_actions_def clear_welcome_def)

lemma actions_ok_simps [simp]:
  "actions_ok []" "actions_ok (ms @ ms') \<longleftrightarrow> actions_ok ms \<and> actions_ok ms'"
  "actions_ok [m] \<longleftrightarrow> (\<forall>a \<in> set (msg_actions m). qa_building a \<in> set building_ids)"
  by (auto simp: actions_ok_def)

lemma actions_ok_shown:
  "actions_ok ms \<Longrightarrow> a \<in> set (concat (map msg_actions ms)) \<Longrightarrow> qa_building a \<in> set building_ids"
  by (auto simp: actions_ok_def)

lemma ca_ok_cong:
  "ca_messages st' = ca_messages st \<Longrightarrow> building_selects st' = building_selects st \<Longrightarrow> ca_ok st' = ca_ok st"
  by (simp add: ca_ok_def)

lemma ca_ok_welcome: "ca_ok st \<Longrightarrow> ca_ok (welcome_effect now st)"
proof -
  assume ok: "ca_ok st"
  have "\<forall>a \<in> set (msg_actions (ca_welcome_message l u now)). qa_building a \<in> set building_ids" for l u
    using welcome_actions by blast
  then show ?thesis using ok by (simp add: welcome_effect_def ca_ok_def)
qed

lemma ca_ok_send: "ca_ok st \<Longrightarrow> ca_ok (send_message v l s now st)"
  by (simp add: send_message_def ca_ok_def msg_actions_def)

lemma ca_ok_fire: "ca_ok st \<Longrightarrow> ca_ok (fire_timer i now st)"
proof -
  assume ok: "ca_ok st"
  show ?thesis
  proof (cases "i < length (ca_timers st)")
    case True
    let ?ts = "take i (ca_timers st) @ drop (Suc i) (ca_timers st)"
    have ok': "ca_ok (st\<lparr>ca_timers := ?ts\<rparr>)" using ok by (simp add: ca_ok_def)
    show ?thesis
    proof (cases "ca_timers st ! i")
      case (TReply c l s)
      have "\<forall>a \<in> set (msg_actions (generate_response l c now)). qa_building a \<in> set building_ids"
        using generate_response_actions by blast
      then show ?thesis using ok True TReply by (simp add: fire_timer_def ca_ok_def)
    next
      case (TSuggestionSend v l s)
      then show ?thesis using True ca_ok_send [OF ok'] by (simp add: fire_timer_def)
    next
      case (TWelcomeAfterClear l)
      then show ?thesis using True ok' by (simp add: fire_timer_def ca_ok_def)
    qed
  next
    case False
    then show ?thesis using ok by (simp add: fire_timer_def)
  qed
qed

lemma ca_ok_step:
  assumes ok: "ca_ok st"
  shows "ca_ok (ca_step ev st)"
proof (cases ev)
  case (COpen now)
  then show ?thesis using ca_ok_welcome [of "st\<lparr>ca_open := True\<rparr>"] ok by (simp add: ca_ok_def)
next
  case (CLanguage l now)
  then show ?thesis using ca_ok_welcome [of "st\<lparr>ca_language := l\<rparr>"] ok by (simp add: ca_ok_def)
next
  case (CUserChange u now)
  then show ?thesis using ca_ok_welcome [of "st\<lparr>ca_user_name := u\<rparr>"] ok by (simp add: ca_ok_def)
next
  case (CSend now)
  then show ?thesis using ca_ok_send [OF ok] by simp
next
  case (CFire i now)
  then show ?thesis using ca_ok_fire [OF ok] by simp
next
  case (CQuickAction i)
  show ?thesis
  proof (cases "i < length (shown_actions st)")
    case True
    then have "shown_actions st ! i \<in> set (concat (map msg_actions (ca_messages st)))"
      unfolding shown_actions_def by (rule nth_mem)
    then have "qa_building (shown_actions st ! i) \<in> set building_ids"
      using ok actions_ok_shown by (simp only: ca_ok_def) blast
    then show ?thesis using ok True CQuickAction by (simp add: ca_ok_def)
  next
    case False
    then show ?thesis using ok CQuickAction by simp
  qed
qed (use ok ca_ok_cong in \<open>simp_all add: suggestion_click_def ca_clear_chat_def ca_ok_def\<close>)

lemma ca_ok_init: "ca_ok (ca_init l u)"
  by (simp add: ca_ok_def ca_init_def)


subsection \<open>Responses\<close>

text \<open>\<open>generateResponse\<close> tests its keyword groups in order: a message whose
  lower-cased text contains \<open>library\<close> or \<open>bibliothek\<close> gets exactly the library
  quick action, whatever other keywords (\<open>mensa\<close>, \<open>visa\<close>, ...) it contains.\<close>

theorem library_keyword_first:
  assumes "mentions (js_lower m) [js ''library'', js ''bibliothek'']"
  shows "map qa_building (msg_actions (generate_response l m now)) = [js ''library'']"
  using assms by (simp add: generate_response_def building_reply_def msg_actions_def Let_def)


text \<open>The cafeteria keywords are matched as substrings, and \<open>essen\<close> (German for
  "food") is one of them: the question "Where is Campus Essen?", which names the campus
  city, is answered with the cafeteria and its quick action, in either language.\<close>

theorem campus_essen_gets_cafeteria:
  "map qa_building (msg_actions (generate_response l (js ''Where is Campus Essen?'') now)) = [js ''cafeteria'']"
proof -
  have low: "js_lower (js ''Where is Campus Essen?'') = js ''where is campus essen?''"
    by (simp add: js_def js_lower_def js_lower_cu_def)
  have n: "\<not> mentions (js ''where is campus essen?'') [js ''library'', js ''bibliothek'']"
    by (simp add: mentions_def js_includes_def index_of_def at_pos_def js_def)
  have m: "mentions (js ''where is campus essen?'') [js ''cafeteria'', js ''mensa'', js ''food'', js ''essen'']"
    by (simp add: mentions_def js_includes_def index_of_def at_pos_def js_def)
  show ?thesis
    by (simp only: generate_response_def Let_def low n m if_False if_True)
       (simp add: building_reply_def msg_actions_def)
qed

text \<open>\<open>handleSuggestionClick\<close> puts the suggestion into the input, but the
  \<open>handleSendMessage\<close> its timer calls is the one of the render before the click:
  when the timer fires it sends the input as it was before the click (nothing, when
  that was blank), and the suggestion stays in the input box.\<close>

theorem suggestion_click_sends_stale_input:
  "fire_timer (length (ca_timers st)) now (suggestion_click s st) =
     send_message (ca_input st) (ca_language st) (ca_sound st) now (st\<lparr>ca_input := s\<rparr>)"
  by (simp add: fire_timer_def suggestion_click_def)

text \<open>\<open>clearChat\<close> replaces the whole list with the "Chat cleared" message 500 ms
  later: a message sent in between disappears, while its reply still arrives, so the
  window shows an answer to a question that is no longer there.\<close>

theorem clear_then_send_loses_message:
  "ca_messages (fold ca_step [COpen 0, CClear, CType (js ''hi''), CSend 1, CFire 0 2, CFire 0 3] (ca_init En None)) =
     [clear_welcome En 2, generate_response En (js ''hi'') 3]"
proof -
  have t: "js_trim (js ''hi'') = js ''hi''"
    by (simp add: js_def js_trim_def is_js_space_def)
  have h: "js ''hi'' \<noteq> []" by (simp add: js_def)
  show ?thesis
    by (simp add: ca_init_def welcome_effect_def ca_clear_chat_def send_message_def fire_timer_def t h)
qed

text \<open>C36. Every quick action the chat window shows, and every building a quick-action
  click selects, names a building of the campus table: \<open>generateResponse\<close> and the
  welcome message only offer the buildings \<open>library\<close>, \<open>cafeteria\<close>,
  \<open>visa-services\<close>, \<open>student-center\<close>, \<open>administration\<close> and \<open>ude-portals\<close>.\<close>

theorem ca_reach_ok: "ca_reach st \<Longrightarrow> ca_ok st"
  by (induction rule: ca_reach.induct) (simp_all add: ca_ok_step ca_ok_init)

subsection \<open>Witnesses\<close>

theorem library_keyword_first_witness:
  "map qa_building (msg_actions (generate_response En (js ''Library or Mensa?'') 0)) = [js ''library'']"
proof -
  have "mentions (js_lower (js ''Library or Mensa?'')) [js ''library'', js ''bibliothek'']"
    by (simp add: model_simps js_def index_of_def)
  then show ?thesis by (rule library_keyword_first)
qed

theorem ca_reach_ok_witness:
  "ca_reach (ca_step (CQuickAction 0) (ca_step (COpen 0) (ca_init En None))) \<and>
   ca_ok (ca_step (CQuickAction 0) (ca_step (COpen 0) (ca_init En None)))"
proof -
  have r: "ca_reach (ca_step (CQuickAction 0) (ca_step (COpen 0) (ca_init En None)))"
    by (intro ca_reach.step ca_reach.init)
  show ?thesis using r ca_reach_ok [OF r] by blast
qed

end
