(* ===== verification/Settings.thy ===== *)
theory Settings
  imports LanguageContext
begin

text \<open>The settings dialog (\<open>components/SettingsModal.tsx\<close>), mounted by the header
  and the campus views and shown while the parent's \<open>isOpen\<close> holds. Its settings
  are the object the source writes with \<open>updateSettings(section, key, value: any)\<close>
  and reads back with \<open>{...defaultSettings, ...JSON.parse(saved)}\<close>, so they are
  modelled as a JavaScript object of JSON values, and the \<open>UserSettings\<close>
  interface as a typing judgement on it. \<open>localStorage\<close> is the store shared with
  the auth service and the language provider for the language and the photo keys; the
  \<open>ude-settings\<close> entry, read and written by this dialog alone, is a field of its own.
  The \<open>FileReader\<close> loads are pending callbacks, each keeping the photo key its
  closure computed.\<close>

section \<open>JSON values and objects\<close>

text \<open>What \<open>JSON.parse\<close> returns. Objects are property lists with distinct keys in
  creation order; numbers are integers.\<close>

datatype jval = JNull | JBool bool | JNum int | JStr jstr | JArr "jval list" | JObj "(jstr \<times> jval) list"

text \<open>Truthiness of a property read, \<open>None\<close> being \<open>undefined\<close>.\<close>

fun js_truthy :: "jval option \<Rightarrow> bool" where
  "js_truthy None = False"
| "js_truthy (Some JNull) = False"
| "js_truthy (Some (JBool b)) = b"
| "js_truthy (Some (JNum n)) = (n \<noteq> 0)"
| "js_truthy (Some (JStr s)) = (s \<noteq> [])"
| "js_truthy (Some (JArr xs)) = True"
| "js_truthy (Some (JObj ps)) = True"

text \<open>\<open>v.key\<close> for a non-index key: a \<open>TypeError\<close> on \<open>undefined\<close> and \<open>null\<close>,
  \<open>undefined\<close> on the other primitives and on arrays.\<close>

fun get_prop :: "jval option \<Rightarrow> jstr \<Rightarrow> jstr + jval option" where
  "get_prop None k = Inl (js ''TypeError: Cannot read properties of undefined'')"
| "get_prop (Some JNull) k = Inl (js ''TypeError: Cannot read properties of null'')"
| "get_prop (Some (JObj ps)) k = Inr (map_of ps k)"
| "get_prop (Some v) k = Inr None"

text \<open>The own enumerable properties a spread \<open>...v\<close> copies: those of an object, the
  indices of an array or a string, none of the other values.\<close>

fun spread_props :: "jval option \<Rightarrow> (jstr \<times> jval) list" where
  "spread_props (Some (JObj ps)) = ps"
| "spread_props (Some (JArr xs)) = map (\<lambda>(i, x). (js_digits i, x)) (enumerate 0 xs)"
| "spread_props (Some (JStr s)) = map (\<lambda>(i, c). (js_digits i, JStr [c])) (enumerate 0 s)"
| "spread_props _ = []"

text \<open>\<open>{...base, ...ps}\<close>: the properties of \<open>ps\<close> set one after the other on a copy
  of \<open>base\<close>.\<close>

definition obj_spread :: "(jstr \<times> jval) list \<Rightarrow> (jstr \<times> jval) list \<Rightarrow> (jstr \<times> jval) list" where
  "obj_spread base ps = fold (\<lambda>(k, v) m. al_set m k v) ps base"

section \<open>The \<open>UserSettings\<close> interface\<close>

datatype field_type = FBool | FEnum "jstr list" | FStrArr

definition settings_schema :: "(jstr \<times> (jstr \<times> field_type) list) list" where
  "settings_schema =
     [(js ''notifications'', [(js ''enabled'', FBool), (js ''sound'', FBool), (js ''email'', FBool),
                              (js ''updates'', FBool), (js ''events'', FBool)]),
      (js ''display'', [(js ''theme'', FEnum [js ''light'', js ''dark'', js ''auto'']),
                        (js ''fontSize'', FEnum [js ''small'', js ''medium'', js ''large'']),
                        (js ''animations'', FBool), (js ''compactMode'', FBool)]),
      (js ''campus'', [(js ''defaultView'', FEnum [js ''2d'', js ''3d'']), (js ''showLabels'', FBool),
                       (js ''autoZoom'', FBool), (js ''favoriteBuildings'', FStrArr)]),
      (js ''accessibility'', [(js ''highContrast'', FBool), (js ''reduceMotion'', FBool),
                              (js ''screenReader'', FBool), (js ''keyboardNav'', FBool)]),
      (js ''privacy'', [(js ''analytics'', FBool), (js ''locationTracking'', FBool),
                        (js ''personalizedContent'', FBool)])]"

fun has_field_type :: "field_type \<Rightarrow> jval \<Rightarrow> bool" where
  "has_field_type FBool (JBool b) = True"
| "has_field_type (FEnum cs) (JStr s) = (s \<in> set cs)"
| "has_field_type FStrArr (JArr xs) = list_all (\<lambda>x. case x of JStr s \<Rightarrow> True | _ \<Rightarrow> False) xs"
| "has_field_type t v = False"

definition section_typed :: "(jstr \<times> field_type) list \<Rightarrow> jval option \<Rightarrow> bool" where
  "section_typed fs v =
     (case v of
        Some (JObj ps) \<Rightarrow> list_all (\<lambda>(k, t). case map_of ps k of Some x \<Rightarrow> has_field_type t x | None \<Rightarrow> False) fs
      | _ \<Rightarrow> False)"

text \<open>An object has the type \<open>UserSettings\<close> when each section is an object holding
  each field of the section with its declared type.\<close>

definition settings_typed :: "(jstr \<times> jval) list \<Rightarrow> bool" where
  "settings_typed ps \<longleftrightarrow> list_all (\<lambda>(s, fs). section_typed fs (map_of ps s)) settings_schema"

definition default_settings :: "(jstr \<times> jval) list" where
  "default_settings =
     [(js ''notifications'', JObj [(js ''enabled'', JBool True), (js ''sound'', JBool True), (js ''email'', JBool False),
                                   (js ''updates'', JBool True), (js ''events'', JBool True)]),
      (js ''display'', JObj [(js ''theme'', JStr (js ''light'')), (js ''fontSize'', JStr (js ''medium'')),
                             (js ''animations'', JBool True), (js ''compactMode'', JBool False)]),
      (js ''campus'', JObj [(js ''defaultView'', JStr (js ''2d'')), (js ''showLabels'', JBool True),
                            (js ''autoZoom'', JBool True), (js ''favoriteBuildings'', JArr [])]),
      (js ''accessibility'', JObj [(js ''highContrast'', JBool False), (js ''reduceMotion'', JBool False),
                                   (js ''screenReader'', JBool False), (js ''keyboardNav'', JBool False)]),
      (js ''privacy'', JObj [(js ''analytics'', JBool True), (js ''locationTracking'', JBool False),
                             (js ''personalizedContent'', JBool True)])]"

section \<open>The dialog\<close>

text \<open>The \<open>ude-settings\<close> entry: the text of a JSON value, or a text \<open>JSON.parse\<close>
  rejects.\<close>

datatype saved = SavedJson jval | SavedText jstr

record upload_file =
  file_type :: jstr
  file_size :: nat
  file_data :: jstr

record settings_modal =
  sm_open :: bool
  sm_dark :: bool
  sm_user :: "auth_user option"
  sm_language :: jstr
  sm_storage :: "(jstr \<times> stored) list"
  sm_saved :: "saved option"
  sm_active_tab :: jstr
  sm_settings :: "(jstr \<times> jval) list"
  sm_has_changes :: bool
  sm_is_mobile :: bool
  sm_photo :: "jstr option"
  sm_uploading :: bool
  sm_readers :: "(jstr \<times> jstr) list"
  sm_alerts :: "jstr list"
  sm_errors :: "jstr list"

text \<open>\<open>`ude-profile-photo-${user?.id}`\<close>: the template literal writes \<open>undefined\<close>
  when there is no user.\<close>

definition photo_key :: "auth_user option \<Rightarrow> jstr" where
  "photo_key u = js ''ude-profile-photo-'' @ (case u of Some a \<Rightarrow> au_id a | None \<Rightarrow> js ''undefined'')"

text \<open>The load effect, run on mount and whenever \<open>user?.id\<close> changes: the saved
  settings spread over the defaults when they parse (a parse error is caught and logged),
  and the saved photo when there is one. Neither is reset otherwise.\<close>

definition load_effect :: "settings_modal \<Rightarrow> settings_modal" where
  "load_effect st =
     (let st1 = (case sm_saved st of
                   Some (SavedJson v) \<Rightarrow> st\<lparr>sm_settings := obj_spread default_settings (spread_props (Some v))\<rparr>
                 | _ \<Rightarrow> st)
      in case map_of (sm_storage st) (photo_key (sm_user st)) of
           Some (SText p) \<Rightarrow> if p \<noteq> [] then st1\<lparr>sm_photo := Some p\<rparr> else st1
         | _ \<Rightarrow> st1)"

definition update_settings :: "jstr \<Rightarrow> jstr \<Rightarrow> jval \<Rightarrow> settings_modal \<Rightarrow> settings_modal" where
  "update_settings section key v st =
     st\<lparr>sm_settings := al_set (sm_settings st) section
                        (JObj (al_set (spread_props (map_of (sm_settings st) section)) key v)),
        sm_has_changes := True\<rparr>"

text \<open>\<open>saveSettings\<close>: write the settings, clear the change flag, bring the dark mode in
  line with a \<open>dark\<close> or \<open>light\<close> theme through \<open>onToggleDarkMode\<close>, and close. Reading
  \<open>settings.display.theme\<close> throws when \<open>display\<close> is not an object.\<close>

definition save_settings :: "settings_modal \<Rightarrow> settings_modal" where
  "save_settings st =
     (let st1 = st\<lparr>sm_saved := Some (SavedJson (JObj (sm_settings st))), sm_has_changes := False\<rparr>
      in case get_prop (map_of (sm_settings st) (js ''display'')) (js ''theme'') of
           Inl e \<Rightarrow> st1\<lparr>sm_errors := sm_errors st @ [e]\<rparr>
         | Inr th \<Rightarrow>
             (if th = Some (JStr (js ''dark'')) \<and> \<not> sm_dark st then st1\<lparr>sm_dark := True\<rparr>
              else if th = Some (JStr (js ''light'')) \<and> sm_dark st then st1\<lparr>sm_dark := False\<rparr>
              else st1)\<lparr>sm_open := False\<rparr>)"

definition reset_settings :: "settings_modal \<Rightarrow> settings_modal" where
  "reset_settings st = st\<lparr>sm_settings := default_settings, sm_has_changes := True\<rparr>"

definition image_size_limit :: nat where
  "image_size_limit = 5 * 1024 * 1024"

text \<open>The two checks of \<open>handlePhotoUpload\<close> (in both dialogs): the alert a selected
  file gets, if any.\<close>

definition photo_rejection :: "upload_file \<Rightarrow> jstr option" where
  "photo_rejection f =
     (if \<not> starts_with (file_type f) (js ''image/'') then Some (js ''Please select an image file'')
      else if image_size_limit < file_size f then Some (js ''Image size must be less than 5MB'')
      else None)"

text \<open>\<open>handlePhotoUpload\<close>: the checks with their alerts, then a \<open>FileReader\<close> load
  whose callback will write under the key of the current user.\<close>

definition handle_photo_upload :: "upload_file option \<Rightarrow> settings_modal \<Rightarrow> settings_modal" where
  "handle_photo_upload file st =
     (case file of
        None \<Rightarrow> st
      | Some f \<Rightarrow>
          (case photo_rejection f of
             Some msg \<Rightarrow> st\<lparr>sm_alerts := sm_alerts st @ [msg]\<rparr>
           | None \<Rightarrow> st\<lparr>sm_uploading := True, sm_readers := sm_readers st @ [(photo_key (sm_user st), file_data f)]\<rparr>))"

text \<open>The \<open>onload\<close> callback of the \<open>i\<close>-th pending read.\<close>

definition reader_load :: "nat \<Rightarrow> settings_modal \<Rightarrow> settings_modal" where
  "reader_load i st =
     (if i < length (sm_readers st) then
        (let (k, d) = sm_readers st ! i
         in st\<lparr>sm_photo := Some d, sm_storage := al_set (sm_storage st) k (SText d), sm_uploading := False,
               sm_readers := take i (sm_readers st) @ drop (Suc i) (sm_readers st)\<rparr>)
      else st)"

text \<open>\<open>getAvatarInitials\<close>: the first code unit of each piece of \<open>split(' ')\<close>
  (an empty piece gives \<open>undefined\<close>, which \<open>join\<close> writes as nothing), upper-cased.\<close>

fun js_split_on :: "nat \<Rightarrow> jstr \<Rightarrow> jstr list" where
  "js_split_on c [] = [[]]"
| "js_split_on c (x # xs) =
     (if x = c then [] # js_split_on c xs
      else (case js_split_on c xs of w # ws \<Rightarrow> (x # w) # ws | [] \<Rightarrow> [[x]]))"

definition js_upper :: "jstr \<Rightarrow> jstr" where
  "js_upper s = concat (map js_upper_cu s)"

definition avatar_initials :: "jstr \<Rightarrow> jstr" where
  "avatar_initials name = js_upper (concat (map (take 1) (js_split_on 32 name)))"

text \<open>The avatar of the general tab: the photo when there is one, else the initials of
  \<open>user?.name || 'User'\<close>.\<close>

definition user_name :: "settings_modal \<Rightarrow> jstr" where
  "user_name st = (case sm_user st of Some a \<Rightarrow> if au_name a = [] then js ''User'' else au_name a | None \<Rightarrow> js ''User'')"

definition avatar_view :: "settings_modal \<Rightarrow> jstr + jstr" where
  "avatar_view st =
     (case sm_photo st of
        Some p \<Rightarrow> if p \<noteq> [] then Inl p else Inr (avatar_initials (user_name st))
      | None \<Rightarrow> Inr (avatar_initials (user_name st)))"

definition tab_ids :: "jstr list" where
  "tab_ids = [js ''general'', js ''notifications'', js ''display'', js ''campus'', js ''accessibility'', js ''privacy'']"

text \<open>The toggle switches of the tabs, as (section, field); the tab of a switch is its
  section.\<close>

definition settings_toggles :: "(jstr \<times> jstr) list" where
  "settings_toggles =
     [(js ''notifications'', js ''enabled''), (js ''notifications'', js ''sound''),
      (js ''notifications'', js ''updates''), (js ''notifications'', js ''events''),
      (js ''display'', js ''animations''), (js ''display'', js ''compactMode''),
      (js ''campus'', js ''showLabels''), (js ''campus'', js ''autoZoom''),
      (js ''accessibility'', js ''highContrast''), (js ''accessibility'', js ''reduceMotion''),
      (js ''accessibility'', js ''keyboardNav''),
      (js ''privacy'', js ''analytics''), (js ''privacy'', js ''personalizedContent'')]"

definition field_value :: "(jstr \<times> jval) list \<Rightarrow> jstr \<Rightarrow> jstr \<Rightarrow> jval option" where
  "field_value ps section key = (case get_prop (map_of ps section) key of Inr v \<Rightarrow> v | Inl e \<Rightarrow> None)"

text \<open>The sound, update and event switches are disabled while notifications are off.\<close>

definition toggle_disabled :: "(jstr \<times> jval) list \<Rightarrow> jstr \<Rightarrow> jstr \<Rightarrow> bool" where
  "toggle_disabled ps section key \<longleftrightarrow>
     section = js ''notifications'' \<and> key \<in> {js ''sound'', js ''updates'', js ''events''} \<and>
     \<not> js_truthy (field_value ps (js ''notifications'') (js ''enabled''))"

text \<open>\<open>ToggleSwitch\<close>: \<open>!disabled && onChange(!enabled)\<close>.\<close>

definition toggle_click :: "jstr \<Rightarrow> jstr \<Rightarrow> settings_modal \<Rightarrow> settings_modal" where
  "toggle_click section key st =
     (if (section, key) \<in> set settings_toggles \<and> sm_active_tab st = section \<and>
         \<not> toggle_disabled (sm_settings st) section key
      then update_settings section key (JBool (\<not> js_truthy (field_value (sm_settings st) section key))) st
      else st)"

definition sm_init :: "(jstr \<times> stored) list \<Rightarrow> saved option \<Rightarrow> bool \<Rightarrow> auth_user option \<Rightarrow> jstr \<Rightarrow> nat \<Rightarrow> settings_modal" where
  "sm_init ls sv dark u lng width =
     load_effect
       \<lparr>sm_open = False, sm_dark = dark, sm_user = u, sm_language = lng, sm_storage = ls, sm_saved = sv,
        sm_active_tab = js ''general'', sm_settings = default_settings, sm_has_changes = False,
        sm_is_mobile = (width < 768), sm_photo = None, sm_uploading = False, sm_readers = [],
        sm_alerts = [], sm_errors = []\<rparr>"

datatype sm_event =
    SMOpen
  | SMClose
  | SMResize nat
  | SMTab jstr
  | SMLanguage lang
  | SMToggle jstr jstr
  | SMTheme jstr
  | SMFontSize jstr
  | SMReset
  | SMSave
  | SMPhoto "upload_file option"
  | SMReaderLoad nat
  | SMUser "auth_user option"
  | SMDarkToggle

text \<open>While the dialog is closed it renders nothing, so only the parent's events, the
  window, the auth user and pending reads act on it. The close events are the backdrop,
  the close button and Cancel; \<open>SMDarkToggle\<close> is the header's dark-mode button.\<close>

fun sm_step :: "sm_event \<Rightarrow> settings_modal \<Rightarrow> settings_modal" where
  "sm_step SMOpen st = st\<lparr>sm_open := True\<rparr>"
| "sm_step SMClose st = st\<lparr>sm_open := False\<rparr>"
| "sm_step (SMResize w) st = st\<lparr>sm_is_mobile := (w < 768)\<rparr>"
| "sm_step (SMTab t) st = (if sm_open st \<and> t \<in> set tab_ids then st\<lparr>sm_active_tab := t\<rparr> else st)"
| "sm_step (SMLanguage l) st =
     (if sm_open st \<and> sm_active_tab st = js ''general''
      then (let (lng, ls) = handle_set_language l (sm_language st, sm_storage st)
            in st\<lparr>sm_language := lng, sm_storage := ls\<rparr>)
      else st)"
| "sm_step (SMToggle section key) st = (if sm_open st then toggle_click section key st else st)"
| "sm_step (SMTheme t) st =
     (if sm_open st \<and> sm_active_tab st = js ''display'' \<and> t \<in> {js ''light'', js ''dark'', js ''auto''}
      then update_settings (js ''display'') (js ''theme'') (JStr t) st else st)"
| "sm_step (SMFontSize t) st =
     (if sm_open st \<and> sm_active_tab st = js ''display'' \<and> t \<in> {js ''small'', js ''medium'', js ''large''}
      then update_settings (js ''display'') (js ''fontSize'') (JStr t) st else st)"
| "sm_step SMReset st = (if sm_open st then reset_settings st else st)"
| "sm_step SMSave st = (if sm_open st \<and> sm_has_changes st then save_settings st else st)"
| "sm_step (SMPhoto f) st =
     (if sm_open st \<and> sm_active_tab st = js ''general'' \<and> \<not> sm_uploading st
      then handle_photo_upload f st else st)"
| "sm_step (SMReaderLoad i) st = reader_load i st"
| "sm_step (SMUser u) st =
     (if map_option au_id u = map_option au_id (sm_user st) then st\<lparr>sm_user := u\<rparr>
      else load_effect (st\<lparr>sm_user := u\<rparr>))"
| "sm_step SMDarkToggle st = st\<lparr>sm_dark := \<not> sm_dark st\<rparr>"

inductive sm_reach :: "settings_modal \<Rightarrow> bool" where
  init: "sm_reach (sm_init ls sv dark u lng width)"
| step: "sm_reach st \<Longrightarrow> sm_reach (sm_step ev st)"

text \<open>The saved entry is well typed when it is no JSON, or its spread over the defaults
  has the type \<open>UserSettings\<close>.\<close>

definition saved_typed :: "saved option \<Rightarrow> bool" where
  "saved_typed sv =
     (case sv of Some (SavedJson v) \<Rightarrow> settings_typed (obj_spread default_settings (spread_props (Some v))) | _ \<Rightarrow> True)"

definition sm_inv :: "settings_modal \<Rightarrow> bool" where
  "sm_inv st \<longleftrightarrow>
     distinct (map fst (sm_settings st)) \<and> set (map fst default_settings) \<subseteq> set (map fst (sm_settings st)) \<and>
     (saved_typed (sm_saved st) \<longrightarrow> settings_typed (sm_settings st))"

lemmas settings_defs [model_simps] =
  obj_spread_def settings_schema_def section_typed_def settings_typed_def default_settings_def photo_key_def
  load_effect_def update_settings_def save_settings_def reset_settings_def image_size_limit_def
  photo_rejection_def handle_photo_upload_def reader_load_def js_upper_def avatar_initials_def user_name_def avatar_view_def tab_ids_def
  settings_toggles_def field_value_def toggle_disabled_def toggle_click_def sm_init_def saved_typed_def


section \<open>Properties\<close>

subsection \<open>Spreads and the settings type\<close>

lemma map_of_obj_spread: "map_of (obj_spread base ps) = map_of base ++ map_of (rev ps)"
  by (induction ps arbitrary: base) (auto simp: obj_spread_def map_add_upd_left)

lemma distinct_obj_spread: "distinct (map fst base) \<Longrightarrow> distinct (map fst (obj_spread base ps))"
  by (induction ps arbitrary: base) (auto simp: obj_spread_def)

lemma keys_al_set_mono: "set (map fst xs) \<subseteq> set (map fst (al_set xs k v))"
  by (auto simp: keys_al_set)

lemma keys_obj_spread: "set (map fst base) \<subseteq> set (map fst (obj_spread base ps))"
proof (induction ps arbitrary: base)
  case (Cons p ps)
  obtain k v where p: "p = (k, v)" by fastforce
  have "obj_spread base (p # ps) = obj_spread (al_set base k v) ps" by (simp add: obj_spread_def p)
  then show ?case using order_trans [OF keys_al_set_mono Cons.IH [of "al_set base k v"]] by simp
qed (simp add: obj_spread_def)

lemma settings_typed_iff:
  "settings_typed ps \<longleftrightarrow> (\<forall>(s, fs) \<in> set settings_schema. section_typed fs (map_of ps s))"
  by (simp add: settings_typed_def list_all_iff)

lemma settings_typed_cong: "map_of ps = map_of qs \<Longrightarrow> settings_typed ps = settings_typed qs"
  by (simp add: settings_typed_def)

lemma schema_distinct:
  "distinct (map fst settings_schema) \<and> (\<forall>(s, fs) \<in> set settings_schema. distinct (map fst fs))"
  by (simp add: settings_schema_def js_def)

lemma default_settings_typed: "settings_typed default_settings"
  by (simp add: settings_typed_def settings_schema_def default_settings_def section_typed_def js_def)

lemma default_settings_distinct: "distinct (map fst default_settings)"
  by (simp add: default_settings_def js_def)

lemma section_typed_update:
  assumes "section_typed fs (Some (JObj qs))" "distinct (map fst fs)" "map_of fs key = Some t"
    "has_field_type t v"
  shows "section_typed fs (Some (JObj (al_set qs key v)))"
proof -
  have "case map_of (al_set qs key v) k of Some x \<Rightarrow> has_field_type t' x | None \<Rightarrow> False"
    if kt: "(k, t') \<in> set fs" for k t'
  proof (cases "k = key")
    case True
    have "map_of fs k = Some t'" using kt assms(2) by (simp add: map_of_is_SomeI)
    then have "t' = t" using True assms(3) by simp
    then show ?thesis using True assms(4) by simp
  next
    case False
    then show ?thesis using kt assms(1) by (auto simp: section_typed_def list_all_iff)
  qed
  then show ?thesis by (auto simp: section_typed_def list_all_iff)
qed

lemma settings_typed_section:
  "(s, fs) \<in> set settings_schema \<Longrightarrow> settings_typed ps \<Longrightarrow> section_typed fs (map_of ps s)"
  unfolding settings_typed_def list_all_iff by fastforce

lemma section_typed_obj: "section_typed fs v \<Longrightarrow> \<exists>qs. v = Some (JObj qs)"
  by (auto simp: section_typed_def split: option.splits jval.splits)

lemma settings_typed_update:
  assumes typed: "settings_typed ps" and sec: "map_of settings_schema section = Some fs"
    and key: "map_of fs key = Some t" and v: "has_field_type t v"
  shows "settings_typed (al_set ps section (JObj (al_set (spread_props (map_of ps section)) key v)))"
proof -
  have in_schema: "(section, fs) \<in> set settings_schema" using sec by (rule map_of_SomeD)
  then have "section_typed fs (map_of ps section)" using typed by (rule settings_typed_section)
  moreover obtain qs where qs: "map_of ps section = Some (JObj qs)"
    using section_typed_obj [OF calculation] by blast
  moreover have "distinct (map fst fs)" using schema_distinct in_schema by auto
  ultimately have new: "section_typed fs (Some (JObj (al_set qs key v)))"
    using section_typed_update key v qs by simp
  show ?thesis unfolding settings_typed_iff
  proof (intro ballI, clarify)
    fix s fs' assume sfs: "(s, fs') \<in> set settings_schema"
    show "section_typed fs' (map_of (al_set ps section (JObj (al_set (spread_props (map_of ps section)) key v))) s)"
    proof (cases "s = section")
      case True
      have "map_of settings_schema s = Some fs'"
        using sfs schema_distinct by (simp add: map_of_is_SomeI)
      then have "fs' = fs" using sec True by simp
      then show ?thesis using True new qs by simp
    next
      case False
      have "section_typed fs' (map_of ps s)" using sfs typed by (rule settings_typed_section)
      then show ?thesis using False by simp
    qed
  qed
qed

lemma map_add_dom_subset: "dom m \<subseteq> dom n \<Longrightarrow> m ++ n = n"
  by (rule ext) (auto simp: map_add_def split: option.split)

lemma map_of_rev_distinct: "distinct (map fst ps) \<Longrightarrow> map_of (rev ps) = map_of ps"
  by (subst map_of_inject_set) (simp_all add: rev_map [symmetric])

lemma spread_over_defaults:
  assumes "distinct (map fst ps)" "set (map fst default_settings) \<subseteq> set (map fst ps)"
  shows "map_of (obj_spread default_settings ps) = map_of ps"
proof -
  have "dom (map_of default_settings) \<subseteq> dom (map_of ps)"
    using assms(2) by (simp add: dom_map_of_conv_image_fst)
  have "map_of (obj_spread default_settings ps) = map_of default_settings ++ map_of ps"
    using assms(1) by (simp add: map_of_obj_spread map_of_rev_distinct)
  also have "\<dots> = map_of ps" using \<open>dom (map_of default_settings) \<subseteq> dom (map_of ps)\<close>
    by (rule map_add_dom_subset)
  finally show ?thesis .
qed

lemma saved_typed_save:
  "distinct (map fst ps) \<Longrightarrow> set (map fst default_settings) \<subseteq> set (map fst ps) \<Longrightarrow>
   saved_typed (Some (SavedJson (JObj ps))) = settings_typed ps"
  unfolding saved_typed_def by (simp add: settings_typed_cong [OF spread_over_defaults])

subsection \<open>The typing invariant\<close>

text \<open>The invariant: the settings object has distinct keys, every section of the
  defaults, and the type \<open>UserSettings\<close> whenever the saved entry is well typed.
  Every write of the dialog stores a value of the field's declared type.\<close>

lemma sm_inv_cong:
  "sm_settings st' = sm_settings st \<Longrightarrow> sm_saved st' = sm_saved st \<Longrightarrow> sm_inv st' = sm_inv st"
  by (simp add: sm_inv_def)

lemma sm_inv_load: "sm_inv st \<Longrightarrow> sm_inv (load_effect st)"
  using default_settings_distinct distinct_obj_spread keys_obj_spread
  by (auto simp: sm_inv_def load_effect_def saved_typed_def Let_def
      split: option.split saved.split stored.split)

lemma sm_inv_update:
  assumes "sm_inv st" "map_of settings_schema section = Some fs" "map_of fs key = Some t" "has_field_type t v"
  shows "sm_inv (update_settings section key v st)"
proof -
  have "settings_typed (sm_settings (update_settings section key v st))"
    if "saved_typed (sm_saved st)"
  proof -
    have "settings_typed (sm_settings st)" using assms(1) that by (simp add: sm_inv_def)
    from settings_typed_update [OF this assms(2-4)] show ?thesis by (simp add: update_settings_def)
  qed
  moreover have "set (map fst default_settings) \<subseteq> set (map fst (sm_settings (update_settings section key v st)))"
  proof -
    have "set (map fst default_settings) \<subseteq> set (map fst (sm_settings st))" using assms(1) by (simp add: sm_inv_def)
    from order_trans [OF this keys_al_set_mono] show ?thesis by (simp add: update_settings_def)
  qed
  ultimately show ?thesis using assms(1) by (simp add: sm_inv_def update_settings_def)
qed

lemma toggles_bool_all:
  "list_all (\<lambda>(s, k). case map_of settings_schema s of Some fs \<Rightarrow> map_of fs k = Some FBool | None \<Rightarrow> False)
     settings_toggles"
  by code_simp

lemma toggles_bool:
  "(s, k) \<in> set settings_toggles \<Longrightarrow> \<exists>fs. map_of settings_schema s = Some fs \<and> map_of fs k = Some FBool"
  using toggles_bool_all by (fastforce simp: list_all_iff split: option.splits)

lemma display_fields:
  "\<exists>fs. map_of settings_schema (js ''display'') = Some fs \<and>
        map_of fs (js ''theme'') = Some (FEnum [js ''light'', js ''dark'', js ''auto'']) \<and>
        map_of fs (js ''fontSize'') = Some (FEnum [js ''small'', js ''medium'', js ''large''])"
  by (simp add: settings_schema_def js_def)

lemma sm_inv_toggle: "sm_inv st \<Longrightarrow> sm_inv (toggle_click sec key st)"
  using toggles_bool [of sec key] sm_inv_update [of st sec _ key FBool]
  by (auto simp: toggle_click_def)

lemma sm_inv_save: "sm_inv st \<Longrightarrow> sm_inv (save_settings st)"
proof -
  assume inv: "sm_inv st"
  then have "saved_typed (Some (SavedJson (JObj (sm_settings st)))) = settings_typed (sm_settings st)"
    by (simp add: sm_inv_def saved_typed_save)
  then have "sm_inv (st\<lparr>sm_saved := Some (SavedJson (JObj (sm_settings st))), sm_has_changes := False\<rparr>)"
    using inv by (simp add: sm_inv_def)
  then show ?thesis
    by (simp add: save_settings_def Let_def sm_inv_def split: sum.split)
qed

lemma sm_inv_reset: "sm_inv (reset_settings st)"
  using default_settings_distinct default_settings_typed by (simp add: sm_inv_def reset_settings_def)

lemma sm_inv_step: "sm_inv st \<Longrightarrow> sm_inv (sm_step ev st)"
proof (induction ev)
  case (SMLanguage l)
  then show ?case by (simp add: sm_inv_def split: prod.split)
next
  case (SMToggle sec key)
  then show ?case by (simp add: sm_inv_toggle)
next
  case (SMTheme t)
  obtain fs where "map_of settings_schema (js ''display'') = Some fs"
    "map_of fs (js ''theme'') = Some (FEnum [js ''light'', js ''dark'', js ''auto''])"
    using display_fields by blast
  then show ?case using sm_inv_update [OF SMTheme] SMTheme by auto
next
  case (SMFontSize t)
  obtain fs where "map_of settings_schema (js ''display'') = Some fs"
    "map_of fs (js ''fontSize'') = Some (FEnum [js ''small'', js ''medium'', js ''large''])"
    using display_fields by blast
  then show ?case using sm_inv_update [OF SMFontSize] SMFontSize by auto
next
  case SMReset
  then show ?case by (simp add: sm_inv_reset)
next
  case SMSave
  then show ?case by (simp add: sm_inv_save)
next
  case (SMPhoto f)
  then show ?case by (simp add: sm_inv_def handle_photo_upload_def split: option.split)
next
  case (SMReaderLoad i)
  then show ?case by (simp add: sm_inv_def reader_load_def split: prod.split)
next
  case (SMUser u)
  then show ?case using sm_inv_load [of "st\<lparr>sm_user := u\<rparr>"] by (simp add: sm_inv_def)
qed (simp_all add: sm_inv_def)

lemma sm_inv_init: "sm_inv (sm_init ls sv dark u lng width)"
  unfolding sm_init_def
  by (rule sm_inv_load) (simp add: sm_inv_def default_settings_distinct default_settings_typed)

lemma sm_reach_inv: "sm_reach st \<Longrightarrow> sm_inv st"
  by (induction rule: sm_reach.induct) (simp_all add: sm_inv_init sm_inv_step)

text \<open>C12. Type preservation for the settings dialog: in every reachable state whose
  saved \<open>ude-settings\<close> entry is well typed (absent, not JSON, or a JSON value whose
  spread over the defaults has the type), the settings object has the type
  \<open>UserSettings\<close>, although \<open>updateSettings\<close> takes \<open>value: any\<close>: every switch, theme
  and font-size button writes a value of the declared type, and save, reset and the
  reload on a user change keep it\<close>

theorem settings_reach_typed:
  "sm_reach st \<Longrightarrow> saved_typed (sm_saved st) \<Longrightarrow> settings_typed (sm_settings st)"
  using sm_reach_inv [of st] by (simp add: sm_inv_def)

subsection \<open>Saving and reloading\<close>

lemma typed_display:
  "settings_typed ps \<Longrightarrow> \<exists>qs. map_of ps (js ''display'') = Some (JObj qs)"
proof -
  assume t: "settings_typed ps"
  obtain fs where "map_of settings_schema (js ''display'') = Some fs" using display_fields by blast
  then have "(js ''display'', fs) \<in> set settings_schema" by (rule map_of_SomeD)
  from settings_typed_section [OF this t] show ?thesis by (rule section_typed_obj)
qed

lemma load_effect_settings:
  "sm_settings (load_effect st) =
     (case sm_saved st of Some (SavedJson v) \<Rightarrow> obj_spread default_settings (spread_props (Some v)) | _ \<Rightarrow> sm_settings st)"
  by (simp add: load_effect_def Let_def split: option.split saved.split stored.split)

lemma save_settings_saved: "sm_saved (save_settings st) = Some (SavedJson (JObj (sm_settings st)))"
  by (simp add: save_settings_def Let_def split: sum.split)

text \<open>Saving typed settings never throws: \<open>saveSettings\<close> writes the settings,
  clears the change flag, closes the dialog and switches the dark mode on for the
  \<open>dark\<close> theme and off for \<open>light\<close>, leaving it for \<open>auto\<close>\<close>

theorem save_settings_typed:
  assumes "settings_typed (sm_settings st)" "sm_open st" "sm_has_changes st"
  shows "sm_saved (sm_step SMSave st) = Some (SavedJson (JObj (sm_settings st))) \<and>
         \<not> sm_has_changes (sm_step SMSave st) \<and> \<not> sm_open (sm_step SMSave st) \<and>
         sm_errors (sm_step SMSave st) = sm_errors st \<and>
         sm_dark (sm_step SMSave st) =
           (if field_value (sm_settings st) (js ''display'') (js ''theme'') = Some (JStr (js ''dark'')) then True
            else if field_value (sm_settings st) (js ''display'') (js ''theme'') = Some (JStr (js ''light'')) then False
            else sm_dark st)"
proof -
  obtain qs where qs: "map_of (sm_settings st) (js ''display'') = Some (JObj qs)"
    using typed_display [OF assms(1)] by blast
  have "js ''light'' \<noteq> js ''dark''" by (simp add: js_def)
  then show ?thesis using assms(2,3) qs
    by (auto simp: save_settings_def field_value_def Let_def)
qed

text \<open>C13. Saved settings survive a reload: mounting the dialog again after a save
  gives back the same settings object (the same properties with the same values)\<close>

theorem save_then_reload:
  assumes "sm_reach st" "sm_open st" "sm_has_changes st"
  shows "map_of (sm_settings (sm_init ls (sm_saved (sm_step SMSave st)) dark u lng w)) = map_of (sm_settings st)"
proof -
  have "distinct (map fst (sm_settings st))" "set (map fst default_settings) \<subseteq> set (map fst (sm_settings st))"
    using sm_reach_inv [OF assms(1)] by (simp_all add: sm_inv_def)
  from spread_over_defaults [OF this] show ?thesis
    using assms(2,3) by (simp add: sm_init_def load_effect_settings save_settings_saved)
qed

subsection \<open>Findings\<close>

text \<open>The spread \<open>{...defaultSettings, ...parsed}\<close> is shallow: a saved object whose
  \<open>display\<close> section holds only a theme (as an older version would save it) replaces
  the whole default section, and \<open>settings.display.fontSize\<close> is \<open>undefined\<close>\<close>

theorem partial_saved_section_drops_defaults:
  "field_value (sm_settings (sm_init [] (Some (SavedJson (JObj [(js ''display'', JObj [(js ''theme'', JStr (js ''dark''))])])))
      False None (js ''en'') 1024)) (js ''display'') (js ''fontSize'') = None"
  by (simp add: sm_init_def load_effect_settings obj_spread_def default_settings_def field_value_def js_def)

text \<open>Cancel and the backdrop only close the dialog: it stays mounted in the
  header, so an unsaved change is still shown, and still marked as unsaved, when the
  dialog is opened again, while nothing was written\<close>

theorem cancel_keeps_unsaved_changes:
  "sm_has_changes (fold sm_step [SMOpen, SMTab (js ''privacy''), SMToggle (js ''privacy'') (js ''analytics''), SMClose, SMOpen]
       (sm_init [] None False None (js ''en'') 1024)) \<and>
   field_value (sm_settings (fold sm_step [SMOpen, SMTab (js ''privacy''), SMToggle (js ''privacy'') (js ''analytics''), SMClose, SMOpen]
       (sm_init [] None False None (js ''en'') 1024))) (js ''privacy'') (js ''analytics'') = Some (JBool False) \<and>
   sm_saved (fold sm_step [SMOpen, SMTab (js ''privacy''), SMToggle (js ''privacy'') (js ''analytics''), SMClose, SMOpen]
       (sm_init [] None False None (js ''en'') 1024)) = None"
  by (simp add: sm_init_def load_effect_def tab_ids_def toggle_click_def settings_toggles_def toggle_disabled_def
      update_settings_def field_value_def default_settings_def js_def)

text \<open>Without a signed-in user, an uploaded photo is written under the key
  \<open>ude-profile-photo-undefined\<close>, since the template literal prints \<open>user?.id\<close> as
  \<open>undefined\<close>\<close>

theorem photo_without_user_key_undefined:
  "map_of (sm_storage (fold sm_step
      [SMOpen, SMPhoto (Some \<lparr>file_type = js ''image/png'', file_size = 1000, file_data = js ''data:image/png;base64,AA''\<rparr>),
       SMReaderLoad 0]
      (sm_init [] None False None (js ''en'') 1024))) (js ''ude-profile-photo-undefined'') =
   Some (SText (js ''data:image/png;base64,AA''))"
  by (simp add: sm_init_def load_effect_def handle_photo_upload_def photo_rejection_def reader_load_def photo_key_def image_size_limit_def js_def)

text \<open>The photo is not reset when the user changes: the load effect only sets a
  photo that is found, so the next user sees the previous user's photo.\<close>

theorem photo_survives_user_switch:
  "avatar_view (sm_step (SMUser (Some \<lparr>au_id = js ''u2'', au_email = js ''bob@uni-due.de'', au_name = js ''Bob''\<rparr>))
      (sm_init [(js ''ude-profile-photo-u1'', SText (js ''data:a''))] None False
         (Some \<lparr>au_id = js ''u1'', au_email = js ''ann@uni-due.de'', au_name = js ''Ann''\<rparr>) (js ''en'') 1024)) =
   Inl (js ''data:a'')"
  by (simp add: sm_init_def load_effect_def photo_key_def avatar_view_def js_def)

subsection \<open>Photos and language\<close>

text \<open>\<open>handlePhotoUpload\<close> rejects a file that is not an image, and an image over
  5 MB, with an alert and no other change; an accepted image is stored under the photo
  key of the user at selection time once its read completes, and shown\<close>

theorem photo_upload_checks:
  assumes "sm_open st" "sm_active_tab st = js ''general''" "\<not> sm_uploading st"
  shows "(\<not> starts_with (file_type f) (js ''image/'') \<longrightarrow>
            sm_step (SMPhoto (Some f)) st = st\<lparr>sm_alerts := sm_alerts st @ [js ''Please select an image file'']\<rparr>) \<and>
         (starts_with (file_type f) (js ''image/'') \<and> image_size_limit < file_size f \<longrightarrow>
            sm_step (SMPhoto (Some f)) st = st\<lparr>sm_alerts := sm_alerts st @ [js ''Image size must be less than 5MB'']\<rparr>) \<and>
         (starts_with (file_type f) (js ''image/'') \<and> file_size f \<le> image_size_limit \<longrightarrow>
            (let st' = reader_load (length (sm_readers st)) (sm_step (SMPhoto (Some f)) st)
             in sm_storage st' = al_set (sm_storage st) (photo_key (sm_user st)) (SText (file_data f)) \<and>
                sm_photo st' = Some (file_data f) \<and> \<not> sm_uploading st' \<and> sm_readers st' = sm_readers st))"
  using assms by (auto simp: handle_photo_upload_def photo_rejection_def reader_load_def Let_def not_less)

text \<open>The language buttons of the dialog go through the language provider: the
  chosen language is active and is what a reload reads from \<open>localStorage\<close>, and the
  saved users are untouched\<close>

theorem settings_language_persists:
  assumes "sm_open st" "sm_active_tab st = js ''general''"
  shows "sm_language (sm_step (SMLanguage l) st) = lang_code l \<and>
         language_init (sm_storage (sm_step (SMLanguage l) st)) = lang_code l \<and>
         load_users (sm_storage (sm_step (SMLanguage l) st)) = load_users (sm_storage st)"
  using assms set_language_persists [of l "(sm_language st, sm_storage st)"]
    users_survive_set_language [of l "sm_language st" "sm_storage st"]
  by (simp add: case_prod_unfold)

subsection \<open>Witnesses\<close>

theorem settings_reach_typed_witness:
  "sm_reach (sm_init [] None False None (js ''en'') 1024) \<and> settings_typed (sm_settings (sm_init [] None False None (js ''en'') 1024))"
proof -
  have r: "sm_reach (sm_init [] None False None (js ''en'') 1024)" by (rule sm_reach.init)
  have "saved_typed (sm_saved (sm_init [] None False None (js ''en'') 1024))"
    by (simp add: sm_init_def load_effect_def saved_typed_def)
  with r show ?thesis using settings_reach_typed by blast
qed

theorem save_settings_typed_witness:
  "sm_dark (sm_step SMSave (sm_step (SMTheme (js ''dark'')) (sm_step (SMTab (js ''display'')) (sm_step SMOpen
      (sm_init [] None False None (js ''en'') 1024)))))"
proof -
  let ?st = "sm_step (SMTheme (js ''dark'')) (sm_step (SMTab (js ''display'')) (sm_step SMOpen
               (sm_init [] None False None (js ''en'') 1024)))"
  have r: "sm_reach ?st" by (intro sm_reach.step sm_reach.init)
  have sv: "sm_saved ?st = None" by (simp add: sm_init_def load_effect_def update_settings_def)
  have t: "settings_typed (sm_settings ?st)" using sm_reach_inv [OF r] sv by (simp add: sm_inv_def saved_typed_def)
  have o: "sm_open ?st" "sm_has_changes ?st"
    by (simp_all add: sm_init_def load_effect_def tab_ids_def update_settings_def js_def)
  have th: "field_value (sm_settings ?st) (js ''display'') (js ''theme'') = Some (JStr (js ''dark''))"
    by (simp add: sm_init_def load_effect_def tab_ids_def update_settings_def field_value_def default_settings_def js_def)
  show ?thesis using save_settings_typed [OF t o] th by simp
qed

theorem save_then_reload_witness:
  "map_of (sm_settings (sm_init [] (sm_saved (sm_step SMSave (sm_step (SMTheme (js ''dark'')) (sm_step (SMTab (js ''display''))
      (sm_step SMOpen (sm_init [] None False None (js ''en'') 1024)))))) False None (js ''en'') 1024)) =
   map_of (sm_settings (sm_step (SMTheme (js ''dark'')) (sm_step (SMTab (js ''display''))
      (sm_step SMOpen (sm_init [] None False None (js ''en'') 1024)))))"
proof -
  let ?st = "sm_step (SMTheme (js ''dark'')) (sm_step (SMTab (js ''display'')) (sm_step SMOpen
               (sm_init [] None False None (js ''en'') 1024)))"
  have r: "sm_reach ?st" by (intro sm_reach.step sm_reach.init)
  have o: "sm_open ?st" "sm_has_changes ?st"
    by (simp_all add: sm_init_def load_effect_def tab_ids_def update_settings_def js_def)
  show ?thesis by (rule save_then_reload [OF r o])
qed

theorem photo_upload_checks_witness:
  "sm_photo (reader_load 0 (sm_step (SMPhoto (Some \<lparr>file_type = js ''image/png'', file_size = 1000, file_data = js ''data:x''\<rparr>))
      (sm_step SMOpen (sm_init [] None False None (js ''en'') 1024)))) = Some (js ''data:x'')"
proof -
  let ?st = "sm_step SMOpen (sm_init [] None False None (js ''en'') 1024)"
  have a: "sm_open ?st" "sm_active_tab ?st = js ''general''" "\<not> sm_uploading ?st" "sm_readers ?st = []"
    by (simp_all add: sm_init_def load_effect_def)
  have f: "starts_with (js ''image/png'') (js ''image/'')" "1000 \<le> image_size_limit"
    by (simp_all add: js_def image_size_limit_def)
  show ?thesis using photo_upload_checks [OF a(1-3), of "\<lparr>file_type = js ''image/png'', file_size = 1000, file_data = js ''data:x''\<rparr>"] f a(4)
    by (simp add: Let_def)
qed

theorem settings_language_persists_witness:
  "language_init (sm_storage (sm_step (SMLanguage De) (sm_step SMOpen (sm_init [] None False None (js ''en'') 1024)))) = js ''de''"
proof -
  let ?st = "sm_step SMOpen (sm_init [] None False None (js ''en'') 1024)"
  have a: "sm_open ?st" "sm_active_tab ?st = js ''general''" by (simp_all add: sm_init_def load_effect_def)
  show ?thesis using settings_language_persists [OF a, of De] by (simp add: lang_code_def)
qed

end
