(* ===== verification/UserProfile.thy ===== *)
theory UserProfile
  imports Settings
begin

text \<open>The profile dialog (\<open>components/UserProfileModal.tsx\<close>), mounted by the header
  next to the settings dialog. It keeps two copies of a \<open>UserProfile\<close>: the profile
  shown and the one being edited. Both start from built-in demo data with the signed-in
  user's name and e-mail; Save copies the edited profile into the shown one, in the
  component only, and Cancel copies back. The photo upload shares its checks with the
  settings dialog (\<open>photo_rejection\<close>) but writes \<open>localStorage\<close> only when there is a
  user id.\<close>

section \<open>The dialog\<close>

record profile_modal =
  pm_open :: bool
  pm_user :: "auth_user option"
  pm_storage :: "(jstr \<times> stored) list"
  pm_editing :: bool
  pm_photo :: "jstr option"
  pm_uploading :: bool
  pm_profile :: user_profile
  pm_edited :: user_profile
  pm_readers :: "(jstr option \<times> jstr) list"
  pm_alerts :: "jstr list"

text \<open>The language of the provider as the profile's \<open>language\<close> field; a stored
  language other than \<open>en\<close> and \<open>de\<close> (which the type \<open>Language\<close> excludes) is
  recorded as absent. The field is never shown.\<close>

definition lang_of_code :: "jstr \<Rightarrow> lang option" where
  "lang_of_code c = (if c = js ''en'' then Some En else if c = js ''de'' then Some De else None)"

text \<open>The initial \<open>profile\<close> state: \<open>user?.id || 'demo-user'\<close> and the like, then
  the demo data.\<close>

definition or_default :: "jstr option \<Rightarrow> jstr \<Rightarrow> jstr" where
  "or_default v d = (case v of Some s \<Rightarrow> if s = [] then d else s | None \<Rightarrow> d)"

definition initial_profile :: "auth_user option \<Rightarrow> jstr \<Rightarrow> user_profile" where
  "initial_profile u lng =
     \<lparr>prof_id = or_default (map_option au_id u) (js ''demo-user''),
      prof_name = or_default (map_option au_name u) (js ''Demo Student''),
      prof_email = or_default (map_option au_email u) (js ''demo@uni-due.de''),
      student_id = Some (js ''UDE2024001''), program = Some (js ''Computer Science''), year = Some 2,
      campus = Some Essen,
      interests = Some [js ''Technology'', js ''Research'', js ''International Exchange''],
      favorite_buildings = Some [js ''library'', js ''student-center''],
      bio = Some (js ''Passionate computer science student interested in AI and machine learning. Love exploring new technologies and connecting with fellow students.''),
      is_international = Some True, language = lang_of_code lng, profile_photo = None,
      notifications = Some \<lparr>n_events = True, n_weather = True, n_academic = True, n_social = False\<rparr>,
      accessibility = Some \<lparr>a_screen_reader = False, a_high_contrast = False, a_large_text = False\<rparr>\<rparr>"

text \<open>The effect on \<open>[user]\<close>: a user's name and e-mail go into both copies, and the
  photo saved under the user's id, when there is one, is shown. Nothing is reset.\<close>

definition user_effect :: "profile_modal \<Rightarrow> profile_modal" where
  "user_effect st =
     (let st1 = (case pm_user st of
                   Some a \<Rightarrow> st\<lparr>pm_profile := (pm_profile st)\<lparr>prof_name := au_name a, prof_email := au_email a\<rparr>,
                               pm_edited := (pm_edited st)\<lparr>prof_name := au_name a, prof_email := au_email a\<rparr>\<rparr>
                 | None \<Rightarrow> st)
      in case pm_user st of
           Some a \<Rightarrow>
             if au_id a = [] then st1
             else (case map_of (pm_storage st) (js ''ude-profile-photo-'' @ au_id a) of
                     Some (SText p) \<Rightarrow> if p \<noteq> [] then st1\<lparr>pm_photo := Some p\<rparr> else st1
                   | _ \<Rightarrow> st1)
         | None \<Rightarrow> st1)"

definition handle_save :: "profile_modal \<Rightarrow> profile_modal" where
  "handle_save st = st\<lparr>pm_profile := pm_edited st, pm_editing := False\<rparr>"

definition handle_cancel :: "profile_modal \<Rightarrow> profile_modal" where
  "handle_cancel st = st\<lparr>pm_edited := pm_profile st, pm_editing := False\<rparr>"

text \<open>\<open>handlePhotoUpload\<close>: the checks, then a read whose callback keeps the user id
  of this render.\<close>

definition pm_photo_upload :: "upload_file option \<Rightarrow> profile_modal \<Rightarrow> profile_modal" where
  "pm_photo_upload file st =
     (case file of
        None \<Rightarrow> st
      | Some f \<Rightarrow>
          (case photo_rejection f of
             Some msg \<Rightarrow> st\<lparr>pm_alerts := pm_alerts st @ [msg]\<rparr>
           | None \<Rightarrow> st\<lparr>pm_uploading := True, pm_readers := pm_readers st @ [(map_option au_id (pm_user st), file_data f)]\<rparr>))"

text \<open>The \<open>onload\<close> callback: show the photo, and store it when \<open>user?.id\<close> was truthy.\<close>

definition pm_reader_load :: "nat \<Rightarrow> profile_modal \<Rightarrow> profile_modal" where
  "pm_reader_load i st =
     (if i < length (pm_readers st) then
        (let (uid, d) = pm_readers st ! i;
             st1 = st\<lparr>pm_photo := Some d, pm_uploading := False,
                      pm_readers := take i (pm_readers st) @ drop (Suc i) (pm_readers st)\<rparr>
         in case uid of
              Some k \<Rightarrow> if k \<noteq> [] then st1\<lparr>pm_storage := al_set (pm_storage st) (js ''ude-profile-photo-'' @ k) (SText d)\<rparr> else st1
            | None \<Rightarrow> st1)
      else st)"

text \<open>\<open>getCampusDisplayName(profile.campus || 'essen')\<close>.\<close>

definition campus_display_name :: "campus option \<Rightarrow> jstr" where
  "campus_display_name c = (if c = Some Duisburg then js ''Campus Duisburg'' else js ''Campus Essen'')"

definition pm_avatar :: "profile_modal \<Rightarrow> jstr + jstr" where
  "pm_avatar st =
     (case pm_photo st of
        Some p \<Rightarrow> if p \<noteq> [] then Inl p else Inr (avatar_initials (prof_name (pm_profile st)))
      | None \<Rightarrow> Inr (avatar_initials (prof_name (pm_profile st))))"

definition pm_init :: "(jstr \<times> stored) list \<Rightarrow> auth_user option \<Rightarrow> jstr \<Rightarrow> profile_modal" where
  "pm_init ls u lng =
     user_effect
       \<lparr>pm_open = False, pm_user = u, pm_storage = ls, pm_editing = False, pm_photo = None, pm_uploading = False,
        pm_profile = initial_profile u lng, pm_edited = initial_profile u lng, pm_readers = [], pm_alerts = []\<rparr>"

text \<open>The inputs of the edit form: name, student id, program, the year select (options
  1 to 6, read back with \<open>parseInt\<close>), the campus select and the bio.\<close>

datatype pm_field =
    PFName jstr
  | PFStudentId jstr
  | PFProgram jstr
  | PFYear int
  | PFCampus campus
  | PFBio jstr

fun set_field :: "pm_field \<Rightarrow> user_profile \<Rightarrow> user_profile" where
  "set_field (PFName v) p = p\<lparr>prof_name := v\<rparr>"
| "set_field (PFStudentId v) p = p\<lparr>student_id := Some v\<rparr>"
| "set_field (PFProgram v) p = p\<lparr>program := Some v\<rparr>"
| "set_field (PFYear y) p = p\<lparr>year := Some y\<rparr>"
| "set_field (PFCampus c) p = p\<lparr>campus := Some c\<rparr>"
| "set_field (PFBio v) p = p\<lparr>bio := Some v\<rparr>"

fun field_offered :: "pm_field \<Rightarrow> bool" where
  "field_offered (PFYear y) = (1 \<le> y \<and> y \<le> 6)"
| "field_offered f = True"

datatype pm_event =
    PMOpen
  | PMClose
  | PMEdit
  | PMSave
  | PMCancel
  | PMField pm_field
  | PMPhoto "upload_file option"
  | PMReaderLoad nat
  | PMUser "auth_user option"

text \<open>The edit button shows while not editing, Save, Cancel, the inputs and the photo
  input while editing; the photo input is disabled during an upload.\<close>

fun pm_step :: "pm_event \<Rightarrow> profile_modal \<Rightarrow> profile_modal" where
  "pm_step PMOpen st = st\<lparr>pm_open := True\<rparr>"
| "pm_step PMClose st = st\<lparr>pm_open := False\<rparr>"
| "pm_step PMEdit st = (if pm_open st \<and> \<not> pm_editing st then st\<lparr>pm_editing := True\<rparr> else st)"
| "pm_step PMSave st = (if pm_open st \<and> pm_editing st then handle_save st else st)"
| "pm_step PMCancel st = (if pm_open st \<and> pm_editing st then handle_cancel st else st)"
| "pm_step (PMField f) st =
     (if pm_open st \<and> pm_editing st \<and> field_offered f then st\<lparr>pm_edited := set_field f (pm_edited st)\<rparr> else st)"
| "pm_step (PMPhoto f) st =
     (if pm_open st \<and> pm_editing st \<and> \<not> pm_uploading st then pm_photo_upload f st else st)"
| "pm_step (PMReaderLoad i) st = pm_reader_load i st"
| "pm_step (PMUser u) st = (if u = pm_user st then st else user_effect (st\<lparr>pm_user := u\<rparr>))"

inductive pm_reach :: "profile_modal \<Rightarrow> bool" where
  init: "pm_reach (pm_init ls u lng)"
| step: "pm_reach st \<Longrightarrow> pm_reach (pm_step ev st)"

text \<open>Outside edit mode the form holds the profile shown, and the year of both copies
  is one the select offers.\<close>

definition pm_ok :: "profile_modal \<Rightarrow> bool" where
  "pm_ok st \<longleftrightarrow>
     (\<not> pm_editing st \<longrightarrow> pm_edited st = pm_profile st) \<and>
     year (pm_profile st) \<in> Some ` {1..6} \<and> year (pm_edited st) \<in> Some ` {1..6}"

lemmas profile_defs [model_simps] =
  lang_of_code_def or_default_def initial_profile_def user_effect_def handle_save_def handle_cancel_def
  pm_photo_upload_def pm_reader_load_def campus_display_name_def pm_avatar_def pm_init_def


section \<open>Properties\<close>

subsection \<open>The invariant and the edit form\<close>

lemma pm_ok_user_effect: "pm_ok st \<Longrightarrow> pm_ok (user_effect st)"
  by (auto simp: pm_ok_def user_effect_def Let_def split: option.split stored.split)

lemma pm_ok_reader_load: "pm_ok st \<Longrightarrow> pm_ok (pm_reader_load i st)"
  by (simp add: pm_ok_def pm_reader_load_def Let_def split: prod.split option.split)

lemma pm_ok_photo_upload: "pm_ok st \<Longrightarrow> pm_ok (pm_photo_upload f st)"
  by (simp add: pm_ok_def pm_photo_upload_def split: option.split)

lemma year_set_field: "year (set_field f p) = (case f of PFYear y \<Rightarrow> Some y | _ \<Rightarrow> year p)"
  by (cases f) simp_all

lemma pm_ok_step: "pm_ok st \<Longrightarrow> pm_ok (pm_step ev st)"
proof (induction ev)
  case (PMField f)
  then show ?case by (cases f) (auto simp: pm_ok_def)
next
  case (PMPhoto f)
  then show ?case by (simp add: pm_ok_photo_upload)
next
  case (PMReaderLoad i)
  then show ?case by (simp add: pm_ok_reader_load)
next
  case (PMUser u)
  then show ?case using pm_ok_user_effect [of "st\<lparr>pm_user := u\<rparr>"] by (simp add: pm_ok_def)
qed (auto simp: pm_ok_def handle_save_def handle_cancel_def)

lemma pm_ok_init: "pm_ok (pm_init ls u lng)"
  unfolding pm_init_def by (rule pm_ok_user_effect) (simp add: pm_ok_def initial_profile_def)

lemma fold_fields:
  "pm_open st \<Longrightarrow> pm_editing st \<Longrightarrow> list_all field_offered fs \<Longrightarrow>
   fold (\<lambda>f. pm_step (PMField f)) fs st = st\<lparr>pm_edited := fold set_field fs (pm_edited st)\<rparr>"
  by (induction fs arbitrary: st) simp_all

text \<open>C14. In every reachable state of the profile dialog the edit form outside edit
  mode holds exactly the profile shown, and the year of both copies is one of the years
  1 to 6 the select offers\<close>

theorem profile_reach_ok: "pm_reach st \<Longrightarrow> pm_ok st"
  by (induction rule: pm_reach.induct) (simp_all add: pm_ok_init pm_ok_step)

text \<open>Save makes the profile shown the edited one, field edits applied in order;
  Cancel after any edits restores the form to the profile shown, which it leaves
  unchanged; both leave edit mode\<close>

theorem profile_edit_save_cancel:
  assumes "pm_open st" "pm_editing st" "list_all field_offered fs"
  shows "pm_profile (pm_step PMSave (fold (\<lambda>f. pm_step (PMField f)) fs st)) = fold set_field fs (pm_edited st) \<and>
         \<not> pm_editing (pm_step PMSave (fold (\<lambda>f. pm_step (PMField f)) fs st)) \<and>
         pm_profile (pm_step PMCancel (fold (\<lambda>f. pm_step (PMField f)) fs st)) = pm_profile st \<and>
         pm_edited (pm_step PMCancel (fold (\<lambda>f. pm_step (PMField f)) fs st)) = pm_profile st \<and>
         \<not> pm_editing (pm_step PMCancel (fold (\<lambda>f. pm_step (PMField f)) fs st))"
  using assms by (simp add: fold_fields handle_save_def handle_cancel_def)

subsection \<open>Findings\<close>

text \<open>Save is not persistent: after editing the program and saving, the dialog
  shows the new program, but nothing is written to \<open>localStorage\<close> (nor sent to the auth
  service), and a new mount shows the built-in program again\<close>

theorem profile_save_not_persisted:
  "program (pm_profile (fold pm_step [PMOpen, PMEdit, PMField (PFProgram (js ''Physics'')), PMSave]
      (pm_init [] (Some \<lparr>au_id = js ''u1'', au_email = js ''ann@uni-due.de'', au_name = js ''Ann''\<rparr>) (js ''en'')))) =
     Some (js ''Physics'') \<and>
   pm_storage (fold pm_step [PMOpen, PMEdit, PMField (PFProgram (js ''Physics'')), PMSave]
      (pm_init [] (Some \<lparr>au_id = js ''u1'', au_email = js ''ann@uni-due.de'', au_name = js ''Ann''\<rparr>) (js ''en''))) = [] \<and>
   program (pm_profile (pm_init [] (Some \<lparr>au_id = js ''u1'', au_email = js ''ann@uni-due.de'', au_name = js ''Ann''\<rparr>) (js ''en''))) =
     Some (js ''Computer Science'')"
  by (simp add: pm_init_def user_effect_def initial_profile_def handle_save_def js_def)

text \<open>Edits survive a change of user: the user effect only overwrites the name and
  e-mail, so the next user is shown the previous user's saved program.\<close>

theorem profile_edits_survive_user_switch:
  "program (pm_profile (pm_step (PMUser (Some \<lparr>au_id = js ''u2'', au_email = js ''bob@uni-due.de'', au_name = js ''Bob''\<rparr>))
      (fold pm_step [PMOpen, PMEdit, PMField (PFProgram (js ''Physics'')), PMSave]
        (pm_init [] (Some \<lparr>au_id = js ''u1'', au_email = js ''ann@uni-due.de'', au_name = js ''Ann''\<rparr>) (js ''en''))))) =
   Some (js ''Physics'')"
  by (simp add: pm_init_def user_effect_def initial_profile_def handle_save_def js_def)

text \<open>Without a user the profile dialog shows an uploaded photo but stores nothing,
  where the settings dialog stores it under \<open>ude-profile-photo-undefined\<close>.\<close>

theorem profile_photo_without_user_not_stored:
  "pm_storage (fold pm_step
      [PMOpen, PMEdit, PMPhoto (Some \<lparr>file_type = js ''image/png'', file_size = 1000, file_data = js ''data:x''\<rparr>), PMReaderLoad 0]
      (pm_init [] None (js ''en''))) = [] \<and>
   pm_photo (fold pm_step
      [PMOpen, PMEdit, PMPhoto (Some \<lparr>file_type = js ''image/png'', file_size = 1000, file_data = js ''data:x''\<rparr>), PMReaderLoad 0]
      (pm_init [] None (js ''en''))) = Some (js ''data:x'')"
  by (simp add: pm_init_def user_effect_def pm_photo_upload_def photo_rejection_def image_size_limit_def pm_reader_load_def js_def)

subsection \<open>Witnesses\<close>

theorem profile_reach_ok_witness:
  "pm_reach (pm_step PMEdit (pm_step PMOpen (pm_init [] None (js ''en'')))) \<and>
   pm_ok (pm_step PMEdit (pm_step PMOpen (pm_init [] None (js ''en''))))"
proof -
  have r: "pm_reach (pm_step PMEdit (pm_step PMOpen (pm_init [] None (js ''en''))))"
    by (intro pm_reach.step pm_reach.init)
  show ?thesis using r profile_reach_ok [OF r] by blast
qed

theorem profile_edit_save_cancel_witness:
  "pm_profile (pm_step PMSave (fold (\<lambda>f. pm_step (PMField f)) [PFYear 3, PFCampus Duisburg]
      (pm_step PMEdit (pm_step PMOpen (pm_init [] None (js ''en'')))))) =
   (pm_edited (pm_init [] None (js ''en'')))\<lparr>year := Some 3, campus := Some Duisburg\<rparr>"
proof -
  let ?st = "pm_step PMEdit (pm_step PMOpen (pm_init [] None (js ''en'')))"
  have a: "pm_open ?st" "pm_editing ?st" "list_all field_offered [PFYear 3, PFCampus Duisburg]"
    by (simp_all add: pm_init_def user_effect_def)
  have e: "pm_edited ?st = pm_edited (pm_init [] None (js ''en''))" by (simp add: pm_init_def user_effect_def)
  show ?thesis using profile_edit_save_cancel [OF a] e by simp
qed

end
