(* ===== verification/Login.thy ===== *)
theory Login
  imports AuthContext Settings
begin

text \<open>The login page (\<open>components/LoginPage.tsx\<close>): the form state, the photo upload
  with its resize to at most 200 by 200 pixels, the submit handler calling the auth
  provider's \<open>login\<close> and \<open>signup\<close>, the mode switch, the language and dark-mode buttons.
  The browser submits the form only when its constraints hold (\<open>required\<close> fields and
  \<open>type="email"\<close>), and the submit button is disabled while loading; the awaited calls
  resolve before the next event, as in demo mode. The JPEG encoding of the canvas is
  not modelled: the data URL is an input of the image's load event, except that a
  canvas with a zero side encodes as \<open>data:,\<close>. The saved dark mode is read with
  \<open>JSON.parse\<close>, which is not modelled: its value is a parameter of the first render.\<close>

section \<open>Browser constraints on the form\<close>

text \<open>A valid e-mail address of the HTML standard (4.10.5.1.5): a local part of
  \<open>atext\<close> characters and dots, then labels of letters, digits and hyphens, not
  starting or ending with a hyphen, at most 63 long, separated by dots.\<close>

definition is_alnum :: "nat \<Rightarrow> bool" where
  "is_alnum c \<longleftrightarrow> (48 \<le> c \<and> c \<le> 57) \<or> (65 \<le> c \<and> c \<le> 90) \<or> (97 \<le> c \<and> c \<le> 122)"

definition is_atext :: "nat \<Rightarrow> bool" where
  "is_atext c \<longleftrightarrow> is_alnum c \<or> c \<in> set (js ''.!#$%&'*+/=?^_`{|}~-'')"

definition valid_label :: "jstr \<Rightarrow> bool" where
  "valid_label l \<longleftrightarrow>
     l \<noteq> [] \<and> length l \<le> 63 \<and> list_all (\<lambda>c. is_alnum c \<or> c = 45) l \<and> hd l \<noteq> 45 \<and> last l \<noteq> 45"

definition valid_email :: "jstr \<Rightarrow> bool" where
  "valid_email s \<longleftrightarrow>
     (case js_split_on 64 s of
        [local, domain] \<Rightarrow> local \<noteq> [] \<and> list_all is_atext local \<and> list_all valid_label (js_split_on 46 domain)
      | _ \<Rightarrow> False)"

section \<open>The page\<close>

text \<open>The state hooks of the page, with the auth provider it calls.\<close>

record login_page =
  lp_email :: jstr
  lp_password :: jstr
  lp_name :: jstr
  lp_student_id :: jstr
  lp_program :: jstr
  lp_year :: int
  lp_campus :: campus
  lp_photo :: "jstr option"
  lp_show_password :: bool
  lp_error :: jstr
  lp_loading :: bool
  lp_sign_up :: bool
  lp_uploading :: bool
  lp_pending_images :: nat
  lp_dark :: bool
  lp_language :: jstr
  lp_ctx :: auth_ctx
  lp_navigated :: "jstr option"

text \<open>The dark-mode effect writes \<open>JSON.stringify(isDarkMode)\<close> on every change.\<close>

definition dark_mode_key :: jstr where
  "dark_mode_key = js ''ude-dark-mode''"

definition store_dark :: "bool \<Rightarrow> auth_ctx \<Rightarrow> auth_ctx" where
  "store_dark d ctx =
     ctx\<lparr>ctx_service := (ctx_service ctx)\<lparr>local_storage :=
          al_set (local_storage (ctx_service ctx)) dark_mode_key (SText (if d then js ''true'' else js ''false''))\<rparr>\<rparr>"

definition lp_init :: "auth_ctx \<Rightarrow> jstr \<Rightarrow> bool \<Rightarrow> login_page" where
  "lp_init ctx lng dark =
     \<lparr>lp_email = [], lp_password = [], lp_name = [], lp_student_id = [], lp_program = [], lp_year = 1,
      lp_campus = Essen, lp_photo = None, lp_show_password = False, lp_error = [], lp_loading = False,
      lp_sign_up = False, lp_uploading = False, lp_pending_images = 0, lp_dark = dark, lp_language = lng,
      lp_ctx = store_dark dark ctx, lp_navigated = None\<rparr>"

definition login_size_limit :: nat where
  "login_size_limit = 2 * 1024 * 1024"

text \<open>\<open>handlePhotoUpload\<close>: the checks set the error text; an accepted file starts an
  image load.\<close>

definition lp_photo_upload :: "upload_file option \<Rightarrow> login_page \<Rightarrow> login_page" where
  "lp_photo_upload file st =
     (case file of
        None \<Rightarrow> st
      | Some f \<Rightarrow>
          if \<not> starts_with (file_type f) (js ''image/'') then st\<lparr>lp_error := js ''Please select an image file''\<rparr>
          else if login_size_limit < file_size f then st\<lparr>lp_error := js ''Image size must be less than 2MB''\<rparr>
          else st\<lparr>lp_uploading := True, lp_error := [], lp_pending_images := Suc (lp_pending_images st)\<rparr>)"

text \<open>The resize of \<open>img.onload\<close>: the longer side is brought down to 200 and the other
  scaled with it; assigning to \<open>canvas.width\<close> and \<open>canvas.height\<close> truncates.\<close>

definition resized :: "nat \<Rightarrow> nat \<Rightarrow> rat \<times> rat" where
  "resized w h =
     (if h < w then (if 200 < w then (200, of_nat h * 200 / of_nat w) else (of_nat w, of_nat h))
      else (if 200 < h then (of_nat w * 200 / of_nat h, 200) else (of_nat w, of_nat h)))"

definition canvas_size :: "nat \<Rightarrow> nat \<Rightarrow> nat \<times> nat" where
  "canvas_size w h = (nat \<lfloor>fst (resized w h)\<rfloor>, nat \<lfloor>snd (resized w h)\<rfloor>)"

text \<open>\<open>canvas.toDataURL('image/jpeg', 0.7)\<close>: \<open>data:,\<close> for a canvas with a zero side,
  otherwise the encoding \<open>enc\<close> the browser produced.\<close>

definition canvas_data_url :: "nat \<times> nat \<Rightarrow> jstr \<Rightarrow> jstr" where
  "canvas_data_url sz enc = (if fst sz = 0 \<or> snd sz = 0 then js ''data:,'' else enc)"

definition image_load :: "nat \<Rightarrow> nat \<Rightarrow> jstr \<Rightarrow> login_page \<Rightarrow> login_page" where
  "image_load w h enc st =
     (if 0 < lp_pending_images st
      then st\<lparr>lp_photo := Some (canvas_data_url (canvas_size w h) enc), lp_uploading := False,
              lp_pending_images := lp_pending_images st - 1\<rparr>
      else st)"

text \<open>\<open>studentId.trim() || undefined\<close>.\<close>

definition trimmed_opt :: "jstr \<Rightarrow> jstr option" where
  "trimmed_opt s = (if js_trim s = [] then None else Some (js_trim s))"

definition signup_data :: "login_page \<Rightarrow> sign_up_data" where
  "signup_data st =
     \<lparr>sd_email = lp_email st, sd_password = lp_password st, sd_name = js_trim (lp_name st),
      sd_student_id = trimmed_opt (lp_student_id st), sd_program = trimmed_opt (lp_program st),
      sd_year = Some (lp_year st), sd_campus = Some (lp_campus st),
      sd_profile_photo = (case lp_photo st of Some p \<Rightarrow> if p = [] then None else Some p | None \<Rightarrow> None)\<rparr>"

definition error_or :: "jstr option \<Rightarrow> jstr \<Rightarrow> jstr" where
  "error_or e d = (case e of Some m \<Rightarrow> if m = [] then d else m | None \<Rightarrow> d)"

text \<open>\<open>handleSubmit\<close>: clear the error, set loading, then sign up (a blank name is
  refused first) or log in; success navigates to \<open>/campus\<close>, failure shows the error;
  \<open>finally\<close> clears loading.\<close>

definition handle_submit :: "nat \<Rightarrow> login_page \<Rightarrow> login_page" where
  "handle_submit now st =
     (let st1 = st\<lparr>lp_error := [], lp_loading := True\<rparr>;
          st2 = (if lp_sign_up st then
                   (if js_trim (lp_name st) = [] then st1\<lparr>lp_error := js ''Name is required''\<rparr>
                    else (case ctx_signup now (signup_data st) (lp_ctx st) of
                            ((True, e), ctx') \<Rightarrow> st1\<lparr>lp_ctx := ctx', lp_navigated := Some (js ''/campus'')\<rparr>
                          | ((False, e), ctx') \<Rightarrow> st1\<lparr>lp_ctx := ctx', lp_error := error_or e (js ''Signup failed'')\<rparr>))
                 else (case ctx_login (lp_email st) (lp_password st) (lp_ctx st) of
                         ((True, e), ctx') \<Rightarrow> st1\<lparr>lp_ctx := ctx', lp_navigated := Some (js ''/campus'')\<rparr>
                       | ((False, e), ctx') \<Rightarrow> st1\<lparr>lp_ctx := ctx', lp_error := error_or e (js ''Login failed'')\<rparr>))
      in st2\<lparr>lp_loading := False\<rparr>)"

text \<open>The browser's constraint validation: the e-mail and password are required, the
  e-mail must be valid, and the name is required in sign-up mode.\<close>

definition form_valid :: "login_page \<Rightarrow> bool" where
  "form_valid st \<longleftrightarrow>
     lp_email st \<noteq> [] \<and> valid_email (lp_email st) \<and> lp_password st \<noteq> [] \<and> (lp_sign_up st \<longrightarrow> lp_name st \<noteq> [])"

definition reset_form :: "login_page \<Rightarrow> login_page" where
  "reset_form st =
     st\<lparr>lp_email := [], lp_password := [], lp_name := [], lp_student_id := [], lp_program := [], lp_year := 1,
        lp_campus := Essen, lp_photo := None, lp_error := []\<rparr>"

definition handle_mode_switch :: "login_page \<Rightarrow> login_page" where
  "handle_mode_switch st = reset_form (st\<lparr>lp_sign_up := \<not> lp_sign_up st\<rparr>)"

definition toggle_language :: "login_page \<Rightarrow> login_page" where
  "toggle_language st =
     (let (lng, ls) = handle_set_language (if lp_language st = js ''en'' then De else En)
                        (lp_language st, local_storage (ctx_service (lp_ctx st)))
      in st\<lparr>lp_language := lng, lp_ctx := (lp_ctx st)\<lparr>ctx_service := (ctx_service (lp_ctx st))\<lparr>local_storage := ls\<rparr>\<rparr>\<rparr>)"

definition toggle_dark :: "login_page \<Rightarrow> login_page" where
  "toggle_dark st = st\<lparr>lp_dark := \<not> lp_dark st, lp_ctx := store_dark (\<not> lp_dark st) (lp_ctx st)\<rparr>"

text \<open>The avatar of the sign-up form: the photo, the initials of a non-empty name, or
  the user icon.\<close>

definition lp_avatar :: "login_page \<Rightarrow> jstr + jstr option" where
  "lp_avatar st =
     (case lp_photo st of
        Some p \<Rightarrow> if p \<noteq> [] then Inl p else Inr (if lp_name st = [] then None else Some (avatar_initials (lp_name st)))
      | None \<Rightarrow> Inr (if lp_name st = [] then None else Some (avatar_initials (lp_name st))))"

datatype lp_event =
    LPEmail jstr
  | LPPassword jstr
  | LPName jstr
  | LPStudentId jstr
  | LPProgram jstr
  | LPYear int
  | LPCampus campus
  | LPShowPassword
  | LPPhoto "upload_file option"
  | LPImageLoad nat nat jstr
  | LPImageError
  | LPSubmit nat
  | LPModeSwitch
  | LPLanguage
  | LPDark

text \<open>The sign-up fields and the photo input exist only in sign-up mode; the year
  select offers 1 to 6; a failed image load has no handler.\<close>

fun lp_step :: "lp_event \<Rightarrow> login_page \<Rightarrow> login_page" where
  "lp_step (LPEmail v) st = st\<lparr>lp_email := v\<rparr>"
| "lp_step (LPPassword v) st = st\<lparr>lp_password := v\<rparr>"
| "lp_step (LPName v) st = (if lp_sign_up st then st\<lparr>lp_name := v\<rparr> else st)"
| "lp_step (LPStudentId v) st = (if lp_sign_up st then st\<lparr>lp_student_id := v\<rparr> else st)"
| "lp_step (LPProgram v) st = (if lp_sign_up st then st\<lparr>lp_program := v\<rparr> else st)"
| "lp_step (LPYear y) st = (if lp_sign_up st \<and> 1 \<le> y \<and> y \<le> 6 then st\<lparr>lp_year := y\<rparr> else st)"
| "lp_step (LPCampus c) st = (if lp_sign_up st then st\<lparr>lp_campus := c\<rparr> else st)"
| "lp_step LPShowPassword st = st\<lparr>lp_show_password := \<not> lp_show_password st\<rparr>"
| "lp_step (LPPhoto f) st = (if lp_sign_up st \<and> \<not> lp_uploading st then lp_photo_upload f st else st)"
| "lp_step (LPImageLoad w h enc) st = image_load w h enc st"
| "lp_step LPImageError st = st"
| "lp_step (LPSubmit now) st = (if \<not> lp_loading st \<and> form_valid st then handle_submit now st else st)"
| "lp_step LPModeSwitch st = handle_mode_switch st"
| "lp_step LPLanguage st = toggle_language st"
| "lp_step LPDark st = toggle_dark st"

inductive lp_reach :: "login_page \<Rightarrow> bool" where
  init: "ctx_reach ctx \<Longrightarrow> lp_reach (lp_init ctx lng dark)"
| step: "lp_reach st \<Longrightarrow> lp_reach (lp_step ev st)"

definition lp_ok :: "login_page \<Rightarrow> bool" where
  "lp_ok st \<longleftrightarrow>
     session_ok (lp_ctx st) \<and> \<not> lp_loading st \<and> lp_pending_images st \<le> 1 \<and>
     (lp_uploading st \<longleftrightarrow> lp_pending_images st = 1) \<and> 1 \<le> lp_year st \<and> lp_year st \<le> 6"

lemmas login_defs [model_simps] =
  is_alnum_def is_atext_def valid_label_def valid_email_def dark_mode_key_def store_dark_def lp_init_def
  login_size_limit_def lp_photo_upload_def resized_def canvas_size_def canvas_data_url_def image_load_def
  trimmed_opt_def signup_data_def error_or_def handle_submit_def form_valid_def reset_form_def
  handle_mode_switch_def toggle_language_def toggle_dark_def lp_avatar_def


section \<open>Properties\<close>

subsection \<open>The page keeps the session sound\<close>

lemma session_ok_storage [simp]:
  "session_ok (ctx\<lparr>ctx_service := (ctx_service ctx)\<lparr>local_storage := ls\<rparr>\<rparr>) = session_ok ctx"
  by (cases "ctx_user ctx") (simp_all add: session_ok_def)

lemma session_ok_store_dark [simp]: "session_ok (store_dark d ctx) = session_ok ctx"
  unfolding store_dark_def by (rule session_ok_storage)

lemma session_ok_login: "session_ok ctx \<Longrightarrow> session_ok (snd (ctx_login e p ctx))"
  using session_ok_step [of ctx "Login e p"] by simp

lemma submit_ctx:
  "lp_ctx (handle_submit now st) \<in>
     {lp_ctx st, snd (ctx_login (lp_email st) (lp_password st) (lp_ctx st)), snd (ctx_signup now (signup_data st) (lp_ctx st))}"
  by (auto simp: handle_submit_def Let_def split: prod.split bool.split)

lemma submit_fields:
  "\<not> lp_loading (handle_submit now st) \<and> lp_pending_images (handle_submit now st) = lp_pending_images st \<and>
   lp_uploading (handle_submit now st) = lp_uploading st \<and> lp_year (handle_submit now st) = lp_year st"
  by (auto simp: handle_submit_def Let_def split: prod.split bool.split)

lemma lp_ok_submit: "lp_ok st \<Longrightarrow> lp_ok (handle_submit now st)"
  using submit_ctx [of now st] submit_fields [of now st]
    session_ok_login [of "lp_ctx st" "lp_email st" "lp_password st"]
    session_ok_signup [of "lp_ctx st" now "signup_data st"]
  by (auto simp: lp_ok_def)

lemma lp_ok_step: "lp_ok st \<Longrightarrow> lp_ok (lp_step ev st)"
proof (induction ev)
  case (LPPhoto f)
  then show ?case by (auto simp: lp_ok_def lp_photo_upload_def split: option.split)
next
  case (LPImageLoad w h enc)
  then show ?case by (auto simp: lp_ok_def image_load_def)
next
  case (LPSubmit now)
  then show ?case by (simp add: lp_ok_submit)
next
  case LPModeSwitch
  then show ?case by (simp add: lp_ok_def handle_mode_switch_def reset_form_def)
next
  case LPLanguage
  then show ?case by (simp add: lp_ok_def toggle_language_def case_prod_unfold Let_def)
next
  case LPDark
  then show ?case by (simp add: lp_ok_def toggle_dark_def)
qed (auto simp: lp_ok_def)

text \<open>C15. In every reachable state of the login page the auth provider's session is
  sound (a signed-in user is registered under its e-mail with its id), the page is not
  loading between events, at most one image is loading and the upload flag says whether
  one is, and the year is one the select offers\<close>

theorem login_page_reach_ok: "lp_reach st \<Longrightarrow> lp_ok st"
proof (induction rule: lp_reach.induct)
  case (init ctx lng dark)
  then show ?case using session_ok_reach [OF init] by (simp add: lp_ok_def lp_init_def)
next
  case (step st ev)
  show ?case using step.IH by (rule lp_ok_step)
qed

subsection \<open>The photo resize\<close>

lemma nat_floor_le_200: "x \<le> (200::rat) \<Longrightarrow> nat \<lfloor>x\<rfloor> \<le> 200"
proof -
  assume "x \<le> 200"
  then have "\<lfloor>x\<rfloor> \<le> 200" by (metis floor_mono floor_numeral)
  then show ?thesis by (metis nat_mono nat_numeral)
qed

lemma scaled_le_200: "h \<le> w \<Longrightarrow> 0 < w \<Longrightarrow> of_nat h * 200 / of_nat w \<le> (200::rat)"
  by (simp add: divide_le_eq)

lemma canvas_size_cases:
  "canvas_size w h =
     (if h < w then (if 200 < w then (200, nat \<lfloor>of_nat h * 200 / of_nat w :: rat\<rfloor>) else (w, h))
      else (if 200 < h then (nat \<lfloor>of_nat w * 200 / of_nat h :: rat\<rfloor>, 200) else (w, h)))"
  by (simp add: canvas_size_def resized_def)

text \<open>C17. The resized photo fits in 200 by 200 pixels: both canvas sides are at most
  200, the longer side is exactly 200 when the image was larger, and an image that fits
  is drawn at its own size\<close>

theorem canvas_bounds:
  "fst (canvas_size w h) \<le> 200 \<and> snd (canvas_size w h) \<le> 200 \<and>
   (200 < max w h \<longrightarrow> max (fst (canvas_size w h)) (snd (canvas_size w h)) = 200) \<and>
   (w \<le> 200 \<and> h \<le> 200 \<longrightarrow> canvas_size w h = (w, h))"
proof (cases "h < w")
  case True
  then show ?thesis
    using nat_floor_le_200 [OF scaled_le_200 [of h w]] by (auto simp: canvas_size_cases)
next
  case False
  then show ?thesis
    using nat_floor_le_200 [OF scaled_le_200 [of w h]] by (auto simp: canvas_size_cases)
qed

subsection \<open>Submitting\<close>

text \<open>C16. Submitting the login form calls the provider's \<open>login\<close>: on success the page
  navigates to \<open>/campus\<close>, the user is signed in and the campus route shows the campus
  page; on failure the service's error is shown and nothing else changes; the page is
  not loading afterwards\<close>

theorem login_submit:
  assumes "\<not> lp_sign_up st" "\<not> lp_loading st" "form_valid st"
  shows "(case sign_in (lp_email st) (lp_password st) (ctx_service (lp_ctx st)) of
            Inr u \<Rightarrow> lp_navigated (lp_step (LPSubmit now) st) = Some (js ''/campus'') \<and>
                     ctx_user (lp_ctx (lp_step (LPSubmit now) st)) = Some u \<and>
                     resolve 3 (js ''/campus'') (lp_ctx (lp_step (LPSubmit now) st)) = Some VCampus
          | Inl e \<Rightarrow> lp_error (lp_step (LPSubmit now) st) = error_or (Some e) (js ''Login failed'') \<and>
                     lp_navigated (lp_step (LPSubmit now) st) = lp_navigated st \<and>
                     ctx_user (lp_ctx (lp_step (LPSubmit now) st)) = ctx_user (lp_ctx st)) \<and>
         \<not> lp_loading (lp_step (LPSubmit now) st)"
  using assms
  by (auto simp: handle_submit_def ctx_login_def eval_nat_numeral route_def protected_route_def js_def
      split: sum.split)

text \<open>A sign-up whose name is blank after trimming (spaces pass the browser's
  \<open>required\<close> check) is refused with "Name is required" before the provider is
  called: no account is created and nothing else changes\<close>

theorem signup_blank_name:
  assumes "lp_sign_up st" "\<not> lp_loading st" "form_valid st" "js_trim (lp_name st) = []"
  shows "lp_step (LPSubmit now) st = st\<lparr>lp_error := js ''Name is required''\<rparr>"
  using assms by (simp add: handle_submit_def Let_def)

subsection \<open>Findings\<close>

text \<open>An image far wider than high is resized to a canvas of height 0 (4 pixels scaled
  by 200/1000 truncate to 0), and \<open>toDataURL\<close> of an empty canvas is \<open>data:,\<close>: the
  sign-up photo becomes an empty image.\<close>

theorem extreme_aspect_photo_empty:
  "lp_photo (fold lp_step
      [LPModeSwitch, LPPhoto (Some \<lparr>file_type = js ''image/png'', file_size = 1000, file_data = []\<rparr>),
       LPImageLoad 1000 4 (js ''data:image/jpeg;base64,QQ'')]
      (lp_init (ctx_init []) (js ''en'') False)) = Some (js ''data:,'')"
  by (simp add: lp_init_def handle_mode_switch_def reset_form_def lp_photo_upload_def login_size_limit_def
      image_load_def canvas_data_url_def canvas_size_def resized_def js_def)

text \<open>The image has no \<open>onerror\<close> handler: after a file that fails to decode the
  upload flag stays on, the photo input stays disabled, and a second photo is ignored.\<close>

theorem image_error_blocks_upload:
  "lp_uploading (fold lp_step
      [LPModeSwitch, LPPhoto (Some \<lparr>file_type = js ''image/png'', file_size = 1000, file_data = []\<rparr>), LPImageError,
       LPPhoto (Some \<lparr>file_type = js ''image/png'', file_size = 500, file_data = []\<rparr>)]
      (lp_init (ctx_init []) (js ''en'') False)) \<and>
   lp_photo (fold lp_step
      [LPModeSwitch, LPPhoto (Some \<lparr>file_type = js ''image/png'', file_size = 1000, file_data = []\<rparr>), LPImageError,
       LPPhoto (Some \<lparr>file_type = js ''image/png'', file_size = 500, file_data = []\<rparr>)]
      (lp_init (ctx_init []) (js ''en'') False)) = None"
  by (simp add: lp_init_def handle_mode_switch_def reset_form_def lp_photo_upload_def login_size_limit_def js_def)

subsection \<open>Witnesses\<close>

theorem login_page_reach_ok_witness:
  "lp_reach (lp_step LPModeSwitch (lp_init (ctx_init []) (js ''en'') False)) \<and>
   lp_ok (lp_step LPModeSwitch (lp_init (ctx_init []) (js ''en'') False))"
proof -
  have r: "lp_reach (lp_step LPModeSwitch (lp_init (ctx_init []) (js ''en'') False))"
    by (intro lp_reach.step lp_reach.init ctx_reach.init)
  show ?thesis using r login_page_reach_ok [OF r] by blast
qed

theorem login_submit_witness:
  "lp_navigated (lp_step (LPSubmit 0) (lp_step (LPPassword (js ''password123'')) (lp_step (LPEmail (js ''demo@uni-due.de''))
      (lp_init (ctx_init []) (js ''en'') False)))) = Some (js ''/campus'')"
proof -
  let ?st = "lp_step (LPPassword (js ''password123'')) (lp_step (LPEmail (js ''demo@uni-due.de''))
               (lp_init (ctx_init []) (js ''en'') False))"
  have a: "\<not> lp_sign_up ?st" "\<not> lp_loading ?st" by (simp_all add: lp_init_def)
  have v: "form_valid ?st"
    by (simp add: form_valid_def lp_init_def valid_email_def valid_label_def is_atext_def is_alnum_def js_def)
  have s: "sign_in (js ''demo@uni-due.de'') (js ''password123'') (ctx_service (lp_ctx ?st)) =
      Inr \<lparr>au_id = js ''demo-user-1'', au_email = js ''demo@uni-due.de'', au_name = js ''Demo Student''\<rparr>"
    by (simp add: lp_init_def store_dark_def model_simps demo_user_data_def)
  have e: "lp_email ?st = js ''demo@uni-due.de''" "lp_password ?st = js ''password123''" by (simp_all add: lp_init_def)
  show ?thesis using login_submit [OF a v, of 0] s e by simp
qed

theorem signup_blank_name_witness:
  "lp_error (lp_step (LPSubmit 0) (lp_step (LPName (js ''  '')) (lp_step (LPPassword (js ''pw'')) (lp_step (LPEmail (js ''a@b''))
      (lp_step LPModeSwitch (lp_init (ctx_init []) (js ''en'') False)))))) = js ''Name is required''"
proof -
  let ?st = "lp_step (LPName (js ''  '')) (lp_step (LPPassword (js ''pw'')) (lp_step (LPEmail (js ''a@b''))
               (lp_step LPModeSwitch (lp_init (ctx_init []) (js ''en'') False))))"
  have a: "lp_sign_up ?st" "\<not> lp_loading ?st" by (simp_all add: lp_init_def handle_mode_switch_def reset_form_def)
  have v: "form_valid ?st"
    by (simp add: form_valid_def lp_init_def handle_mode_switch_def reset_form_def valid_email_def valid_label_def
        is_atext_def is_alnum_def js_def)
  have t: "js_trim (lp_name ?st) = []"
    by (simp add: lp_init_def handle_mode_switch_def reset_form_def js_trim_def is_js_space_def js_def)
  show ?thesis using signup_blank_name [OF a v t, of 0] by simp
qed

theorem canvas_bounds_witness:
  "200 < max (400::nat) 100 \<and> max (fst (canvas_size 400 100)) (snd (canvas_size 400 100)) = 200 \<and>
   (50::nat) \<le> 200 \<and> (20::nat) \<le> 200 \<and> canvas_size 50 20 = (50, 20)"
  using canvas_bounds [of 400 100] canvas_bounds [of 50 20] by simp

end
