(* ===== verification/LiveUpdates.thy ===== *)
theory LiveUpdates
  imports Buildings LanguageContext
begin

text \<open>The live-update bell (\<open>components/LiveUpdates.tsx\<close>): the contextual update
  generator that picks, at random, one of the updates that fit the hour and the weekday;
  the effect that seeds two updates and starts a 30-second interval, rerun on every change
  of the language; the interval callback that prepends an update and keeps eight; the bell
  with its unread counter; the action buttons; and the rendering of the list. The clock
  (\<open>new Date()\<close>, \<open>Date.now()\<close>) and the two \<open>Math.random()\<close> draws of a generated
  update are the inputs of an event, so that every run of the component is a sequence of
  events.\<close>

section \<open>Updates\<close>

datatype update_type = UEvent | UAlert | UService | UAnnouncement | UWebmail

datatype priority = PLow | PMedium | PHigh

datatype update_icon = IMail | IUtensils | IBookOpen | IUsers | IClock | IAlertCircle

text \<open>An element of \<open>contextualUpdates\<close>: a \<open>LiveUpdate\<close> without its \<open>id\<close> and
  \<open>timestamp\<close>.\<close>

record update_tmpl =
  u_type :: update_type
  u_title :: jstr
  u_message :: jstr
  u_priority :: priority
  u_building :: "jstr option"
  u_icon :: update_icon
  u_action_url :: "jstr option"
  u_action_text :: "jstr option"

text \<open>A generated \<open>LiveUpdate\<close>: the \<open>id\<close> is the string \<open>Date.now().toString() +
  Math.random()\<close>, kept here as the pair of its two parts; the rest is the spread of
  \<open>contextualUpdates[i]\<close>, \<open>None\<close> when that element is \<open>undefined\<close> (the spread then
  adds nothing).\<close>

record live_update =
  lu_id :: "nat \<times> rat"
  lu_timestamp :: nat
  lu_body :: "update_tmpl option"

text \<open>\<open>language === 'en' ? en : de\<close>: every language string other than \<open>en\<close> gets the
  German text.\<close>

definition by_lang :: "jstr \<Rightarrow> jstr \<Rightarrow> jstr \<Rightarrow> jstr" where
  "by_lang l en de = (if l = js ''en'' then en else de)"

text \<open>Webmail notification (always relevant).\<close>

definition webmail_update :: "jstr \<Rightarrow> update_tmpl" where
  "webmail_update l =
    \<lparr>u_type = UWebmail,
     u_title = by_lang l
       (js ''Check Your UDE Email'')
       (js ''UDE E-Mail pr'' @ [0xFC] @ js ''fen''),
     u_message = by_lang l
       (js ''You have unread messages in your university email account. Stay connected with important updates.'')
       (js ''Sie haben ungelesene Nachrichten in Ihrem Universit'' @ [0xE4] @ js ''ts-E-Mail-Konto. Bleiben Sie '' @ [0xFC] @ js ''ber wichtige Updates informiert.''),
     u_priority = PMedium,
     u_building = None,
     u_icon = IMail,
     u_action_url = Some (js ''https://www.uni-due.de/zim/services/e-mail/webmail_login.php''),
     u_action_text = Some (by_lang l
       (js ''Open Webmail'')
       (js ''Webmail '' @ [0xF6] @ js ''ffnen''))\<rparr>"

text \<open>Morning updates (6 AM - 11 AM).\<close>

definition morning_update :: "jstr \<Rightarrow> update_tmpl" where
  "morning_update l =
    \<lparr>u_type = UService,
     u_title = by_lang l
       (js ''Morning Coffee Available'')
       (js ''Morgenkaffee verf'' @ [0xFC] @ js ''gbar''),
     u_message = by_lang l
       (js ''Start your day right! Fresh coffee and breakfast options are now available at the cafeteria.'')
       (js ''Starten Sie richtig in den Tag! Frischer Kaffee und Fr'' @ [0xFC] @ js ''hst'' @ [0xFC] @ js ''cksoptionen sind jetzt in der Cafeteria verf'' @ [0xFC] @ js ''gbar.''),
     u_priority = PLow,
     u_building = Some (js ''cafeteria''),
     u_icon = IUtensils,
     u_action_url = None,
     u_action_text = None\<rparr>"

text \<open>Lunch time updates (11 AM - 2 PM).\<close>

definition lunch_update :: "jstr \<Rightarrow> update_tmpl" where
  "lunch_update l =
    \<lparr>u_type = UService,
     u_title = by_lang l
       (js ''Lunch Menu Available'')
       (js ''Mittagsmen'' @ [0xFC] @ js '' verf'' @ [0xFC] @ js ''gbar''),
     u_message = by_lang l
       (js ''Today's lunch special includes vegetarian and international options. Check out our weekly menu online!'')
       (js ''Das heutige Mittagsspecial umfasst vegetarische und internationale Optionen. Schauen Sie sich unseren Wochenplan online an!''),
     u_priority = PMedium,
     u_building = Some (js ''cafeteria''),
     u_icon = IUtensils,
     u_action_url = Some (js ''https://www.stw-edu.de/gastronomie/speiseplaene''),
     u_action_text = Some (by_lang l
       (js ''View Menu'')
       (js ''Men'' @ [0xFC] @ js '' anzeigen''))\<rparr>"

text \<open>Study time updates (2 PM - 8 PM).\<close>

definition study_update :: "jstr \<Rightarrow> update_tmpl" where
  "study_update l =
    \<lparr>u_type = UService,
     u_title = by_lang l
       (js ''Study Rooms Available'')
       (js ''Lernr'' @ [0xE4] @ js ''ume verf'' @ [0xFC] @ js ''gbar''),
     u_message = by_lang l
       (js ''Quiet study spaces are available at the Central Library. Book your room online for focused study time.'')
       (js ''Ruhige Lernr'' @ [0xE4] @ js ''ume sind in der Zentralbibliothek verf'' @ [0xFC] @ js ''gbar. Buchen Sie Ihren Raum online f'' @ [0xFC] @ js ''r konzentrierte Lernzeit.''),
     u_priority = PMedium,
     u_building = Some (js ''library''),
     u_icon = IBookOpen,
     u_action_url = Some (js ''https://www.uni-due.de/ub/lernenundarbeiten.php''),
     u_action_text = Some (by_lang l
       (js ''Book Room'')
       (js ''Raum buchen''))\<rparr>"

text \<open>Evening updates (6 PM - 10 PM).\<close>

definition evening_update :: "jstr \<Rightarrow> update_tmpl" where
  "evening_update l =
    \<lparr>u_type = UEvent,
     u_title = by_lang l
       (js ''Evening Study Groups'')
       (js ''Abend-Lerngruppen''),
     u_message = by_lang l
       (js ''Join evening study groups for collaborative learning. Check the Student Center for available sessions.'')
       (js ''Nehmen Sie an Abend-Lerngruppen f'' @ [0xFC] @ js ''r kollaboratives Lernen teil. Schauen Sie im Studierendenzentrum nach verf'' @ [0xFC] @ js ''gbaren Sitzungen.''),
     u_priority = PLow,
     u_building = Some (js ''student-center''),
     u_icon = IUsers,
     u_action_url = None,
     u_action_text = None\<rparr>"

text \<open>Weekday-specific updates.\<close>

definition admin_update :: "jstr \<Rightarrow> update_tmpl" where
  "admin_update l =
    \<lparr>u_type = UAnnouncement,
     u_title = by_lang l
       (js ''Administrative Services Open'')
       (js ''Verwaltungsservices ge'' @ [0xF6] @ js ''ffnet''),
     u_message = by_lang l
       (js ''All administrative offices are open today. Visit for student registration, academic records, and other services.'')
       (js ''Alle Verwaltungsb'' @ [0xFC] @ js ''ros sind heute ge'' @ [0xF6] @ js ''ffnet. Besuchen Sie uns f'' @ [0xFC] @ js ''r Studierendenregistrierung, akademische Unterlagen und andere Services.''),
     u_priority = PLow,
     u_building = Some (js ''administration''),
     u_icon = IClock,
     u_action_url = None,
     u_action_text = None\<rparr>"

text \<open>Weekend updates.\<close>

definition weekend_update :: "jstr \<Rightarrow> update_tmpl" where
  "weekend_update l =
    \<lparr>u_type = UService,
     u_title = by_lang l
       (js ''Weekend Library Hours'')
       (js ''Wochenend-Bibliothekszeiten''),
     u_message = by_lang l
       (js ''The library is open with reduced hours on weekends. Perfect for quiet study sessions!'')
       (js ''Die Bibliothek ist am Wochenende mit reduzierten '' @ [0xD6] @ js ''ffnungszeiten ge'' @ [0xF6] @ js ''ffnet. Perfekt f'' @ [0xFC] @ js ''r ruhige Lernsitzungen!''),
     u_priority = PMedium,
     u_building = Some (js ''library''),
     u_icon = IBookOpen,
     u_action_url = None,
     u_action_text = None\<rparr>"

text \<open>Visa services reminder.\<close>

definition visa_update :: "jstr \<Rightarrow> update_tmpl" where
  "visa_update l =
    \<lparr>u_type = UAlert,
     u_title = by_lang l
       (js ''Visa Services Available'')
       (js ''Visa-Services verf'' @ [0xFC] @ js ''gbar''),
     u_message = by_lang l
       (js ''International students: Visa consultation services are available. Book an appointment for document verification.'')
       (js ''Internationale Studierende: Visa-Beratungsservices sind verf'' @ [0xFC] @ js ''gbar. Buchen Sie einen Termin f'' @ [0xFC] @ js ''r die Dokumentenpr'' @ [0xFC] @ js ''fung.''),
     u_priority = PMedium,
     u_building = Some (js ''visa-services''),
     u_icon = IAlertCircle,
     u_action_url = Some (js ''https://www.uni-due.de/international/abh''),
     u_action_text = Some (by_lang l
       (js ''Book Appointment'')
       (js ''Termin buchen''))\<rparr>"

text \<open>\<open>contextualUpdates\<close> for an hour (\<open>getHours()\<close>, 0 to 23) and a weekday
  (\<open>getDay()\<close>, 0 for Sunday), in the order of the pushes.\<close>

definition contextual_updates :: "jstr \<Rightarrow> nat \<Rightarrow> nat \<Rightarrow> update_tmpl list" where
  "contextual_updates l hour day =
     [webmail_update l] @
     (if 6 \<le> hour \<and> hour < 11 then [morning_update l] else []) @
     (if 11 \<le> hour \<and> hour < 14 then [lunch_update l] else []) @
     (if 14 \<le> hour \<and> hour < 20 then [study_update l] else []) @
     (if 18 \<le> hour \<and> hour < 22 then [evening_update l] else []) @
     (if 1 \<le> day \<and> day \<le> 5 then [admin_update l] else []) @
     (if day = 0 \<or> day = 6 then [weekend_update l] else []) @
     (if 1 \<le> day \<and> day \<le> 4 then [visa_update l] else [])"

text \<open>Every update the generator can produce in a language.\<close>

definition all_updates :: "jstr \<Rightarrow> update_tmpl list" where
  "all_updates l =
     [webmail_update l, morning_update l, lunch_update l, study_update l, evening_update l,
      admin_update l, weekend_update l, visa_update l]"

text \<open>The inputs of one call of \<open>generateContextualUpdate\<close>: the clock readings and the
  two random draws (\<open>Math.random()\<close> is in \<open>[0, 1)\<close>).\<close>

record gen_input =
  gi_now :: nat
  gi_hour :: nat
  gi_day :: nat
  gi_rid :: rat
  gi_pick :: rat

definition valid_input :: "gen_input \<Rightarrow> bool" where
  "valid_input g \<longleftrightarrow>
     gi_hour g < 24 \<and> gi_day g < 7 \<and> 0 \<le> gi_rid g \<and> gi_rid g < 1 \<and> 0 \<le> gi_pick g \<and> gi_pick g < 1"

text \<open>\<open>Math.floor(Math.random() * contextualUpdates.length)\<close>.\<close>

definition pick_index :: "rat \<Rightarrow> nat \<Rightarrow> nat" where
  "pick_index r n = nat \<lfloor>r * of_nat n\<rfloor>"

text \<open>Array indexing: \<open>undefined\<close> past the end.\<close>

definition nth_opt :: "'a list \<Rightarrow> nat \<Rightarrow> 'a option" where
  "nth_opt xs i = (if i < length xs then Some (xs ! i) else None)"

definition generate_update :: "jstr \<Rightarrow> gen_input \<Rightarrow> live_update" where
  "generate_update l g =
     (let cs = contextual_updates l (gi_hour g) (gi_day g)
      in \<lparr>lu_id = (gi_now g, gi_rid g), lu_timestamp = gi_now g,
          lu_body = nth_opt cs (pick_index (gi_pick g) (length cs))\<rparr>)"

section \<open>The component\<close>

text \<open>The state of \<open>LiveUpdates\<close>: its three \<open>useState\<close> hooks, the \<open>language\<close> the
  effect last ran with, whether that effect's interval is running, the URLs opened with
  \<open>window.open\<close>, and the \<open>isExpanded\<close> prop.\<close>

record lu_state =
  lv_updates :: "live_update list"
  lv_show :: bool
  lv_unread :: nat
  lv_language :: jstr
  lv_interval :: bool
  lv_opened :: "jstr list"
  lv_expanded :: bool

text \<open>The first render: \<open>showNotifications\<close> starts as \<open>isExpanded\<close>; the effect has not
  run yet.\<close>

definition lv_init :: "jstr \<Rightarrow> bool \<Rightarrow> lu_state" where
  "lv_init l expanded =
     \<lparr>lv_updates = [], lv_show = expanded, lv_unread = 0, lv_language = l,
      lv_interval = False, lv_opened = [], lv_expanded = expanded\<rparr>"

text \<open>The effect on \<open>[language]\<close>, run on mount and after every change of the language
  (the cleanup clears the previous interval first): two updates generated in the new
  language replace the list, the unread count becomes 2, and a new interval starts.\<close>

definition lv_effect :: "jstr \<Rightarrow> gen_input \<Rightarrow> gen_input \<Rightarrow> lu_state \<Rightarrow> lu_state" where
  "lv_effect l g1 g2 st =
     (let initial = [generate_update l g1, generate_update l g2]
      in st\<lparr>lv_updates := initial, lv_unread := length initial, lv_language := l,
            lv_interval := True\<rparr>)"

text \<open>The interval callback: \<open>[newUpdate, ...prev.slice(0, 7)]\<close> and one more unread.\<close>

definition lv_tick :: "gen_input \<Rightarrow> lu_state \<Rightarrow> lu_state" where
  "lv_tick g st =
     (if lv_interval st
      then st\<lparr>lv_updates := generate_update (lv_language st) g # take 7 (lv_updates st),
              lv_unread := lv_unread st + 1\<rparr>
      else st)"

text \<open>\<open>handleNotificationClick\<close>: toggles the dropdown and, when it was closed, clears the
  unread count.\<close>

definition handle_notification_click :: "lu_state \<Rightarrow> lu_state" where
  "handle_notification_click st =
     (let st' = st\<lparr>lv_show := \<not> lv_show st\<rparr>
      in if \<not> lv_show st then st'\<lparr>lv_unread := 0\<rparr> else st')"

text \<open>\<open>handleUpdateAction\<close>: opens the update's \<open>actionUrl\<close> when it has one.\<close>

definition handle_update_action :: "live_update \<Rightarrow> lu_state \<Rightarrow> lu_state" where
  "handle_update_action u st =
     (case lu_body u \<bind> u_action_url of
        Some url \<Rightarrow> if url \<noteq> [] then st\<lparr>lv_opened := lv_opened st @ [url]\<rparr> else st
      | None \<Rightarrow> st)"

text \<open>The list is on screen in the expanded rendering, or in the dropdown while it is
  open.\<close>

definition list_visible :: "lu_state \<Rightarrow> bool" where
  "list_visible st \<longleftrightarrow> lv_expanded st \<or> lv_show st"

text \<open>The action button of the \<open>i\<close>-th update is rendered when the list is visible and
  the update has both an \<open>actionUrl\<close> and an \<open>actionText\<close> (both truthy).\<close>

definition has_action_button :: "live_update \<Rightarrow> bool" where
  "has_action_button u \<longleftrightarrow>
     (case lu_body u of
        Some t \<Rightarrow> u_action_url t \<notin> {None, Some []} \<and> u_action_text t \<notin> {None, Some []}
      | None \<Rightarrow> False)"

datatype lu_event =
    LVEffect jstr gen_input gen_input
  | LVTick gen_input
  | LVBell
  | LVClose
  | LVAction nat

fun lv_step :: "lu_event \<Rightarrow> lu_state \<Rightarrow> lu_state" where
  "lv_step (LVEffect l g1 g2) st = lv_effect l g1 g2 st"
| "lv_step (LVTick g) st = lv_tick g st"
| "lv_step LVBell st = (if lv_expanded st then st else handle_notification_click st)"
| "lv_step LVClose st = (if \<not> lv_expanded st \<and> lv_show st then st\<lparr>lv_show := False\<rparr> else st)"
| "lv_step (LVAction i) st =
     (case nth_opt (lv_updates st) i of
        Some u \<Rightarrow> if list_visible st \<and> has_action_button u then handle_update_action u st else st
      | None \<Rightarrow> st)"

definition event_inputs_valid :: "lu_event \<Rightarrow> bool" where
  "event_inputs_valid e =
     (case e of LVEffect _ g1 g2 \<Rightarrow> valid_input g1 \<and> valid_input g2
              | LVTick g \<Rightarrow> valid_input g
              | _ \<Rightarrow> True)"

text \<open>The runs of the component: from the first render, events whose clock readings and
  random draws are in range.\<close>

inductive lv_reach :: "lu_state \<Rightarrow> bool" where
  init: "lv_reach (lv_init l expanded)"
| step: "lv_reach st \<Longrightarrow> event_inputs_valid e \<Longrightarrow> lv_reach (lv_step e st)"

section \<open>Rendering\<close>

definition type_color :: "update_type option \<Rightarrow> jstr" where
  "type_color t =
     (case t of Some UEvent \<Rightarrow> js ''bg-purple-500'' | Some UAlert \<Rightarrow> js ''bg-red-500''
      | Some UService \<Rightarrow> js ''bg-green-500'' | Some UAnnouncement \<Rightarrow> js ''bg-blue-500''
      | Some UWebmail \<Rightarrow> js ''bg-indigo-500'' | None \<Rightarrow> js ''bg-gray-500'')"

definition priority_name :: "priority option \<Rightarrow> jstr" where
  "priority_name p =
     (case p of Some PLow \<Rightarrow> js ''low'' | Some PMedium \<Rightarrow> js ''medium''
      | Some PHigh \<Rightarrow> js ''high'' | None \<Rightarrow> js ''undefined'')"

definition priority_color :: "priority option \<Rightarrow> jstr" where
  "priority_color p =
     (case p of Some PHigh \<Rightarrow> js ''text-red-500 bg-red-100 dark:bg-red-900/20''
      | Some PMedium \<Rightarrow> js ''text-yellow-500 bg-yellow-100 dark:bg-yellow-900/20''
      | Some PLow \<Rightarrow> js ''text-green-500 bg-green-100 dark:bg-green-900/20''
      | None \<Rightarrow> js ''text-blue-500 bg-blue-100 dark:bg-blue-900/20'')"

text \<open>\<open>String.prototype.replace\<close> with a string pattern: the first occurrence only.\<close>

definition replace_first :: "jstr \<Rightarrow> jstr \<Rightarrow> jstr \<Rightarrow> jstr" where
  "replace_first s pat rep =
     (case index_of s pat of None \<Rightarrow> s | Some i \<Rightarrow> take i s @ rep @ drop (i + length pat) s)"

text \<open>One entry of the list: the icon's colour, the title, the translated priority badge
  and its colour, the message, the action button's text, and the building label
  \<open>update.building.replace('-', ' ')\<close> (shown when the building is truthy).\<close>

record update_view =
  uv_color :: jstr
  uv_title :: "jstr option"
  uv_priority :: "jstr + jstr"
  uv_priority_color :: jstr
  uv_message :: "jstr option"
  uv_action :: "jstr option"
  uv_building :: "jstr option"

definition update_item :: "jstr \<Rightarrow> live_update \<Rightarrow> update_view" where
  "update_item l u =
     \<lparr>uv_color = type_color (map_option u_type (lu_body u)),
      uv_title = map_option u_title (lu_body u),
      uv_priority = translate l (js ''priority.'' @ priority_name (map_option u_priority (lu_body u))),
      uv_priority_color = priority_color (map_option u_priority (lu_body u)),
      uv_message = map_option u_message (lu_body u),
      uv_action = (if has_action_button u then lu_body u \<bind> u_action_text else None),
      uv_building = (case lu_body u \<bind> u_building of
                       Some b \<Rightarrow> if b = [] then None else Some (replace_first b (js ''-'') (js '' ''))
                     | None \<Rightarrow> None)\<rparr>"

text \<open>The list as rendered: nothing when it is hidden, the translated \<open>updates.noUpdates\<close>
  for an empty list, else the entries.\<close>

definition lv_list_view :: "lu_state \<Rightarrow> ((jstr + jstr) + update_view list) option" where
  "lv_list_view st =
     (if \<not> list_visible st then None
      else if lv_updates st = [] then Some (Inl (translate (lv_language st) (js ''updates.noUpdates'')))
      else Some (Inr (map (update_item (lv_language st)) (lv_updates st))))"

text \<open>The badge on the bell: none in the expanded rendering or at zero, \<open>9+\<close> above nine.\<close>

definition lv_badge :: "lu_state \<Rightarrow> jstr option" where
  "lv_badge st =
     (if lv_expanded st \<or> lv_unread st = 0 then None
      else Some (if 9 < lv_unread st then js ''9+'' else js_digits (lv_unread st)))"

definition lv_ok :: "lu_state \<Rightarrow> bool" where
  "lv_ok st \<longleftrightarrow>
     length (lv_updates st) \<le> 8 \<and>
     (\<forall>u \<in> set (lv_updates st). \<exists>t \<in> set (all_updates (lv_language st)). lu_body u = Some t) \<and>
     (\<not> lv_interval st \<longrightarrow> lv_updates st = [])"

text \<open>A sample run: a Wednesday noon reading of the clock, the effect in German after a
  first render in English, and one tick.\<close>

definition lu_sample_input :: gen_input where
  "lu_sample_input = \<lparr>gi_now = 30000, gi_hour = 12, gi_day = 3, gi_rid = 1 / 3, gi_pick = 1 / 2\<rparr>"

definition lu_sample_state :: lu_state where
  "lu_sample_state = lv_step (LVEffect (js ''de'') lu_sample_input lu_sample_input) (lv_init (js ''en'') False)"

definition lu_sample_run :: lu_state where
  "lu_sample_run = lv_step (LVTick lu_sample_input) lu_sample_state"

section \<open>Lemmas\<close>

lemma contextual_updates_length:
  "length (contextual_updates l hour day) =
     1 + of_bool (6 \<le> hour \<and> hour < 11) + of_bool (11 \<le> hour \<and> hour < 14) +
     of_bool (14 \<le> hour \<and> hour < 20) + of_bool (18 \<le> hour \<and> hour < 22) +
     of_bool (1 \<le> day \<and> day \<le> 5) + of_bool (day = 0 \<or> day = 6) + of_bool (1 \<le> day \<and> day \<le> 4)"
  by (simp add: contextual_updates_def)


lemma contextual_updates_all: "set (contextual_updates l hour day) \<subseteq> set (all_updates l)"
  by (auto simp: contextual_updates_def all_updates_def)

lemma contextual_updates_nonempty: "contextual_updates l hour day \<noteq> []"
  by (simp add: contextual_updates_def)

lemma pick_index_bound:
  assumes "0 \<le> r" "r < 1" "0 < n"
  shows "pick_index r n < n"
proof -
  have "r * of_nat n < of_nat n" using assms by simp
  then have "\<lfloor>r * of_nat n\<rfloor> < int n" by (simp add: floor_less_iff)
  then show ?thesis using assms(3) by (simp add: pick_index_def)
qed

lemma nth_opt_Some: "i < length xs \<Longrightarrow> \<exists>x \<in> set xs. nth_opt xs i = Some x"
  by (simp add: nth_opt_def)

lemma generate_update_body:
  assumes "valid_input g"
  shows "\<exists>t \<in> set (contextual_updates l (gi_hour g) (gi_day g)). lu_body (generate_update l g) = Some t"
proof -
  let ?cs = "contextual_updates l (gi_hour g) (gi_day g)"
  have "pick_index (gi_pick g) (length ?cs) < length ?cs"
    using assms contextual_updates_nonempty by (intro pick_index_bound) (auto simp: valid_input_def)
  then show ?thesis by (simp add: generate_update_def Let_def nth_opt_Some)
qed

lemma generate_update_all:
  "valid_input g \<Longrightarrow> \<exists>t \<in> set (all_updates l). lu_body (generate_update l g) = Some t"
  using generate_update_body contextual_updates_all by blast

lemma all_updates_buildings:
  "t \<in> set (all_updates l) \<Longrightarrow> set_option (u_building t) \<subseteq> set building_ids"
  by (auto simp: all_updates_def webmail_update_def morning_update_def lunch_update_def
      study_update_def evening_update_def admin_update_def weekend_update_def visa_update_def
      building_defs js_def)

lemma take_Cons_take:
  "k \<le> Suc m \<Longrightarrow> take k (x # take m ys) = take k (x # ys)"
  by (cases k) (simp_all add: min_def)

lemma lv_ok_init: "lv_ok (lv_init l e)"
  by (simp add: lv_ok_def lv_init_def)

lemma lv_ok_effect: "valid_input g1 \<Longrightarrow> valid_input g2 \<Longrightarrow> lv_ok (lv_effect l g1 g2 st)"
  by (simp add: lv_ok_def lv_effect_def generate_update_all)

lemma lv_ok_tick: "lv_ok st \<Longrightarrow> valid_input g \<Longrightarrow> lv_ok (lv_tick g st)"
  by (auto simp: lv_ok_def lv_tick_def generate_update_all dest: in_set_takeD)

lemma lv_ok_action: "lv_ok (handle_update_action u st) = lv_ok st"
  by (simp add: lv_ok_def handle_update_action_def split: option.split)

lemma lv_ok_step: "lv_ok st \<Longrightarrow> event_inputs_valid e \<Longrightarrow> lv_ok (lv_step e st)"
  by (cases e)
     (auto simp: event_inputs_valid_def lv_ok_effect lv_ok_tick lv_ok_action
        handle_notification_click_def Let_def split: option.split,
      auto simp: lv_ok_def)

section \<open>Properties\<close>

text \<open>C18. Every reachable state of the bell holds at most eight updates, each of them an
  update of the generator in the language the effect last ran with (a change of language
  replaces them all), and no update before the effect has run.\<close>

lemma live_updates_reach_ok: "lv_reach st \<Longrightarrow> lv_ok st"
  by (induction rule: lv_reach.induct) (simp_all add: lv_ok_init lv_ok_step)

text \<open>C19. With the clock and \<open>Math.random()\<close> in range, a generated update is one of
  the updates that fit the hour and the weekday (the random index is never past the end, so
  the spread never reads \<open>undefined\<close>), and its building is one of the building table.\<close>

lemma generated_update_in_context:
  assumes "valid_input g"
  shows "\<exists>t \<in> set (contextual_updates l (gi_hour g) (gi_day g)).
           lu_body (generate_update l g) = Some t \<and> set_option (u_building t) \<subseteq> set building_ids"
  using generate_update_body [OF assms] contextual_updates_all all_updates_buildings by blast

text \<open>Every hour of every weekday offers between two and five updates: the webmail
  reminder, one of the weekday and weekend notices, and at most two of the hour's.\<close>

lemma contextual_updates_count:
  assumes "day < 7"
  shows "2 \<le> length (contextual_updates l hour day) \<and> length (contextual_updates l hour day) \<le> 5"
  unfolding contextual_updates_length using assms by (simp add: of_bool_def)

text \<open>C20. While the interval runs, a sequence of ticks leaves the eight most recent
  updates, newest first, and adds one to the unread count per tick, also beyond the eight
  updates the list keeps.\<close>

lemma ticks_keep_recent:
  assumes "lv_interval st" "length (lv_updates st) \<le> 8"
  shows "lv_updates (fold lv_step (map LVTick gs) st) =
           take 8 (rev (map (generate_update (lv_language st)) gs) @ lv_updates st) \<and>
         lv_unread (fold lv_step (map LVTick gs) st) = lv_unread st + length gs"
  using assms
proof (induction gs arbitrary: st)
  case Nil
  then show ?case by simp
next
  case (Cons g gs)
  let ?st = "lv_tick g st"
  have "lv_interval ?st" "length (lv_updates ?st) \<le> 8" "lv_language ?st = lv_language st"
    using Cons.prems by (simp_all add: lv_tick_def)
  then show ?case
    using Cons.IH [of ?st] Cons.prems
    by (simp add: lv_tick_def take_append take_Cons_take)
qed

lemma live_updates_reach_ok_witness: "lv_reach lu_sample_run \<and> lv_ok lu_sample_run"
proof -
  have r: "lv_reach lu_sample_run"
    unfolding lu_sample_run_def lu_sample_state_def
    by (intro lv_reach.step lv_reach.init)
       (simp_all add: event_inputs_valid_def valid_input_def lu_sample_input_def)
  show ?thesis using live_updates_reach_ok [OF r] r by simp
qed

lemma generated_update_in_context_witness:
  "valid_input lu_sample_input \<and>
   (\<exists>t \<in> set (contextual_updates (js ''en'') (gi_hour lu_sample_input) (gi_day lu_sample_input)).
      lu_body (generate_update (js ''en'') lu_sample_input) = Some t \<and>
      set_option (u_building t) \<subseteq> set building_ids)"
proof -
  have v: "valid_input lu_sample_input" by (simp add: valid_input_def lu_sample_input_def)
  show ?thesis using generated_update_in_context [OF v] v by blast
qed

lemma contextual_updates_count_witness:
  "(3::nat) < 7 \<and> 2 \<le> length (contextual_updates (js ''de'') 12 3) \<and>
   length (contextual_updates (js ''de'') 12 3) \<le> 5"
  using contextual_updates_count [of 3 "js ''de''" 12] by simp

lemma ticks_keep_recent_witness:
  "lv_interval lu_sample_state \<and> length (lv_updates lu_sample_state) \<le> 8 \<and>
   lv_updates (fold lv_step (map LVTick [lu_sample_input, lu_sample_input]) lu_sample_state) =
     take 8 (rev (map (generate_update (lv_language lu_sample_state)) [lu_sample_input, lu_sample_input]) @
             lv_updates lu_sample_state) \<and>
   lv_unread (fold lv_step (map LVTick [lu_sample_input, lu_sample_input]) lu_sample_state) =
     lv_unread lu_sample_state + length [lu_sample_input, lu_sample_input]"
proof -
  have i: "lv_interval lu_sample_state" and l: "length (lv_updates lu_sample_state) \<le> 8"
    by (simp_all add: lu_sample_state_def lv_effect_def)
  show ?thesis
    using ticks_keep_recent [of lu_sample_state "[lu_sample_input, lu_sample_input]", OF i l] i l by blast
qed

end
