(* ===== verification/Responsive.thy ===== *)
theory Responsive
  imports Prelude
begin

text \<open>The responsive hook (\<open>hooks/useResponsive.ts\<close>, exported but used by no component):
  the breakpoint configuration merged from the defaults and the caller's overrides, the
  device type of a window width, the flags the hook returns, and the effect that
  subscribes \<open>handleResize\<close> to the window. React's change detection is by identity
  (\<open>Object.is\<close>), so the model gives every object the code creates (the merged
  \<open>config\<close> of a render, the \<open>{width, height}\<close> of a \<open>setScreenSize\<close>) a fresh identity.\<close>

section \<open>Breakpoints and device types\<close>

record breakpoint_config =
  bp_mobile :: int
  bp_tablet :: int
  bp_desktop :: int
  bp_wide :: int

definition default_breakpoints :: breakpoint_config where
  "default_breakpoints = \<lparr>bp_mobile = 768, bp_tablet = 1024, bp_desktop = 1280, bp_wide = 1536\<rparr>"

text \<open>A \<open>Partial<BreakpointConfig>\<close> argument: \<open>None\<close> for an absent key.\<close>

record breakpoint_overrides =
  ov_mobile :: "int option"
  ov_tablet :: "int option"
  ov_desktop :: "int option"
  ov_wide :: "int option"

text \<open>The hook called without an argument: \<open>breakpoints = {}\<close>.\<close>

definition no_overrides :: breakpoint_overrides where
  "no_overrides = \<lparr>ov_mobile = None, ov_tablet = None, ov_desktop = None, ov_wide = None\<rparr>"

text \<open>\<open>{ ...defaultBreakpoints, ...breakpoints }\<close>.\<close>

definition merge_config :: "breakpoint_overrides \<Rightarrow> breakpoint_config" where
  "merge_config ov =
     \<lparr>bp_mobile = case_option (bp_mobile default_breakpoints) id (ov_mobile ov),
      bp_tablet = case_option (bp_tablet default_breakpoints) id (ov_tablet ov),
      bp_desktop = case_option (bp_desktop default_breakpoints) id (ov_desktop ov),
      bp_wide = case_option (bp_wide default_breakpoints) id (ov_wide ov)\<rparr>"

datatype device_type = Mobile | Tablet | Desktop | Wide

text \<open>The device-type chain of \<open>handleResize\<close>.\<close>

definition device_of :: "breakpoint_config \<Rightarrow> int \<Rightarrow> device_type" where
  "device_of cfg width =
     (if width < bp_mobile cfg then Mobile
      else if width < bp_tablet cfg then Tablet
      else if width < bp_desktop cfg then Desktop
      else Wide)"

text \<open>The device types in the order of the widths they cover, as a \<open>linorder\<close>.\<close>

definition device_rank :: "device_type \<Rightarrow> nat" where
  "device_rank d = (case d of Mobile \<Rightarrow> 0 | Tablet \<Rightarrow> 1 | Desktop \<Rightarrow> 2 | Wide \<Rightarrow> 3)"

instantiation device_type :: linorder
begin

definition less_eq_device_type :: "device_type \<Rightarrow> device_type \<Rightarrow> bool" where
  "less_eq_device_type a b \<longleftrightarrow> device_rank a \<le> device_rank b"

definition less_device_type :: "device_type \<Rightarrow> device_type \<Rightarrow> bool" where
  "less_device_type a b \<longleftrightarrow> device_rank a < device_rank b"

instance
proof
  fix a b :: device_type
  show "a \<le> b \<Longrightarrow> b \<le> a \<Longrightarrow> a = b"
    by (cases a; cases b) (simp_all add: less_eq_device_type_def device_rank_def)
qed (auto simp: less_eq_device_type_def less_device_type_def)

end

text \<open>The flags the hook returns.\<close>

record device_flags =
  is_mobile :: bool
  is_tablet :: bool
  is_desktop :: bool
  is_wide :: bool

definition flags_of :: "device_type \<Rightarrow> device_flags" where
  "flags_of d =
     \<lparr>is_mobile = (d = Mobile), is_tablet = (d = Tablet),
      is_desktop = (d = Desktop \<or> d = Wide), is_wide = (d = Wide)\<rparr>"

section \<open>The hook's state and its render loop\<close>

text \<open>The window's size, the \<open>screenSize\<close> state (identity, width, height), the
  \<open>deviceType\<close> state, the identity of the \<open>config\<close> the committed effect ran with, the
  resize listeners attached (each named by the effect run that attached it), the next
  fresh object identity, and the hook's argument.\<close>

record rs_state =
  rs_window :: "int \<times> int"
  rs_screen :: "nat \<times> int \<times> int"
  rs_device :: device_type
  rs_deps :: "nat option"
  rs_listeners :: "nat list"
  rs_next :: nat
  rs_overrides :: breakpoint_overrides

text \<open>The first render: \<open>useState\<close> reads the window, \<open>deviceType\<close> starts as
  \<open>desktop\<close>, no effect has run.\<close>

definition rs_init :: "breakpoint_overrides \<Rightarrow> int \<Rightarrow> int \<Rightarrow> rs_state" where
  "rs_init ov w h =
     \<lparr>rs_window = (w, h), rs_screen = (0, w, h), rs_device = Desktop, rs_deps = None,
      rs_listeners = [], rs_next = 1, rs_overrides = ov\<rparr>"

text \<open>\<open>handleResize\<close> with the \<open>config\<close> of its closure: \<open>setScreenSize\<close> with a new
  object and \<open>setDeviceType\<close>; the flag says whether React schedules a render, that is
  whether a new state is not \<open>Object.is\<close> the old.\<close>

definition handle_resize :: "breakpoint_config \<Rightarrow> rs_state \<Rightarrow> rs_state \<times> bool" where
  "handle_resize cfg st =
     (let (w, h) = rs_window st; obj = (rs_next st, w, h); dev = device_of cfg w
      in (st\<lparr>rs_screen := obj, rs_device := dev, rs_next := Suc (rs_next st)\<rparr>,
          fst obj \<noteq> fst (rs_screen st) \<or> dev \<noteq> rs_device st))"

text \<open>One render and its commit: the render builds a new \<open>config\<close> object; the effect
  on \<open>[config]\<close> runs when that is not the one of the last run: the cleanup removes the
  previous listener, \<open>handleResize()\<close> runs, and the new listener is attached. The flag
  says whether another render is scheduled.\<close>

definition render_commit :: "rs_state \<Rightarrow> rs_state \<times> bool" where
  "render_commit st =
     (let cfg_id = rs_next st; cfg = merge_config (rs_overrides st);
          st1 = st\<lparr>rs_next := Suc (rs_next st)\<rparr>
      in if rs_deps st = Some cfg_id then (st1, False)
         else
           let st2 = st1\<lparr>rs_listeners := filter (\<lambda>i. rs_deps st \<noteq> Some i) (rs_listeners st1)\<rparr>;
               (st3, again) = handle_resize cfg st2
           in (st3\<lparr>rs_listeners := rs_listeners st3 @ [cfg_id], rs_deps := Some cfg_id\<rparr>, again))"

text \<open>Renders until none is scheduled, for at most \<open>n\<close> renders: \<open>None\<close> when the hook
  is still re-rendering after them.\<close>

fun settle :: "nat \<Rightarrow> rs_state \<Rightarrow> rs_state option" where
  "settle 0 st = None"
| "settle (Suc n) st = (let (st', again) = render_commit st in if again then settle n st' else Some st')"

text \<open>A window resize: each attached listener runs \<open>handleResize\<close>.\<close>

definition window_resize :: "int \<Rightarrow> int \<Rightarrow> rs_state \<Rightarrow> rs_state \<times> bool" where
  "window_resize w h st =
     (if rs_listeners st = [] then (st\<lparr>rs_window := (w, h)\<rparr>, False)
      else handle_resize (merge_config (rs_overrides st)) (st\<lparr>rs_window := (w, h)\<rparr>))"

text \<open>Identities handed out are below \<open>rs_next\<close>; one listener per committed effect.\<close>

definition rs_wf :: "rs_state \<Rightarrow> bool" where
  "rs_wf st \<longleftrightarrow>
     fst (rs_screen st) < rs_next st \<and> pred_option (\<lambda>d. d < rs_next st) (rs_deps st) \<and>
     rs_listeners st = (case rs_deps st of None \<Rightarrow> [] | Some d \<Rightarrow> [d])"

section \<open>Lemmas\<close>

lemma render_commit_wf:
  assumes "rs_wf st"
  shows "rs_wf (fst (render_commit st)) \<and> snd (render_commit st)"
proof -
  have "rs_deps st \<noteq> Some (rs_next st)" using assms by (auto simp: rs_wf_def)
  moreover have "filter (\<lambda>i. rs_deps st \<noteq> Some i) (rs_listeners st) = []"
    using assms by (auto simp: rs_wf_def split: option.splits)
  moreover have "fst (rs_screen st) \<noteq> Suc (rs_next st)" using assms by (simp add: rs_wf_def)
  ultimately show ?thesis
    by (simp add: render_commit_def handle_resize_def rs_wf_def Let_def case_prod_unfold)
qed

lemma settle_wf_None: "rs_wf st \<Longrightarrow> settle n st = None"
proof (induction n arbitrary: st)
  case (Suc n)
  then show ?case using render_commit_wf [of st] by (simp add: case_prod_unfold)
qed simp

lemma rs_wf_init: "rs_wf (rs_init ov w h)"
  by (simp add: rs_wf_def rs_init_def)


lemma device_of_mono:
  assumes "bp_mobile cfg \<le> bp_tablet cfg" "bp_tablet cfg \<le> bp_desktop cfg" "w \<le> w'"
  shows "device_of cfg w \<le> device_of cfg w'"
  using assms by (simp add: device_of_def less_eq_device_type_def device_rank_def)

lemma default_flags:
  "flags_of (device_of (merge_config no_overrides) w) =
     \<lparr>is_mobile = (w < 768), is_tablet = (768 \<le> w \<and> w < 1024), is_desktop = (1024 \<le> w),
      is_wide = (1280 \<le> w)\<rparr>"
  by (simp add: flags_of_def device_of_def merge_config_def no_overrides_def default_breakpoints_def)

lemma wide_breakpoint_unused: "device_of (cfg\<lparr>bp_wide := x\<rparr>) w = device_of cfg w"
  by (simp add: device_of_def)

section \<open>Properties\<close>

text \<open>C21. The hook never settles: whatever the window size and the breakpoints, after any
  number of renders another render is scheduled, because the effect's dependency
  \<open>config\<close> is a new object on every render and \<open>handleResize\<close> stores a new
  \<open>screenSize\<close> object.\<close>

lemma responsive_never_settles: "settle n (rs_init ov w h) = None"
  by (rule settle_wf_None [OF rs_wf_init])

end
