(* ===== verification/Weather.thy ===== *)
theory Weather
  imports JsString
begin

text \<open>The weather service (\<open>services/weatherService.ts\<close>) and the weather widget
  (\<open>components/WeatherWidget.tsx\<close>). The service turns an OpenWeatherMap response into
  the widget's \<open>WeatherData\<close>; the HTTP exchange itself is I/O, so the response (or the
  network error) is an input. The widget is a state machine whose asynchronous steps
  (the geolocation request and the two kinds of fetch) are pending operations resolved by
  events, in any order. Numbers are rationals; \<open>Math.round\<close> is written out.\<close>

section \<open>The service\<close>

text \<open>\<open>WeatherData['condition']\<close>, with \<open>undefined\<close>, which the simulated data can
  hold in principle and the widget renders by the \<open>default\<close> branches of its
  \<open>switch\<close> statements.\<close>

datatype condition = Sunny | Cloudy | Rainy | Windy | Snow | Thunderstorm | Mist | CondUndefined

record weather_data =
  wd_temperature :: rat
  wd_condition :: condition
  wd_humidity :: rat
  wd_wind_speed :: rat
  wd_visibility :: rat
  wd_location :: jstr
  wd_description :: jstr
  wd_feels_like :: rat
  wd_pressure :: rat

text \<open>The fields of an \<open>OpenWeatherResponse\<close> the service reads.\<close>

record ow_weather =
  ow_id :: rat
  ow_main :: jstr
  ow_description :: jstr
  ow_icon :: jstr

record ow_response =
  ow_temp :: rat
  ow_feels_like :: rat
  ow_humidity :: rat
  ow_pressure :: rat
  ow_weather :: "ow_weather list"
  ow_wind_speed :: rat
  ow_visibility :: rat
  ow_name :: jstr
  ow_country :: jstr

text \<open>The outcome of \<open>fetch(url)\<close>: a rejected promise with its message, or a response
  with its status and the outcome of \<open>response.json()\<close>.\<close>

datatype fetch_result = FetchFailed jstr | FetchResponse nat "jstr + ow_response"

text \<open>The service instance: \<open>apiKey\<close> is \<open>import.meta.env.VITE_OPENWEATHER_API_KEY || ''\<close>.\<close>

record weather_service =
  ws_api_key :: jstr

definition weather_service_init :: "jstr option \<Rightarrow> weather_service" where
  "weather_service_init env = \<lparr>ws_api_key = (case env of Some k \<Rightarrow> k | None \<Rightarrow> [])\<rparr>"

definition base_url :: jstr where
  "base_url = js ''https://api.openweathermap.org/data/2.5/weather''"

definition default_city :: jstr where
  "default_city = js ''Essen,DE''"

definition is_configured :: "weather_service \<Rightarrow> bool" where
  "is_configured ws \<longleftrightarrow> ws_api_key ws \<noteq> []"

definition map_weather_condition :: "rat \<Rightarrow> jstr \<Rightarrow> condition" where
  "map_weather_condition weather_id main =
     (if 200 \<le> weather_id \<and> weather_id < 300 then Thunderstorm
      else if 300 \<le> weather_id \<and> weather_id < 400 then Rainy
      else if 500 \<le> weather_id \<and> weather_id < 600 then Rainy
      else if 600 \<le> weather_id \<and> weather_id < 700 then Snow
      else if 700 \<le> weather_id \<and> weather_id < 800 then Mist
      else if weather_id = 800 then Sunny
      else if 800 < weather_id then Cloudy
      else (let m = js_lower main in
            if m = js ''clear'' then Sunny
            else if m = js ''clouds'' then Cloudy
            else if m = js ''rain'' \<or> m = js ''drizzle'' then Rainy
            else if m = js ''thunderstorm'' then Thunderstorm
            else if m = js ''snow'' then Snow
            else if m = js ''mist'' \<or> m = js ''fog'' \<or> m = js ''haze'' then Mist
            else Cloudy))"

text \<open>\<open>Math.round\<close>: the nearest integer, halves rounded up.\<close>

definition js_round :: "rat \<Rightarrow> rat" where
  "js_round x = of_int \<lfloor>x + 1 / 2\<rfloor>"

text \<open>The object both fetch methods return; \<open>data.weather[0]\<close> of an empty list is
  \<open>undefined\<close>, and reading its \<open>id\<close> throws.\<close>

definition to_weather_data :: "ow_response \<Rightarrow> jstr + weather_data" where
  "to_weather_data d =
     (case ow_weather d of
        [] \<Rightarrow> Inl (js ''Cannot read properties of undefined (reading '' @ [39] @ js ''id'' @ [39] @ js '')'')
      | w # _ \<Rightarrow> Inr
          \<lparr>wd_temperature = js_round (ow_temp d),
           wd_condition = map_weather_condition (ow_id w) (ow_main w),
           wd_humidity = ow_humidity d,
           wd_wind_speed = js_round (ow_wind_speed d * 36 / 10),
           wd_visibility = js_round (ow_visibility d / 1000),
           wd_location = ow_name d @ js '', '' @ ow_country d,
           wd_description = ow_description w,
           wd_feels_like = js_round (ow_feels_like d),
           wd_pressure = ow_pressure d\<rparr>)"

definition response_ok :: "nat \<Rightarrow> bool" where
  "response_ok status \<longleftrightarrow> 200 \<le> status \<and> status \<le> 299"

text \<open>\<open>getCurrentWeather\<close>, given the outcome of its fetch: \<open>Inl\<close> the message of the error
  it throws.\<close>

definition get_current_weather :: "weather_service \<Rightarrow> fetch_result \<Rightarrow> jstr + weather_data" where
  "get_current_weather ws res =
     (if ws_api_key ws = [] then Inl (js ''OpenWeatherMap API key not configured'')
      else case res of
        FetchFailed e \<Rightarrow> Inl e
      | FetchResponse status body \<Rightarrow>
          if \<not> response_ok status then
            (if status = 401 then Inl (js ''Invalid API key. Please check your OpenWeatherMap API key.'')
             else if status = 404 then Inl (js ''City not found. Please check the city name.'')
             else Inl (js ''Weather API error: '' @ js_digits status))
          else (case body of Inl e \<Rightarrow> Inl e | Inr d \<Rightarrow> to_weather_data d))"

text \<open>\<open>getWeatherByCoordinates\<close>: the same without the 401 and 404 messages.\<close>

definition get_weather_by_coordinates :: "weather_service \<Rightarrow> fetch_result \<Rightarrow> jstr + weather_data" where
  "get_weather_by_coordinates ws res =
     (if ws_api_key ws = [] then Inl (js ''OpenWeatherMap API key not configured'')
      else case res of
        FetchFailed e \<Rightarrow> Inl e
      | FetchResponse status body \<Rightarrow>
          if \<not> response_ok status then Inl (js ''Weather API error: '' @ js_digits status)
          else (case body of Inl e \<Rightarrow> Inl e | Inr d \<Rightarrow> to_weather_data d))"

section \<open>The widget\<close>

text \<open>The seven \<open>Math.random()\<close> draws of the simulated data, in the order the object
  literal makes them.\<close>

record sim_input =
  si_temp :: rat
  si_cond :: rat
  si_humidity :: rat
  si_wind :: rat
  si_visibility :: rat
  si_feels :: rat
  si_pressure :: rat

definition sim_valid :: "sim_input \<Rightarrow> bool" where
  "sim_valid r \<longleftrightarrow>
     list_all (\<lambda>x. 0 \<le> x \<and> x < 1)
       [si_temp r, si_cond r, si_humidity r, si_wind r, si_visibility r, si_feels r, si_pressure r]"

definition sim_conditions :: "condition list" where
  "sim_conditions = [Sunny, Cloudy, Rainy, Windy]"

text \<open>The simulated data of an unconfigured service; the condition is
  \<open>['sunny', 'cloudy', 'rainy', 'windy'][Math.floor(Math.random() * 4)]\<close>.\<close>

definition simulated_weather :: "sim_input \<Rightarrow> weather_data" where
  "simulated_weather r =
     (let i = nat \<lfloor>si_cond r * 4\<rfloor> in
        \<lparr>wd_temperature = js_round (15 + si_temp r * 15),
         wd_condition = (if i < length sim_conditions then sim_conditions ! i else CondUndefined),
         wd_humidity = js_round (40 + si_humidity r * 40),
         wd_wind_speed = js_round (5 + si_wind r * 20),
         wd_visibility = js_round (8 + si_visibility r * 7),
         wd_location = js ''Essen, Germany'',
         wd_description = js ''Simulated weather data'',
         wd_feels_like = js_round (17 + si_feels r * 15),
         wd_pressure = js_round (1000 + si_pressure r * 50)\<rparr>)"

definition fallback_weather :: weather_data where
  "fallback_weather =
     \<lparr>wd_temperature = 20, wd_condition = Cloudy, wd_humidity = 65, wd_wind_speed = 12,
      wd_visibility = 10, wd_location = js ''Essen, Germany'',
      wd_description = js ''Fallback weather data'', wd_feels_like = 22, wd_pressure = 1013\<rparr>"

definition api_key_missing :: jstr where
  "api_key_missing = js ''API key not configured''"

text \<open>The asynchronous steps in flight: a geolocation request, a fetch by coordinates,
  and a fetch for the default city.\<close>

datatype pending = PGeo | PCoords | PCity

record weather_widget =
  ww_weather :: "weather_data option"
  ww_loading :: bool
  ww_error :: "jstr option"
  ww_last_updated :: "nat option"
  ww_show_help :: bool
  ww_pending :: "pending list"
  ww_interval :: bool
  ww_service :: weather_service
  ww_geolocation :: bool

definition ww_init :: "weather_service \<Rightarrow> bool \<Rightarrow> weather_widget" where
  "ww_init ws geo =
     \<lparr>ww_weather = None, ww_loading = True, ww_error = None, ww_last_updated = None,
      ww_show_help = False, ww_pending = [], ww_interval = False, ww_service = ws,
      ww_geolocation = geo\<rparr>"

text \<open>\<open>fetchDefaultCityWeather\<close> up to its first \<open>await\<close>: without an API key the
  simulated data is set at once, otherwise the fetch for the default city is in flight.\<close>

definition fetch_default :: "sim_input \<Rightarrow> weather_widget \<Rightarrow> weather_widget" where
  "fetch_default r st =
     (if \<not> is_configured (ww_service st)
      then st\<lparr>ww_weather := Some (simulated_weather r), ww_error := Some api_key_missing, ww_loading := False\<rparr>
      else st\<lparr>ww_pending := ww_pending st @ [PCity]\<rparr>)"

text \<open>\<open>fetchWeather\<close> up to its first \<open>await\<close>.\<close>

definition fetch_weather :: "sim_input \<Rightarrow> weather_widget \<Rightarrow> weather_widget" where
  "fetch_weather r st =
     (let st1 = st\<lparr>ww_loading := True, ww_error := None\<rparr>
      in if ww_geolocation st \<and> is_configured (ww_service st)
         then st1\<lparr>ww_pending := ww_pending st1 @ [PGeo]\<rparr>
         else fetch_default r st1)"

definition remove_nth :: "nat \<Rightarrow> 'a list \<Rightarrow> 'a list" where
  "remove_nth i xs = take i xs @ drop (Suc i) xs"

text \<open>The geolocation callbacks: on success the fetch by coordinates starts, on error the
  default city is fetched.\<close>

definition geo_success :: "nat \<Rightarrow> weather_widget \<Rightarrow> weather_widget" where
  "geo_success i st = st\<lparr>ww_pending := remove_nth i (ww_pending st) @ [PCoords]\<rparr>"

definition geo_error :: "nat \<Rightarrow> sim_input \<Rightarrow> weather_widget \<Rightarrow> weather_widget" where
  "geo_error i r st = fetch_default r (st\<lparr>ww_pending := remove_nth i (ww_pending st)\<rparr>)"

text \<open>The fetch by coordinates settles: its data is shown, or the default city is fetched
  (the \<open>finally\<close> clears \<open>loading\<close> once that fetch has settled too, which the default
  city's own \<open>finally\<close> does at the same moment).\<close>

definition coords_done :: "nat \<Rightarrow> fetch_result \<Rightarrow> nat \<Rightarrow> sim_input \<Rightarrow> weather_widget \<Rightarrow> weather_widget" where
  "coords_done i res now r st =
     (let st1 = st\<lparr>ww_pending := remove_nth i (ww_pending st)\<rparr>
      in case get_weather_by_coordinates (ww_service st) res of
           Inr d \<Rightarrow> st1\<lparr>ww_weather := Some d, ww_last_updated := Some now, ww_loading := False\<rparr>
         | Inl _ \<Rightarrow> fetch_default r st1)"

text \<open>The fetch for the default city settles: its data is shown, or its error and the
  fallback data.\<close>

definition city_done :: "nat \<Rightarrow> fetch_result \<Rightarrow> nat \<Rightarrow> weather_widget \<Rightarrow> weather_widget" where
  "city_done i res now st =
     (let st1 = st\<lparr>ww_pending := remove_nth i (ww_pending st)\<rparr>
      in case get_current_weather (ww_service st) res of
           Inr d \<Rightarrow> st1\<lparr>ww_weather := Some d, ww_last_updated := Some now, ww_loading := False\<rparr>
         | Inl e \<Rightarrow> st1\<lparr>ww_error := Some e, ww_weather := Some fallback_weather, ww_loading := False\<rparr>)"


datatype ww_event =
    WMount sim_input
  | WInterval sim_input
  | WRefresh sim_input
  | WGeoSuccess nat
  | WGeoError nat sim_input
  | WCoordsDone nat fetch_result nat sim_input
  | WCityDone nat fetch_result nat
  | WToggleHelp

definition pending_at :: "weather_widget \<Rightarrow> nat \<Rightarrow> pending \<Rightarrow> bool" where
  "pending_at st i p \<longleftrightarrow> i < length (ww_pending st) \<and> ww_pending st ! i = p"

text \<open>One event. The effect on \<open>[]\<close> runs once, on mount, and starts the ten-minute
  interval; the Retry and refresh buttons call \<open>fetchWeather\<close> and are rendered once the
  widget is not loading; the setup button is rendered with the data of an unconfigured
  service; a callback settles an operation in flight.\<close>

fun ww_step :: "ww_event \<Rightarrow> weather_widget \<Rightarrow> weather_widget" where
  "ww_step (WMount r) st = (if ww_interval st then st else (fetch_weather r st)\<lparr>ww_interval := True\<rparr>)"
| "ww_step (WInterval r) st = (if ww_interval st then fetch_weather r st else st)"
| "ww_step (WRefresh r) st = (if ww_loading st then st else fetch_weather r st)"
| "ww_step (WGeoSuccess i) st = (if pending_at st i PGeo then geo_success i st else st)"
| "ww_step (WGeoError i r) st = (if pending_at st i PGeo then geo_error i r st else st)"
| "ww_step (WCoordsDone i res now r) st =
     (if pending_at st i PCoords then coords_done i res now r st else st)"
| "ww_step (WCityDone i res now) st = (if pending_at st i PCity then city_done i res now st else st)"
| "ww_step WToggleHelp st =
     (if \<not> ww_loading st \<and> ww_weather st \<noteq> None \<and> \<not> is_configured (ww_service st)
      then st\<lparr>ww_show_help := \<not> ww_show_help st\<rparr> else st)"

inductive ww_reach :: "weather_widget \<Rightarrow> bool" where
  init: "ww_reach (ww_init ws geo)"
| step: "ww_reach st \<Longrightarrow> ww_reach (ww_step e st)"

section \<open>Rendering\<close>

datatype weather_icon = ISun | ICloud | ICloudRain | IWind | ICloudSnow | IZap | ICloudDrizzle

definition weather_icon :: "condition \<Rightarrow> weather_icon" where
  "weather_icon c =
     (case c of Sunny \<Rightarrow> ISun | Cloudy \<Rightarrow> ICloud | Rainy \<Rightarrow> ICloudRain | Windy \<Rightarrow> IWind
      | Snow \<Rightarrow> ICloudSnow | Thunderstorm \<Rightarrow> IZap | Mist \<Rightarrow> ICloudDrizzle | CondUndefined \<Rightarrow> ISun)"

definition background_gradient :: "condition \<Rightarrow> jstr" where
  "background_gradient c =
     (case c of Sunny \<Rightarrow> js ''from-yellow-400 to-orange-500''
      | Cloudy \<Rightarrow> js ''from-gray-400 to-gray-600''
      | Rainy \<Rightarrow> js ''from-blue-400 to-blue-600''
      | Windy \<Rightarrow> js ''from-gray-500 to-gray-700''
      | Snow \<Rightarrow> js ''from-blue-300 to-blue-500''
      | Thunderstorm \<Rightarrow> js ''from-gray-700 to-gray-900''
      | Mist \<Rightarrow> js ''from-gray-300 to-gray-500''
      | CondUndefined \<Rightarrow> js ''from-blue-400 to-blue-600'')"

definition weather_tip :: "condition \<Rightarrow> rat \<Rightarrow> jstr" where
  "weather_tip c temperature =
     (if c = Rainy then [0x2602] @ [0xFE0F] @ js '' Don't forget your umbrella!''
      else if c = Sunny \<and> 25 < temperature then [0x2600] @ [0xFE0F] @ js '' Perfect weather for campus walks!''
      else if c = Sunny then [0xD83C, 0xDF24] @ [0xFE0F] @ js '' Great day to be outside!''
      else if c = Cloudy then [0x2601] @ [0xFE0F] @ js '' Comfortable weather for outdoor activities.''
      else if c = Windy then [0xD83D, 0xDCA8] @ js '' A bit breezy today, dress accordingly.''
      else if c = Snow then [0x2744] @ [0xFE0F] @ js '' Bundle up! It's snowing outside.''
      else if c = Thunderstorm then [0x26C8] @ [0xFE0F] @ js '' Stay indoors during the storm.''
      else if c = Mist then [0xD83C, 0xDF2B] @ [0xFE0F] @ js '' Visibility might be reduced.''
      else [0xD83C, 0xDF24] @ [0xFE0F] @ js '' Have a great day!'')"

text \<open>The data view: gradient, icon, the demo badge, location, temperature, description,
  the four details, the tip, the setup box (with whether its instructions are open), the
  error banner and the update time.\<close>

record weather_view =
  wv_gradient :: jstr
  wv_icon :: weather_icon
  wv_demo :: bool
  wv_location :: jstr
  wv_temperature :: rat
  wv_description :: jstr
  wv_humidity :: rat
  wv_wind_speed :: rat
  wv_visibility :: rat
  wv_feels_like :: rat
  wv_tip :: jstr
  wv_setup :: "bool option"
  wv_error :: "jstr option"
  wv_updated :: "nat option"

datatype ww_screen = WVLoading | WVUnavailable | WVWeather weather_view

definition ww_view :: "weather_widget \<Rightarrow> ww_screen" where
  "ww_view st =
     (if ww_loading st then WVLoading
      else case ww_weather st of
        None \<Rightarrow> WVUnavailable
      | Some w \<Rightarrow> WVWeather
          \<lparr>wv_gradient = background_gradient (wd_condition w),
           wv_icon = weather_icon (wd_condition w),
           wv_demo = \<not> is_configured (ww_service st),
           wv_location = wd_location w,
           wv_temperature = wd_temperature w,
           wv_description = wd_description w,
           wv_humidity = wd_humidity w,
           wv_wind_speed = wd_wind_speed w,
           wv_visibility = wd_visibility w,
           wv_feels_like = wd_feels_like w,
           wv_tip = weather_tip (wd_condition w) (wd_temperature w),
           wv_setup = (if is_configured (ww_service st) then None else Some (ww_show_help st)),
           wv_error = (case ww_error st of
                         Some e \<Rightarrow> if e \<noteq> [] \<and> e \<noteq> api_key_missing then Some e else None
                       | None \<Rightarrow> None),
           wv_updated = ww_last_updated st\<rparr>)"

definition ww_ok :: "weather_widget \<Rightarrow> bool" where
  "ww_ok st \<longleftrightarrow>
     (\<not> ww_loading st \<longrightarrow> ww_weather st \<noteq> None) \<and>
     (ww_error st \<noteq> None \<longrightarrow> ww_weather st \<noteq> None) \<and>
     (ww_interval st \<and> ww_pending st = [] \<longrightarrow> \<not> ww_loading st) \<and>
     (ww_pending st \<noteq> [] \<longrightarrow> is_configured (ww_service st))"


text \<open>Sample inputs: random draws of one half, a configured service, and a response for
  Essen.\<close>

definition ww_sample_sim :: sim_input where
  "ww_sample_sim =
     \<lparr>si_temp = 1 / 2, si_cond = 1 / 2, si_humidity = 1 / 2, si_wind = 1 / 2,
      si_visibility = 1 / 2, si_feels = 1 / 2, si_pressure = 1 / 2\<rparr>"

definition ww_sample_response :: ow_response where
  "ww_sample_response =
     \<lparr>ow_temp = 12, ow_feels_like = 10, ow_humidity = 80, ow_pressure = 1012,
      ow_weather = [\<lparr>ow_id = 500, ow_main = js ''Rain'', ow_description = js ''light rain'',
                     ow_icon = js ''10d''\<rparr>],
      ow_wind_speed = 5, ow_visibility = 10000, ow_name = js ''Essen'', ow_country = js ''DE''\<rparr>"

definition ww_sample_two_fetches :: weather_widget where
  "ww_sample_two_fetches =
     ww_step (WInterval ww_sample_sim)
       (ww_step (WMount ww_sample_sim) (ww_init (weather_service_init (Some (js ''key''))) False))"

section \<open>Lemmas\<close>

lemma ww_ok_init: "ww_ok (ww_init ws geo)"
  by (simp add: ww_ok_def ww_init_def)

lemma ww_ok_fetch_weather: "ww_ok st \<Longrightarrow> ww_ok (fetch_weather r st)"
  by (auto simp: ww_ok_def fetch_weather_def fetch_default_def Let_def)

lemma pending_at_nonempty: "pending_at st i p \<Longrightarrow> ww_pending st \<noteq> []"
  by (auto simp: pending_at_def)

lemma remove_nth_nonempty [dest]: "remove_nth i xs \<noteq> [] \<Longrightarrow> xs \<noteq> []"
  by (auto simp: remove_nth_def)

lemma ww_ok_geo_success: "ww_ok st \<Longrightarrow> pending_at st i PGeo \<Longrightarrow> ww_ok (geo_success i st)"
  by (auto simp: ww_ok_def geo_success_def dest: pending_at_nonempty)

lemma ww_ok_geo_error: "ww_ok st \<Longrightarrow> pending_at st i PGeo \<Longrightarrow> ww_ok (geo_error i r st)"
  by (auto simp: ww_ok_def geo_error_def fetch_default_def dest: pending_at_nonempty)

lemma ww_ok_coords_done: "ww_ok st \<Longrightarrow> pending_at st i PCoords \<Longrightarrow> ww_ok (coords_done i res now r st)"
  by (auto simp: ww_ok_def coords_done_def fetch_default_def Let_def dest: pending_at_nonempty
           split: sum.split)

lemma ww_ok_city_done: "ww_ok st \<Longrightarrow> pending_at st i PCity \<Longrightarrow> ww_ok (city_done i res now st)"
  by (auto simp: ww_ok_def city_done_def Let_def dest: pending_at_nonempty split: sum.split)

lemma ww_ok_step: "ww_ok st \<Longrightarrow> ww_ok (ww_step e st)"
  by (cases e)
     (auto simp: ww_ok_fetch_weather ww_ok_geo_success ww_ok_geo_error ww_ok_coords_done
        ww_ok_city_done, auto simp: ww_ok_def fetch_weather_def fetch_default_def Let_def)

lemma ww_reach_ok: "ww_reach st \<Longrightarrow> ww_ok st"
  by (induction rule: ww_reach.induct) (simp_all add: ww_ok_init ww_ok_step)

lemma js_round_bounds:
  "of_int a \<le> x \<Longrightarrow> x < of_int b \<Longrightarrow> of_int a \<le> js_round x \<and> js_round x \<le> of_int b"
  by (simp add: js_round_def le_floor_iff floor_le_iff)

lemma js_round_affine:
  assumes "0 \<le> t" "t < 1" "0 < k"
  shows "of_int a \<le> js_round (of_int a + t * of_int k) \<and> js_round (of_int a + t * of_int k) \<le> of_int (a + k)"
proof (rule js_round_bounds)
  show "of_int a \<le> of_int a + t * of_int k" using assms by simp
  have "t * of_int k < 1 * of_int k" using assms by (intro mult_strict_right_mono) simp_all
  then show "of_int a + t * of_int k < of_int (a + k)" by simp
qed

lemma sim_index_bound:
  assumes "0 \<le> c" "c < (1::rat)"
  shows "nat \<lfloor>c * 4\<rfloor> < length sim_conditions"
proof -
  have "0 \<le> \<lfloor>c * 4\<rfloor>" "\<lfloor>c * 4\<rfloor> < 4" using assms by (simp_all add: floor_less_iff)
  then show ?thesis by (simp add: sim_conditions_def nat_less_iff)
qed

section \<open>Properties\<close>

text \<open>C22. The widget never shows "Unable to load weather data" with its Retry button:
  every path that clears \<open>loading\<close> has set real, simulated or fallback data before,
  and nothing clears the data.\<close>

lemma unavailable_view_unreachable: "ww_reach st \<Longrightarrow> ww_view st \<noteq> WVUnavailable"
  using ww_reach_ok [of st] by (auto simp: ww_ok_def ww_view_def split: option.split)

text \<open>With \<open>Math.random()\<close> in \<open>[0, 1)\<close>, the simulated data of an unconfigured
  service has one of its four conditions and every value in the range its formula
  promises (temperature 15 to 30, humidity 40 to 80, wind 5 to 25, visibility 8 to 15, felt
  temperature 17 to 32, pressure 1000 to 1050).\<close>

lemma simulated_weather_bounds:
  assumes "sim_valid r"
  shows "wd_condition (simulated_weather r) \<in> set sim_conditions \<and>
         15 \<le> wd_temperature (simulated_weather r) \<and> wd_temperature (simulated_weather r) \<le> 30 \<and>
         40 \<le> wd_humidity (simulated_weather r) \<and> wd_humidity (simulated_weather r) \<le> 80 \<and>
         5 \<le> wd_wind_speed (simulated_weather r) \<and> wd_wind_speed (simulated_weather r) \<le> 25 \<and>
         8 \<le> wd_visibility (simulated_weather r) \<and> wd_visibility (simulated_weather r) \<le> 15 \<and>
         17 \<le> wd_feels_like (simulated_weather r) \<and> wd_feels_like (simulated_weather r) \<le> 32 \<and>
         1000 \<le> wd_pressure (simulated_weather r) \<and> wd_pressure (simulated_weather r) \<le> 1050"
proof -
  have v: "0 \<le> si_temp r" "si_temp r < 1" "0 \<le> si_cond r" "si_cond r < 1"
    "0 \<le> si_humidity r" "si_humidity r < 1" "0 \<le> si_wind r" "si_wind r < 1"
    "0 \<le> si_visibility r" "si_visibility r < 1" "0 \<le> si_feels r" "si_feels r < 1"
    "0 \<le> si_pressure r" "si_pressure r < 1"
    using assms by (simp_all add: sim_valid_def)
  show ?thesis
    using sim_index_bound [OF v(3,4)]
      js_round_affine [OF v(1,2), of 15 15] js_round_affine [OF v(5,6), of 40 40]
      js_round_affine [OF v(7,8), of 20 5] js_round_affine [OF v(9,10), of 7 8]
      js_round_affine [OF v(11,12), of 15 17] js_round_affine [OF v(13,14), of 50 1000]
    by (simp add: simulated_weather_def Let_def mult.commute)
qed

text \<open>C23. Fetches are not ordered: when a refresh starts a second fetch before the first
  settles and the second settles first, the first one's data replaces the newer data, and
  \<open>loading\<close> is already cleared while the first fetch is still in flight.\<close>

lemma older_city_response_wins:
  assumes "pending_at st 0 PCity" "pending_at st 1 PCity"
    and "get_current_weather (ww_service st) res1 = Inr d1"
  shows "ww_weather (ww_step (WCityDone 0 res1 t1) (ww_step (WCityDone 1 res2 t2) st)) = Some d1 \<and>
         \<not> ww_loading (ww_step (WCityDone 1 res2 t2) st) \<and>
         ww_pending (ww_step (WCityDone 1 res2 t2) st) \<noteq> []"
proof -
  obtain a b ps where "ww_pending st = a # b # ps"
    using assms(2) unfolding pending_at_def
    by (cases "ww_pending st"; cases "tl (ww_pending st)") auto
  with assms(1,2) have ps: "ww_pending st = PCity # PCity # ps" by (simp add: pending_at_def)
  show ?thesis
    using assms ps
    by (auto simp: city_done_def pending_at_def remove_nth_def Let_def split: sum.split)
qed

lemma unavailable_view_unreachable_witness:
  "ww_reach (ww_step (WMount ww_sample_sim) (ww_init (weather_service_init None) True)) \<and>
   ww_view (ww_step (WMount ww_sample_sim) (ww_init (weather_service_init None) True)) \<noteq> WVUnavailable"
proof -
  have r: "ww_reach (ww_step (WMount ww_sample_sim) (ww_init (weather_service_init None) True))"
    by (intro ww_reach.step ww_reach.init)
  show ?thesis using unavailable_view_unreachable [OF r] r by blast
qed

lemma simulated_weather_bounds_witness:
  "sim_valid ww_sample_sim \<and>
   wd_condition (simulated_weather ww_sample_sim) \<in> set sim_conditions \<and>
   15 \<le> wd_temperature (simulated_weather ww_sample_sim) \<and> wd_temperature (simulated_weather ww_sample_sim) \<le> 30 \<and>
   40 \<le> wd_humidity (simulated_weather ww_sample_sim) \<and> wd_humidity (simulated_weather ww_sample_sim) \<le> 80 \<and>
   5 \<le> wd_wind_speed (simulated_weather ww_sample_sim) \<and> wd_wind_speed (simulated_weather ww_sample_sim) \<le> 25 \<and>
   8 \<le> wd_visibility (simulated_weather ww_sample_sim) \<and> wd_visibility (simulated_weather ww_sample_sim) \<le> 15 \<and>
   17 \<le> wd_feels_like (simulated_weather ww_sample_sim) \<and> wd_feels_like (simulated_weather ww_sample_sim) \<le> 32 \<and>
   1000 \<le> wd_pressure (simulated_weather ww_sample_sim) \<and> wd_pressure (simulated_weather ww_sample_sim) \<le> 1050"
proof -
  have v: "sim_valid ww_sample_sim" by (simp add: sim_valid_def ww_sample_sim_def)
  show ?thesis using simulated_weather_bounds [OF v] v by blast
qed

lemma older_city_response_wins_witness:
  "pending_at ww_sample_two_fetches 0 PCity \<and> pending_at ww_sample_two_fetches 1 PCity \<and>
   get_current_weather (ww_service ww_sample_two_fetches) (FetchResponse 200 (Inr ww_sample_response)) =
     Inr \<lparr>wd_temperature = 12, wd_condition = Rainy, wd_humidity = 80, wd_wind_speed = 18,
          wd_visibility = 10, wd_location = js ''Essen, DE'', wd_description = js ''light rain'',
          wd_feels_like = 10, wd_pressure = 1012\<rparr> \<and>
   ww_weather (ww_step (WCityDone 0 (FetchResponse 200 (Inr ww_sample_response)) 2)
                (ww_step (WCityDone 1 (FetchFailed (js ''Failed to fetch'')) 1) ww_sample_two_fetches)) =
     Some \<lparr>wd_temperature = 12, wd_condition = Rainy, wd_humidity = 80, wd_wind_speed = 18,
          wd_visibility = 10, wd_location = js ''Essen, DE'', wd_description = js ''light rain'',
          wd_feels_like = 10, wd_pressure = 1012\<rparr> \<and>
   \<not> ww_loading (ww_step (WCityDone 1 (FetchFailed (js ''Failed to fetch'')) 1) ww_sample_two_fetches) \<and>
   ww_pending (ww_step (WCityDone 1 (FetchFailed (js ''Failed to fetch'')) 1) ww_sample_two_fetches) \<noteq> []"
proof -
  have p: "ww_pending ww_sample_two_fetches = [PCity, PCity]"
    by (simp add: ww_sample_two_fetches_def ww_init_def weather_service_init_def fetch_weather_def
        fetch_default_def is_configured_def js_def Let_def)
  then have p0: "pending_at ww_sample_two_fetches 0 PCity" and p1: "pending_at ww_sample_two_fetches 1 PCity"
    by (simp_all add: pending_at_def)
  have k: "ww_service ww_sample_two_fetches = weather_service_init (Some (js ''key''))"
    by (simp add: ww_sample_two_fetches_def ww_init_def fetch_weather_def fetch_default_def Let_def)
  have g: "get_current_weather (ww_service ww_sample_two_fetches) (FetchResponse 200 (Inr ww_sample_response)) =
     Inr \<lparr>wd_temperature = 12, wd_condition = Rainy, wd_humidity = 80, wd_wind_speed = 18,
          wd_visibility = 10, wd_location = js ''Essen, DE'', wd_description = js ''light rain'',
          wd_feels_like = 10, wd_pressure = 1012\<rparr>"
    unfolding k by code_simp
  show ?thesis using older_city_response_wins [OF p0 p1 g] p0 p1 g by blast
qed

end
