(* ===== verification/Speech.thy ===== *)
theory Speech
  imports JsString
begin

text \<open>The speech service (\<open>services/speechService.ts\<close>) over the browser's recognition
  engine and speech synthesis, and the voice controls (\<open>components/chat/VoiceAssistant.tsx\<close>).
  The service instance is a JavaScript object: its fields are own properties and its methods
  live on the class prototype, so a property access looks at the own properties first. The
  recognition engine has three phases; its results, errors and end are events. The voice
  controls' state is composed with the service's, since the service's callbacks are the
  component's closures.\<close>

section \<open>The service object\<close>

datatype rec_phase = RIdle | RActive | RStopping

text \<open>A \<open>SpeechRecognition\<close> object: the settings the service writes and the engine's
  phase.\<close>

record recognition =
  rc_continuous :: bool
  rc_interim_results :: bool
  rc_lang :: jstr
  rc_phase :: rec_phase

record utterance =
  ut_text :: jstr
  ut_lang :: jstr
  ut_rate :: rat
  ut_pitch :: rat
  ut_volume :: rat
  ut_voice :: "jstr option"

text \<open>The instance's fields, with the synthesis queue of \<open>window.speechSynthesis\<close> when
  there is one.\<close>

record speech_service =
  ss_recognition :: "recognition option"
  ss_synthesis :: bool
  ss_is_listening :: bool
  ss_is_supported :: bool
  ss_queue :: "utterance list"

text \<open>What the browser offers: a recognition constructor, \<open>speechSynthesis\<close>, and the
  languages of the voices \<open>getVoices()\<close> returns.\<close>

record browser =
  br_recognition :: bool
  br_synthesis :: bool
  br_voices :: "jstr list"

definition check_support :: "browser \<Rightarrow> bool" where
  "check_support br \<longleftrightarrow> br_recognition br \<and> br_synthesis br"

definition speech_service_init :: "browser \<Rightarrow> speech_service" where
  "speech_service_init br =
     \<lparr>ss_recognition =
        (if br_recognition br
         then Some \<lparr>rc_continuous = False, rc_interim_results = False, rc_lang = js ''en-US'',
                    rc_phase = RIdle\<rparr>
         else None),
      ss_synthesis = br_synthesis br, ss_is_listening = False, ss_is_supported = check_support br,
      ss_queue = []\<rparr>"

text \<open>Property values as far as a call needs them.\<close>

datatype js_prop = PBool bool | PNull | PObject | PUndefined | PMethod jstr

text \<open>The own properties of the instance, in the order the class fields and the
  constructor create them.\<close>

definition own_properties :: "speech_service \<Rightarrow> (jstr \<times> js_prop) list" where
  "own_properties ss =
     [(js ''recognition'', case ss_recognition ss of None \<Rightarrow> PNull | Some _ \<Rightarrow> PObject),
      (js ''synthesis'', if ss_synthesis ss then PObject else PUndefined),
      (js ''isListening'', PBool (ss_is_listening ss)),
      (js ''isSupported'', PBool (ss_is_supported ss))]"

definition service_methods :: "jstr list" where
  "service_methods =
     [js ''checkSupport'', js ''startListening'', js ''stopListening'', js ''speak'',
      js ''stopSpeaking'', js ''isSupported'', js ''isSpeechRecognitionSupported'',
      js ''isSpeechSynthesisSupported'', js ''getIsListening'']"

definition get_property :: "speech_service \<Rightarrow> jstr \<Rightarrow> js_prop" where
  "get_property ss k =
     (case map_of (own_properties ss) k of
        Some v \<Rightarrow> v
      | None \<Rightarrow> if k \<in> set service_methods then PMethod k else PUndefined)"

text \<open>\<open>speechService.k(...)\<close>: the method found, or the \<open>TypeError\<close> of calling a
  value that is not a function.\<close>

definition call_method :: "speech_service \<Rightarrow> jstr \<Rightarrow> jstr + jstr" where
  "call_method ss k =
     (case get_property ss k of
        PMethod m \<Rightarrow> Inr m
      | _ \<Rightarrow> Inl (js ''TypeError: speechService.'' @ k @ js '' is not a function''))"

section \<open>The service's methods\<close>

definition recognition_lang :: "jstr \<Rightarrow> jstr" where
  "recognition_lang language = (if language = js ''de'' then js ''de-DE'' else js ''en-US'')"

text \<open>\<open>stopListening\<close>: \<open>recognition.stop()\<close> moves an active engine to stopping.\<close>

definition stop_listening :: "speech_service \<Rightarrow> speech_service" where
  "stop_listening ss =
     (case ss_recognition ss of
        Some rc \<Rightarrow>
          if ss_is_listening ss
          then ss\<lparr>ss_recognition := Some (rc\<lparr>rc_phase := (if rc_phase rc = RActive then RStopping else rc_phase rc)\<rparr>),
                  ss_is_listening := False\<rparr>
          else ss
      | None \<Rightarrow> ss)"

text \<open>\<open>startListening\<close>, with the message it passes to \<open>onError\<close> synchronously, if any.
  \<open>recognition.start()\<close> throws an \<open>InvalidStateError\<close> unless the engine is idle.\<close>

definition start_listening :: "jstr \<Rightarrow> speech_service \<Rightarrow> speech_service \<times> jstr option" where
  "start_listening language ss =
     (case ss_recognition ss of
        None \<Rightarrow> (ss, Some (js ''Speech recognition not supported in this browser''))
      | Some rc \<Rightarrow>
          if ss_is_listening ss then (stop_listening ss, None)
          else
            let rc1 = rc\<lparr>rc_lang := recognition_lang language\<rparr>
            in if rc_phase rc1 = RIdle
               then (ss\<lparr>ss_recognition := Some (rc1\<lparr>rc_phase := RActive\<rparr>), ss_is_listening := True\<rparr>, None)
               else (ss\<lparr>ss_recognition := Some rc1\<rparr>, Some (js ''Failed to start speech recognition'')))"

text \<open>The engine's events, and the callback of the last \<open>startListening\<close> each one
  calls: the transcript to \<open>onResult\<close>, or the message to \<open>onError\<close>. A stopping
  engine still delivers the result of the audio it captured.\<close>

datatype rec_event = RecResult jstr | RecError jstr | RecEnd

datatype callback = CbResult jstr | CbError jstr

definition recognition_event :: "rec_event \<Rightarrow> speech_service \<Rightarrow> speech_service \<times> callback option" where
  "recognition_event ev ss =
     (case ss_recognition ss of
        None \<Rightarrow> (ss, None)
      | Some rc \<Rightarrow>
          if rc_phase rc = RIdle then (ss, None)
          else case ev of
            RecResult t \<Rightarrow> (ss\<lparr>ss_is_listening := False\<rparr>, Some (CbResult t))
          | RecError e \<Rightarrow>
              (ss\<lparr>ss_is_listening := False\<rparr>, Some (CbError (js ''Speech recognition error: '' @ e)))
          | RecEnd \<Rightarrow>
              (ss\<lparr>ss_recognition := Some (rc\<lparr>rc_phase := RIdle\<rparr>), ss_is_listening := False\<rparr>, None))"

text \<open>\<open>speak\<close>: cancels the queue and queues one utterance, with the first voice whose
  language starts with the language code.\<close>

definition speak :: "jstr list \<Rightarrow> jstr \<Rightarrow> jstr \<Rightarrow> speech_service \<Rightarrow> speech_service" where
  "speak voices text language ss =
     (if \<not> ss_synthesis ss then ss
      else
        let prefix = (if language = js ''de'' then js ''de'' else js ''en'')
        in ss\<lparr>ss_queue :=
                 [\<lparr>ut_text = text, ut_lang = recognition_lang language, ut_rate = 9 / 10, ut_pitch = 1,
                   ut_volume = 8 / 10, ut_voice = find (\<lambda>v. starts_with v prefix) voices\<rparr>]\<rparr>)"

definition stop_speaking :: "speech_service \<Rightarrow> speech_service" where
  "stop_speaking ss = (if ss_synthesis ss then ss\<lparr>ss_queue := []\<rparr> else ss)"

definition is_speech_recognition_supported :: "speech_service \<Rightarrow> bool" where
  "is_speech_recognition_supported ss \<longleftrightarrow> ss_recognition ss \<noteq> None"

definition is_speech_synthesis_supported :: "speech_service \<Rightarrow> bool" where
  "is_speech_synthesis_supported ss \<longleftrightarrow> ss_synthesis ss"

text \<open>The synthesis finishes the utterance it speaks.\<close>

definition utterance_done :: "speech_service \<Rightarrow> speech_service" where
  "utterance_done ss = ss\<lparr>ss_queue := drop 1 (ss_queue ss)\<rparr>"

datatype ss_event =
    SSStart jstr
  | SSStop
  | SSRec rec_event
  | SSSpeak jstr jstr
  | SSStopSpeaking
  | SSUtteranceDone

text \<open>The service on its own, with any caller: its callbacks are dropped.\<close>

fun ss_step :: "jstr list \<Rightarrow> ss_event \<Rightarrow> speech_service \<Rightarrow> speech_service" where
  "ss_step voices (SSStart l) ss = fst (start_listening l ss)"
| "ss_step voices SSStop ss = stop_listening ss"
| "ss_step voices (SSRec ev) ss = fst (recognition_event ev ss)"
| "ss_step voices (SSSpeak text l) ss = speak voices text l ss"
| "ss_step voices SSStopSpeaking ss = stop_speaking ss"
| "ss_step voices SSUtteranceDone ss = utterance_done ss"

inductive ss_reach :: "browser \<Rightarrow> speech_service \<Rightarrow> bool" where
  init: "ss_reach br (speech_service_init br)"
| step: "ss_reach br ss \<Longrightarrow> ss_reach br (ss_step (br_voices br) e ss)"

definition listening_active :: "speech_service \<Rightarrow> bool" where
  "listening_active ss =
     (if ss_is_listening ss
      then (case ss_recognition ss of Some rc \<Rightarrow> rc_phase rc = RActive | None \<Rightarrow> False)
      else True)"

definition ss_ok :: "speech_service \<Rightarrow> bool" where
  "ss_ok ss \<longleftrightarrow>
     listening_active ss \<and> length (ss_queue ss) \<le> 1 \<and> (ss_queue ss = [] \<or> ss_synthesis ss)"

section \<open>The voice controls\<close>

text \<open>The state of \<open>VoiceAssistant\<close>: its five \<open>useState\<close> hooks, the texts passed to
  \<open>onVoiceInput\<close>, the pending \<open>setIsSpeaking(false)\<close> timers (their delays), and the
  exception the mount effect threw, if any (an uncaught error in an effect unmounts the
  React root).\<close>

record voice_assistant =
  va_listening :: bool
  va_speaking :: bool
  va_supported :: bool
  va_transcript :: jstr
  va_error :: jstr
  va_inputs :: "jstr list"
  va_timers :: "nat list"
  va_mounted :: bool
  va_crashed :: "jstr option"

record voice_system =
  vs_service :: speech_service
  vs_va :: voice_assistant
  vs_language :: jstr
  vs_voices :: "jstr list"

definition va_init :: voice_assistant where
  "va_init =
     \<lparr>va_listening = False, va_speaking = False, va_supported = False, va_transcript = [],
      va_error = [], va_inputs = [], va_timers = [], va_mounted = False, va_crashed = None\<rparr>"

text \<open>The first render, with the module's service instance; the chat window's calls of
  \<open>speak\<close> before and after it are events.\<close>

definition vs_init :: "browser \<Rightarrow> jstr \<Rightarrow> voice_system" where
  "vs_init br l =
     \<lparr>vs_service = speech_service_init br, vs_va = va_init, vs_language = l, vs_voices = br_voices br\<rparr>"

text \<open>The mount effect: \<open>setIsSupported(speechService.isSupported())\<close>.\<close>

definition va_mount :: "voice_system \<Rightarrow> voice_system" where
  "va_mount st =
     (let va = vs_va st
      in case call_method (vs_service st) (js ''isSupported'') of
           Inl e \<Rightarrow> st\<lparr>vs_va := va\<lparr>va_mounted := True, va_crashed := Some e\<rparr>\<rparr>
         | Inr _ \<Rightarrow> st\<lparr>vs_va := va\<lparr>va_mounted := True, va_supported := ss_is_supported (vs_service st)\<rparr>\<rparr>)"

text \<open>The component's callbacks passed to \<open>startListening\<close>.\<close>

definition va_callback :: "callback \<Rightarrow> voice_assistant \<Rightarrow> voice_assistant" where
  "va_callback cb va =
     (case cb of
        CbResult t \<Rightarrow> va\<lparr>va_transcript := t, va_listening := False, va_inputs := va_inputs va @ [t]\<rparr>
      | CbError e \<Rightarrow> va\<lparr>va_error := e, va_listening := False\<rparr>)"

text \<open>\<open>startListening\<close> of the component: the service may call \<open>onError\<close> before it
  returns; \<open>setIsListening(true)\<close> runs after it in any case.\<close>

definition va_start_listening :: "voice_system \<Rightarrow> voice_system" where
  "va_start_listening st =
     (if \<not> is_speech_recognition_supported (vs_service st)
      then st\<lparr>vs_va := (vs_va st)\<lparr>va_error := js ''Speech recognition not supported in this browser''\<rparr>\<rparr>
      else
        let va1 = (vs_va st)\<lparr>va_error := [], va_transcript := []\<rparr>;
            (ss', err) = start_listening (vs_language st) (vs_service st);
            va2 = (case err of Some e \<Rightarrow> va_callback (CbError e) va1 | None \<Rightarrow> va1)
        in st\<lparr>vs_service := ss', vs_va := va2\<lparr>va_listening := True\<rparr>\<rparr>)"

definition va_stop_listening :: "voice_system \<Rightarrow> voice_system" where
  "va_stop_listening st =
     st\<lparr>vs_service := stop_listening (vs_service st), vs_va := (vs_va st)\<lparr>va_listening := False\<rparr>\<rparr>"

definition va_speak_text :: "jstr \<Rightarrow> voice_system \<Rightarrow> voice_system" where
  "va_speak_text text st =
     (if \<not> is_speech_synthesis_supported (vs_service st)
      then st\<lparr>vs_va := (vs_va st)\<lparr>va_error := js ''Speech synthesis not supported in this browser''\<rparr>\<rparr>
      else st\<lparr>vs_service := speak (vs_voices st) text (vs_language st) (vs_service st),
              vs_va := (vs_va st)\<lparr>va_speaking := True, va_timers := va_timers (vs_va st) @ [length text * 50]\<rparr>\<rparr>)"

definition va_stop_speaking :: "voice_system \<Rightarrow> voice_system" where
  "va_stop_speaking st =
     st\<lparr>vs_service := stop_speaking (vs_service st), vs_va := (vs_va st)\<lparr>va_speaking := False\<rparr>\<rparr>"

text \<open>The controls are rendered once \<open>isSupported\<close> is true, unless the tree was unmounted.\<close>

definition va_rendered :: "voice_system \<Rightarrow> bool" where
  "va_rendered st \<longleftrightarrow> va_supported (vs_va st) \<and> va_crashed (vs_va st) = None"

datatype vs_event =
    VSMount
  | VSMicButton
  | VSSpeakerButton
  | VSRec rec_event
  | VSTimer nat
  | VSExternalSpeak jstr jstr
  | VSUtteranceDone

text \<open>One event: the mount effect (once), the microphone button (stop while listening,
  start otherwise) and the speaker button (stop while speaking, nothing otherwise) when the
  controls are rendered, an engine event with its callback, a speaking timer, a
  \<open>speak\<close> by another caller (the chat window), and the end of an utterance.\<close>

fun vs_step :: "vs_event \<Rightarrow> voice_system \<Rightarrow> voice_system" where
  "vs_step VSMount st = (if va_mounted (vs_va st) then st else va_mount st)"
| "vs_step VSMicButton st =
     (if \<not> va_rendered st then st
      else if va_listening (vs_va st) then va_stop_listening st else va_start_listening st)"
| "vs_step VSSpeakerButton st =
     (if va_rendered st \<and> va_speaking (vs_va st) then va_stop_speaking st else st)"
| "vs_step (VSRec ev) st =
     (let (ss', cb) = recognition_event ev (vs_service st)
      in st\<lparr>vs_service := ss',
            vs_va := (case cb of Some c \<Rightarrow> va_callback c (vs_va st) | None \<Rightarrow> vs_va st)\<rparr>)"
| "vs_step (VSTimer i) st =
     (if i < length (va_timers (vs_va st))
      then st\<lparr>vs_va := (vs_va st)\<lparr>va_speaking := False,
                 va_timers := take i (va_timers (vs_va st)) @ drop (Suc i) (va_timers (vs_va st))\<rparr>\<rparr>
      else st)"
| "vs_step (VSExternalSpeak text l) st = st\<lparr>vs_service := speak (vs_voices st) text l (vs_service st)\<rparr>"
| "vs_step VSUtteranceDone st = st\<lparr>vs_service := utterance_done (vs_service st)\<rparr>"

inductive vs_reach :: "voice_system \<Rightarrow> bool" where
  init: "vs_reach (vs_init br l)"
| step: "vs_reach st \<Longrightarrow> vs_reach (vs_step e st)"

text \<open>The message of the \<open>TypeError\<close> that \<open>speechService.isSupported()\<close> throws.\<close>

definition is_supported_error :: jstr where
  "is_supported_error = js ''TypeError: speechService.isSupported is not a function''"

definition vs_ok :: "voice_system \<Rightarrow> bool" where
  "vs_ok st \<longleftrightarrow>
     \<not> ss_is_listening (vs_service st) \<and> pred_option (\<lambda>rc. rc_phase rc = RIdle) (ss_recognition (vs_service st)) \<and>
     \<not> va_supported (vs_va st) \<and> \<not> va_listening (vs_va st) \<and> va_inputs (vs_va st) = [] \<and>
     va_crashed (vs_va st) = (if va_mounted (vs_va st) then Some is_supported_error else None)"

text \<open>A sample browser with both APIs and two voices.\<close>

definition sample_browser :: browser where
  "sample_browser = \<lparr>br_recognition = True, br_synthesis = True, br_voices = [js ''en-GB'', js ''de-DE'']\<rparr>"

section \<open>Lemmas\<close>

lemma call_is_supported: "call_method ss (js ''isSupported'') = Inl is_supported_error"
  by (simp add: call_method_def get_property_def own_properties_def is_supported_error_def js_def)

lemma call_speak: "call_method ss (js ''speak'') = Inr (js ''speak'')"
  by (simp add: call_method_def get_property_def own_properties_def service_methods_def js_def)

lemma ss_ok_init: "ss_ok (speech_service_init br)"
  by (simp add: ss_ok_def listening_active_def speech_service_init_def)

lemma ss_ok_step: "ss_ok ss \<Longrightarrow> ss_ok (ss_step voices e ss)"
  by (cases e)
     (auto simp: ss_ok_def listening_active_def start_listening_def stop_listening_def
        recognition_event_def speak_def stop_speaking_def utterance_done_def Let_def
        split: option.splits if_splits rec_event.splits)

lemma vs_ok_init: "vs_ok (vs_init br l)"
  by (simp add: vs_ok_def vs_init_def va_init_def speech_service_init_def)

lemma vs_ok_service:
  "vs_ok st \<Longrightarrow> ss_is_listening ss = ss_is_listening (vs_service st) \<Longrightarrow>
   ss_recognition ss = ss_recognition (vs_service st) \<Longrightarrow> vs_ok (st\<lparr>vs_service := ss\<rparr>)"
  by (simp add: vs_ok_def)

lemma vs_ok_step: "vs_ok st \<Longrightarrow> vs_ok (vs_step e st)"
proof (cases e)
  case (VSRec ev)
  assume "vs_ok st"
  then show ?thesis using VSRec
    by (auto simp: vs_ok_def recognition_event_def split: option.splits rec_event.splits)
next
  case VSMount
  assume "vs_ok st"
  then show ?thesis using VSMount
    by (simp add: vs_ok_def va_mount_def call_is_supported Let_def)
qed (auto simp: vs_ok_def va_rendered_def speak_def utterance_done_def Let_def)

lemma vs_reach_ok: "vs_reach st \<Longrightarrow> vs_ok st"
  by (induction rule: vs_reach.induct) (simp_all add: vs_ok_init vs_ok_step)

lemma restart_while_stopping_fails:
  assumes "ss_recognition ss = Some rc" "rc_phase rc = RIdle" "\<not> ss_is_listening ss"
  shows "snd (start_listening l (stop_listening (fst (start_listening l ss)))) =
           Some (js ''Failed to start speech recognition'')"
  using assms by (simp add: start_listening_def stop_listening_def Let_def)

lemma failed_start_shows_listening:
  assumes "ss_recognition (vs_service st) = Some rc" "rc_phase rc \<noteq> RIdle"
    and "\<not> ss_is_listening (vs_service st)"
  shows "va_listening (vs_va (va_start_listening st)) \<and>
         va_error (vs_va (va_start_listening st)) = js ''Failed to start speech recognition''"
  using assms
  by (simp add: va_start_listening_def start_listening_def is_speech_recognition_supported_def
      va_callback_def Let_def)


section \<open>Properties\<close>

text \<open>C24. The voice controls never appear: \<open>speechService.isSupported()\<close> finds the
  instance's own boolean field \<open>isSupported\<close> before the prototype's method of that name,
  so the mount effect throws a \<open>TypeError\<close>, and no transcript ever reaches the chat.\<close>

lemma voice_controls_never_render:
  "vs_reach st \<Longrightarrow>
     \<not> va_rendered st \<and> va_inputs (vs_va st) = [] \<and>
     (va_mounted (vs_va st) \<longleftrightarrow> va_crashed (vs_va st) = Some is_supported_error)"
  using vs_reach_ok [of st] by (auto simp: vs_ok_def va_rendered_def)

text \<open>C25. Whatever its callers do, the service claims to listen only while the engine is
  active (not while it is stopping or idle), and \<open>speak\<close> never queues a second
  utterance behind the one being spoken.\<close>

lemma service_reach_ok: "ss_reach br ss \<Longrightarrow> ss_ok ss"
  by (induction rule: ss_reach.induct) (simp_all add: ss_ok_init ss_ok_step)

lemma voice_controls_never_render_witness:
  "vs_reach (vs_step VSMicButton (vs_step VSMount (vs_init sample_browser (js ''de'')))) \<and>
   \<not> va_rendered (vs_step VSMicButton (vs_step VSMount (vs_init sample_browser (js ''de'')))) \<and>
   va_inputs (vs_va (vs_step VSMicButton (vs_step VSMount (vs_init sample_browser (js ''de''))))) = [] \<and>
   (va_mounted (vs_va (vs_step VSMicButton (vs_step VSMount (vs_init sample_browser (js ''de''))))) \<longleftrightarrow>
    va_crashed (vs_va (vs_step VSMicButton (vs_step VSMount (vs_init sample_browser (js ''de''))))) =
      Some is_supported_error)"
proof -
  have r: "vs_reach (vs_step VSMicButton (vs_step VSMount (vs_init sample_browser (js ''de''))))"
    by (intro vs_reach.step vs_reach.init)
  show ?thesis using voice_controls_never_render [OF r] r by blast
qed

lemma service_reach_ok_witness:
  "ss_reach sample_browser (ss_step (br_voices sample_browser) SSStop
     (ss_step (br_voices sample_browser) (SSStart (js ''de'')) (speech_service_init sample_browser))) \<and>
   ss_ok (ss_step (br_voices sample_browser) SSStop
     (ss_step (br_voices sample_browser) (SSStart (js ''de'')) (speech_service_init sample_browser)))"
proof -
  have r: "ss_reach sample_browser (ss_step (br_voices sample_browser) SSStop
     (ss_step (br_voices sample_browser) (SSStart (js ''de'')) (speech_service_init sample_browser)))"
    by (intro ss_reach.step ss_reach.init)
  show ?thesis using service_reach_ok [OF r] r by blast
qed

end
