(* ===== verification/CampusViews.thy ===== *)
theory CampusViews
  imports SearchBar Login Weather
begin

text \<open>The campus page (\<open>components/CampusNavigator.tsx\<close>) and the components it lays
  out: the header (\<open>components/Header.tsx\<close>), the sidebar (\<open>components/Sidebar.tsx\<close>),
  the zoomable map (\<open>components/CampusMap.tsx\<close>), and the card view's dispatcher
  (\<open>components/campus/AdvancedCampusView.tsx\<close>), which hosts the chat window. A child
  component's state exists while it is mounted: the navigator replaces its whole main view
  by the building page when a building is selected, and React discards the state of the
  components it unmounts. The model keeps each child's state as an option, re-created on
  the next mount. The header's search bar is commented out in the source, so
  \<open>components/SearchBar.tsx\<close> is rendered nowhere; the header opens the weather and
  events dropdowns and the settings and profile dialogs, whose contents are modelled in
  their own theories.\<close>

section \<open>The campus map\<close>

record campus_map =
  cm_zoom :: rat
  cm_pos :: "rat \<times> rat"
  cm_dragging :: bool
  cm_drag_start :: "rat \<times> rat"
  cm_hovered :: "jstr option"

definition cm_init :: campus_map where
  "cm_init = \<lparr>cm_zoom = 1, cm_pos = (0, 0), cm_dragging = False, cm_drag_start = (0, 0), cm_hovered = None\<rparr>"

definition handle_zoom_in :: "campus_map \<Rightarrow> campus_map" where
  "handle_zoom_in st = st\<lparr>cm_zoom := min (cm_zoom st + 1 / 5) 3\<rparr>"

definition handle_zoom_out :: "campus_map \<Rightarrow> campus_map" where
  "handle_zoom_out st = st\<lparr>cm_zoom := max (cm_zoom st - 1 / 5) (1 / 2)\<rparr>"

definition handle_reset :: "campus_map \<Rightarrow> campus_map" where
  "handle_reset st = st\<lparr>cm_zoom := 1, cm_pos := (0, 0)\<rparr>"

text \<open>\<open>handleMouseDown\<close>: a drag starts only on the map's own element
  (\<open>e.target === mapRef.current\<close>), not on a building.\<close>

definition handle_mouse_down :: "bool \<Rightarrow> rat \<Rightarrow> rat \<Rightarrow> campus_map \<Rightarrow> campus_map" where
  "handle_mouse_down on_map x y st =
     (if on_map then st\<lparr>cm_dragging := True, cm_drag_start := (x - fst (cm_pos st), y - snd (cm_pos st))\<rparr>
      else st)"

definition handle_mouse_move :: "rat \<Rightarrow> rat \<Rightarrow> campus_map \<Rightarrow> campus_map" where
  "handle_mouse_move x y st =
     (if cm_dragging st then st\<lparr>cm_pos := (x - fst (cm_drag_start st), y - snd (cm_drag_start st))\<rparr>
      else st)"

definition handle_mouse_up :: "campus_map \<Rightarrow> campus_map" where
  "handle_mouse_up st = st\<lparr>cm_dragging := False\<rparr>"

definition handle_wheel :: "rat \<Rightarrow> campus_map \<Rightarrow> campus_map" where
  "handle_wheel delta_y st =
     (let delta = (if 0 < delta_y then - 1 / 10 else 1 / 10)
      in st\<lparr>cm_zoom := max (1 / 2) (min 3 (cm_zoom st + delta))\<rparr>)"

text \<open>The zoom label \<open>Math.round(zoom * 100)%\<close>.\<close>

definition zoom_percent :: "campus_map \<Rightarrow> rat" where
  "zoom_percent st = js_round (cm_zoom st * 100)"

definition building_at :: "nat \<Rightarrow> building option" where
  "building_at i = (if i < length buildings then Some (buildings ! i) else None)"

datatype cm_event =
    CMZoomIn
  | CMZoomOut
  | CMReset
  | CMMouseDown bool rat rat
  | CMMouseMove rat rat
  | CMMouseUp
  | CMDocumentMouseUp
  | CMWheel rat
  | CMEnter nat
  | CMLeave
  | CMClick nat

text \<open>One event on the map, with the building passed to \<open>onBuildingClick\<close>, if any: the
  three buttons, the mouse on the map and the document's \<open>mouseup\<close> listener, the wheel,
  and the pointer entering, leaving or clicking the \<open>i\<close>-th building.\<close>

fun cm_step :: "cm_event \<Rightarrow> campus_map \<Rightarrow> campus_map \<times> building option" where
  "cm_step CMZoomIn st = (handle_zoom_in st, None)"
| "cm_step CMZoomOut st = (handle_zoom_out st, None)"
| "cm_step CMReset st = (handle_reset st, None)"
| "cm_step (CMMouseDown on_map x y) st = (handle_mouse_down on_map x y st, None)"
| "cm_step (CMMouseMove x y) st = (handle_mouse_move x y st, None)"
| "cm_step CMMouseUp st = (handle_mouse_up st, None)"
| "cm_step CMDocumentMouseUp st = (st\<lparr>cm_dragging := False\<rparr>, None)"
| "cm_step (CMWheel dy) st = (handle_wheel dy st, None)"
| "cm_step (CMEnter i) st = (case building_at i of Some b \<Rightarrow> st\<lparr>cm_hovered := Some (b_id b)\<rparr> | None \<Rightarrow> st, None)"
| "cm_step CMLeave st = (st\<lparr>cm_hovered := None\<rparr>, None)"
| "cm_step (CMClick i) st = (st, building_at i)"

inductive cm_reach :: "campus_map \<Rightarrow> bool" where
  init: "cm_reach cm_init"
| step: "cm_reach st \<Longrightarrow> cm_reach (fst (cm_step e st))"

section \<open>The sidebar\<close>

record sidebar_state =
  sb_query :: jstr
  sb_category :: jstr

definition sb_init :: sidebar_state where
  "sb_init = \<lparr>sb_query = [], sb_category = js ''all''\<rparr>"

definition sidebar_categories :: "(jstr \<times> jstr) list" where
  "sidebar_categories =
     [(js ''all'', js ''All Buildings''), (js ''academic'', js ''Academic''), (js ''dining'', js ''Dining''),
      (js ''student'', js ''Student Life''), (js ''administrative'', js ''Administrative''),
      (js ''digital'', js ''Digital Services'')]"

text \<open>\<open>matchesCategory\<close>: the lower-cased category contains the chip's id.\<close>

definition matches_category :: "jstr \<Rightarrow> building \<Rightarrow> bool" where
  "matches_category c b \<longleftrightarrow> c = js ''all'' \<or> js_includes (js_lower (b_category b)) c"

text \<open>\<open>filteredBuildings\<close>: \<open>matchesSearch\<close> is the search bar's test, without the
  search bar's limit of five.\<close>

definition sidebar_filtered :: "sidebar_state \<Rightarrow> building list" where
  "sidebar_filtered sb =
     filter (\<lambda>b. building_matches (sb_query sb) b \<and> matches_category (sb_category sb) b) buildings"

definition quick_access :: "building list" where
  "quick_access = filter (\<lambda>b. is_main_building b = Some True) buildings"

section \<open>The header\<close>

record header_state =
  hd_settings :: bool
  hd_profile :: bool
  hd_dropdown :: "jstr option"

definition hd_init :: header_state where
  "hd_init = \<lparr>hd_settings = False, hd_profile = False, hd_dropdown = None\<rparr>"

definition handle_dropdown_toggle :: "jstr \<Rightarrow> header_state \<Rightarrow> header_state" where
  "handle_dropdown_toggle name st =
     st\<lparr>hd_dropdown := (if hd_dropdown st = Some name then None else Some name)\<rparr>"

section \<open>The navigator\<close>

datatype view_mode = Cards | MapMode

text \<open>The keys of \<open>buildingPagesData\<close> (\<open>data/buildingPages.tsx\<close>); the pages' texts are
  not modelled.\<close>

definition building_page_ids :: "jstr list" where
  "building_page_ids =
     [js ''library'', js ''student-center'', js ''cafeteria'', js ''visa-services'', js ''administration'',
      js ''ude-portals'']"

text \<open>The navigator's state, the mounted children's states, the provider states the
  header uses (authentication with the shared \<open>localStorage\<close>, and the language), and the
  router's location.\<close>

record campus_page =
  nv_selected :: "building option"
  nv_sidebar :: bool
  nv_dark :: bool
  nv_width :: int
  nv_mobile :: bool
  nv_view_mode :: view_mode
  nv_map :: "campus_map option"
  nv_side :: "sidebar_state option"
  nv_header :: "header_state option"
  nv_ctx :: auth_ctx
  nv_language :: jstr
  nv_path :: jstr

text \<open>The navigator renders the building page when the selected building has page data.\<close>

definition shows_page :: "campus_page \<Rightarrow> bool" where
  "shows_page st \<longleftrightarrow> (case nv_selected st of Some b \<Rightarrow> b_id b \<in> set building_page_ids | None \<Rightarrow> False)"

definition header_mounted :: "campus_page \<Rightarrow> bool" where
  "header_mounted st \<longleftrightarrow> \<not> shows_page st \<and> \<not> nv_mobile st"

definition map_mounted :: "campus_page \<Rightarrow> bool" where
  "map_mounted st \<longleftrightarrow> \<not> shows_page st \<and> \<not> nv_mobile st \<and> nv_view_mode st = MapMode"

definition cards_mounted :: "campus_page \<Rightarrow> bool" where
  "cards_mounted st \<longleftrightarrow> \<not> shows_page st \<and> (nv_view_mode st = Cards \<or> nv_mobile st)"

text \<open>After a render: a newly mounted child starts from its initial state, an unmounted one
  loses its state.\<close>

definition sync_mounts :: "campus_page \<Rightarrow> campus_page" where
  "sync_mounts st =
     st\<lparr>nv_map := (if map_mounted st then Some (case nv_map st of Some m \<Rightarrow> m | None \<Rightarrow> cm_init) else None),
        nv_side := (if header_mounted st then Some (case nv_side st of Some s \<Rightarrow> s | None \<Rightarrow> sb_init) else None),
        nv_header := (if header_mounted st then Some (case nv_header st of Some h \<Rightarrow> h | None \<Rightarrow> hd_init) else None)\<rparr>"

text \<open>The first render after the mount effects: \<open>isDarkMode\<close> is the parsed saved value
  (a parameter), \<open>isMobile\<close> follows the window width, and the dark-mode effect has
  written the value back.\<close>

definition nv_init :: "auth_ctx \<Rightarrow> jstr \<Rightarrow> bool \<Rightarrow> int \<Rightarrow> campus_page" where
  "nv_init ctx lng dark width =
     sync_mounts
       \<lparr>nv_selected = None, nv_sidebar = False, nv_dark = dark, nv_width = width, nv_mobile = width < 768,
        nv_view_mode = Cards, nv_map = None, nv_side = None, nv_header = None,
        nv_ctx = store_dark dark ctx, nv_language = lng, nv_path = js ''/campus''\<rparr>"

definition handle_building_click :: "building \<Rightarrow> campus_page \<Rightarrow> campus_page" where
  "handle_building_click b st = sync_mounts (st\<lparr>nv_selected := Some b, nv_sidebar := False\<rparr>)"

definition handle_back_to_map :: "campus_page \<Rightarrow> campus_page" where
  "handle_back_to_map st = sync_mounts (st\<lparr>nv_selected := None\<rparr>)"

definition toggle_sidebar :: "campus_page \<Rightarrow> campus_page" where
  "toggle_sidebar st = st\<lparr>nv_sidebar := \<not> nv_sidebar st\<rparr>"

definition nv_toggle_dark :: "campus_page \<Rightarrow> campus_page" where
  "nv_toggle_dark st = st\<lparr>nv_dark := \<not> nv_dark st, nv_ctx := store_dark (\<not> nv_dark st) (nv_ctx st)\<rparr>"

definition set_view_mode :: "view_mode \<Rightarrow> campus_page \<Rightarrow> campus_page" where
  "set_view_mode m st = sync_mounts (st\<lparr>nv_view_mode := m\<rparr>)"

definition nv_resize :: "int \<Rightarrow> campus_page \<Rightarrow> campus_page" where
  "nv_resize w st = sync_mounts (st\<lparr>nv_width := w, nv_mobile := w < 768\<rparr>)"

text \<open>The header's \<open>handleLogout\<close> (\<open>logout()\<close>, then \<open>navigate('/')\<close>) and
  \<open>toggleLanguage\<close>.\<close>

definition header_logout :: "campus_page \<Rightarrow> campus_page" where
  "header_logout st = st\<lparr>nv_ctx := ctx_logout (nv_ctx st), nv_path := js ''/''\<rparr>"

definition header_toggle_language :: "campus_page \<Rightarrow> campus_page" where
  "header_toggle_language st =
     (let (lng, ls) = handle_set_language (if nv_language st = js ''en'' then De else En)
                        (nv_language st, local_storage (ctx_service (nv_ctx st)))
      in st\<lparr>nv_language := lng, nv_ctx := (nv_ctx st)\<lparr>ctx_service := (ctx_service (nv_ctx st))\<lparr>local_storage := ls\<rparr>\<rparr>\<rparr>)"

text \<open>\<open>handleBuildingSelect\<close> of the card view, called by the chat window with a building id.\<close>

definition select_building_by_id :: "jstr \<Rightarrow> campus_page \<Rightarrow> campus_page" where
  "select_building_by_id bid st =
     (case find (\<lambda>b. b_id b = bid) buildings of Some b \<Rightarrow> handle_building_click b st | None \<Rightarrow> st)"

datatype nv_event =
    NVResize int
  | NVMap cm_event
  | NVSidebarQuery jstr
  | NVSidebarCategory nat
  | NVSidebarResult nat
  | NVQuickAccess nat
  | NVSidebarClose
  | NVToggleSidebar
  | NVToggleDark
  | NVViewMode view_mode
  | NVDropdown jstr
  | NVCloseDropdowns
  | NVSettings bool
  | NVProfile bool
  | NVLanguage
  | NVLogout
  | NVCard nat
  | NVChatSelect jstr
  | NVBack

text \<open>An event on the sidebar while it is mounted and open.\<close>

definition sidebar_event :: "nv_event \<Rightarrow> sidebar_state \<Rightarrow> campus_page \<Rightarrow> campus_page" where
  "sidebar_event e s st =
     (case e of
        NVSidebarQuery q \<Rightarrow> st\<lparr>nv_side := Some (s\<lparr>sb_query := q\<rparr>)\<rparr>
      | NVSidebarCategory i \<Rightarrow>
          if i < length sidebar_categories
          then st\<lparr>nv_side := Some (s\<lparr>sb_category := fst (sidebar_categories ! i)\<rparr>)\<rparr> else st
      | NVSidebarResult i \<Rightarrow>
          if i < length (sidebar_filtered s) then handle_building_click (sidebar_filtered s ! i) st else st
      | NVQuickAccess i \<Rightarrow>
          if i < length quick_access then handle_building_click (quick_access ! i) st else st
      | NVSidebarClose \<Rightarrow> st\<lparr>nv_sidebar := False\<rparr>
      | _ \<Rightarrow> st)"

text \<open>An event on the header while it is mounted: the dropdown buttons (weather and
  events), their backdrop, the settings and profile dialogs, the language, dark-mode,
  sidebar and view-mode buttons, and logout.\<close>

definition header_event :: "nv_event \<Rightarrow> header_state \<Rightarrow> campus_page \<Rightarrow> campus_page" where
  "header_event e h st =
     (case e of
        NVDropdown name \<Rightarrow>
          if name = js ''weather'' \<or> name = js ''events''
          then st\<lparr>nv_header := Some (handle_dropdown_toggle name h)\<rparr> else st
      | NVCloseDropdowns \<Rightarrow>
          if hd_dropdown h \<noteq> None then st\<lparr>nv_header := Some (h\<lparr>hd_dropdown := None\<rparr>)\<rparr> else st
      | NVSettings b \<Rightarrow> st\<lparr>nv_header := Some (h\<lparr>hd_settings := b\<rparr>)\<rparr>
      | NVProfile b \<Rightarrow> st\<lparr>nv_header := Some (h\<lparr>hd_profile := b\<rparr>)\<rparr>
      | NVLanguage \<Rightarrow> header_toggle_language st
      | NVLogout \<Rightarrow> header_logout st
      | NVViewMode m \<Rightarrow> set_view_mode m st
      | _ \<Rightarrow> st)"

definition on_sidebar :: "nv_event \<Rightarrow> campus_page \<Rightarrow> campus_page" where
  "on_sidebar e st =
     (case nv_side st of Some s \<Rightarrow> if nv_sidebar st then sidebar_event e s st else st | None \<Rightarrow> st)"

definition on_header :: "nv_event \<Rightarrow> campus_page \<Rightarrow> campus_page" where
  "on_header e st = (case nv_header st of Some h \<Rightarrow> header_event e h st | None \<Rightarrow> st)"

text \<open>One event of the campus page. The sidebar and dark-mode toggles are offered by the
  header and by the card views; a card and the chat window's building selection belong to
  the card view.\<close>

fun nv_event_step :: "nv_event \<Rightarrow> campus_page \<Rightarrow> campus_page" where
  "nv_event_step (NVResize w) st = nv_resize w st"
| "nv_event_step (NVMap ce) st =
     (case nv_map st of
        Some m \<Rightarrow>
          (let (m', clicked) = cm_step ce m; st' = st\<lparr>nv_map := Some m'\<rparr>
           in case clicked of Some b \<Rightarrow> handle_building_click b st' | None \<Rightarrow> st')
      | None \<Rightarrow> st)"
| "nv_event_step NVToggleSidebar st =
     (if header_mounted st \<or> cards_mounted st then toggle_sidebar st else st)"
| "nv_event_step NVToggleDark st =
     (if header_mounted st \<or> cards_mounted st then nv_toggle_dark st else st)"
| "nv_event_step (NVCard i) st =
     (if cards_mounted st then (case building_at i of Some b \<Rightarrow> handle_building_click b st | None \<Rightarrow> st)
      else st)"
| "nv_event_step (NVChatSelect bid) st = (if cards_mounted st then select_building_by_id bid st else st)"
| "nv_event_step NVBack st = (if shows_page st then handle_back_to_map st else st)"
| "nv_event_step (NVSidebarQuery q) st = on_sidebar (NVSidebarQuery q) st"
| "nv_event_step (NVSidebarCategory i) st = on_sidebar (NVSidebarCategory i) st"
| "nv_event_step (NVSidebarResult i) st = on_sidebar (NVSidebarResult i) st"
| "nv_event_step (NVQuickAccess i) st = on_sidebar (NVQuickAccess i) st"
| "nv_event_step NVSidebarClose st = on_sidebar NVSidebarClose st"
| "nv_event_step (NVViewMode m) st = on_header (NVViewMode m) st"
| "nv_event_step (NVDropdown name) st = on_header (NVDropdown name) st"
| "nv_event_step NVCloseDropdowns st = on_header NVCloseDropdowns st"
| "nv_event_step (NVSettings b) st = on_header (NVSettings b) st"
| "nv_event_step (NVProfile b) st = on_header (NVProfile b) st"
| "nv_event_step NVLanguage st = on_header NVLanguage st"
| "nv_event_step NVLogout st = on_header NVLogout st"

text \<open>The page reacts only while the router shows it; after logout it is gone.\<close>

definition nv_step :: "nv_event \<Rightarrow> campus_page \<Rightarrow> campus_page" where
  "nv_step e st = (if nv_path st = js ''/campus'' then nv_event_step e st else st)"

text \<open>The campus page is rendered for a signed-in user of a reachable provider.\<close>

inductive nv_reach :: "campus_page \<Rightarrow> bool" where
  init: "ctx_reach ctx \<Longrightarrow> ctx_user ctx \<noteq> None \<Longrightarrow> nv_reach (nv_init ctx lng dark w)"
| step: "nv_reach st \<Longrightarrow> nv_reach (nv_step e st)"

definition cm_ok :: "campus_map \<Rightarrow> bool" where
  "cm_ok m \<longleftrightarrow> 1 / 2 \<le> cm_zoom m \<and> cm_zoom m \<le> 3"

text \<open>The navigator's invariant: the selection is a building of the table, exactly the
  children that are rendered have a state, \<open>isMobile\<close> follows the width, and the page
  is shown only to a signed-in user.\<close>

definition nv_ok :: "campus_page \<Rightarrow> bool" where
  "nv_ok st \<longleftrightarrow>
     pred_option (\<lambda>b. b \<in> set buildings) (nv_selected st) \<and>
     (nv_map st \<noteq> None \<longleftrightarrow> map_mounted st) \<and> (nv_side st \<noteq> None \<longleftrightarrow> header_mounted st) \<and>
     (nv_header st \<noteq> None \<longleftrightarrow> header_mounted st) \<and> nv_mobile st = (nv_width st < 768) \<and>
     (nv_path st = js ''/campus'' \<longrightarrow> ctx_user (nv_ctx st) \<noteq> None)"

text \<open>A sample session: the demo user signed in, the campus page on a wide window.\<close>

definition demo_ctx :: auth_ctx where
  "demo_ctx = ctx_step (Login (js ''demo@uni-due.de'') (js ''password123'')) (ctx_init [])"

definition campus_sample :: campus_page where
  "campus_sample = nv_init demo_ctx (js ''en'') False 1280"

section \<open>Lemmas\<close>

lemma cm_ok_step: "cm_ok m \<Longrightarrow> cm_ok (fst (cm_step e m))"
  by (cases e)
     (auto simp: cm_ok_def handle_zoom_in_def handle_zoom_out_def handle_reset_def handle_mouse_down_def
        handle_mouse_move_def handle_mouse_up_def handle_wheel_def Let_def split: option.split)

lemma cm_reach_ok: "cm_reach m \<Longrightarrow> cm_ok m"
  by (induction rule: cm_reach.induct) (simp add: cm_ok_def cm_init_def, simp add: cm_ok_step)

lemma zoom_percent_bounds: "cm_ok m \<Longrightarrow> 50 \<le> zoom_percent m \<and> zoom_percent m \<le> 300"
  by (auto simp: cm_ok_def zoom_percent_def js_round_def le_floor_iff floor_le_iff)

lemma drag_moves:
  assumes "cm_dragging m"
  shows "moves \<noteq> [] \<Longrightarrow>
    cm_pos (fold (\<lambda>(x, y) m. handle_mouse_move x y m) moves m) =
      (fst (last moves) - fst (cm_drag_start m), snd (last moves) - snd (cm_drag_start m))"
  using assms
proof (induction moves arbitrary: m)
  case (Cons p ps)
  then show ?case
    by (cases ps) (auto simp: handle_mouse_move_def split: prod.split)
qed simp

lemma drag_follows_pointer:
  "moves \<noteq> [] \<Longrightarrow>
   cm_pos (fold (\<lambda>(x, y) m. handle_mouse_move x y m) moves (handle_mouse_down True x0 y0 m)) =
     (fst (cm_pos m) + (fst (last moves) - x0), snd (cm_pos m) + (snd (last moves) - y0))"
  using drag_moves [of "handle_mouse_down True x0 y0 m" moves] by (simp add: handle_mouse_down_def)

lemma building_ids_have_pages: "b \<in> set buildings \<Longrightarrow> b_id b \<in> set building_page_ids"
  by (auto simp: buildings_def building_page_ids_def building_defs)

lemma campus_map_zoom_bounds:
  "cm_reach m \<Longrightarrow> 1 / 2 \<le> cm_zoom m \<and> cm_zoom m \<le> 3 \<and> 50 \<le> zoom_percent m \<and> zoom_percent m \<le> 300"
  using cm_reach_ok [of m] zoom_percent_bounds [of m] by (simp add: cm_ok_def)

lemma building_categories:
  "map b_category buildings =
     [js ''Academic Resources'', js ''Student Life'', js ''Dining'', js ''International Support'',
      js ''Administrative Services'', js ''Digital Services'']"
  by (simp add: buildings_def library_def student_center_def cafeteria_def visa_services_def
      administration_def ude_portals_def)

lemma sidebar_category_counts:
  "map (\<lambda>b. length (filter (\<lambda>c. matches_category c b) (tl (map fst sidebar_categories)))) buildings =
     [1, 1, 1, 0, 1, 1]"
proof -
  have "map (\<lambda>b. length (filter (\<lambda>c. matches_category c b) (tl (map fst sidebar_categories)))) buildings =
        map (\<lambda>cat. length (filter (\<lambda>c. c = js ''all'' \<or> js_includes (js_lower cat) c)
                                   (tl (map fst sidebar_categories)))) (map b_category buildings)"
    by (simp add: matches_category_def comp_def)
  also have "\<dots> = [1, 1, 1, 0, 1, 1]"
    unfolding building_categories
    by (simp add: sidebar_categories_def js_def js_lower_def js_lower_cu_def js_includes_def
        index_of_code)
  finally show ?thesis .
qed

lemma mounted_sync [simp]:
  "shows_page (sync_mounts st) = shows_page st" "header_mounted (sync_mounts st) = header_mounted st"
  "map_mounted (sync_mounts st) = map_mounted st" "cards_mounted (sync_mounts st) = cards_mounted st"
  by (simp_all add: sync_mounts_def shows_page_def header_mounted_def map_mounted_def cards_mounted_def)

lemma sync_fields [simp]:
  "nv_selected (sync_mounts st) = nv_selected st" "nv_width (sync_mounts st) = nv_width st"
  "nv_mobile (sync_mounts st) = nv_mobile st" "nv_path (sync_mounts st) = nv_path st"
  "nv_ctx (sync_mounts st) = nv_ctx st" "nv_view_mode (sync_mounts st) = nv_view_mode st"
  by (simp_all add: sync_mounts_def)

lemma sync_mounts_ok:
  "pred_option (\<lambda>b. b \<in> set buildings) (nv_selected st) \<Longrightarrow> nv_mobile st = (nv_width st < 768) \<Longrightarrow>
   (nv_path st = js ''/campus'' \<longrightarrow> ctx_user (nv_ctx st) \<noteq> None) \<Longrightarrow> nv_ok (sync_mounts st)"
  by (simp add: nv_ok_def) (simp add: sync_mounts_def)

lemma nv_ok_click: "nv_ok st \<Longrightarrow> b \<in> set buildings \<Longrightarrow> nv_ok (handle_building_click b st)"
  unfolding handle_building_click_def by (rule sync_mounts_ok) (simp_all add: nv_ok_def)

lemma mounted_children [simp]:
  "shows_page (st\<lparr>nv_map := x\<rparr>) = shows_page st" "header_mounted (st\<lparr>nv_map := x\<rparr>) = header_mounted st"
  "map_mounted (st\<lparr>nv_map := x\<rparr>) = map_mounted st"
  "shows_page (st\<lparr>nv_side := y\<rparr>) = shows_page st" "header_mounted (st\<lparr>nv_side := y\<rparr>) = header_mounted st"
  "map_mounted (st\<lparr>nv_side := y\<rparr>) = map_mounted st"
  "shows_page (st\<lparr>nv_header := z\<rparr>) = shows_page st" "header_mounted (st\<lparr>nv_header := z\<rparr>) = header_mounted st"
  "map_mounted (st\<lparr>nv_header := z\<rparr>) = map_mounted st"
  by (simp_all add: shows_page_def header_mounted_def map_mounted_def)

lemma building_at_set: "building_at i = Some b \<Longrightarrow> b \<in> set buildings"
  by (auto simp: building_at_def split: if_splits)

lemma nv_ok_map:
  assumes "nv_ok st" "nv_map st = Some m"
  shows "nv_ok (nv_event_step (NVMap ce) st)"
proof -
  obtain m' c where mc: "cm_step ce m = (m', c)" by fastforce
  have c: "c = None \<or> c = building_at (case ce of CMClick i \<Rightarrow> i | _ \<Rightarrow> 0)"
    using mc by (cases ce) auto
  have ok': "nv_ok (st\<lparr>nv_map := Some m'\<rparr>)"
    using assms by (simp add: nv_ok_def)
  show ?thesis
  proof (cases c)
    case (Some b)
    then have "b \<in> set buildings" using c by (auto intro: building_at_set)
    then show ?thesis using assms mc Some nv_ok_click [OF ok'] by simp
  qed (use assms mc ok' in simp)
qed

lemma find_buildings: "find (\<lambda>b. b_id b = bid) buildings = Some b \<Longrightarrow> b \<in> set buildings"
  by (metis find_Some_iff nth_mem)

lemma nv_ok_plain [simp]:
  "nv_ok (st\<lparr>nv_sidebar := x\<rparr>) = nv_ok st"
  "ctx_user c = ctx_user (nv_ctx st) \<Longrightarrow> nv_ok (st\<lparr>nv_ctx := c\<rparr>) = nv_ok st"
  "nv_ok (st\<lparr>nv_dark := d\<rparr>) = nv_ok st"
  "nv_ok (st\<lparr>nv_language := l\<rparr>) = nv_ok st"
  by (simp_all add: nv_ok_def shows_page_def header_mounted_def map_mounted_def)

lemma store_dark_user [simp]: "ctx_user (store_dark d ctx) = ctx_user ctx"
  by (simp add: store_dark_def)

lemma nv_ok_resize: "nv_ok st \<Longrightarrow> nv_ok (nv_resize w st)"
  unfolding nv_resize_def by (rule sync_mounts_ok) (simp_all add: nv_ok_def)

lemma nv_ok_back: "nv_ok st \<Longrightarrow> nv_ok (handle_back_to_map st)"
  unfolding handle_back_to_map_def by (rule sync_mounts_ok) (simp_all add: nv_ok_def)

lemma nv_ok_view_mode: "nv_ok st \<Longrightarrow> nv_ok (set_view_mode m st)"
  unfolding set_view_mode_def by (rule sync_mounts_ok) (simp_all add: nv_ok_def)

lemma nv_ok_select: "nv_ok st \<Longrightarrow> nv_ok (select_building_by_id bid st)"
  by (auto simp: select_building_by_id_def nv_ok_click find_buildings split: option.split)

lemma nv_ok_language: "nv_ok st \<Longrightarrow> nv_ok (header_toggle_language st)"
  by (simp add: header_toggle_language_def Let_def case_prod_unfold)

lemma nv_ok_logout: "nv_ok st \<Longrightarrow> nv_ok (header_logout st)"
  by (simp add: nv_ok_def header_logout_def ctx_logout_def shows_page_def header_mounted_def
      map_mounted_def js_def)

lemma filtered_in_buildings: "i < length (sidebar_filtered s) \<Longrightarrow> sidebar_filtered s ! i \<in> set buildings"
  using nth_mem [of i "sidebar_filtered s"] by (auto simp: sidebar_filtered_def)

lemma quick_in_buildings: "i < length quick_access \<Longrightarrow> quick_access ! i \<in> set buildings"
  using nth_mem [of i quick_access] by (auto simp: quick_access_def)

lemma nv_ok_side_update: "nv_ok st \<Longrightarrow> nv_side st \<noteq> None \<Longrightarrow> nv_ok (st\<lparr>nv_side := Some s'\<rparr>)"
  by (simp add: nv_ok_def)

lemma nv_ok_header_update: "nv_ok st \<Longrightarrow> nv_header st \<noteq> None \<Longrightarrow> nv_ok (st\<lparr>nv_header := Some h'\<rparr>)"
  by (simp add: nv_ok_def)

lemma nv_ok_sidebar_event:
  assumes "nv_ok st" "nv_side st = Some s"
  shows "nv_ok (sidebar_event e s st)"
  using assms
  by (cases e)
     (simp_all add: sidebar_event_def nv_ok_side_update nv_ok_click filtered_in_buildings quick_in_buildings)

lemma nv_ok_header_event:
  assumes "nv_ok st" "nv_header st = Some h"
  shows "nv_ok (header_event e h st)"
  using assms
  by (cases e)
     (simp_all add: header_event_def nv_ok_header_update nv_ok_language nv_ok_logout nv_ok_view_mode)

lemma nv_ok_step: "nv_ok st \<Longrightarrow> nv_ok (nv_step e st)"
proof (cases e)
  case (NVMap ce)
  assume ok: "nv_ok st"
  then show ?thesis using NVMap nv_ok_map [OF ok] by (auto simp: nv_step_def split: option.split)
qed (auto simp: nv_step_def on_sidebar_def on_header_def nv_ok_resize nv_ok_back nv_ok_select
       nv_ok_sidebar_event nv_ok_header_event nv_ok_click toggle_sidebar_def nv_toggle_dark_def
       dest: building_at_set split: option.split)

lemma nv_ok_init: "ctx_user ctx \<noteq> None \<Longrightarrow> nv_ok (nv_init ctx lng dark w)"
  unfolding nv_init_def by (rule sync_mounts_ok) (simp_all add: js_def)

lemma nv_reach_ok: "nv_reach st \<Longrightarrow> nv_ok st"
  by (induction rule: nv_reach.induct) (simp_all add: nv_ok_init nv_ok_step)

lemma demo_ctx_reach: "ctx_reach demo_ctx"
  unfolding demo_ctx_def by (rule ctx_reach.step [OF ctx_reach.init])

lemma demo_ctx_user: "ctx_user demo_ctx \<noteq> None"
  by (simp add: demo_ctx_def model_simps demo_user_data_def)

lemma campus_sample_reach: "nv_reach campus_sample"
  unfolding campus_sample_def by (rule nv_reach.init [OF demo_ctx_reach demo_ctx_user])


section \<open>Properties\<close>

text \<open>C26. Whichever way a building is chosen (a map marker, a sidebar result or quick
  link, a card, or the chat window's building action), the navigator shows that
  building's page: every building of the table has page data. The campus page is shown
  only to a signed-in user.\<close>

lemma selected_building_opens_page:
  "nv_reach st \<Longrightarrow>
     (nv_selected st \<noteq> None \<longleftrightarrow> shows_page st) \<and>
     (nv_path st = js ''/campus'' \<longrightarrow> ctx_user (nv_ctx st) \<noteq> None)"
  using nv_reach_ok [of st] building_ids_have_pages
  by (auto simp: nv_ok_def shows_page_def split: option.splits)

text \<open>C27. Opening a building from the map and going back discards the map's zoom and
  pan and the sidebar's search: the building page replaces the main view, which unmounts
  the map and the sidebar, and they mount again from their initial state.\<close>

lemma back_resets_map_and_search:
  assumes "nv_reach st" "map_mounted st" "nv_path st = js ''/campus''" "i < length buildings"
  shows "nv_map (nv_step NVBack (nv_step (NVMap (CMClick i)) st)) = Some cm_init \<and>
         nv_side (nv_step NVBack (nv_step (NVMap (CMClick i)) st)) = Some sb_init"
proof -
  have ok: "nv_ok st" using nv_reach_ok [OF assms(1)] .
  then obtain m where m: "nv_map st = Some m" using assms(2) by (auto simp: nv_ok_def)
  have b: "buildings ! i \<in> set buildings" using assms(4) by simp
  then have page: "b_id (buildings ! i) \<in> set building_page_ids" by (rule building_ids_have_pages)
  have bi: "building_at i = Some (buildings ! i)" using assms(4) by (simp add: building_at_def)
  show ?thesis
    using assms(2,3) m bi page
    by (simp add: nv_step_def handle_building_click_def handle_back_to_map_def sync_mounts_def
        shows_page_def map_mounted_def header_mounted_def)
qed

text \<open>C28. Logging out from the header leaves the campus page for the root path, where
  the router renders the login page.\<close>

lemma header_logout_shows_login:
  assumes "nv_reach st" "nv_path st = js ''/campus''" "header_mounted st"
  shows "resolve 3 (nv_path (nv_step NVLogout st)) (nv_ctx (nv_step NVLogout st)) = Some VLogin"
proof -
  obtain h where "nv_header st = Some h" using nv_reach_ok [OF assms(1)] assms(3) by (auto simp: nv_ok_def)
  then show ?thesis
    using assms(2)
    by (simp add: nv_step_def on_header_def header_event_def header_logout_def ctx_logout_def
        eval_nat_numeral route_def js_def)
qed

lemma selected_building_opens_page_witness:
  "nv_reach (nv_step (NVCard 0) campus_sample) \<and>
   (nv_selected (nv_step (NVCard 0) campus_sample) \<noteq> None \<longleftrightarrow> shows_page (nv_step (NVCard 0) campus_sample)) \<and>
   nv_path (nv_step (NVCard 0) campus_sample) = js ''/campus'' \<and>
   ctx_user (nv_ctx (nv_step (NVCard 0) campus_sample)) \<noteq> None"
proof -
  have r: "nv_reach (nv_step (NVCard 0) campus_sample)" by (rule nv_reach.step [OF campus_sample_reach])
  have p: "nv_path (nv_step (NVCard 0) campus_sample) = js ''/campus''"
    by (simp add: nv_step_def campus_sample_def nv_init_def sync_mounts_def handle_building_click_def
        building_at_def)
  show ?thesis using selected_building_opens_page [OF r] r p by blast
qed

lemma back_resets_map_and_search_witness:
  "nv_reach (nv_step (NVViewMode MapMode) campus_sample) \<and>
   map_mounted (nv_step (NVViewMode MapMode) campus_sample) \<and>
   nv_path (nv_step (NVViewMode MapMode) campus_sample) = js ''/campus'' \<and> 0 < length buildings \<and>
   nv_map (nv_step NVBack (nv_step (NVMap (CMClick 0)) (nv_step (NVViewMode MapMode) campus_sample))) =
     Some cm_init \<and>
   nv_side (nv_step NVBack (nv_step (NVMap (CMClick 0)) (nv_step (NVViewMode MapMode) campus_sample))) =
     Some sb_init"
proof -
  have r: "nv_reach (nv_step (NVViewMode MapMode) campus_sample)" by (rule nv_reach.step [OF campus_sample_reach])
  have p: "nv_path campus_sample = js ''/campus''" and h: "nv_header campus_sample = Some hd_init"
    and mb: "\<not> nv_mobile campus_sample" and sel: "nv_selected campus_sample = None"
    by (simp_all add: campus_sample_def nv_init_def sync_mounts_def header_mounted_def shows_page_def)
  have m: "map_mounted (nv_step (NVViewMode MapMode) campus_sample)"
    and p': "nv_path (nv_step (NVViewMode MapMode) campus_sample) = js ''/campus''"
    using p h mb sel
    by (simp_all add: nv_step_def on_header_def header_event_def set_view_mode_def map_mounted_def shows_page_def)
  have l: "0 < length buildings" by (simp add: buildings_def)
  show ?thesis using back_resets_map_and_search [OF r m p' l] r m p' l by blast
qed

lemma header_logout_shows_login_witness:
  "nv_reach campus_sample \<and> nv_path campus_sample = js ''/campus'' \<and> header_mounted campus_sample \<and>
   resolve 3 (nv_path (nv_step NVLogout campus_sample)) (nv_ctx (nv_step NVLogout campus_sample)) = Some VLogin"
proof -
  have p: "nv_path campus_sample = js ''/campus''" and hm: "header_mounted campus_sample"
    by (simp_all add: campus_sample_def nv_init_def sync_mounts_def header_mounted_def shows_page_def)
  show ?thesis using header_logout_shows_login [OF campus_sample_reach p hm] campus_sample_reach p hm by blast
qed

end
