(* ===== verification/CardViews.thy ===== *)
theory CardViews
  imports CampusViews
begin

text \<open>The card views of the campus page: the layout switch of
  \<open>components/campus/AdvancedCampusView.tsx\<close>, which changes between the desktop and the
  mobile layout through a 150 ms timer, and the two layouts
  \<open>components/campus/DesktopCampusView.tsx\<close> and \<open>components/campus/MobileCampusView.tsx\<close>,
  which share their search, category filter, widget panel and building cards; the mobile
  layout adds a carousel position.\<close>

section \<open>The layout switch\<close>

text \<open>The switch's state: \<open>isMobile\<close>, \<open>isTransitioning\<close>, the window width, and the
  pending timers with the value each will set (timers of equal delay fire in the order they
  were set).\<close>

record layout_switch =
  ls_mobile :: bool
  ls_transitioning :: bool
  ls_width :: int
  ls_timers :: "bool list"

text \<open>\<open>checkMobile\<close>, with the \<open>isMobile\<close> of the effect run that registered it, which
  is the current one: the effect on \<open>[isMobile]\<close> registers a new listener after every
  change.\<close>

definition check_mobile :: "layout_switch \<Rightarrow> layout_switch" where
  "check_mobile st =
     (let new_is_mobile = ls_width st < 768
      in if new_is_mobile \<noteq> ls_mobile st
         then st\<lparr>ls_transitioning := True, ls_timers := ls_timers st @ [new_is_mobile]\<rparr>
         else st)"

text \<open>The first render and the mount effect.\<close>

definition ls_init :: "int \<Rightarrow> layout_switch" where
  "ls_init w = check_mobile \<lparr>ls_mobile = False, ls_transitioning = False, ls_width = w, ls_timers = []\<rparr>"

text \<open>A timer fires: \<open>setIsMobile(v)\<close> and \<open>setIsTransitioning(false)\<close>; a change of
  \<open>isMobile\<close> reruns the effect, which calls \<open>checkMobile()\<close> at once.\<close>

definition fire_layout_timer :: "layout_switch \<Rightarrow> layout_switch" where
  "fire_layout_timer st =
     (case ls_timers st of
        [] \<Rightarrow> st
      | v # vs \<Rightarrow>
          let st1 = st\<lparr>ls_mobile := v, ls_transitioning := False, ls_timers := vs\<rparr>
          in if v \<noteq> ls_mobile st then check_mobile st1 else st1)"

datatype ls_event = LSResize int | LSTimer

fun ls_step :: "ls_event \<Rightarrow> layout_switch \<Rightarrow> layout_switch" where
  "ls_step (LSResize w) st = check_mobile (st\<lparr>ls_width := w\<rparr>)"
| "ls_step LSTimer st = fire_layout_timer st"

inductive ls_reach :: "layout_switch \<Rightarrow> bool" where
  init: "ls_reach (ls_init w)"
| step: "ls_reach st \<Longrightarrow> ls_reach (ls_step e st)"

text \<open>What the switch renders: the spinner while transitioning, else one of the layouts.\<close>

datatype layout = LSpinner | LMobile | LDesktop

definition ls_layout :: "layout_switch \<Rightarrow> layout" where
  "ls_layout st = (if ls_transitioning st then LSpinner else if ls_mobile st then LMobile else LDesktop)"

definition ls_ok :: "layout_switch \<Rightarrow> bool" where
  "ls_ok st \<longleftrightarrow>
     (if ls_timers st = [] then ls_mobile st = (ls_width st < 768) \<and> \<not> ls_transitioning st
      else last (ls_timers st) = (ls_width st < 768) \<or> ls_mobile st = (ls_width st < 768))"

text \<open>The timers still to fire, weighted: one for each, and one more for each that will
  set the value opposite to the window's.\<close>

definition timer_weight :: "layout_switch \<Rightarrow> nat" where
  "timer_weight st = length (ls_timers st) + length (filter (\<lambda>v. v \<noteq> (ls_width st < 768)) (ls_timers st))"

section \<open>The card layouts\<close>

text \<open>The state both layouts keep (the carousel position only matters in the mobile
  layout).\<close>

record card_view =
  cv_query :: jstr
  cv_category :: jstr
  cv_filters :: bool
  cv_widget :: "jstr option"
  cv_settings :: bool
  cv_notifications :: bool
  cv_index :: nat

definition cv_init :: card_view where
  "cv_init =
     \<lparr>cv_query = [], cv_category = js ''all'', cv_filters = False, cv_widget = None, cv_settings = False,
      cv_notifications = False, cv_index = 0\<rparr>"

definition card_categories :: "(jstr \<times> jstr) list" where
  "card_categories =
     [(js ''all'', js ''All''), (js ''academic'', js ''Academic''), (js ''dining'', js ''Dining''),
      (js ''student'', js ''Student Life''), (js ''administrative'', js ''Admin''), (js ''digital'', js ''Digital'')]"

text \<open>\<open>filteredBuildings\<close>: the sidebar's filter over the \<open>buildings\<close> prop, which the
  card view passes as the building table.\<close>

definition cards_filtered :: "card_view \<Rightarrow> building list" where
  "cards_filtered cv =
     filter (\<lambda>b. building_matches (cv_query cv) b \<and> matches_category (cv_category cv) b) buildings"

definition card_widget_toggle :: "jstr \<Rightarrow> card_view \<Rightarrow> card_view" where
  "card_widget_toggle name cv =
     (if cv_widget cv = Some name then cv\<lparr>cv_widget := None\<rparr>
      else cv\<lparr>cv_widget := Some name, cv_notifications := False\<rparr>)"

definition card_notifications_toggle :: "card_view \<Rightarrow> card_view" where
  "card_notifications_toggle cv =
     (let cv1 = cv\<lparr>cv_notifications := \<not> cv_notifications cv\<rparr>
      in if \<not> cv_notifications cv \<and> cv_widget cv \<noteq> None then cv1\<lparr>cv_widget := None\<rparr> else cv1)"

text \<open>The components mounted in the widget panel.\<close>

datatype panel = PWeather | PEvents | PNotifications

definition card_panels :: "card_view \<Rightarrow> panel list" where
  "card_panels cv =
     (if cv_widget cv = Some (js ''weather'') then [PWeather] else []) @
     (if cv_widget cv = Some (js ''events'') then [PEvents] else []) @
     (if cv_notifications cv then [PNotifications] else [])"

definition found_label :: "nat \<Rightarrow> jstr" where
  "found_label n = js_digits n @ js '' '' @ (if n = 1 then js ''building'' else js ''buildings'') @ js '' found''"

text \<open>The services of a card: the first \<open>k\<close> (three on the desktop, four on the
  mobile cards), and how many more.\<close>

definition services_preview :: "nat \<Rightarrow> building \<Rightarrow> jstr list \<times> jstr option" where
  "services_preview k b =
     (take k (b_services b),
      if k < length (b_services b)
      then Some (js ''+'' @ js_digits (length (b_services b) - k) @ js '' more services'') else None)"

text \<open>The mobile carousel: the scroll container's children are the cards, or the
  no-results message.\<close>

definition carousel_children :: "card_view \<Rightarrow> nat" where
  "carousel_children cv = max 1 (length (cards_filtered cv))"

text \<open>\<open>handleScroll\<close>, given the index of the child whose centre is closest to the
  container's.\<close>

definition handle_scroll :: "nat \<Rightarrow> card_view \<Rightarrow> card_view" where
  "handle_scroll closest cv =
     (if closest < carousel_children cv \<and> closest \<noteq> cv_index cv then cv\<lparr>cv_index := closest\<rparr> else cv)"

definition scroll_to_building :: "nat \<Rightarrow> card_view \<Rightarrow> card_view" where
  "scroll_to_building i cv = (if i < carousel_children cv then cv\<lparr>cv_index := i\<rparr> else cv)"

record carousel_indicator =
  ci_dots :: "bool list"
  ci_more :: bool
  ci_current :: "(jstr \<times> nat \<times> nat) option"

definition carousel_indicator :: "card_view \<Rightarrow> carousel_indicator" where
  "carousel_indicator cv =
     (let fs = cards_filtered cv
      in \<lparr>ci_dots = map (\<lambda>i. i = cv_index cv) [0..<min 5 (length fs)],
          ci_more = 5 < length fs,
          ci_current = (if cv_index cv < length fs
                        then Some (b_name (fs ! cv_index cv), cv_index cv + 1, length fs) else None)\<rparr>)"

datatype cv_event =
    CVQuery jstr
  | CVToggleFilters
  | CVCategory nat
  | CVWidget jstr
  | CVNotifications
  | CVSettings bool
  | CVCard nat
  | CVScroll nat
  | CVDot nat

text \<open>One event of a layout (\<open>mobile\<close> for the mobile one), with the building passed to
  \<open>onBuildingClick\<close>, if any: the search input, the filter button and the category chips it
  shows, the weather, events and notification buttons, the settings dialog, a card, and
  the mobile carousel's scrolling and dots (the first five).\<close>

fun cv_step :: "bool \<Rightarrow> cv_event \<Rightarrow> card_view \<Rightarrow> card_view \<times> building option" where
  "cv_step mobile (CVQuery q) cv = (cv\<lparr>cv_query := q\<rparr>, None)"
| "cv_step mobile CVToggleFilters cv = (cv\<lparr>cv_filters := \<not> cv_filters cv\<rparr>, None)"
| "cv_step mobile (CVCategory i) cv =
     (if cv_filters cv \<and> i < length card_categories
      then cv\<lparr>cv_category := fst (card_categories ! i)\<rparr> else cv, None)"
| "cv_step mobile (CVWidget name) cv =
     (if name = js ''weather'' \<or> name = js ''events'' then card_widget_toggle name cv else cv, None)"
| "cv_step mobile CVNotifications cv = (card_notifications_toggle cv, None)"
| "cv_step mobile (CVSettings b) cv = (cv\<lparr>cv_settings := b\<rparr>, None)"
| "cv_step mobile (CVCard i) cv =
     (cv, if i < length (cards_filtered cv) then Some (cards_filtered cv ! i) else None)"
| "cv_step mobile (CVScroll k) cv = (if mobile then handle_scroll k cv else cv, None)"
| "cv_step mobile (CVDot i) cv =
     (if mobile \<and> i < min 5 (length (cards_filtered cv)) then scroll_to_building i cv else cv, None)"

text \<open>A sequence of events of one layout.\<close>

definition cv_run :: "bool \<Rightarrow> cv_event list \<Rightarrow> card_view \<Rightarrow> card_view" where
  "cv_run mobile es cv = foldl (\<lambda>c e. fst (cv_step mobile e c)) cv es"

inductive cv_reach :: "bool \<Rightarrow> card_view \<Rightarrow> bool" where
  init: "cv_reach mobile cv_init"
| step: "cv_reach mobile cv \<Longrightarrow> cv_reach mobile (fst (cv_step mobile e cv))"

text \<open>At most one widget panel is open: a widget or the notifications.\<close>

definition cv_ok :: "card_view \<Rightarrow> bool" where
  "cv_ok cv \<longleftrightarrow> \<not> (cv_widget cv \<noteq> None \<and> cv_notifications cv)"

section \<open>The card view inside the campus page\<close>

text \<open>\<open>CampusNavigator\<close> renders \<open>AdvancedCampusView\<close> when the cards are mounted;
  the switch renders the spinner while transitioning, and else the layout keyed by
  \<open>isMobile\<close>, so the layout's state is discarded whenever the spinner shows or the
  key changes. The page's state, the switch's state if it is mounted, and the layout's
  state with its key if it is mounted. (The exit and enter animations of
  \<open>AnimatePresence\<close> are not modelled.)\<close>

record campus_app =
  ap_page :: campus_page
  ap_switch :: "layout_switch option"
  ap_cards :: "(bool \<times> card_view) option"

text \<open>React's reconciliation after a render: a child that is rendered keeps its state
  if it was rendered before under the same key, and starts from its initial state
  otherwise; a child that is not rendered loses it.\<close>

definition sync_cards :: "campus_app \<Rightarrow> campus_app" where
  "sync_cards ap =
     (let pg = ap_page ap;
          sw = (if cards_mounted pg \<and> nv_path pg = js ''/campus''
                then Some (case ap_switch ap of Some s \<Rightarrow> s | None \<Rightarrow> ls_init (nv_width pg)) else None)
      in ap\<lparr>ap_switch := sw,
            ap_cards := (case sw of
                           None \<Rightarrow> None
                         | Some s \<Rightarrow>
                             if ls_transitioning s then None
                             else case ap_cards ap of
                                    Some (k, c) \<Rightarrow> if k = ls_mobile s then Some (k, c) else Some (ls_mobile s, cv_init)
                                  | None \<Rightarrow> Some (ls_mobile s, cv_init))\<rparr>)"

definition ap_init :: "auth_ctx \<Rightarrow> jstr \<Rightarrow> bool \<Rightarrow> int \<Rightarrow> campus_app" where
  "ap_init ctx lng dark w = sync_cards \<lparr>ap_page = nv_init ctx lng dark w, ap_switch = None, ap_cards = None\<rparr>"

datatype app_event = APNav nv_event | APLayoutTimer | APCards cv_event

text \<open>An event of the page (a window resize also reaches the switch's listener), a
  timer of the switch (a timer of an unmounted switch sets no state), or an event of the
  mounted layout, whose \<open>onBuildingClick\<close> is the page's \<open>handleBuildingClick\<close>.\<close>

fun ap_step :: "app_event \<Rightarrow> campus_app \<Rightarrow> campus_app" where
  "ap_step (APNav e) ap =
     sync_cards
       (ap\<lparr>ap_page := nv_step e (ap_page ap),
           ap_switch := (case e of NVResize w \<Rightarrow> map_option (ls_step (LSResize w)) (ap_switch ap)
                                | _ \<Rightarrow> ap_switch ap)\<rparr>)"
| "ap_step APLayoutTimer ap = sync_cards (ap\<lparr>ap_switch := map_option fire_layout_timer (ap_switch ap)\<rparr>)"
| "ap_step (APCards e) ap =
     (case ap_cards ap of
        None \<Rightarrow> ap
      | Some (k, c) \<Rightarrow>
          (case cv_step k e c of
             (c', None) \<Rightarrow> ap\<lparr>ap_cards := Some (k, c')\<rparr>
           | (c', Some b) \<Rightarrow>
               sync_cards (ap\<lparr>ap_page := handle_building_click b (ap_page ap), ap_cards := Some (k, c')\<rparr>)))"

inductive ap_reach :: "campus_app \<Rightarrow> bool" where
  init: "ctx_reach ctx \<Longrightarrow> ctx_user ctx \<noteq> None \<Longrightarrow> ap_reach (ap_init ctx lng dark w)"
| step: "ap_reach ap \<Longrightarrow> ap_reach (ap_step e ap)"

text \<open>The composition's invariant: the switch is mounted exactly with the cards, it reads
  the page's width, and the layout is mounted only when the switch shows it, under the
  switch's key.\<close>

definition ap_ok :: "campus_app \<Rightarrow> bool" where
  "ap_ok ap \<longleftrightarrow>
     (ap_switch ap \<noteq> None \<longleftrightarrow> cards_mounted (ap_page ap) \<and> nv_path (ap_page ap) = js ''/campus'') \<and>
     pred_option (\<lambda>s. ls_ok s \<and> ls_width s = nv_width (ap_page ap)) (ap_switch ap) \<and>
     (case ap_cards ap of
        None \<Rightarrow> True
      | Some (k, c) \<Rightarrow>
          cv_ok c \<and> (case ap_switch ap of Some s \<Rightarrow> \<not> ls_transitioning s \<and> k = ls_mobile s | None \<Rightarrow> False))"

text \<open>The campus page of the demo account in a 1280 pixel window.\<close>

definition ap_sample :: campus_app where
  "ap_sample = ap_init demo_ctx (js ''en'') False 1280"

section \<open>Lemmas\<close>

lemma ls_ok_check:
  "(ls_timers st = [] \<longrightarrow> \<not> ls_transitioning st) \<Longrightarrow> ls_ok (check_mobile st)"
  by (auto simp: ls_ok_def check_mobile_def Let_def)

lemma ls_ok_init: "ls_ok (ls_init w)"
  unfolding ls_init_def by (rule ls_ok_check) simp

lemma ls_ok_resize: "ls_ok st \<Longrightarrow> ls_ok (check_mobile (st\<lparr>ls_width := w\<rparr>))"
  by (rule ls_ok_check) (simp add: ls_ok_def split: if_splits)

lemma ls_ok_fire: "ls_ok st \<Longrightarrow> ls_ok (fire_layout_timer st)"
proof (cases "ls_timers st")
  case (Cons v vs)
  assume ok: "ls_ok st"
  show ?thesis
  proof (cases "v \<noteq> ls_mobile st")
    case True
    then show ?thesis using Cons by (simp add: fire_layout_timer_def Let_def ls_ok_check)
  next
    case False
    then show ?thesis using Cons ok by (cases vs) (auto simp: fire_layout_timer_def ls_ok_def)
  qed
qed (simp add: fire_layout_timer_def)

lemma ls_reach_ok: "ls_reach st \<Longrightarrow> ls_ok st"
proof (induction rule: ls_reach.induct)
  case (step st e)
  then show ?case by (cases e) (simp_all add: ls_ok_resize ls_ok_fire)
qed (rule ls_ok_init)

lemma fire_weight:
  "ls_timers st \<noteq> [] \<Longrightarrow> timer_weight (fire_layout_timer st) < timer_weight st"
  by (cases "ls_timers st")
     (auto simp: fire_layout_timer_def timer_weight_def check_mobile_def Let_def)

lemma fire_width [simp]: "ls_width (fire_layout_timer st) = ls_width st"
  by (auto simp: fire_layout_timer_def check_mobile_def Let_def split: list.split)

lemma fire_width_funpow [simp]: "ls_width ((fire_layout_timer ^^ n) st) = ls_width st"
  by (induction n) simp_all

lemma fire_ok_funpow: "ls_ok st \<Longrightarrow> ls_ok ((fire_layout_timer ^^ n) st)"
  by (induction n) (simp_all add: ls_ok_fire)

lemma timers_drain:
  "timer_weight st \<le> n \<Longrightarrow> ls_timers ((fire_layout_timer ^^ n) st) = []"
proof (induction n arbitrary: st)
  case 0
  then show ?case by (simp add: timer_weight_def)
next
  case (Suc n)
  show ?case
  proof (cases "ls_timers st = []")
    case True
    then have "fire_layout_timer st = st" by (simp add: fire_layout_timer_def)
    then have "(fire_layout_timer ^^ m) st = st" for m by (induction m) simp_all
    from this [of "Suc n"] show ?thesis using True by (simp del: funpow.simps)
  next
    case False
    then have "timer_weight (fire_layout_timer st) \<le> n" using fire_weight [of st] Suc.prems by simp
    then show ?thesis using Suc.IH by (simp add: funpow_Suc_right del: funpow.simps)
  qed
qed

lemma cv_ok_step: "cv_ok cv \<Longrightarrow> cv_ok (fst (cv_step m e cv))"
  by (cases e)
     (auto simp: cv_ok_def card_widget_toggle_def card_notifications_toggle_def handle_scroll_def
        scroll_to_building_def Let_def)

lemma cv_reach_ok: "cv_reach m cv \<Longrightarrow> cv_ok cv"
  by (induction rule: cv_reach.induct) (simp add: cv_ok_def cv_init_def, simp add: cv_ok_step)

lemma js_includes_Nil [simp]: "js_includes s []"
  by (auto simp: js_includes_iff at_pos_code)

lemma building_category_each [simp]:
  "b_category library = js ''Academic Resources''" "b_category student_center = js ''Student Life''"
  "b_category cafeteria = js ''Dining''" "b_category visa_services = js ''International Support''"
  "b_category administration = js ''Administrative Services''" "b_category ude_portals = js ''Digital Services''"
  by (simp_all add: library_def student_center_def cafeteria_def visa_services_def administration_def
      ude_portals_def)

lemma cards_filtered_category:
  "cards_filtered (cv\<lparr>cv_query := [], cv_category := js ''dining''\<rparr>) = [cafeteria]"
  unfolding cards_filtered_def building_matches_def matches_category_def buildings_def
  by (simp add: js_lower_def js_lower_cu_def js_includes_def index_of_code js_def)

lemma ls_width_init [simp]: "ls_width (ls_init w) = w"
  by (simp add: ls_init_def check_mobile_def Let_def)

lemma ls_width_check [simp]: "ls_width (check_mobile st) = ls_width st"
  by (simp add: check_mobile_def Let_def)

lemma ap_ok_sync:
  assumes "pred_option (\<lambda>s. ls_ok s \<and> ls_width s = nv_width (ap_page ap)) (ap_switch ap)"
    and "pred_option (\<lambda>(k, c). cv_ok c) (ap_cards ap)"
  shows "ap_ok (sync_cards ap)"
  using assms ls_ok_init [of "nv_width (ap_page ap)"]
  by (auto simp: ap_ok_def sync_cards_def Let_def cv_ok_def cv_init_def
      split: option.splits prod.splits)

lemma nv_width_sync [simp]: "nv_width (sync_mounts st) = nv_width st"
  by (simp add: sync_mounts_def)

lemma nv_width_step:
  "nv_width (nv_step e st) =
     (if nv_path st = js ''/campus'' then (case e of NVResize w \<Rightarrow> w | _ \<Rightarrow> nv_width st) else nv_width st)"
  by (cases e)
     (simp_all add: nv_step_def nv_resize_def handle_building_click_def handle_back_to_map_def
        toggle_sidebar_def nv_toggle_dark_def set_view_mode_def header_logout_def
        header_toggle_language_def select_building_by_id_def on_sidebar_def on_header_def
        sidebar_event_def header_event_def Let_def split: option.splits prod.splits cm_event.splits)

lemma ls_width_step [simp]: "ls_width (ls_step e st) = (case e of LSResize w \<Rightarrow> w | LSTimer \<Rightarrow> ls_width st)"
  by (cases e) simp_all

lemma cv_card_in_table: "snd (cv_step m e c) = Some b \<Longrightarrow> b \<in> set buildings"
  by (cases e) (auto simp: cards_filtered_def dest: nth_mem split: if_splits)

lemma ap_ok_parts:
  assumes "ap_ok ap"
  shows "pred_option (\<lambda>(k, c). cv_ok c) (ap_cards ap)"
    and "ap_switch ap \<noteq> None \<Longrightarrow> cards_mounted (ap_page ap) \<and> nv_path (ap_page ap) = js ''/campus''"
    and "pred_option (\<lambda>s. ls_ok s \<and> ls_width s = nv_width (ap_page ap)) (ap_switch ap)"
  using assms by (auto simp: ap_ok_def split: option.splits)

lemma ap_ok_step: "ap_ok ap \<Longrightarrow> ap_ok (ap_step e ap)"
proof (cases e)
  case (APNav n)
  assume ok: "ap_ok ap"
  show ?thesis unfolding APNav ap_step.simps
  proof (rule ap_ok_sync)
    show "pred_option (\<lambda>(k, c). cv_ok c) (ap_cards (ap\<lparr>ap_page := nv_step n (ap_page ap),
            ap_switch := (case n of NVResize w \<Rightarrow> map_option (ls_step (LSResize w)) (ap_switch ap)
                          | _ \<Rightarrow> ap_switch ap)\<rparr>))"
      using ap_ok_parts(1) [OF ok] by simp
  next
    show "pred_option (\<lambda>s. ls_ok s \<and> ls_width s = nv_width (ap_page (ap\<lparr>ap_page := nv_step n (ap_page ap),
            ap_switch := (case n of NVResize w \<Rightarrow> map_option (ls_step (LSResize w)) (ap_switch ap)
                          | _ \<Rightarrow> ap_switch ap)\<rparr>)))
            (ap_switch (ap\<lparr>ap_page := nv_step n (ap_page ap),
            ap_switch := (case n of NVResize w \<Rightarrow> map_option (ls_step (LSResize w)) (ap_switch ap)
                          | _ \<Rightarrow> ap_switch ap)\<rparr>))"
      using ap_ok_parts(2,3) [OF ok]
      by (cases "ap_switch ap"; cases n) (auto simp: nv_width_step ls_ok_resize)
  qed
next
  case APLayoutTimer
  assume ok: "ap_ok ap"
  show ?thesis unfolding APLayoutTimer ap_step.simps
    by (rule ap_ok_sync) (use ap_ok_parts(1,3) [OF ok] in \<open>auto simp: ls_ok_fire option.pred_set\<close>)
next
  case (APCards ce)
  assume ok: "ap_ok ap"
  show ?thesis
  proof (cases "ap_cards ap")
    case (Some kc)
    obtain k c where kc: "kc = (k, c)" by (cases kc)
    have c: "cv_ok c" using ap_ok_parts(1) [OF ok] Some kc by simp
    show ?thesis
    proof (cases "snd (cv_step k ce c)")
      case None
      then show ?thesis using ok Some kc cv_ok_step [OF c, of k ce]
        by (cases "cv_step k ce c") (auto simp: ap_ok_def APCards)
    next
      case (Some b)
      then show ?thesis using ok \<open>ap_cards ap = Some kc\<close> kc cv_ok_step [OF c, of k ce]
        by (cases "cv_step k ce c")
           (auto simp: APCards handle_building_click_def intro!: ap_ok_sync dest: ap_ok_parts(3))
    qed
  qed (simp add: ok APCards)
qed

lemma ap_page_sync [simp]: "ap_page (sync_cards ap) = ap_page ap"
  by (simp add: sync_cards_def Let_def)

lemma ap_reach_ok: "ap_reach ap \<Longrightarrow> ap_ok ap"
proof (induction rule: ap_reach.induct)
  case (init ctx lng dark w)
  show ?case unfolding ap_init_def by (rule ap_ok_sync) simp_all
qed (rule ap_ok_step)

lemma card_click_is_nav_card:
  assumes "b \<in> set buildings" "cards_mounted st" "nv_path st = js ''/campus''"
  obtains i where "handle_building_click b st = nv_step (NVCard i) st"
proof -
  obtain i where "i < length buildings" "buildings ! i = b" using assms(1) by (auto simp: in_set_conv_nth)
  then have "handle_building_click b st = nv_step (NVCard i) st"
    using assms(2,3) by (simp add: nv_step_def building_at_def)
  then show ?thesis by (rule that)
qed

lemma ap_cards_mounted:
  "ap_ok ap \<Longrightarrow> ap_cards ap \<noteq> None \<Longrightarrow>
     cards_mounted (ap_page ap) \<and> nv_path (ap_page ap) = js ''/campus''"
  by (auto simp: ap_ok_def split: option.splits)

lemma ap_sample_reach: "ap_reach ap_sample"
  unfolding ap_sample_def by (rule ap_reach.init [OF demo_ctx_reach demo_ctx_user])

lemma ap_ok_cards:
  "ap_ok ap \<Longrightarrow> ap_cards ap = Some (k, c) \<Longrightarrow>
     \<exists>s. ap_switch ap = Some s \<and> \<not> ls_transitioning s \<and> k = ls_mobile s \<and> ls_width s = nv_width (ap_page ap)"
  by (auto simp: ap_ok_def split: option.splits)

lemma sync_fresh:
  "ap_cards ap = None \<Longrightarrow> ap_cards (sync_cards ap) \<in> {None, Some (False, cv_init), Some (True, cv_init)}"
  by (cases "ls_mobile (the (ap_switch (sync_cards ap)))")
     (auto simp: sync_cards_def Let_def split: option.splits)

lemma remount_fresh:
  "ap_cards ap = None \<Longrightarrow> ap_cards (ap_step e ap) \<in> {None, Some (False, cv_init), Some (True, cv_init)}"
proof (cases e)
  case (APNav n)
  assume "ap_cards ap = None"
  then show ?thesis unfolding APNav ap_step.simps by (intro sync_fresh) simp
next
  case APLayoutTimer
  assume "ap_cards ap = None"
  then show ?thesis unfolding APLayoutTimer ap_step.simps by (intro sync_fresh) simp
qed simp

lemma resize_discards_cards:
  assumes "ap_reach ap" "ap_cards ap = Some (k, c)" "(w < 768) \<noteq> k"
  shows "ap_cards (ap_step (APNav (NVResize w)) ap) = None"
proof -
  obtain s where s: "ap_switch ap = Some s" "\<not> ls_transitioning s" "k = ls_mobile s"
    using ap_ok_cards [OF ap_reach_ok [OF assms(1)] assms(2)] by blast
  let ?s' = "check_mobile (s\<lparr>ls_width := w\<rparr>)"
  have t: "ls_transitioning ?s'" using s(3) assms(3) by (simp add: check_mobile_def)
  let ?ap = "ap\<lparr>ap_page := nv_step (NVResize w) (ap_page ap), ap_switch := Some ?s'\<rparr>"
  have "ap_step (APNav (NVResize w)) ap = sync_cards ?ap" using s(1) by simp
  moreover have "ap_cards (sync_cards ?ap) = None"
    using t by (auto simp: sync_cards_def Let_def)
  ultimately show ?thesis by simp
qed

lemma cv_reach_run: "cv_reach m cv \<Longrightarrow> cv_reach m (cv_run m es cv)"
  unfolding cv_run_def by (induction es arbitrary: cv) (simp_all add: cv_reach.step)

lemma cards_filtered_init: "cards_filtered cv_init = buildings"
  by (simp add: cards_filtered_def cv_init_def building_matches_def matches_category_def js_lower_def)

lemma carousel_index_goes_stale:
  "cards_filtered (cv_run True [CVDot 3, CVToggleFilters, CVCategory 2] cv_init) = [cafeteria] \<and>
   cv_index (cv_run True [CVDot 3, CVToggleFilters, CVCategory 2] cv_init) = 3 \<and>
   carousel_indicator (cv_run True [CVDot 3, CVToggleFilters, CVCategory 2] cv_init) =
     \<lparr>ci_dots = [False], ci_more = False, ci_current = None\<rparr>"
proof -
  have l: "length buildings = 6" by (simp add: buildings_def)
  have run: "cv_run True [CVDot 3, CVToggleFilters, CVCategory 2] cv_init =
               cv_init\<lparr>cv_index := 3, cv_filters := True, cv_category := js ''dining''\<rparr>"
    using l by (simp add: cv_run_def cards_filtered_init scroll_to_building_def carousel_children_def
        card_categories_def, simp add: cv_init_def)
  have f: "cards_filtered (cv_init\<lparr>cv_index := 3, cv_filters := True, cv_category := js ''dining''\<rparr>) = [cafeteria]"
    using cards_filtered_category [of "cv_init\<lparr>cv_index := 3, cv_filters := True\<rparr>"]
    by (simp add: cv_init_def)
  show ?thesis unfolding run using f by (simp add: carousel_indicator_def)
qed

lemma ap_sample_cards: "ap_cards ap_sample = Some (False, cv_init)"
proof -
  have a: "ap_sample = sync_cards \<lparr>ap_page = campus_sample, ap_switch = None, ap_cards = None\<rparr>"
    by (simp add: ap_sample_def ap_init_def campus_sample_def)
  have "cards_mounted campus_sample" "nv_path campus_sample = js ''/campus''" "nv_width campus_sample = 1280"
    by (simp_all add: campus_sample_def nv_init_def sync_mounts_def cards_mounted_def shows_page_def)
  then show ?thesis unfolding a by (simp add: sync_cards_def ls_init_def check_mobile_def)
qed

lemma ap_page_reach: "ap_reach ap \<Longrightarrow> nv_reach (ap_page ap)"
proof (induction rule: ap_reach.induct)
  case (init ctx lng dark w)
  then show ?case by (simp add: ap_init_def nv_reach.init)
next
  case (step ap e)
  have ok: "ap_ok ap" using step.hyps by (rule ap_reach_ok)
  show ?case
  proof (cases e)
    case (APNav n)
    then show ?thesis using step.IH by (simp add: nv_reach.step)
  next
    case APLayoutTimer
    then show ?thesis using step.IH by simp
  next
    case (APCards ce)
    show ?thesis
    proof (cases "ap_cards ap")
      case (Some kc)
      obtain k c where kc: "kc = (k, c)" by (cases kc)
      have m: "cards_mounted (ap_page ap)" "nv_path (ap_page ap) = js ''/campus''"
        using ap_cards_mounted [OF ok] Some by simp_all
      show ?thesis
      proof (cases "cv_step k ce c")
        case (Pair c' bo)
        show ?thesis
        proof (cases bo)
          case None
          then show ?thesis using APCards Some kc Pair step.IH by simp
        next
          case (Some b)
          then have "b \<in> set buildings" using cv_card_in_table [of k ce c b] Pair by simp
          then obtain i where "handle_building_click b (ap_page ap) = nv_step (NVCard i) (ap_page ap)"
            using m by (rule card_click_is_nav_card)
          then show ?thesis using APCards \<open>ap_cards ap = Some kc\<close> kc Pair Some step.IH
            by (simp add: nv_reach.step)
        qed
      qed
    qed (simp add: APCards step.IH)
  qed
qed

section \<open>Properties\<close>

text \<open>C31. The layout switch settles: from every reachable state of
  \<open>AdvancedCampusView\<close>, once its pending timers have fired (at most twice as many
  firings as there are timers, since a timer that sets the value opposite to the window's
  starts one more), no timer is pending and the switch shows the layout for the current
  window width: mobile below 768 pixels, desktop otherwise.\<close>

lemma layout_settles:
  assumes "ls_reach st"
  shows "ls_timers ((fire_layout_timer ^^ (2 * length (ls_timers st))) st) = [] \<and>
         ls_layout ((fire_layout_timer ^^ (2 * length (ls_timers st))) st) =
           (if ls_width st < 768 then LMobile else LDesktop)"
proof -
  let ?st' = "(fire_layout_timer ^^ (2 * length (ls_timers st))) st"
  have w: "timer_weight st \<le> 2 * length (ls_timers st)" by (simp add: timer_weight_def)
  have e: "ls_timers ?st' = []" using timers_drain [OF w] .
  have ok: "ls_ok ?st'" using fire_ok_funpow [OF ls_reach_ok [OF assms]] .
  show ?thesis using e ok by (simp add: ls_ok_def ls_layout_def)
qed


text \<open>In both card layouts at most one widget panel is mounted: the weather widget,
  the events widget or the notification panel.\<close>

lemma card_panels_exclusive: "cv_reach m cv \<Longrightarrow> length (card_panels cv) \<le> 1"
  using cv_reach_ok [of m cv] by (auto simp: cv_ok_def card_panels_def js_def)


text \<open>C29. The campus page with its card layouts refines the navigator: in every
  reachable state of the composition, the page's state is a reachable state of the
  navigator, a card clicked in a layout acting as the navigator's card event.\<close>

lemma ap_page_refines: "ap_reach ap \<Longrightarrow> nv_reach (ap_page ap)"
  by (rule ap_page_reach)

text \<open>C30. Resizing the window across the 768 pixel breakpoint while a card layout is
  shown unmounts it, so its search query, category, open widgets and carousel position are
  lost: the switch shows the spinner, and the next layout it mounts starts from the initial
  state.\<close>

lemma resize_discards_card_state:
  assumes "ap_reach ap" "ap_cards ap = Some (k, c)" "(w < 768) \<noteq> k"
  shows "ap_cards (ap_step (APNav (NVResize w)) ap) = None \<and>
         (\<forall>e. ap_cards (ap_step e (ap_step (APNav (NVResize w)) ap)) \<in>
                {None, Some (False, cv_init), Some (True, cv_init)})"
  using resize_discards_cards [OF assms] remount_fresh by blast

section \<open>Witnesses\<close>

lemma layout_settles_witness:
  "ls_reach (ls_step (LSResize 500) (ls_init 1280)) \<and>
   ls_timers ((fire_layout_timer ^^ 2) (ls_step (LSResize 500) (ls_init 1280))) = [] \<and>
   ls_layout ((fire_layout_timer ^^ 2) (ls_step (LSResize 500) (ls_init 1280))) = LMobile"
proof -
  have r: "ls_reach (ls_step (LSResize 500) (ls_init 1280))" by (rule ls_reach.step [OF ls_reach.init])
  have t: "ls_timers (ls_step (LSResize 500) (ls_init 1280)) = [True]"
    and w: "ls_width (ls_step (LSResize 500) (ls_init 1280)) = 500"
    by (simp_all add: ls_init_def check_mobile_def)
  show ?thesis using layout_settles [OF r, unfolded t w] r by (simp add: numeral_2_eq_2)
qed

lemma card_panels_exclusive_witness:
  "cv_reach False (cv_run False [CVWidget (js ''weather''), CVNotifications] cv_init) \<and>
   length (card_panels (cv_run False [CVWidget (js ''weather''), CVNotifications] cv_init)) \<le> 1"
proof -
  have r: "cv_reach False (cv_run False [CVWidget (js ''weather''), CVNotifications] cv_init)"
    by (rule cv_reach_run [OF cv_reach.init])
  show ?thesis using card_panels_exclusive [OF r] r by simp
qed

lemma ap_page_refines_witness:
  "ap_reach (ap_step (APCards (CVCard 0)) ap_sample) \<and> nv_reach (ap_page (ap_step (APCards (CVCard 0)) ap_sample))"
proof -
  have r: "ap_reach (ap_step (APCards (CVCard 0)) ap_sample)" by (rule ap_reach.step [OF ap_sample_reach])
  show ?thesis using ap_page_refines [OF r] r by simp
qed

lemma resize_discards_card_state_witness:
  "ap_reach (ap_step (APCards (CVQuery (js ''lib''))) ap_sample) \<and>
   ap_cards (ap_step (APCards (CVQuery (js ''lib''))) ap_sample) = Some (False, cv_init\<lparr>cv_query := js ''lib''\<rparr>) \<and>
   ((500::int) < 768) \<noteq> False \<and>
   ap_cards (ap_step (APNav (NVResize 500)) (ap_step (APCards (CVQuery (js ''lib''))) ap_sample)) = None"
proof -
  have r: "ap_reach (ap_step (APCards (CVQuery (js ''lib''))) ap_sample)" by (rule ap_reach.step [OF ap_sample_reach])
  have c: "ap_cards (ap_step (APCards (CVQuery (js ''lib''))) ap_sample) = Some (False, cv_init\<lparr>cv_query := js ''lib''\<rparr>)"
    by (simp add: ap_sample_cards)
  show ?thesis using resize_discards_card_state [OF r c, of 500] r c by simp
qed

end
