(* ===== verification/BuildingPage.thy ===== *)
theory BuildingPage
  imports CardViews Forum
begin

text \<open>The building page (\<open>components/BuildingPage.tsx\<close>) with the page table of
  \<open>data/buildingPages.tsx\<close>: the page's links and campus maps (the descriptive texts, the
  HTML content and the colours are left out), \<open>getLocalizedLinks\<close>, the page's own
  dark mode, the expansion of the maps and the switch to the student forum, whose state is
  the forum model's; and the page mounted by \<open>CampusNavigator\<close> in place of the campus
  view while a building is selected.\<close>

section \<open>The page table\<close>

record page_link =
  pl_title :: jstr
  pl_url :: jstr
  pl_description :: jstr

datatype map_link = MapLink (ml_title: jstr) (ml_url: jstr) (ml_description: jstr) (ml_submaps: "map_link list option")

record page_data =
  pd_id :: jstr
  pd_title :: jstr
  pd_links :: "page_link list"
  pd_maps :: "map_link list option"
  pd_show_forum :: "bool option"

definition library_page :: page_data where
  "library_page =
     \<lparr>pd_id = js ''library'', pd_title = js ''Central Library'',
      pd_links =
        [\<lparr>pl_title = js ''Library Catalog'', pl_url = js ''https://www.uni-due.de/ub/en/atoz/access-from-home.php'', pl_description = js ''Access library resources from home and search the catalog''\<rparr>,
         \<lparr>pl_title = js ''Digital Library'', pl_url = js ''https://primo.uni-due.de/discovery/search?vid=49HBZ_UDE:UDE&lang=en'', pl_description = js ''Search and access digital resources, e-books, and databases''\<rparr>,
         \<lparr>pl_title = js ''Study Room Booking'', pl_url = js ''https://www.uni-due.de/ub/lernenundarbeiten.php'', pl_description = js ''Reserve individual and group study spaces''\<rparr>],
      pd_maps = None,
      pd_show_forum = None\<rparr>"

definition student_center_page :: page_data where
  "student_center_page =
     \<lparr>pd_id = js ''student-center'', pd_title = js ''Student Center'',
      pd_links =
        [\<lparr>pl_title = js ''HISiOne Student Portal'', pl_url = js ''https://campus.uni-due.de/cm/pages/cs/sys/portal/hisinoneStartPage.faces'', pl_description = js ''Access your student information system for enrollment, grades, and academic records''\<rparr>,
         \<lparr>pl_title = js ''LSF Course Catalog'', pl_url = js ''https://campus.uni-due.de/lsf/rds?state=user&type=0'', pl_description = js ''Browse course offerings, schedules, and register for classes''\<rparr>,
         \<lparr>pl_title = js ''Moodle Learning Platform'', pl_url = js ''https://lehre.moodle.uni-due.de'', pl_description = js ''Access course materials, assignments, and communicate with instructors''\<rparr>,
         \<lparr>pl_title = js ''Study Drive'', pl_url = js ''https://www.studydrive.net'', pl_description = js ''Share study materials, notes, and connect with fellow students''\<rparr>,
         \<lparr>pl_title = js ''Student Services Overview'', pl_url = js ''https://www.uni-due.de/en/student_services.php'', pl_description = js ''Complete overview of all student services at UDE''\<rparr>,
         \<lparr>pl_title = js ''Student Organizations'', pl_url = js ''https://www.uni-due.de/en/organisation.php'', pl_description = js ''Explore clubs, societies, and student organizations to join''\<rparr>,
         \<lparr>pl_title = js ''Career Services'', pl_url = js ''https://www.uni-due.de/career/'', pl_description = js ''Career counseling, job placement, and professional development''\<rparr>,
         \<lparr>pl_title = js ''Counseling Services'', pl_url = js ''https://www.uni-due.de/en/studying/counselling.php'', pl_description = js ''Personal, academic, and psychological support services''\<rparr>],
      pd_maps = None,
      pd_show_forum = Some True\<rparr>"

definition cafeteria_page :: page_data where
  "cafeteria_page =
     \<lparr>pd_id = js ''cafeteria'', pd_title = js ''Cafeteria/Mensa'',
      pd_links =
        [\<lparr>pl_title = js ''Catering Services'', pl_url = js ''https://www.stw-edu.de/en/catering'', pl_description = js ''Overview of all dining services and locations''\<rparr>,
         \<lparr>pl_title = js ''Weekly Menu'', pl_url = js ''https://www.stw-edu.de/en/catering/menus'', pl_description = js ''Current meal offerings, prices, and dining locations''\<rparr>],
      pd_maps = None,
      pd_show_forum = None\<rparr>"

definition visa_services_page :: page_data where
  "visa_services_page =
     \<lparr>pd_id = js ''visa-services'', pd_title = js ''Visa Services'',
      pd_links =
        [\<lparr>pl_title = js ''Visa Requirements'', pl_url = js ''https://www.uni-due.de/welcome-centre/en/visa_en.php'', pl_description = js ''Check visa requirements and application procedures''\<rparr>,
         \<lparr>pl_title = js ''Document Checklist'', pl_url = js ''https://www.uni-due.de/welcome-centre/en/vde_check.php'', pl_description = js ''Required documents for visa and residence permit applications''\<rparr>,
         \<lparr>pl_title = js ''Book Appointment'', pl_url = js ''https://www.uni-due.de/international/abh_en'', pl_description = js ''Schedule a consultation with our immigration specialists''\<rparr>],
      pd_maps = None,
      pd_show_forum = None\<rparr>"

definition administration_page :: page_data where
  "administration_page =
     \<lparr>pd_id = js ''administration'', pd_title = js ''Administration Building'',
      pd_links =
        [\<lparr>pl_title = js ''Student Portals'', pl_url = js ''https://www.uni-due.de/en/current.php'', pl_description = js ''Access current student information and university portals''\<rparr>,
         \<lparr>pl_title = js ''Applications'', pl_url = js ''https://www.uni-due.de/en/studying/application.php'', pl_description = js ''Application forms and procedures for various programs''\<rparr>,
         \<lparr>pl_title = js ''Financial Aid'', pl_url = js ''https://www.uni-due.de/en/studying/funding.php'', pl_description = js ''Information about scholarships, grants, and financial support''\<rparr>,
         \<lparr>pl_title = js ''Uni-DUE Student Job Board (Werkstudentenstellen)'', pl_url = js ''https://www.uni-due.de/stellenmarkt/werkstudenten.shtml'', pl_description = js ''Find part-time job opportunities for students at UDE''\<rparr>],
      pd_maps = None,
      pd_show_forum = None\<rparr>"

definition ude_portals_page :: page_data where
  "ude_portals_page =
     \<lparr>pd_id = js ''ude-portals'', pd_title = js ''UDE Portals and Important Links'',
      pd_links =
        [\<lparr>pl_title = js ''Studierendenwerk'', pl_url = js ''https://www.stw-edu.de/en/'', pl_description = js ''Student services including housing, dining, and financial aid''\<rparr>,
         \<lparr>pl_title = js ''Moodle LMS'', pl_url = js ''https://www.uni-due.de/zim/services/moodle/index_eng.php'', pl_description = js ''Learning management system for courses and materials''\<rparr>,
         \<lparr>pl_title = js ''UDE Webmail'', pl_url = js ''https://www.uni-due.de/zim/services/e-mail/webmail_login.php'', pl_description = js ''Access your university email account''\<rparr>,
         \<lparr>pl_title = js ''IT Support'', pl_url = js ''https://www.uni-due.de/zim/hilfecenter/'', pl_description = js ''Technical help center and IT support services''\<rparr>,
         \<lparr>pl_title = js ''University Addresses & Maps'', pl_url = js ''https://www.uni-due.de/en/university_addresses.shtml'', pl_description = js ''Complete overview of all university locations and addresses''\<rparr>,
         \<lparr>pl_title = js ''Join WhatsApp Group'', pl_url = js ''https://chat.whatsapp.com/D5VuHyVefy2AjdDMShaxUr'', pl_description = js ''Connect with fellow UDE students on WhatsApp''\<rparr>,
         \<lparr>pl_title = js ''Join Discord Server'', pl_url = js ''https://discord.gg/KGBeRefR'', pl_description = js ''Join our Discord community for real-time chat and study groups''\<rparr>],
      pd_maps = Some
        [MapLink (js ''Campus Duisburg'') (js ''https://www.uni-due.de/imperia/md/content/dokumente/lageplaene/map_standorte_duisburg_e_2020.jpg'') (js ''Overview map of Duisburg campus locations'')
        (Some [MapLink (js ''Duisburg: M-, L- & S-area'') (js ''https://www.uni-due.de/imperia/md/content/dokumente/lageplaene/map_duisburg_m_l_e_2020.jpg'') (js ''Detailed map of M-, L- and S-area buildings'') None,
          MapLink (js ''Duisburg: B- & SK-area'') (js ''https://www.uni-due.de/imperia/md/content/dokumente/lageplaene/map_duisburg_b_e_2020.jpg'') (js ''Detailed map of B- and SK-area buildings'') None,
          MapLink (js ''Duisburg: ST-area'') (js ''https://www.uni-due.de/imperia/md/content/dokumente/lageplaene/map_duisburg_st_e_2020.jpg'') (js ''Detailed map of ST-area buildings'') None]),
         MapLink (js ''Campus Essen'') (js ''https://www.uni-due.de/imperia/md/content/dokumente/lageplaene/map_standorte_essen_e_2020.jpg'') (js ''Overview map of Essen campus locations'')
        (Some [MapLink (js ''Campus Essen'') (js ''https://www.uni-due.de/imperia/md/content/dokumente/lageplaene/map_essen_campus_e_2020.jpg'') (js ''Detailed map of main Essen campus'') None,
          MapLink ((js ''Sch'' @ [0xFC] @ js ''tzenbahn & Gerlingstra'' @ [0xDF] @ js ''e Essen'')) (js ''https://www.uni-due.de/imperia/md/content/dokumente/lageplaene/map_essen_schuetzenbahn_e_2020.jpg'') ((js ''Map of Sch'' @ [0xFC] @ js ''tzenbahn and Gerlingstra'' @ [0xDF] @ js ''e area'')) None,
          MapLink (js ''WSC & WST Essen'') (js ''https://www.uni-due.de/imperia/md/content/dokumente/lageplaene/map_essen_weststadt_e_2020.jpg'') (js ''Map of WSC and WST Weststadt area'') None,
          MapLink (js ''University Clinic Essen'') (js ''https://www.uni-due.de/imperia/md/content/dokumente/lageplaene/map_essen_klinikum_l_e_2020.jpg'') (js ''Map of University Hospital and medical facilities'') None])],
      pd_show_forum = None\<rparr>"

definition building_pages :: "(jstr \<times> page_data) list" where
  "building_pages =
     [(js ''library'', library_page), (js ''student-center'', student_center_page),
      (js ''cafeteria'', cafeteria_page), (js ''visa-services'', visa_services_page),
      (js ''administration'', administration_page), (js ''ude-portals'', ude_portals_page)]"

section \<open>Localized links\<close>

definition german_urls :: "(jstr \<times> jstr) list" where
  "german_urls =
     [(js ''https://www.uni-due.de/ub/en/atoz/access-from-home.php'',
       js ''https://www.uni-due.de/ub/abisz/zugriff_von_zuhause.php''),
      (js ''https://primo.uni-due.de/discovery/search?vid=49HBZ_UDE:UDE&lang=en'',
       js ''https://primo.uni-due.de/discovery/search?vid=49HBZ_UDE:UDE''),
      (js ''https://www.uni-due.de/en/organisation.php'',
       js ''https://www.uni-due.de/de/organisation/''),
      (js ''https://www.uni-due.de/career/'',
       js ''https://www.uni-due.de/karriere/''),
      (js ''https://www.uni-due.de/en/studying/counselling.php'',
       js ''https://www.uni-due.de/de/studium/beratung.php''),
      (js ''https://www.stw-edu.de/en/catering/menus'',
       js ''https://www.stw-edu.de/gastronomie/speiseplaene''),
      (js ''https://www.uni-due.de/welcome-centre/en/visa_en.php'',
       js ''https://www.uni-due.de/welcome-centre/visa.php''),
      (js ''https://www.uni-due.de/welcome-centre/en/vde_check.php'',
       js ''https://www.uni-due.de/welcome-centre/vde_checkliste.php''),
      (js ''https://www.uni-due.de/international/abh_en'',
       js ''https://www.uni-due.de/international/abh''),
      (js ''https://www.uni-due.de/en/current.php'',
       js ''https://www.uni-due.de/de/studium/organisation.php''),
      (js ''https://www.uni-due.de/en/studying/application.php'',
       js ''https://www.uni-due.de/de/studium/bewerbung.php''),
      (js ''https://www.uni-due.de/en/studying/funding.php'',
       js ''https://www.uni-due.de/de/studium/foerderung.php''),
      (js ''https://www.stw-edu.de/en/'',
       js ''https://www.stw-edu.de/''),
      (js ''https://www.uni-due.de/zim/services/moodle/index_eng.php'',
       js ''https://www.uni-due.de/zim/services/moodle/''),
      (js ''https://www.uni-due.de/en/university_addresses.shtml'',
       js ''https://www.uni-due.de/de/universitaet/orientierung.php'')]"

text \<open>\<open>getLocalizedLinks\<close>: in German, a link whose URL the table translates gets the
  German URL (\<open>germanUrls[link.url] || link.url\<close>; no translation is empty).\<close>

definition localized_links :: "jstr \<Rightarrow> page_link list \<Rightarrow> page_link list" where
  "localized_links lng links =
     (if lng = js ''de''
      then map (\<lambda>l. l\<lparr>pl_url := (case map_of german_urls (pl_url l) of Some u \<Rightarrow> u | None \<Rightarrow> pl_url l)\<rparr>) links
      else links)"

section \<open>The page's state and handlers\<close>

text \<open>\<open>expandedMaps\<close> (a record of booleans, in insertion order), \<open>localDarkMode\<close>,
  \<open>showForum\<close>, and the forum's state while the forum is rendered.\<close>

record bp_state =
  bp_expanded :: "(jstr \<times> bool) list"
  bp_local_dark :: bool
  bp_show_forum :: bool
  bp_forum :: "forum_state option"

text \<open>The first render: \<open>localDarkMode\<close> starts from the navigator's dark mode and is
  not updated from it afterwards.\<close>

definition bp_mount :: "bool \<Rightarrow> bp_state" where
  "bp_mount dark = \<lparr>bp_expanded = [], bp_local_dark = dark, bp_show_forum = False, bp_forum = None\<rparr>"

definition map_expanded :: "bp_state \<Rightarrow> jstr \<Rightarrow> bool" where
  "map_expanded st t = (case map_of (bp_expanded st) t of Some v \<Rightarrow> v | None \<Rightarrow> False)"

definition toggle_map_expansion :: "jstr \<Rightarrow> bp_state \<Rightarrow> bp_state" where
  "toggle_map_expansion t st = st\<lparr>bp_expanded := al_set (bp_expanded st) t (\<not> map_expanded st t)\<rparr>"

definition page_maps :: "page_data \<Rightarrow> map_link list" where
  "page_maps pd = (case pd_maps pd of Some ms \<Rightarrow> ms | None \<Rightarrow> [])"

text \<open>The titles of the maps with an expansion button: those with submaps.\<close>

definition expandable_titles :: "page_data \<Rightarrow> jstr list" where
  "expandable_titles pd = map ml_title (filter (\<lambda>m. ml_submaps m \<noteq> None) (page_maps pd))"

datatype bp_event =
    BPToggleDark
  | BPToggleMap nat
  | BPOpenForum lang int
  | BPForum forum_event
  | BPForumBack

text \<open>One event of the page for the page data \<open>pd\<close>: while the forum is shown only the
  forum and its back button are rendered; else the dark-mode button, the expansion
  button of a map with submaps, and the forum button if the page has one. The forum
  mounts with the language and the clock of its first render.\<close>

fun bp_step :: "page_data \<Rightarrow> bp_event \<Rightarrow> bp_state \<Rightarrow> bp_state" where
  "bp_step pd BPToggleDark st = (if bp_show_forum st then st else st\<lparr>bp_local_dark := \<not> bp_local_dark st\<rparr>)"
| "bp_step pd (BPToggleMap i) st =
     (if \<not> bp_show_forum st \<and> i < length (page_maps pd) \<and> ml_submaps (page_maps pd ! i) \<noteq> None
      then toggle_map_expansion (ml_title (page_maps pd ! i)) st else st)"
| "bp_step pd (BPOpenForum l now) st =
     (if \<not> bp_show_forum st \<and> pd_show_forum pd = Some True
      then st\<lparr>bp_show_forum := True, bp_forum := Some (forum_mount l now)\<rparr> else st)"
| "bp_step pd (BPForum e) st =
     (case bp_forum st of Some f \<Rightarrow> st\<lparr>bp_forum := Some (forum_step e f)\<rparr> | None \<Rightarrow> st)"
| "bp_step pd BPForumBack st = (if bp_show_forum st then st\<lparr>bp_show_forum := False, bp_forum := None\<rparr> else st)"

inductive bp_reach :: "page_data \<Rightarrow> bp_state \<Rightarrow> bool" where
  init: "bp_reach pd (bp_mount dark)"
| step: "bp_reach pd st \<Longrightarrow> bp_reach pd (bp_step pd e st)"

text \<open>What the page renders: the forum in the page's dark mode, or the page with its
  localized links and the submaps of the expanded maps.\<close>

datatype bp_screen =
    BPShowsForum bool
  | BPShowsPage bool "page_link list" "map_link list"

definition bp_view :: "jstr \<Rightarrow> page_data \<Rightarrow> bp_state \<Rightarrow> bp_screen" where
  "bp_view lng pd st =
     (if bp_show_forum st then BPShowsForum (bp_local_dark st)
      else BPShowsPage (bp_local_dark st) (localized_links lng (pd_links pd))
             (concat (map (\<lambda>m. case ml_submaps m of Some ss \<Rightarrow> if map_expanded st (ml_title m) then ss else [] | None \<Rightarrow> [])
                        (page_maps pd))))"

section \<open>The page inside the navigator\<close>

text \<open>\<open>buildingPagesData[selectedBuilding.id]\<close>.\<close>

definition page_of :: "campus_page \<Rightarrow> page_data option" where
  "page_of st = (case nv_selected st of Some b \<Rightarrow> map_of building_pages (b_id b) | None \<Rightarrow> None)"

text \<open>The navigator with its card layouts, and the building page's state while it is
  rendered.\<close>

record page_nav =
  pn_app :: campus_app
  pn_page :: "bp_state option"

text \<open>The navigator renders the building page, with its current \<open>isDarkMode\<close>, exactly
  while a building with page data is selected; the page keeps its state while it stays
  rendered.\<close>

definition sync_page :: "page_nav \<Rightarrow> page_nav" where
  "sync_page pn =
     (let st = ap_page (pn_app pn)
      in pn\<lparr>pn_page := (if page_of st \<noteq> None \<and> nv_path st = js ''/campus''
                         then Some (case pn_page pn of Some s \<Rightarrow> s | None \<Rightarrow> bp_mount (nv_dark st))
                         else None)\<rparr>)"

definition pn_init :: "auth_ctx \<Rightarrow> jstr \<Rightarrow> bool \<Rightarrow> int \<Rightarrow> page_nav" where
  "pn_init ctx lng dark w = sync_page \<lparr>pn_app = ap_init ctx lng dark w, pn_page = None\<rparr>"

text \<open>An event of the navigator and its card layouts (the page's back button is the
  navigator's \<open>handleBackToMap\<close>, \<open>NVBack\<close>), or an event of the rendered page.\<close>

datatype pn_event = PNApp app_event | PNPage bp_event

fun pn_step :: "pn_event \<Rightarrow> page_nav \<Rightarrow> page_nav" where
  "pn_step (PNApp e) pn = sync_page (pn\<lparr>pn_app := ap_step e (pn_app pn)\<rparr>)"
| "pn_step (PNPage e) pn =
     (case (pn_page pn, page_of (ap_page (pn_app pn))) of
        (Some s, Some pd) \<Rightarrow> pn\<lparr>pn_page := Some (bp_step pd e s)\<rparr>
      | _ \<Rightarrow> pn)"

inductive pn_reach :: "page_nav \<Rightarrow> bool" where
  init: "ctx_reach ctx \<Longrightarrow> ctx_user ctx \<noteq> None \<Longrightarrow> pn_reach (pn_init ctx lng dark w)"
| step: "pn_reach pn \<Longrightarrow> pn_reach (pn_step e pn)"

definition bp_ok :: "page_data \<Rightarrow> bp_state \<Rightarrow> bool" where
  "bp_ok pd st \<longleftrightarrow>
     (bp_forum st \<noteq> None \<longleftrightarrow> bp_show_forum st) \<and>
     (bp_show_forum st \<longrightarrow> pd_show_forum pd = Some True) \<and>
     pred_option forum_reach (bp_forum st) \<and>
     set (map fst (bp_expanded st)) \<subseteq> set (expandable_titles pd)"

definition pn_ok :: "page_nav \<Rightarrow> bool" where
  "pn_ok pn \<longleftrightarrow>
     (pn_page pn \<noteq> None \<longleftrightarrow> page_of (ap_page (pn_app pn)) \<noteq> None \<and> nv_path (ap_page (pn_app pn)) = js ''/campus'') \<and>
     (case (pn_page pn, page_of (ap_page (pn_app pn))) of (Some s, Some pd) \<Rightarrow> bp_ok pd s | _ \<Rightarrow> True)"

text \<open>The demo account's campus page in a 1280 pixel window.\<close>

definition pn_sample :: page_nav where
  "pn_sample = pn_init demo_ctx (js ''en'') False 1280"

section \<open>Lemmas\<close>

lemma bp_keys_toggle:
  "fst ` set (bp_expanded (toggle_map_expansion t st)) = insert t (fst ` set (bp_expanded st))"
proof -
  have "set (map fst (al_set xs k v)) = insert k (set (map fst xs))" for xs :: "(jstr \<times> bool) list" and k v
    unfolding keys_al_set by auto
  then show ?thesis by (simp add: toggle_map_expansion_def)
qed

lemma toggle_fields [simp]:
  "bp_forum (toggle_map_expansion t st) = bp_forum st"
  "bp_show_forum (toggle_map_expansion t st) = bp_show_forum st"
  "bp_local_dark (toggle_map_expansion t st) = bp_local_dark st"
  by (simp_all add: toggle_map_expansion_def)

lemma expandable_nth:
  "i < length (page_maps pd) \<Longrightarrow> ml_submaps (page_maps pd ! i) \<noteq> None \<Longrightarrow>
     ml_title (page_maps pd ! i) \<in> set (expandable_titles pd)"
  by (auto simp: expandable_titles_def dest: nth_mem)

lemma bp_ok_mount: "bp_ok pd (bp_mount dark)"
  by (simp add: bp_ok_def bp_mount_def)

lemma bp_ok_step: "bp_ok pd st \<Longrightarrow> bp_ok pd (bp_step pd e st)"
proof (cases e)
  case (BPToggleMap i)
  assume "bp_ok pd st"
  then show ?thesis using BPToggleMap expandable_nth [of i pd]
    by (auto simp: bp_ok_def bp_keys_toggle)
next
  case (BPOpenForum l now)
  assume "bp_ok pd st"
  then show ?thesis using BPOpenForum by (auto simp: bp_ok_def forum_reach.init)
next
  case (BPForum fe)
  assume "bp_ok pd st"
  then show ?thesis using BPForum by (auto simp: bp_ok_def forum_reach.step split: option.splits)
qed (auto simp: bp_ok_def)

lemma bp_reach_ok: "bp_reach pd st \<Longrightarrow> bp_ok pd st"
  by (induction rule: bp_reach.induct) (rule bp_ok_mount, erule bp_ok_step)

lemma toggle_twice: "map_expanded (toggle_map_expansion t (toggle_map_expansion t st)) = map_expanded st"
  by (rule ext) (simp add: map_expanded_def toggle_map_expansion_def)

lemma building_pages_keys: "map fst building_pages = building_page_ids"
  by (simp add: building_pages_def building_page_ids_def)

lemma page_of_shows: "page_of st \<noteq> None \<longleftrightarrow> shows_page st"
proof -
  have "map_of building_pages k \<noteq> None \<longleftrightarrow> k \<in> set building_page_ids" for k
    by (simp add: building_pages_keys [symmetric] map_of_eq_None_iff)
  then show ?thesis by (simp add: page_of_def shows_page_def split: option.splits)
qed

text \<open>While the building page is shown, the header, the sidebar, the map and the card
  layouts are unmounted: a navigator event is the page's back button, a resize, or
  nothing.\<close>

lemma nv_step_while_page:
  assumes "nv_ok st" "shows_page st"
  shows "nv_step e st = st \<or> (e = NVBack \<and> nv_step e st = handle_back_to_map st) \<or>
         (\<exists>w. e = NVResize w \<and> nv_step e st = nv_resize w st)"
proof -
  have n: "nv_side st = None" "nv_header st = None" "nv_map st = None"
    "\<not> header_mounted st" "\<not> cards_mounted st"
    using assms by (auto simp: nv_ok_def header_mounted_def map_mounted_def cards_mounted_def)
  then show ?thesis using assms(2)
    by (cases e) (simp_all add: nv_step_def on_sidebar_def on_header_def)
qed

lemma nv_page_step:
  assumes "nv_ok st" "shows_page st"
  shows "(nv_selected (nv_step e st) = nv_selected st \<or> nv_selected (nv_step e st) = None) \<and>
         nv_dark (nv_step e st) = nv_dark st \<and> nv_path (nv_step e st) = nv_path st"
  using nv_step_while_page [OF assms, of e]
  by (auto simp: handle_back_to_map_def nv_resize_def sync_mounts_def)

lemma ap_cards_while_page:
  "ap_ok ap \<Longrightarrow> shows_page (ap_page ap) \<Longrightarrow> ap_cards ap = None"
  using ap_cards_mounted [of ap] by (cases "ap_cards ap") (auto simp: cards_mounted_def)

lemma ap_page_step:
  assumes "ap_reach ap" "shows_page (ap_page ap)"
  shows "(nv_selected (ap_page (ap_step e ap)) = nv_selected (ap_page ap) \<or>
          nv_selected (ap_page (ap_step e ap)) = None) \<and>
         nv_dark (ap_page (ap_step e ap)) = nv_dark (ap_page ap) \<and>
         nv_path (ap_page (ap_step e ap)) = nv_path (ap_page ap)"
proof -
  have ok: "nv_ok (ap_page ap)" using nv_reach_ok [OF ap_page_reach [OF assms(1)]] .
  have c: "ap_cards ap = None" using ap_cards_while_page [OF ap_reach_ok [OF assms(1)] assms(2)] .
  show ?thesis using nv_page_step [OF ok assms(2)] c by (cases e) simp_all
qed

lemma pn_app_reach: "pn_reach pn \<Longrightarrow> ap_reach (pn_app pn)"
proof (induction rule: pn_reach.induct)
  case (init ctx lng dark w)
  then show ?case by (simp add: pn_init_def sync_page_def Let_def ap_reach.init)
next
  case (step pn e)
  then show ?case by (cases e) (auto simp: sync_page_def Let_def ap_reach.step split: option.splits prod.splits)
qed

lemma pn_app_sync [simp]: "pn_app (sync_page pn) = pn_app pn"
  by (simp add: sync_page_def Let_def)

lemma pn_ok_sync:
  "(case (pn_page pn, page_of (ap_page (pn_app pn))) of (Some s, Some pd) \<Rightarrow> bp_ok pd s | _ \<Rightarrow> True) \<Longrightarrow>
     pn_ok (sync_page pn)"
  by (auto simp: pn_ok_def sync_page_def Let_def bp_ok_mount split: option.splits)

lemma pn_ok_step:
  assumes "pn_reach pn" "pn_ok pn"
  shows "pn_ok (pn_step e pn)"
proof (cases e)
  case (PNApp ae)
  let ?ap = "pn_app pn"
  show ?thesis unfolding PNApp pn_step.simps
  proof (rule pn_ok_sync)
    show "case (pn_page (pn\<lparr>pn_app := ap_step ae ?ap\<rparr>), page_of (ap_page (pn_app (pn\<lparr>pn_app := ap_step ae ?ap\<rparr>)))) of
            (Some s, Some pd) \<Rightarrow> bp_ok pd s | _ \<Rightarrow> True"
    proof (cases "pn_page pn")
      case (Some s)
      then obtain pd where pd: "page_of (ap_page ?ap) = Some pd" "bp_ok pd s"
        using assms(2) by (auto simp: pn_ok_def split: option.splits)
      then have "shows_page (ap_page ?ap)" using page_of_shows by blast
      then have "nv_selected (ap_page (ap_step ae ?ap)) = nv_selected (ap_page ?ap) \<or>
                 nv_selected (ap_page (ap_step ae ?ap)) = None"
        using ap_page_step [OF pn_app_reach [OF assms(1)], of ae] by simp
      then show ?thesis using Some pd by (auto simp: page_of_def)
    qed simp
  qed
next
  case (PNPage be)
  then show ?thesis using assms(2) bp_ok_step
    by (auto simp: pn_ok_def split: option.splits)
qed

lemma pn_ok_reach: "pn_reach pn \<Longrightarrow> pn_ok pn"
proof (induction rule: pn_reach.induct)
  case (init ctx lng dark w)
  show ?case unfolding pn_init_def by (rule pn_ok_sync) simp
next
  case (step pn e)
  then show ?case by (rule pn_ok_step)
qed

lemma pn_sample_reach: "pn_reach pn_sample"
  unfolding pn_sample_def by (rule pn_reach.init [OF demo_ctx_reach demo_ctx_user])

section \<open>Properties\<close>

text \<open>C32. The building page inside the navigator: in every reachable state the page is
  rendered exactly while a building with page data is selected on the campus route, and
  its state is consistent: the forum has a state exactly while it is shown, it is shown
  only on a page with a forum and its state is a reachable forum state, and only maps with
  submaps have an expansion entry.\<close>

lemma pn_reach_ok: "pn_reach pn \<Longrightarrow> pn_ok pn"
  by (rule pn_ok_reach)

text \<open>C33. The building page's dark mode stays local: while the page is shown no event
  changes the navigator's dark mode, and every time the page is mounted it starts from the
  navigator's; so a dark-mode change made on a building page is lost when the user goes
  back.\<close>

lemma page_dark_mode_stays_local:
  assumes "pn_reach pn"
  shows "case pn_page pn of
           Some s \<Rightarrow> nv_dark (ap_page (pn_app (pn_step e pn))) = nv_dark (ap_page (pn_app pn))
         | None \<Rightarrow> pn_page (pn_step e pn) = None \<or>
                   pn_page (pn_step e pn) = Some (bp_mount (nv_dark (ap_page (pn_app (pn_step e pn)))))"
proof (cases "pn_page pn")
  case None
  then show ?thesis by (cases e) (auto simp: sync_page_def Let_def)
next
  case (Some s)
  then have "shows_page (ap_page (pn_app pn))"
    using pn_ok_reach [OF assms] page_of_shows by (auto simp: pn_ok_def)
  then show ?thesis using Some ap_page_step [OF pn_app_reach [OF assms]]
    by (cases e) (auto split: option.splits)
qed

text \<open>In German, \<open>getLocalizedLinks\<close> leaves exactly two links of the page table
  with an \<open>/en/\<close> path segment, since \<open>germanUrls\<close> has no entry for them: the student
  services of the student center and the catering overview of the cafeteria.\<close>

lemma german_links_left_english:
  "filter (\<lambda>u. js_includes u (js ''/en/''))
     (concat (map (\<lambda>p. map pl_url (localized_links (js ''de'') (pd_links (snd p)))) building_pages)) =
   [js ''https://www.uni-due.de/en/student_services.php'', js ''https://www.stw-edu.de/en/catering'']"
  by code_simp

section \<open>Witnesses\<close>

lemma pn_reach_ok_witness:
  "pn_reach (pn_step (PNPage (BPOpenForum En 0)) (pn_step (PNApp (APCards (CVCard 1))) pn_sample)) \<and>
   pn_ok (pn_step (PNPage (BPOpenForum En 0)) (pn_step (PNApp (APCards (CVCard 1))) pn_sample))"
proof -
  have r: "pn_reach (pn_step (PNPage (BPOpenForum En 0)) (pn_step (PNApp (APCards (CVCard 1))) pn_sample))"
    by (intro pn_reach.step pn_sample_reach)
  show ?thesis using pn_reach_ok [OF r] r by simp
qed

lemma page_dark_mode_stays_local_witness:
  "pn_reach (pn_step (PNApp (APCards (CVCard 1))) pn_sample) \<and>
   (case pn_page (pn_step (PNApp (APCards (CVCard 1))) pn_sample) of
      Some s \<Rightarrow> nv_dark (ap_page (pn_app (pn_step (PNPage BPToggleDark) (pn_step (PNApp (APCards (CVCard 1))) pn_sample)))) =
                nv_dark (ap_page (pn_app (pn_step (PNApp (APCards (CVCard 1))) pn_sample)))
    | None \<Rightarrow> True)"
proof -
  have r: "pn_reach (pn_step (PNApp (APCards (CVCard 1))) pn_sample)" by (intro pn_reach.step pn_sample_reach)
  show ?thesis using page_dark_mode_stays_local [OF r, of "PNPage BPToggleDark"] r
    by (simp split: option.splits)
qed

end
