(* ===== verification/Spec2Isabelle.thy ===== *)
theory Spec2Isabelle
  imports EnhancedAssistant AuthContext EventsCalendar LanguageContext Forum SearchBar ChatAssistant UserProfile Login
    LiveUpdates Responsive Weather Speech CampusViews CardViews BuildingPage
begin

text \<open>
  \<^bold>\<open>A verification library for the UDE campus navigator\<close> (\<open>src/uni-main\<close>).

  \<^bold>\<open>The program.\<close> A client-side React application. Its decision logic is the chat
  utility \<open>utils/chatNLP.ts\<close> (intent classification by regular expressions, entity
  extraction, canned responses), called by the chat window
  \<open>components/chat/EnhancedAIAssistant.tsx\<close>; a second, keyword-driven chat window is
  \<open>components/chat/ChatAssistant.tsx\<close>. Authentication is simulated in demo mode by
  \<open>services/authService.ts\<close> (users in a \<open>Map\<close> mirrored to \<open>localStorage\<close>),
  wrapped by the React provider \<open>contexts/AuthContext.tsx\<close> and guarded by the routes
  of \<open>App.tsx\<close>. The language provider \<open>contexts/LanguageContext.tsx\<close> translates the
  interface. The campus pages show the building table (\<open>data/buildings\<close>), a search
  bar, an events panel fed by \<open>services/eventsService.ts\<close>, a forum, and the settings and
  profile dialogs, a live-update bell (\<open>components/LiveUpdates.tsx\<close>), and a weather widget
  (\<open>components/WeatherWidget.tsx\<close>) over \<open>services/weatherService.ts\<close>. The chat window speaks replies through
  \<open>services/speechService.ts\<close>, whose voice controls are \<open>components/chat/VoiceAssistant.tsx\<close>. The hook
  \<open>hooks/useResponsive.ts\<close> is exported but not called. \<open>localStorage\<close> is shared: the auth service writes \<open>ude-users\<close> and
  photo keys, the language provider \<open>ude-language\<close>, the dialogs \<open>ude-settings\<close> and
  photo keys.

  \<^bold>\<open>Theories and what they model.\<close>
  \<^item> \<open>Prelude\<close>: JavaScript strings as lists of UTF-16 code units (\<open>jstr\<close>, literals
    \<open>js ''...''\<close>), the language selector, a \<open>Map\<close> in insertion order as an association
    list (\<open>al_set\<close>), and the search combinator \<open>first_some\<close>.
  \<^item> \<open>JsString\<close>: the built-ins the code calls: \<open>toLowerCase\<close> (Basic Latin, Latin-1
    and the code points that lower into them, U+0130 included), \<open>trim\<close>, \<open>indexOf\<close>,
    \<open>includes\<close>, and \<open>Number.prototype.toString\<close> for \<open>Date.now()\<close> ids.
  \<^item> \<open>Regex\<close>: the fragment of ECMAScript regular expressions the code uses, as a
    backtracking matcher (ECMA-262 22.2.2), \<open>exec\<close>, \<open>test\<close>, \<open>match\<close>, and the global
    \<open>exec\<close> loop \<open>exec_all\<close>, a \<^theory_text>\<open>partial_function (option)\<close>.
  \<^item> \<open>ChatNLP\<close>, \<open>ChatResponse\<close>: \<open>chatNLP.ts\<close> with its tables, \<open>extractEntities\<close>,
    \<open>calculateConfidence\<close>, \<open>extractIntent\<close> (with the abstract contract
    \<open>intent_spec\<close>) and the response templates.
  \<^item> \<open>EnhancedAssistant\<close>: \<open>generateEnhancedResponse\<close> and the enhanced chat window as a
    step function with pending reply timers (\<open>assistant_reach\<close>).
  \<^item> \<open>AuthService\<close>, \<open>AuthContext\<close>: the demo-mode service (user map and
    \<open>localStorage\<close>, one function per method, \<open>auth_reach\<close>), the provider's states and
    handlers (\<open>ctx_reach\<close>) and the routes with their redirects.
  \<^item> \<open>LanguageContext\<close>: the translation tables, the language state read unchecked from
    \<open>localStorage\<close>, \<open>setLanguage\<close>, \<open>t\<close> and \<open>useLanguage\<close>.
  \<^item> \<open>Events\<close>, \<open>EventsCalendar\<close>: the events service over its mutable array, and the
    events panel with its loads in flight, month grid and event cards (\<open>calendar_reach\<close>).
  \<^item> \<open>Forum\<close>: posts, comments, likes, filters and \<open>formatTimeAgo\<close>.
  \<^item> \<open>Buildings\<close>, \<open>SearchBar\<close>: the six building records and the search bar's filter and
    keyboard selection (\<open>search_reach\<close>).
  \<^item> \<open>ChatAssistant\<close>: \<open>generateResponse\<close> and the keyword chat window with its pending
    timers, each keeping what its closure captured (\<open>ca_reach\<close>).
  \<^item> \<open>Settings\<close>: the settings dialog; its settings are a JavaScript object of JSON values
    (\<open>jval\<close>), since \<open>updateSettings\<close> takes \<open>value: any\<close>, and \<open>UserSettings\<close> is a
    typing judgement (\<open>settings_typed\<close>) on it (\<open>sm_reach\<close>).
  \<^item> \<open>UserProfile\<close>: the profile dialog with its shown and edited profiles (\<open>pm_reach\<close>).
  \<^item> \<open>Login\<close>: the login page's form, photo resize and submit through the auth provider,
    with the browser's form constraints (\<open>lp_reach\<close>).
  \<^item> \<open>LiveUpdates\<close>: the live-update bell: the contextual update generator, whose clock
    readings and \<open>Math.random()\<close> draws are event inputs, the effect on the language, the
    30-second interval, the bell with its unread count and the rendering (\<open>lv_reach\<close>).
  \<^item> \<open>Responsive\<close>: the responsive hook, its breakpoints and device types (a
    \<open>linorder\<close> instance), and its effect under React's identity-based change detection:
    every object the hook creates gets a fresh identity, and \<open>settle\<close> runs renders
    until none is scheduled.
  \<^item> \<open>Weather\<close>: the weather service's two methods, given the outcome of their fetch, and
    the weather widget with its geolocation request and fetches in flight as pending
    operations settled by events in any order, its simulated and fallback data and its
    views (\<open>ww_reach\<close>).
  \<^item> \<open>Speech\<close>: the speech service as a JavaScript object (own fields before prototype
    methods), the recognition engine's phases and the synthesis queue (\<open>ss_reach\<close>), and
    the voice controls composed with the service (\<open>vs_reach\<close>).
  \<^item> \<open>CampusViews\<close>: the campus page (\<open>CampusNavigator\<close>) with its header, sidebar
    and zoomable map, the card view's building selection, and the mounting and unmounting
    of the children, whose state React discards (\<open>nv_reach\<close>, \<open>cm_reach\<close>).
  \<^item> \<open>CardViews\<close>: \<open>AdvancedCampusView\<close>'s layout switch with its 150 ms timers
    (\<open>ls_reach\<close>), the desktop and mobile card layouts with their search, category
    chips, widget panel and carousel (\<open>cv_reach\<close>), and their composition with the
    navigator, where React keeps a layout's state only while it stays rendered under the same
    key (\<open>ap_reach\<close>).
  \<^item> \<open>BuildingPage\<close>: the page table's links and maps (\<open>data/buildingPages.tsx\<close>),
    \<open>getLocalizedLinks\<close>, the building page's dark mode, map expansion and forum switch
    with the forum's state (\<open>bp_reach\<close>), and the page rendered by the navigator in place
    of the campus view (\<open>pn_reach\<close>).
  \<^item> This theory: the properties that span components.

  \<^bold>\<open>What the lemmas show.\<close> \<open>extractIntent\<close> always returns, its confidence is 0.3 or
  in [0.6, 1], it refines its argmax contract and is \<open>general\<close> exactly when no pattern
  matches; \<open>extractEntities\<close> terminates, groups its entities and reports the matched
  spans (C1, C2, C3, C4, C5). The auth service keeps a well-formed user map, sign-up then sign-in and
  save then reload round-trip, updates are read back and sign-up errors leave the state
  unchanged (C6, C7, C8); the provider keeps a signed-in user registered, the routes never loop
  and only a registered user sees the campus page (C9, C10, C11). The settings dialog preserves
  the type \<open>UserSettings\<close> from well-typed storage, saves without error and reloads what
  it saved (C12, C13); the login page keeps the provider's session sound, logs in through
  it, refuses a blank name and fits photos in 200 by 200 pixels (C15, C16, C17); the
  profile dialog keeps its form consistent and saves or cancels edits as intended (C14).
  The live-update bell keeps at most eight updates, all in the current language;
  every random pick is in range and names a building of the table; ticks keep the newest
  eight while the unread count keeps growing (C18, C19, C20). The responsive hook never stops
  re-rendering (C21). The weather widget never shows its "unable to load" view, its
  simulated data stays in range, and an older fetch can overwrite newer data (C22, C23). The speech service
  listens only while its engine is active, and the voice controls never render, since
  the mount effect's call of \<open>isSupported()\<close> throws (C24, C25). On the campus page
  every building chosen anywhere opens its page, going back resets the map and the
  sidebar's search, and logging out leads to the login page (C26, C27, C28). The page composed
  with its card layouts refines the navigator, a resize across the breakpoint discards the
  layout's state, the layout switch settles on the layout for the window width, and at most
  one widget panel is open (C29, C30, C31). The building page is rendered exactly while a
  building with page data is selected and keeps its forum consistent, its dark mode stays
  local to it (C32, C33); in German two of its links keep their \<open>/en/\<close> URLs. Both chat windows only offer quick actions to buildings of the table and answer every
  pending message (C34, C35, C36); the search bar keeps its selection in range and no two
  buildings overlap (C37). The events service respects capacities and the panel shows
  consistent cards and completes its loads (C38, C39). Findings are theorems too: a shallow
  settings merge, Cancel keeping unsaved edits, a profile save that is not persisted, a
  stale suggestion closure
  (no claim), and others listed in the manifest without a claim.

  \<^bold>\<open>Bounds and fuel.\<close> The only fuel is the render count of the responsive hook's
  \<open>settle\<close>; its theorem holds for every count, so no number of renders lets the hook
  settle. The layout switch's timers settle within twice as many firings as are pending,
  since a firing either removes a timer or removes one that disagrees with the window and
  adds one that agrees (the measure \<open>timer_weight\<close>). The \<open>exec\<close> loop is a partial function
  and is proved to return for every pattern whose matches are never empty (\<open>minlen > 0\<close>);
  a pattern with empty matches is proved to diverge, as in JavaScript. Route resolution
  follows at most three routes, which is proved to be enough. Double-precision numbers are
  exact rationals or integers: the scores are sums of 0.6, 0.2 and a multiple of 0.3, and
  JSON numbers in saved settings are integers; \<open>Math.random()\<close> is a rational in
  [0, 1), and the geolocation answer, HTTP status and response body are event inputs. Dates enter as milliseconds or as local
  date fields. Timers and \<open>FileReader\<close> loads are pending callbacks fired in any order,
  each keeping what its closure captured.

  \<^bold>\<open>Not modelled.\<close> The Supabase branches of the auth service and
  \<open>services/supabaseService.ts\<close> (remote I/O; demo mode is modelled); JSX rendering,
  styling and animation; message timestamps and scrolling; the browser speech APIs beyond
  whether output is requested; \<open>Object.prototype\<close> names as keys; the order of
  integer-like keys in JavaScript objects.
  In the card layouts, the scroll geometry (the index of the card closest to the
  centre is an event input) and the widgets' own state across unmounts. In the page
  table, the page texts, HTML content and colours (the links, maps and forum flag are
  modelled).
\<close>

subsection \<open>Properties that span the components\<close>

lemma building_ids_have_templates:
  "b \<in> set (map fst building_keywords) \<Longrightarrow>
     map_of (directions_responses l) b \<noteq> None \<and> map_of (hours_responses l) b \<noteq> None"
  by (cases l) (auto simp: building_keywords_def directions_responses_def hours_responses_def js_def)

text \<open>C5. Every building entity that extractEntities produces names a building that has its own directions and hours templates in both languages, so the library fallback of generateContextualResponse is never taken for a message of the pipeline.\<close>

theorem pipeline_buildings_have_templates:
  assumes "extract_entities m = Some es" "e \<in> set es" "ent_type e = js ''building''"
  shows "map_of (directions_responses l) (ent_value e) \<noteq> None \<and> map_of (hours_responses l) (ent_value e) \<noteq> None"
  using building_ids_have_templates extract_entities_building_id [OF assms] by blast

theorem pipeline_buildings_have_templates_witness:
  "map_of (directions_responses En) (js ''library'') \<noteq> None"
proof -
  have e: "extract_entities (js ''library'') =
      Some [\<lparr>ent_type = js ''building'', ent_value = js ''library'', ent_start = 0, ent_end = 7\<rparr>]"
    by (simp add: model_simps exec_all.simps)
  from pipeline_buildings_have_templates [OF e, of "\<lparr>ent_type = js ''building'', ent_value = js ''library'', ent_start = 0, ent_end = 7\<rparr>" En]
  show ?thesis by simp
qed

text \<open>Across the events service and the panel: every event card the panel shows
  displays a participant count that does not exceed the capacity it displays.\<close>

theorem card_count_within_capacity:
  assumes "calendar_reach (st, db)" "e \<in> set (cal_events st)" "card_participants (event_card l e) = Some (c, m)"
  shows "c \<le> m"
proof -
  have "within_capacity e" using calendar_ok_reach [OF assms(1)] assms(2) by (simp add: calendar_ok_def)
  then show ?thesis using assms(3)
    by (auto simp: event_card_def within_capacity_def truthy_num_def split: option.splits if_splits)
qed

theorem card_count_within_capacity_witness:
  "fst (the (card_participants (event_card En (hd mock_events)))) \<le>
     snd (the (card_participants (event_card En (hd mock_events))))"
proof -
  have r: "calendar_reach (complete_load (calendar_init (2025, 0, 1, 0), mock_events))"
    by (rule calendar_reach.step [OF calendar_reach.init [OF events_reach.init], of CompleteLoad, simplified])
  have c: "complete_load (calendar_init (2025, 0, 1, 0), mock_events) =
      ((calendar_init (2025, 0, 1, 0))\<lparr>cal_events := mock_events, is_loading := False, loads := []\<rparr>, mock_events)"
    using complete_load_Cons [of "calendar_init (2025, 0, 1, 0)" "[]" "[]" mock_events]
    by (simp add: calendar_init_def load_result_def mock_events_sorted)
  have e: "hd mock_events \<in> set mock_events" by (simp add: mock_events_def)
  have p: "card_participants (event_card En (hd mock_events)) = Some (145, 200)"
    by (simp add: event_card_def mock_events_def truthy_num_def)
  from card_count_within_capacity [OF r [unfolded c] _ p] e show ?thesis using p by simp
qed

text \<open>Scenario of spec section 8: "Where is the library?" in English is classified find_building (confidence 5/7) with the library entity at 13..20, and the assistant answers with the English library directions and one quick action to the library.\<close>

theorem scenario_where_is_the_library:
  "extract_intent (js ''Where is the library?'') =
     Some \<lparr>intent_name = js ''find_building'', confidence = 5 / 7,
           intent_entities = [\<lparr>ent_type = js ''building'', ent_value = js ''library'', ent_start = 13, ent_end = 20\<rparr>]\<rparr> \<and>
   generate_enhanced_response (js ''Where is the library?'') En 0 =
     Some \<lparr>msg_id = js_digits 0, msg_text = response (get_building_directions (js ''library'') En), is_bot = True,
           msg_type = Some MText, msg_suggestions = Some (suggestions (get_building_directions (js ''library'') En)),
           msg_actions = Some [visit_action (js ''library'') En]\<rparr>"
proof -
  have e: "extract_entities (js ''Where is the library?'') =
      Some [\<lparr>ent_type = js ''building'', ent_value = js ''library'', ent_start = 13, ent_end = 20\<rparr>]"
    by (simp add: model_simps exec_all.simps)
  have i: "extract_intent (js ''Where is the library?'') =
     Some \<lparr>intent_name = js ''find_building'', confidence = 5 / 7,
           intent_entities = [\<lparr>ent_type = js ''building'', ent_value = js ''library'', ent_start = 13, ent_end = 20\<rparr>]\<rparr>"
    using e by (simp add: model_simps del: extract_entities_def)
  have g: "generate_enhanced_response (js ''Where is the library?'') En 0 =
     Some \<lparr>msg_id = js_digits 0, msg_text = response (get_building_directions (js ''library'') En), is_bot = True,
           msg_type = Some MText, msg_suggestions = Some (suggestions (get_building_directions (js ''library'') En)),
           msg_actions = Some [visit_action (js ''library'') En]\<rparr>"
    using i e by (simp add: generate_enhanced_response_def generate_contextual_response_def Let_def js_def)
  show ?thesis using i g by simp
qed


text \<open>Scenario of spec section 8: "Wann hat die Mensa geoeffnet?" in German is classified get_hours (confidence 24/35, from "geoeffnet") with the cafeteria entity, and the answer is the German cafeteria hours template.\<close>

theorem scenario_mensa_hours:
  "extract_intent (js ''Wann hat die Mensa ge'' @ [0xF6] @ js ''ffnet?'') =
     Some \<lparr>intent_name = js ''get_hours'', confidence = 24 / 35,
           intent_entities = [\<lparr>ent_type = js ''building'', ent_value = js ''cafeteria'', ent_start = 13, ent_end = 18\<rparr>]\<rparr> \<and>
   generate_enhanced_response (js ''Wann hat die Mensa ge'' @ [0xF6] @ js ''ffnet?'') De 0 =
     Some \<lparr>msg_id = js_digits 0, msg_text = response (get_building_hours (js ''cafeteria'') De), is_bot = True,
           msg_type = Some MText, msg_suggestions = Some (suggestions (get_building_hours (js ''cafeteria'') De)),
           msg_actions = Some [visit_action (js ''cafeteria'') De]\<rparr>"
proof -
  have e: "extract_entities (js ''Wann hat die Mensa ge'' @ [0xF6] @ js ''ffnet?'') =
      Some [\<lparr>ent_type = js ''building'', ent_value = js ''cafeteria'', ent_start = 13, ent_end = 18\<rparr>]"
    by (simp add: model_simps exec_all.simps)
  have i: "extract_intent (js ''Wann hat die Mensa ge'' @ [0xF6] @ js ''ffnet?'') =
     Some \<lparr>intent_name = js ''get_hours'', confidence = 24 / 35,
           intent_entities = [\<lparr>ent_type = js ''building'', ent_value = js ''cafeteria'', ent_start = 13, ent_end = 18\<rparr>]\<rparr>"
    using e by (simp add: model_simps del: extract_entities_def)
  have g: "generate_enhanced_response (js ''Wann hat die Mensa ge'' @ [0xF6] @ js ''ffnet?'') De 0 =
     Some \<lparr>msg_id = js_digits 0, msg_text = response (get_building_hours (js ''cafeteria'') De), is_bot = True,
           msg_type = Some MText, msg_suggestions = Some (suggestions (get_building_hours (js ''cafeteria'') De)),
           msg_actions = Some [visit_action (js ''cafeteria'') De]\<rparr>"
    using i e by (simp add: generate_enhanced_response_def generate_contextual_response_def Let_def js_def)
  show ?thesis using i g by simp
qed

text \<open>Scenario of spec section 8: "asdkjasd" in English gets the English default response, with no quick actions.\<close>

theorem scenario_gibberish:
  "generate_enhanced_response (js ''asdkjasd'') En 0 =
     Some \<lparr>msg_id = js_digits 0, msg_text = response (get_default_response En), is_bot = True,
           msg_type = Some MText, msg_suggestions = Some (suggestions (get_default_response En)),
           msg_actions = Some []\<rparr>"
proof -
  have e: "extract_entities (js ''asdkjasd'') = Some []"
    by (simp add: model_simps exec_all.simps)
  have i: "extract_intent (js ''asdkjasd'') = Some general_intent"
    using e by (simp add: model_simps del: extract_entities_def general_intent_def)
  show ?thesis
    using i e by (simp add: generate_enhanced_response_def generate_contextual_response_def general_intent_def
        Let_def js_def)
qed

text \<open>Scenario of spec section 8: "contact info monday 14:00" yields exactly a time entity "14:00" and a day entity "monday", the time entity first: extractEntities appends all time matches before all day matches, while the spec lists the day entity before the time entity.\<close>

theorem scenario_contact_monday:
  "extract_entities (js ''contact info monday 14:00'') =
     Some [\<lparr>ent_type = js ''time'', ent_value = js ''14:00'', ent_start = 20, ent_end = 25\<rparr>,
           \<lparr>ent_type = js ''day'', ent_value = js ''monday'', ent_start = 13, ent_end = 19\<rparr>]"
  by (simp add: model_simps exec_all.simps)


subsection \<open>Witnesses of claims of the component theories\<close>

theorem extract_intent_general_witness:
  "extract_intent (js ''asdkjasd'') = Some general_intent"
proof -
  have h: "\<forall>(name, patterns) \<in> set intent_patterns. \<forall>p \<in> set patterns. \<not> regex_test p (js_lower (js ''asdkjasd''))"
    by (simp add: model_simps)
  show ?thesis using h ChatNLP.extract_intent_general_iff [of "js ''asdkjasd''"] by simp
qed


end
